(* ===== verification/Prelude.thy ===== *)
theory Prelude
  imports Main "HOL-Library.Word" "HOL-Library.State_Monad" "HOL-Library.AList" "HOL-Library.Sublist"
    "HOL-Library.Char_ord"
begin

text \<open>
  Shared vocabulary of the development: machine integer types, C++ string operations on
  character lists, the state monad in which the stateful components run, and the lemma
  collections the component theories extend.
\<close>

unbundle bit_operations_syntax

named_theorems path_simps \<open>path splitting and joining\<close>
named_theorems run_simps \<open>running a component operation on a state\<close>
named_theorems trie_simps \<open>lookups in the policy trie\<close>

type_synonym u8 = "8 word"
type_synonym u32 = "32 word"
type_synonym u64 = "64 word"

section \<open>C++ strings\<close>

text \<open>\<open>std::string::substr(pos, n)\<close> with \<open>pos\<close> in range.\<close>

definition substr :: "'a list \<Rightarrow> nat \<Rightarrow> nat \<Rightarrow> 'a list" where
  "substr s pos n = take n (drop pos s)"

text \<open>\<open>std::string::find(c, pos)\<close>: \<open>None\<close> is \<open>npos\<close>.\<close>

fun find_char_from :: "char \<Rightarrow> nat \<Rightarrow> string \<Rightarrow> nat option" where
  "find_char_from c i [] = None"
| "find_char_from c i (x # xs) = (if x = c then Some i else find_char_from c (Suc i) xs)"

definition str_find_char :: "string \<Rightarrow> char \<Rightarrow> nat \<Rightarrow> nat option" where
  "str_find_char s c pos = find_char_from c pos (drop pos s)"

text \<open>\<open>s.find(p) == 0\<close> and \<open>s.compare(0, p.size(), p) == 0\<close>.\<close>

definition starts_with :: "string \<Rightarrow> string \<Rightarrow> bool" where
  "starts_with s p = (take (length p) s = p)"

text \<open>\<open>std::tolower\<close> in the C locale, on one unsigned char.\<close>

definition tolower :: "char \<Rightarrow> char" where
  "tolower c = (let n = (of_char c :: nat) in if 65 \<le> n \<and> n \<le> 90 then char_of (n + 32) else c)"

text \<open>The characters before the first null byte: \<open>path.c_str()\<close> seen as a C string.\<close>

definition c_str :: "string \<Rightarrow> string" where
  "c_str s = takeWhile (\<lambda>c. c \<noteq> CHR 0x00) s"

text \<open>
  \<open>std::getline(ss, line, '/')\<close> called until the stream is exhausted: a line per separator,
  and a last line only when characters follow the last separator.
\<close>

fun getlines :: "string \<Rightarrow> string \<Rightarrow> string list" where
  "getlines acc [] = (if acc = [] then [] else [acc])"
| "getlines acc (c # cs) =
     (if c = CHR ''/'' then acc # getlines [] cs else getlines (acc @ [c]) cs)"

section \<open>Words, lists and maps\<close>

definition wcast :: "int \<Rightarrow> u32" where
  "wcast i = word_of_int i"

text \<open>\<open>uint32_t length = s.length()\<close>.\<close>

definition u32_len :: "string \<Rightarrow> u32" where
  "u32_len s = of_nat (length s)"

lemma unat_of_nat_u32: "n < 2 ^ 32 \<Longrightarrow> unat (of_nat n :: u32) = n"
  by (simp add: unsigned_of_nat take_bit_nat_eq_self)

lemma starts_with_prefix: "starts_with s p \<longleftrightarrow> prefix p s"
proof
  assume "starts_with s p"
  then have "s = p @ drop (length p) s"
    unfolding starts_with_def by (metis append_take_drop_id)
  then show "prefix p s" by (rule prefixI)
qed (auto simp: starts_with_def prefix_def)

lemma tolower_idem [simp]: "tolower (tolower c) = tolower c"
proof (cases "65 \<le> (of_char c :: nat) \<and> (of_char c :: nat) \<le> 90")
  case True
  then have "(of_char (char_of ((of_char c :: nat) + 32)) :: nat) = of_char c + 32"
    by simp
  with True show ?thesis by (simp add: tolower_def Let_def)
qed (auto simp: tolower_def Let_def)

lemma tolower_slash [simp]: "tolower c = CHR ''/'' \<longleftrightarrow> c = CHR ''/''"
proof -
  have "c = CHR ''/''" if t: "tolower c = CHR ''/''"
  proof (cases "65 \<le> (of_char c :: nat) \<and> (of_char c :: nat) \<le> 90")
    case True
    with t have "(of_char (char_of ((of_char c :: nat) + 32) :: char) :: nat) = 47"
      by (simp add: tolower_def Let_def)
    with True show ?thesis by simp
  next
    case False
    with t show ?thesis by (auto simp: tolower_def Let_def split: if_splits)
  qed
  moreover have "tolower (CHR ''/'') = CHR ''/''" by (simp add: tolower_def)
  ultimately show ?thesis by blast
qed

lemma c_str_length [simp]: "length (c_str s) \<le> length s"
  by (simp add: c_str_def length_takeWhile_le)

lemma c_str_id_iff: "c_str s = s \<longleftrightarrow> CHR 0x00 \<notin> set s"
  by (auto simp: c_str_def takeWhile_eq_all_conv)

lemma find_char_from_None: "find_char_from c i s = None \<longleftrightarrow> c \<notin> set s"
  by (induction s arbitrary: i) auto

lemma find_char_from_Some:
  "find_char_from c i s = Some j \<Longrightarrow>
     i \<le> j \<and> take (j - i) s = takeWhile (\<lambda>d. d \<noteq> c) s \<and> drop (Suc j - i) s = tl (dropWhile (\<lambda>d. d \<noteq> c) s)"
proof (induction c i s rule: find_char_from.induct)
  case (2 c i d s)
  show ?case
  proof (cases "d = c")
    case False
    with 2 have IH: "Suc i \<le> j" "take (j - Suc i) s = takeWhile (\<lambda>d. d \<noteq> c) s"
        "drop (Suc j - Suc i) s = tl (dropWhile (\<lambda>d. d \<noteq> c) s)" by auto
    then have "j - i = Suc (j - Suc i)" "Suc j - i = Suc (Suc j - Suc i)" by simp_all
    then have "take (j - i) (d # s) = d # take (j - Suc i) s" "drop (Suc j - i) (d # s) = drop (Suc j - Suc i) s"
      by (simp_all only: take_Suc_Cons drop_Suc_Cons)
    with IH False show ?thesis by simp
  qed (use 2 in simp)
qed simp

section \<open>Running state monad programs\<close>

lemmas run_state_simps [run_simps] =
  run_state_bind run_state_return run_state_get run_state_set

lemma run_state_update [simp, run_simps]: "run_state (State_Monad.update f) s = ((), f s)"
  by (simp add: State_Monad.update_def)

lemma run_state_if [simp, run_simps]:
  "run_state (if b then m else n) s = (if b then run_state m s else run_state n s)"
  by simp

text \<open>A counted loop \<open>for (x : xs)\<close> that threads an accumulator and the state.\<close>

fun for_each :: "'a list \<Rightarrow> ('a \<Rightarrow> 'b \<Rightarrow> ('s, 'b) state) \<Rightarrow> 'b \<Rightarrow> ('s, 'b) state" where
  "for_each [] f acc = State_Monad.return acc"
| "for_each (x # xs) f acc = State_Monad.bind (f x acc) (for_each xs f)"

lemma for_each_inv:
  assumes "\<And>x acc s acc' s'. x \<in> set xs \<Longrightarrow> I acc s \<Longrightarrow> run_state (f x acc) s = (acc', s') \<Longrightarrow> I acc' s'"
    and "I acc s" and "run_state (for_each xs f acc) s = (acc', s')"
  shows "I acc' s'"
  using assms
proof (induction xs arbitrary: acc s)
  case (Cons x xs)
  obtain a1 s1 where step: "run_state (f x acc) s = (a1, s1)" by fastforce
  with Cons.prems have "I a1 s1" by (meson list.set_intros(1))
  moreover have "run_state (for_each xs f a1) s1 = (acc', s')"
    using Cons.prems(3) step by simp
  moreover have "\<And>y acc s acc' s'. y \<in> set xs \<Longrightarrow> I acc s \<Longrightarrow> run_state (f y acc) s = (acc', s') \<Longrightarrow> I acc' s'"
    using Cons.prems(1) by (meson list.set_intros(2))
  ultimately show ?case using Cons.IH by blast
qed simp

end
