(* ===== verification/Policy_Types.thy ===== *)
theory Policy_Types
  imports Prelude
begin

text \<open>
  The data the sandbox manager exchanges with its clients (\<open>interfaces/inner_api/sandbox_manager/include/
  policy_info.h\<close>, \<open>sandbox_manager_err_code.h\<close>, \<open>sandbox_manager_const.h\<close>). Enumerations are the
  integers the code compares, so that a value read from raw bytes needs not be a declared one.
\<close>

section \<open>Return codes\<close>

text \<open>\<open>SandboxManagerErrCode\<close>, an \<open>int32_t\<close>.\<close>

abbreviation (input) SANDBOX_MANAGER_OK :: int where "SANDBOX_MANAGER_OK \<equiv> 0"
abbreviation (input) PERMISSION_DENIED :: int where "PERMISSION_DENIED \<equiv> 1"
abbreviation (input) INVALID_PARAMTER :: int where "INVALID_PARAMTER \<equiv> 2"
abbreviation (input) SANDBOX_MANAGER_SERVICE_PARCEL_ERR :: int where "SANDBOX_MANAGER_SERVICE_PARCEL_ERR \<equiv> 4"
abbreviation (input) SANDBOX_MANAGER_SERVICE_REMOTE_ERR :: int where "SANDBOX_MANAGER_SERVICE_REMOTE_ERR \<equiv> 5"
abbreviation (input) SANDBOX_MANAGER_DB_ERR :: int where "SANDBOX_MANAGER_DB_ERR \<equiv> 6"
abbreviation (input) SANDBOX_MANAGER_DB_RETURN_EMPTY :: int where "SANDBOX_MANAGER_DB_RETURN_EMPTY \<equiv> 7"
abbreviation (input) SANDBOX_MANAGER_MAC_NOT_INIT :: int where "SANDBOX_MANAGER_MAC_NOT_INIT \<equiv> 9"
abbreviation (input) SANDBOX_MANAGER_MAC_IOCTL_ERR :: int where "SANDBOX_MANAGER_MAC_IOCTL_ERR \<equiv> 10"
abbreviation (input) SANDBOX_MANAGER_DENY_ERR :: int where "SANDBOX_MANAGER_DENY_ERR \<equiv> 11"
abbreviation (input) SANDBOX_MANAGER_MEDIA_CALL_ERR :: int where "SANDBOX_MANAGER_MEDIA_CALL_ERR \<equiv> 12"

text \<open>\<open>SandboxRetType\<close>: the per-policy result; the same numbers are returned as \<open>int32_t\<close>.\<close>

abbreviation (input) OPERATE_SUCCESSFULLY :: "'a::zero" where "OPERATE_SUCCESSFULLY \<equiv> 0"
abbreviation (input) FORBIDDEN_TO_BE_PERSISTED :: "'a::numeral" where "FORBIDDEN_TO_BE_PERSISTED \<equiv> 1"
abbreviation (input) INVALID_MODE :: "'a::numeral" where "INVALID_MODE \<equiv> 2"
abbreviation (input) INVALID_PATH :: "'a::numeral" where "INVALID_PATH \<equiv> 3"
abbreviation (input) POLICY_HAS_NOT_BEEN_PERSISTED :: "'a::numeral" where "POLICY_HAS_NOT_BEEN_PERSISTED \<equiv> 4"
abbreviation (input) POLICY_MAC_FAIL :: "'a::numeral" where "POLICY_MAC_FAIL \<equiv> 5"
abbreviation (input) FORBIDDEN_TO_BE_PERSISTED_BY_FLAG :: "'a::numeral" where
  "FORBIDDEN_TO_BE_PERSISTED_BY_FLAG \<equiv> 6"

section \<open>Modes and limits\<close>

text \<open>\<open>OperateMode\<close>.\<close>

abbreviation (input) READ_MODE :: "'a::numeral" where "READ_MODE \<equiv> 1"
abbreviation (input) WRITE_MODE :: "'a::numeral" where "WRITE_MODE \<equiv> 2"
abbreviation (input) MAX_MODE :: "'a::numeral" where "MAX_MODE \<equiv> 32"
abbreviation (input) MAX_DENY_MODE :: "'a::numeral" where "MAX_DENY_MODE \<equiv> 4096"

abbreviation (input) POLICY_PATH_LIMIT :: nat where "POLICY_PATH_LIMIT \<equiv> 4095"
abbreviation (input) POLICY_VEC_MAX_NUM :: nat where "POLICY_VEC_MAX_NUM \<equiv> 300000"

text \<open>\<open>PolicyType\<close>.\<close>

abbreviation (input) UNKNOWN :: u32 where "UNKNOWN \<equiv> 0"
abbreviation (input) SELF_PATH :: u32 where "SELF_PATH \<equiv> 1"
abbreviation (input) AUTHORIZATION_PATH :: u32 where "AUTHORIZATION_PATH \<equiv> 2"

section \<open>Records\<close>

text \<open>\<open>struct PolicyInfo\<close>: path, mode and type.\<close>

record PolicyInfo =
  ppath :: string
  pmode :: u64
  ptype :: u32

text \<open>\<open>struct SetInfo\<close>.\<close>

record SetInfo =
  si_bundleName :: string
  si_timestamp :: u64
  si_userId :: int

definition default_SetInfo :: SetInfo where
  "default_SetInfo = \<lparr>si_bundleName = [], si_timestamp = 0, si_userId = -1\<rparr>"

text \<open>\<open>enum SetPolicyType\<close>.\<close>

datatype SetPolicyType = NORMAL_POLICY | DENY_POLICY

end
