(* ===== verification/Policy_Trie.thy ===== *)
theory Policy_Trie
  imports Prelude "HOL-Library.Multiset"
begin

text \<open>
  The path trie of \<open>services/sandbox_manager/main/cpp/src/service/policy_trie.cpp\<close>. A node is a
  record of its data members with the association list of its children (\<open>unordered_map<string,
  PolicyTrie*>\<close>); walking \<open>curNode\<close> down the pointers is recursion on the path segments, each call
  rebuilding the node it passes. Allocation with \<open>new (std::nothrow)\<close> is taken to succeed; the sets
  \<open>tmodes\<close> and the values of \<open>indexMap\<close> are lists without duplicates in insertion order, and no
  property below depends on that order.
\<close>

section \<open>Path segments\<close>

text \<open>\<open>PolicyTrie::SplitPath\<close>: one pass over the indices with the start of the current segment.\<close>

definition SplitPath_step :: "string \<Rightarrow> nat \<Rightarrow> nat \<times> string list \<Rightarrow> nat \<times> string list" where
  "SplitPath_step path i st =
     (case st of (start, segments) \<Rightarrow>
        if path ! i = CHR ''/'' then
          (Suc i, if i > start then segments @ [substr path start (i - start)] else segments)
        else (start, segments))"

definition SplitPath :: "string \<Rightarrow> string list" where
  "SplitPath path =
     (let (start, segments) = fold (SplitPath_step path) [0..<length path] (0, [])
      in if start < length path then segments @ [drop start path] else segments)"

text \<open>Reference definition: the non-empty pieces between slashes.\<close>

fun segments_of :: "string \<Rightarrow> string \<Rightarrow> string list" where
  "segments_of acc [] = (if acc = [] then [] else [acc])"
| "segments_of acc (c # cs) =
     (if c = CHR ''/'' then (if acc = [] then [] else [acc]) @ segments_of [] cs
      else segments_of (acc @ [c]) cs)"

text \<open>\<open>BuildPath\<close> and the path a list of segments stands for.\<close>

definition BuildPath :: "string \<Rightarrow> string \<Rightarrow> string" where
  "BuildPath basePath segment =
     (if basePath = [] then ''/'' @ segment else basePath @ ''/'' @ segment)"

definition render :: "string list \<Rightarrow> string" where
  "render segs = concat (map (\<lambda>s. CHR ''/'' # s) segs)"

definition segment_ok :: "string \<Rightarrow> bool" where
  "segment_ok s \<longleftrightarrow> s \<noteq> [] \<and> CHR ''/'' \<notin> set s"

lemma SplitPath_fold:
  assumes "n \<le> length path"
  shows "\<exists>start segs. fold (SplitPath_step path) [0..<n] (0, []) = (start, segs) \<and> start \<le> n \<and>
     (\<forall>rest. segments_of [] (take n path @ rest) = segs @ segments_of (drop start (take n path)) rest)"
  using assms
proof (induction n)
  case 0
  then show ?case by simp
next
  case (Suc n)
  then obtain start segs where
    st: "fold (SplitPath_step path) [0..<n] (0, []) = (start, segs)" and le: "start \<le> n" and
    spec: "\<And>rest. segments_of [] (take n path @ rest) = segs @ segments_of (drop start (take n path)) rest"
    by fastforce
  have n: "n < length path" using Suc.prems by simp
  have tk: "take (Suc n) path = take n path @ [path ! n]"
    using n by (simp add: take_Suc_conv_app_nth)
  have seg: "substr path start (n - start) = drop start (take n path)"
    by (simp add: substr_def drop_take)
  have len: "length (drop start (take n path)) = n - start" using n by simp
  obtain start' segs' where step: "SplitPath_step path n (start, segs) = (start', segs')" by fastforce
  have fold: "fold (SplitPath_step path) [0..<Suc n] (0, []) = (start', segs')"
    using st step by simp
  have "start' \<le> Suc n \<and> (\<forall>rest. segments_of [] (take (Suc n) path @ rest) =
      segs' @ segments_of (drop start' (take (Suc n) path)) rest)"
  proof (cases "path ! n = CHR ''/''")
    case True
    show ?thesis
    proof (cases "start < n")
      case True
      then have "drop start (take n path) \<noteq> []" using n by simp
      with True \<open>path ! n = CHR ''/''\<close> step show ?thesis
        by (auto simp: SplitPath_step_def seg tk spec)
    next
      case False
      then have em: "drop start (take n path) = []" using len by simp
      with False \<open>path ! n = CHR ''/''\<close> step show ?thesis
        by (auto simp: SplitPath_step_def tk spec)
    qed
  next
    case False
    have dr: "drop start (take (Suc n) path) = drop start (take n path) @ [path ! n]"
      using le n by (simp add: tk)
    have "segments_of [] (take (Suc n) path @ rest) =
      segs @ segments_of (drop start (take (Suc n) path)) rest" for rest
      unfolding dr using False spec [of "path ! n # rest"] by (simp add: tk)
    with False le step show ?thesis by (simp add: SplitPath_step_def)
  qed
  with fold show ?case by blast
qed

lemma SplitPath_segments [path_simps]: "SplitPath path = segments_of [] path"
proof -
  obtain start segs where st: "fold (SplitPath_step path) [0..<length path] (0, []) = (start, segs)"
    and le: "start \<le> length path"
    and spec: "\<And>rest. segments_of [] (take (length path) path @ rest) = segs @ segments_of (drop start (take (length path) path)) rest"
    using SplitPath_fold [of "length path" path] by auto
  from spec [of "[]"] have "segments_of [] path = segs @ segments_of (drop start path) []" by simp
  then show ?thesis using st le by (auto simp: SplitPath_def)
qed

lemma segments_of_ok: "CHR ''/'' \<notin> set acc \<Longrightarrow> list_all segment_ok (segments_of acc s)"
  by (induction acc s rule: segments_of.induct) (auto simp: segment_ok_def)

lemma SplitPath_ok: "list_all segment_ok (SplitPath path)"
  by (simp add: SplitPath_segments segments_of_ok)

lemma segments_of_plain:
  "CHR ''/'' \<notin> set s \<Longrightarrow> segments_of acc (s @ t) = segments_of (acc @ s) t"
  by (induction s arbitrary: acc) auto

lemma segments_of_slash: "segments_of acc (s @ CHR ''/'' # r) = segments_of acc s @ segments_of [] r"
  by (induction acc s rule: segments_of.induct) auto

lemma segments_of_render:
  "list_all segment_ok segs \<Longrightarrow>
   segments_of acc (render segs) = (if acc = [] then [] else [acc]) @ segs"
proof (induction segs arbitrary: acc)
  case (Cons s segs)
  from Cons.prems have ok: "segment_ok s" and segs: "list_all segment_ok segs" by simp_all
  from ok have s: "CHR ''/'' \<notin> set s" "s \<noteq> []" by (simp_all add: segment_ok_def)
  have "segments_of [] (s @ render segs) = segments_of s (render segs)"
    using segments_of_plain [OF s(1), of "[]" "render segs"] by simp
  with Cons.IH [OF segs, of s] s(2) show ?case
    by (simp add: render_def)
qed (simp add: render_def)

lemma SplitPath_render [path_simps]: "list_all segment_ok segs \<Longrightarrow> SplitPath (render segs) = segs"
  by (simp add: SplitPath_segments segments_of_render)

lemma render_append: "render (xs @ ys) = render xs @ render ys"
  by (simp add: render_def)

lemma render_eq_Nil [simp]: "render xs = [] \<longleftrightarrow> xs = []"
  by (cases xs) (auto simp: render_def)

lemma BuildPath_render [path_simps]: "BuildPath (render xs) s = render (xs @ [s])"
  by (simp add: BuildPath_def) (simp add: render_def)

section \<open>Nodes\<close>

record trie_data =
  isEndOfPath :: bool
  caseInsensitive :: bool
  denyInherit :: bool
  indexMap :: "(string \<times> string list) list"
  tmode :: u64
  tmodes :: "u64 list"

datatype ptrie = PTrie (node: trie_data) (children: "(string \<times> ptrie) list")

definition new_data :: trie_data where
  "new_data = \<lparr>isEndOfPath = False, caseInsensitive = False, denyInherit = False,
     indexMap = [], tmode = 0, tmodes = []\<rparr>"

definition PolicyTrie :: ptrie where
  "PolicyTrie = PTrie new_data []"

definition MODE_FILTER :: u64 where
  "MODE_FILTER = 31"

definition set_insert :: "'a \<Rightarrow> 'a list \<Rightarrow> 'a list" where
  "set_insert x xs = (if x \<in> set xs then xs else xs @ [x])"

definition ToLowerCase :: "string \<Rightarrow> string" where
  "ToLowerCase str = map tolower str"

definition child :: "ptrie \<Rightarrow> string \<Rightarrow> ptrie option" where
  "child t k = map_of (children t) k"

text \<open>The key under which a segment is looked up in a node.\<close>

definition key_in :: "ptrie \<Rightarrow> string \<Rightarrow> string" where
  "key_in t segment = (if caseInsensitive (node t) then ToLowerCase segment else segment)"

text \<open>The child a walk steps into, or the node the code allocates in its place.\<close>

definition child_or :: "ptrie \<Rightarrow> ptrie \<Rightarrow> string \<Rightarrow> ptrie" where
  "child_or fresh t k = (case child t k of Some c \<Rightarrow> c | None \<Rightarrow> fresh)"

definition fresh_inheriting :: "ptrie \<Rightarrow> ptrie" where
  "fresh_inheriting t = PTrie (new_data\<lparr>caseInsensitive := caseInsensitive (node t)\<rparr>) []"

definition set_child :: "string \<Rightarrow> ptrie \<Rightarrow> ptrie \<Rightarrow> ptrie" where
  "set_child k c t = PTrie (node t) (AList.update k c (children t))"

section \<open>Operations that change the trie\<close>

text \<open>\<open>InsertPath\<close> and \<open>InsertPreservingCase\<close>.\<close>

definition index_add :: "string \<Rightarrow> ptrie \<Rightarrow> ptrie" where
  "index_add segment t =
     (let low = ToLowerCase segment;
          old = (case map_of (indexMap (node t)) low of Some xs \<Rightarrow> xs | None \<Rightarrow> [])
      in PTrie ((node t)\<lparr>indexMap := AList.update low (set_insert segment old) (indexMap (node t))\<rparr>)
           (children t))"

fun InsertPath_walk :: "u64 \<Rightarrow> bool \<Rightarrow> string list \<Rightarrow> ptrie \<Rightarrow> ptrie" where
  "InsertPath_walk mode preserveCase [] t =
     PTrie ((node t)\<lparr>isEndOfPath := True, tmodes := set_insert mode (tmodes (node t)),
       tmode := tmode (node t) OR mode\<rparr>) (children t)"
| "InsertPath_walk mode preserveCase (segment # rest) t =
     (let t1 = (if preserveCase \<and> caseInsensitive (node t) then index_add segment t else t);
          key = (if preserveCase then segment else key_in t segment)
      in set_child key
           (InsertPath_walk mode preserveCase rest (child_or (fresh_inheriting t) t key)) t1)"

definition InsertPath :: "string \<Rightarrow> u64 \<Rightarrow> bool \<Rightarrow> ptrie \<Rightarrow> ptrie" where
  "InsertPath path mode preserveCase t = InsertPath_walk mode preserveCase (SplitPath path) t"

definition InsertPreservingCase :: "string \<Rightarrow> u64 \<Rightarrow> ptrie \<Rightarrow> ptrie" where
  "InsertPreservingCase path mode t = InsertPath path mode True t"

text \<open>\<open>SetCasePolicy\<close>: nodes it allocates do not inherit the parent's flag.\<close>

fun SetCasePolicy_walk :: "bool \<Rightarrow> string list \<Rightarrow> ptrie \<Rightarrow> ptrie" where
  "SetCasePolicy_walk flag [] t = PTrie ((node t)\<lparr>caseInsensitive := flag\<rparr>) (children t)"
| "SetCasePolicy_walk flag (segment # rest) t =
     (let key = key_in t segment
      in set_child key (SetCasePolicy_walk flag rest (child_or PolicyTrie t key)) t)"

definition SetCasePolicy :: "string \<Rightarrow> bool \<Rightarrow> ptrie \<Rightarrow> ptrie" where
  "SetCasePolicy path flag t = SetCasePolicy_walk flag (SplitPath path) t"

definition SetInsensitive :: "string \<Rightarrow> ptrie \<Rightarrow> ptrie" where
  "SetInsensitive path t = SetCasePolicy path True t"

definition SetSensitive :: "string \<Rightarrow> ptrie \<Rightarrow> ptrie" where
  "SetSensitive path t = SetCasePolicy path False t"

text \<open>\<open>AddDeniedPaths\<close>; it returns false only when an allocation fails.\<close>

fun AddDeniedPath_walk :: "string list \<Rightarrow> ptrie \<Rightarrow> ptrie" where
  "AddDeniedPath_walk [] t = PTrie ((node t)\<lparr>denyInherit := True\<rparr>) (children t)"
| "AddDeniedPath_walk (segment # rest) t =
     (let key = key_in t segment
      in set_child key (AddDeniedPath_walk rest (child_or (fresh_inheriting t) t key)) t)"

definition AddDeniedPaths :: "string list \<Rightarrow> ptrie \<Rightarrow> bool \<times> ptrie" where
  "AddDeniedPaths paths t = (True, fold (\<lambda>p. AddDeniedPath_walk (SplitPath p)) paths t)"

definition Clear :: "ptrie \<Rightarrow> ptrie" where
  "Clear t = PTrie ((node t)\<lparr>isEndOfPath := False, tmode := 0, tmodes := [],
     caseInsensitive := False, indexMap := [], denyInherit := False\<rparr>) []"

definition IsEmpty :: "ptrie \<Rightarrow> bool" where
  "IsEmpty t \<longleftrightarrow> children t = [] \<and> \<not> isEndOfPath (node t) \<and> tmode (node t) = 0"

section \<open>Queries\<close>

definition IsPolicyMatch :: "u64 \<Rightarrow> u64 \<Rightarrow> bool" where
  "IsPolicyMatch referMode searchMode =
     (let searchMode = searchMode AND MODE_FILTER; referMode = referMode AND MODE_FILTER
      in (referMode AND searchMode) = searchMode)"

definition DENIED_PATHS :: "(string \<times> nat) list" where
  "DENIED_PATHS = [(''/storage/Users/currentUser/appdata'', 4)]"

definition deny_level :: "string \<Rightarrow> nat" where
  "deny_level path =
     fold (\<lambda>(denyPath, level) needLevel.
        if take (length denyPath) path = denyPath \<and>
           (length path = length denyPath \<or> path ! length denyPath = CHR ''/'')
        then level else needLevel) DENIED_PATHS 0"

fun CheckPath_walk :: "u64 \<Rightarrow> bool \<Rightarrow> nat \<Rightarrow> nat \<Rightarrow> string list \<Rightarrow> ptrie \<Rightarrow> bool" where
  "CheckPath_walk mode checkMode needLevel curLevel [] t = False"
| "CheckPath_walk mode checkMode needLevel curLevel (segment # rest) t =
     (case child t (key_in t segment) of
        None \<Rightarrow> False
      | Some nextNode \<Rightarrow>
          if Suc curLevel \<ge> needLevel \<and> isEndOfPath (node nextNode) then
            (if \<not> checkMode then True else IsPolicyMatch (tmode (node nextNode)) mode)
          else CheckPath_walk mode checkMode needLevel (Suc curLevel) rest nextNode)"

definition CheckPathInternal :: "string \<Rightarrow> u64 \<Rightarrow> bool \<Rightarrow> ptrie \<Rightarrow> bool" where
  "CheckPathInternal path mode checkMode t =
     CheckPath_walk mode checkMode (deny_level path) 0 (SplitPath path) t"

definition CheckPath :: "string \<Rightarrow> ptrie \<Rightarrow> bool" where
  "CheckPath path t = CheckPathInternal path 0 False t"

definition CheckPathMode :: "string \<Rightarrow> u64 \<Rightarrow> ptrie \<Rightarrow> bool" where
  "CheckPathMode path mode t = CheckPathInternal path mode True t"

datatype CheckState = INIT | ALLOWED | NOT_ALLOWED

fun CheckPathNew_walk :: "u64 \<Rightarrow> bool \<Rightarrow> CheckState \<Rightarrow> string list \<Rightarrow> ptrie \<Rightarrow> bool" where
  "CheckPathNew_walk mode checkMode pathStatus [] t = (pathStatus = ALLOWED)"
| "CheckPathNew_walk mode checkMode pathStatus (segment # rest) t =
     (case child t (key_in t segment) of
        None \<Rightarrow> (pathStatus = ALLOWED)
      | Some nextNode \<Rightarrow>
          (let st = (if denyInherit (node nextNode) then INIT else pathStatus)
           in if isEndOfPath (node nextNode) then
                (if \<not> checkMode then True
                 else if st = INIT then
                   CheckPathNew_walk mode checkMode
                     (if IsPolicyMatch (tmode (node nextNode)) mode then ALLOWED else NOT_ALLOWED)
                     rest nextNode
                 else CheckPathNew_walk mode checkMode st rest nextNode)
              else CheckPathNew_walk mode checkMode st rest nextNode))"

definition CheckPathInternalNew :: "string \<Rightarrow> u64 \<Rightarrow> bool \<Rightarrow> ptrie \<Rightarrow> bool" where
  "CheckPathInternalNew path mode checkMode t =
     CheckPathNew_walk mode checkMode INIT (SplitPath path) t"

definition CheckPathNew :: "string \<Rightarrow> u64 \<Rightarrow> ptrie \<Rightarrow> bool" where
  "CheckPathNew path mode t = CheckPathInternalNew path mode True t"

section \<open>FindMatchingPaths\<close>

text \<open>
  The search stack of \<open>SearchState\<close> values, its top at the head of the list; \<open>FindMatching_push\<close> is
  what one iteration pushes, in the order the loop over the stored keys pushes it.
\<close>

type_synonym search_state = "ptrie \<times> nat \<times> string"

definition FindMatching_keys :: "ptrie \<Rightarrow> string \<Rightarrow> string list" where
  "FindMatching_keys t targetSegment =
     (if \<not> caseInsensitive (node t) then [targetSegment]
      else case map_of (indexMap (node t)) (ToLowerCase targetSegment) of
             None \<Rightarrow> [] | Some keys \<Rightarrow> keys)"

fun FindMatching_push :: "ptrie \<Rightarrow> nat \<Rightarrow> string \<Rightarrow> string list \<Rightarrow> search_state list" where
  "FindMatching_push t i currentPath [] = []"
| "FindMatching_push t i currentPath (k # ks) =
     (case child t k of
        None \<Rightarrow> FindMatching_push t i currentPath ks
      | Some c \<Rightarrow> (c, Suc i, BuildPath currentPath k) # FindMatching_push t i currentPath ks)"

lemma FindMatching_push_index: "x \<in> set (FindMatching_push t i p ks) \<Longrightarrow> fst (snd x) = Suc i"
  by (induction t i p ks rule: FindMatching_push.induct) (auto split: option.splits)

function FindMatching_loop ::
  "u64 \<Rightarrow> string list \<Rightarrow> search_state list \<Rightarrow> string list \<Rightarrow> string list" where
  "FindMatching_loop mode searchSegments [] results = results"
| "FindMatching_loop mode searchSegments ((t, i, currentPath) # stack) results =
     (if i \<ge> length searchSegments then
        FindMatching_loop mode searchSegments stack
          (if isEndOfPath (node t) \<and> mode \<in> set (tmodes (node t)) then results @ [currentPath] else results)
      else
        FindMatching_loop mode searchSegments
          (rev (FindMatching_push t i currentPath (FindMatching_keys t (searchSegments ! i))) @ stack)
          results)"
  by pat_completeness auto
termination
proof (relation "inv_image (mult less_than)
    (\<lambda>(mode, segs, stack, results). mset (map (\<lambda>x. Suc (length segs) - fst (snd x)) stack))")
  show "wf (inv_image (mult less_than) (\<lambda>(mode :: u64, segs :: string list, stack :: search_state list,
    results :: string list). mset (map (\<lambda>x. Suc (length segs) - fst (snd x)) stack)))"
    by (simp add: wf_mult)
next
  fix mode :: u64 and segs results :: "string list" and t :: ptrie and i :: nat
    and p :: string and stack :: "search_state list"
  let ?w = "\<lambda>x :: search_state. Suc (length segs) - fst (snd x)"
  have pop: "(mset (map ?w stack) + K, mset (map ?w ((t, i, p) # stack))) \<in> mult less_than"
    if "\<forall>k \<in># K. k < Suc (length segs) - i" for K
    using one_step_implies_mult [of "{#Suc (length segs) - i#}" K less_than "mset (map ?w stack)"] that
    by (simp add: add.commute)
  let ?res = "if isEndOfPath (node t) \<and> mode \<in> set (tmodes (node t)) then results @ [p] else results"
  show "((mode, segs, stack, ?res), mode, segs, (t, i, p) # stack, results)
    \<in> inv_image (mult less_than) (\<lambda>(mode, segs, stack, results). mset (map (\<lambda>x. Suc (length segs) - fst (snd x)) stack))"
    using pop [of "{#}"] by simp
  assume i: "\<not> length segs \<le> i"
  let ?push = "FindMatching_push t i p (FindMatching_keys t (segs ! i))"
  have "\<forall>k \<in># mset (map ?w ?push). k < Suc (length segs) - i"
    using i by (auto dest!: FindMatching_push_index)
  from pop [OF this]
  show "((mode, segs, rev ?push @ stack, results), mode, segs, (t, i, p) # stack, results)
    \<in> inv_image (mult less_than) (\<lambda>(mode, segs, stack, results). mset (map (\<lambda>x. Suc (length segs) - fst (snd x)) stack))"
    by (simp add: add.commute)
qed

definition FindMatchingPaths :: "string \<Rightarrow> u64 \<Rightarrow> ptrie \<Rightarrow> string list" where
  "FindMatchingPaths path mode t =
     (let searchSegments = SplitPath path
      in if searchSegments = [] then []
         else FindMatching_loop mode searchSegments [(t, 0, [])] [])"

end
