(* ===== verification/Path_Rules.thy ===== *)
theory Path_Rules
  imports Policy_Types Policy_Trie
begin

text \<open>
  The path and mode rules of \<open>sandbox_param_validator.cpp\<close> and of the path section of
  \<open>policy_info_manager.cpp\<close>: normalisation, splitting, the appdata and share rules, mode ranges.
\<close>

section \<open>std::filesystem::path::lexically\_normal\<close>

text \<open>
  The standard library's normal form on POSIX paths: the root separator, the non-empty names between
  separators, and a trailing separator are the parts of a path; a name followed by dot-dot is dropped,
  dots are dropped, dot-dot at the root is dropped.
\<close>

datatype path_part = RootSep | Filename string | Dot | DotDot | TrailingSep

definition classify :: "string \<Rightarrow> path_part" where
  "classify s = (if s = ''.'' then Dot else if s = ''..'' then DotDot else Filename s)"

definition path_parts :: "string \<Rightarrow> path_part list" where
  "path_parts p =
     (if p \<noteq> [] \<and> hd p = CHR ''/'' then [RootSep] else []) @ map classify (segments_of [] p) @
     (if segments_of [] p \<noteq> [] \<and> last p = CHR ''/'' then [TrailingSep] else [])"

text \<open>The stack of kept parts (last part first) and whether a trailing separator may be needed.\<close>

fun normal_step :: "path_part \<Rightarrow> path_part list \<times> bool \<Rightarrow> path_part list \<times> bool" where
  "normal_step RootSep (stk, _) = (RootSep # stk, False)"
| "normal_step (Filename s) (stk, _) = (Filename s # stk, False)"
| "normal_step DotDot (stk, _) =
     (case stk of
        Filename _ # stk' \<Rightarrow> (stk', True)
      | RootSep # _ \<Rightarrow> (stk, False)
      | _ \<Rightarrow> (DotDot # stk, False))"
| "normal_step Dot (stk, _) = (stk, True)"
| "normal_step TrailingSep (stk, _) = (stk, True)"

fun part_text :: "path_part \<Rightarrow> string" where
  "part_text (Filename s) = s"
| "part_text DotDot = ''..''"
| "part_text _ = []"

text \<open>\<open>path::operator/=\<close> on a relative right-hand side.\<close>

definition path_append :: "string \<Rightarrow> string \<Rightarrow> string" where
  "path_append p s = (if p = [] \<or> last p = CHR ''/'' then p @ s else p @ ''/'' @ s)"

definition join_step :: "path_part \<Rightarrow> string \<Rightarrow> string" where
  "join_step x r = (if x = RootSep then r @ ''/'' else path_append r (part_text x))"

definition lexically_normal :: "string \<Rightarrow> string" where
  "lexically_normal p =
     (if p = [] then []
      else let (stk, maybeSep) = fold normal_step (path_parts p) ([], False)
        in if stk = [] then ''.''
           else let body = fold join_step (rev stk) []
             in if maybeSep \<and> (case stk of Filename _ # _ \<Rightarrow> True | _ \<Rightarrow> False)
                then path_append body [] else body)"

section \<open>sandbox\_param\_validator.cpp\<close>

text \<open>\<open>NormalizePath\<close>: normal form, then trailing separators stripped down to the root.\<close>

function strip_trailing :: "string \<Rightarrow> string" where
  "strip_trailing s = (if length s > 1 \<and> last s = CHR ''/'' then strip_trailing (butlast s) else s)"
  by pat_completeness auto
termination by (relation "measure length") auto

declare strip_trailing.simps [simp del]

definition NormalizePath :: "string \<Rightarrow> string" where
  "NormalizePath path = strip_trailing (lexically_normal path)"

definition CheckEmbeddedNull :: "string \<Rightarrow> bool" where
  "CheckEmbeddedNull path \<longleftrightarrow> CHR 0x00 \<in> set path"

definition ValidateGenericPath :: "string \<Rightarrow> int" where
  "ValidateGenericPath path =
     (if CheckEmbeddedNull path then INVALID_PATH
      else let normalized = NormalizePath path
        in if normalized \<noteq> path then INVALID_PATH
           else if normalized = [] \<or> length normalized > POLICY_PATH_LIMIT then INVALID_PATH
           else if normalized ! 0 \<noteq> CHR ''/'' then INVALID_PATH
           else if length normalized > 1 \<and> normalized ! 1 = CHR ''/'' then INVALID_PATH
           else if length normalized > 1 \<and> last normalized = CHR ''/'' then INVALID_PATH
           else SANDBOX_MANAGER_OK)"

text \<open>\<open>SplitPath\<close> of the validator and \<open>splitPath\<close> of the manager are the same loop over
  \<open>std::getline\<close>; the remainder after eight lines is read up to the next newline.\<close>

abbreviation (input) MAX_CHECK_COM_NUM :: nat where "MAX_CHECK_COM_NUM \<equiv> 6"
abbreviation (input) SECOND_PATH_SEGMENT :: nat where "SECOND_PATH_SEGMENT \<equiv> 2"
abbreviation (input) EL_LEVEL_SEGMENT :: nat where "EL_LEVEL_SEGMENT \<equiv> 4"
abbreviation (input) BASE_SEGMENT :: nat where "BASE_SEGMENT \<equiv> 5"
abbreviation (input) SUB_PATH_SEGMENT :: nat where "SUB_PATH_SEGMENT \<equiv> 7"

definition AddRemainingPath :: "string \<Rightarrow> string list \<Rightarrow> string list" where
  "AddRemainingPath rest components =
     (let component = takeWhile (\<lambda>c. c \<noteq> CHR 0x0A) rest
      in if component \<noteq> [] then components @ [component] else components)"

function splitPath_loop :: "nat \<Rightarrow> string \<Rightarrow> string list \<Rightarrow> string list" where
  "splitPath_loop comNum rest components =
     (if rest = [] then components
      else let component = takeWhile (\<lambda>c. c \<noteq> CHR ''/'') rest;
               rest' = drop (Suc (length component)) rest;
               components' = (if component \<noteq> [] then components @ [component] else components);
               comNum' = Suc comNum
        in if comNum' > MAX_CHECK_COM_NUM + 1 then AddRemainingPath rest' components'
           else splitPath_loop comNum' rest' components')"
  by pat_completeness auto
termination by (relation "measure (\<lambda>(n, rest, cs). length rest)") auto

declare splitPath_loop.simps [simp del]

definition splitPath :: "string \<Rightarrow> string list" where
  "splitPath path = splitPath_loop 0 path []"

definition ValidateTempMode :: "u64 \<Rightarrow> int" where
  "ValidateTempMode mode =
     (let normalBits = 31 in if mode AND normalBits = 0 \<or> mode AND NOT normalBits \<noteq> 0 then INVALID_MODE
      else SANDBOX_MANAGER_OK)"

definition ValidateDenyMode :: "u64 \<Rightarrow> int" where
  "ValidateDenyMode mode =
     (let denyBits = 4064 in if mode AND denyBits = 0 \<or> mode AND NOT denyBits \<noteq> 0 then INVALID_MODE
      else SANDBOX_MANAGER_OK)"

text \<open>\<open>strcasecmp(a, b) == 0\<close>, on the C strings.\<close>

definition strcasecmp_eq :: "string \<Rightarrow> string \<Rightarrow> bool" where
  "strcasecmp_eq a b \<longleftrightarrow> ToLowerCase (c_str a) = ToLowerCase (c_str b)"

section \<open>Canonical paths\<close>

text \<open>What the normalisation accepts unchanged: the root, or absolute names none of which is a dot.\<close>

definition canonical_name :: "string \<Rightarrow> bool" where
  "canonical_name s \<longleftrightarrow> segment_ok s \<and> s \<noteq> ''.'' \<and> s \<noteq> ''..''"

definition canonical_path :: "string \<Rightarrow> bool" where
  "canonical_path p \<longleftrightarrow> (\<exists>segs. segs \<noteq> [] \<and> list_all canonical_name segs \<and> p = render segs)"

lemma segment_last: "segment_ok s \<Longrightarrow> last s \<noteq> CHR ''/''"
  by (metis last_in_set segment_ok_def)

lemma last_render:
  assumes "list_all segment_ok segs" "segs \<noteq> []"
  shows "last (render segs) \<noteq> CHR ''/''"
proof -
  obtain pre s where "segs = pre @ [s]" using assms(2) by (meson rev_exhaust)
  with assms(1) show ?thesis
    by (simp add: render_append) (simp add: render_def segment_ok_def segment_last [unfolded segment_ok_def])
qed

lemma canonical_segments: "list_all canonical_name segs \<Longrightarrow> list_all segment_ok segs"
  by (simp add: list_all_iff canonical_name_def)

lemma join_render:
  "list_all segment_ok segs \<Longrightarrow> fold join_step (map Filename segs) (CHR ''/'' # []) =
     (if segs = [] then ''/'' else render segs)"
proof (induction segs rule: rev_induct)
  case (snoc s segs)
  then show ?case
  proof (cases "segs = []")
    case False
    with snoc last_render [of segs] have "path_append (render segs) s = render (segs @ [s])"
      by (auto simp: path_append_def render_append) (simp_all add: render_def)
    with snoc False show ?thesis by (simp add: join_step_def)
  qed (simp add: join_step_def path_append_def render_def)
qed simp

lemma normal_step_inv:
  assumes "list_all segment_ok segs" and "list_all canonical_name names"
  shows "\<exists>names' b. fold normal_step (map classify segs) (map Filename names @ [RootSep], b0) =
      (map Filename names' @ [RootSep], b) \<and> list_all canonical_name names'"
  using assms
proof (induction segs arbitrary: names b0)
  case (Cons s segs)
  have step: "\<exists>names1 b1. normal_step (classify s) (map Filename names @ [RootSep], b0) =
      (map Filename names1 @ [RootSep], b1) \<and> list_all canonical_name names1"
  proof (cases "s = ''.'' \<or> s = ''..''")
    case True
    then consider "s = ''.''" | "s = ''..''" "names = []" | a l where "s = ''..''" "names = a # l"
      by (cases names) auto
    then show ?thesis
    proof cases
      case 1
      then show ?thesis using Cons.prems by (intro exI [of _ names] exI [of _ True]) (auto simp: classify_def)
    next
      case 2
      then show ?thesis by (intro exI [of _ "[]"] exI [of _ False]) (auto simp: classify_def)
    next
      case 3
      then show ?thesis using Cons.prems by (intro exI [of _ l] exI [of _ True]) (auto simp: classify_def)
    qed
  next
    case False
    then have "classify s = Filename s" and "canonical_name s"
      using Cons.prems by (auto simp: classify_def canonical_name_def)
    with Cons.prems show ?thesis by (intro exI [of _ "s # names"]) auto
  qed
  then obtain names1 b1 where "normal_step (classify s) (map Filename names @ [RootSep], b0) =
      (map Filename names1 @ [RootSep], b1)" "list_all canonical_name names1" by blast
  with Cons.IH [of names1 b1] Cons.prems show ?case by simp
qed auto

lemma normal_step_names:
  "list_all canonical_name segs \<Longrightarrow>
   fold normal_step (map classify segs) (stk, b) =
     (rev (map Filename segs) @ stk, if segs = [] then b else False)"
proof (induction segs arbitrary: stk b)
  case (Cons s segs)
  then have "classify s = Filename s" by (auto simp: classify_def canonical_name_def)
  with Cons show ?case by simp
qed simp

lemma strip_render:
  assumes "list_all segment_ok segs" "segs \<noteq> []"
  shows "strip_trailing (render segs) = render segs"
  using last_render [OF assms] by (subst strip_trailing.simps) simp

lemma strip_render_slash:
  assumes "list_all segment_ok segs" "segs \<noteq> []"
  shows "strip_trailing (render segs @ ''/'') = render segs"
  using strip_render [OF assms] assms(2) by (subst strip_trailing.simps) (auto simp: Suc_lessI)

lemma NormalizePath_absolute:
  assumes "p \<noteq> []" "hd p = CHR ''/''"
  shows "NormalizePath p = ''/'' \<or> canonical_path (NormalizePath p)"
proof -
  have segs: "list_all segment_ok (segments_of [] p)" by (simp add: segments_of_ok)
  obtain names b where fold: "fold normal_step (map classify (segments_of [] p)) ([RootSep], False) =
      (map Filename names @ [RootSep], b)" and names: "list_all canonical_name names"
    using normal_step_inv [OF segs, of "[]" False] by auto
  have ok: "list_all segment_ok (rev names)" using names canonical_segments by (simp add: list_all_iff)
  obtain b' where st: "fold normal_step (path_parts p) ([], False) = (map Filename names @ [RootSep], b')"
    using assms fold
    by (cases "segments_of [] p \<noteq> [] \<and> last p = CHR ''/''") (auto simp: path_parts_def)
  let ?body = "if names = [] then ''/'' else render (rev names)"
  have body: "fold join_step (rev (map Filename names @ [RootSep])) [] = ?body"
    using join_render [OF ok] by (simp add: rev_map join_step_def [of RootSep])
  show ?thesis
  proof (cases names)
    case Nil
    then have "lexically_normal p = ''/''"
      using assms st by (simp add: lexically_normal_def join_step_def)
    then show ?thesis by (simp add: NormalizePath_def strip_trailing.simps)
  next
    case (Cons n ns)
    then have "lexically_normal p \<in> {render (rev names), path_append (render (rev names)) []}"
      using assms(1) st body by (auto simp: lexically_normal_def Let_def)
    moreover have "path_append (render (rev names)) [] = render (rev names) @ ''/''"
      using last_render [OF ok] Cons by (simp add: path_append_def)
    ultimately have "NormalizePath p = render (rev names)"
      using strip_render [OF ok] strip_render_slash [OF ok] Cons by (auto simp: NormalizePath_def)
    moreover have "list_all canonical_name (rev names)" using names by (simp add: list_all_iff)
    ultimately show ?thesis using Cons by (auto simp: canonical_path_def)
  qed
qed

lemma lexically_normal_canonical:
  assumes "list_all canonical_name segs" "segs \<noteq> []"
  shows "lexically_normal (render segs) = render segs"
proof -
  note ok = canonical_segments [OF assms(1)]
  have hd: "hd (render segs) = CHR ''/''" using assms(2) by (cases segs) (auto simp: render_def)
  have "path_parts (render segs) = RootSep # map classify segs"
    using hd last_render [OF ok assms(2)] assms(2)
    by (simp add: path_parts_def segments_of_render [OF ok])
  then have "fold normal_step (path_parts (render segs)) ([], False) = (rev (map Filename segs) @ [RootSep], False)"
    using normal_step_names [OF assms(1)] assms(2) by simp
  then show ?thesis
    using assms(2) join_render [OF ok] by (simp add: lexically_normal_def join_step_def [of RootSep])
qed

lemma render_head: "segs \<noteq> [] \<Longrightarrow> list_all segment_ok segs \<Longrightarrow>
   render segs ! 0 = CHR ''/'' \<and> length (render segs) > 1 \<and> render segs ! 1 \<noteq> CHR ''/''"
proof (cases segs)
  case (Cons s ss)
  moreover assume "list_all segment_ok segs"
  ultimately obtain c cs where "s = c # cs" "c \<noteq> CHR ''/''" by (cases s) (auto simp: segment_ok_def)
  with Cons show ?thesis by (simp add: render_def)
qed simp

text \<open>C6: \<open>ValidateGenericPath\<close> accepts exactly the canonical absolute paths: without null byte, at most
  4095 characters, the root or a sequence of names with single separators, no trailing separator and no
  dot or dot-dot component.\<close>

theorem ValidateGenericPath_iff:
  "ValidateGenericPath path = SANDBOX_MANAGER_OK \<longleftrightarrow>
     CHR 0x00 \<notin> set path \<and> length path \<le> POLICY_PATH_LIMIT \<and> (path = ''/'' \<or> canonical_path path)"
proof
  assume ok: "ValidateGenericPath path = SANDBOX_MANAGER_OK"
  have facts: "CHR 0x00 \<notin> set path \<and> NormalizePath path = path \<and> path \<noteq> [] \<and> length path \<le> POLICY_PATH_LIMIT \<and>
      path ! 0 = CHR ''/''"
    using ok by (simp add: ValidateGenericPath_def CheckEmbeddedNull_def Let_def split: if_splits)
  with NormalizePath_absolute [of path] hd_conv_nth [of path] show "CHR 0x00 \<notin> set path \<and> length path \<le> POLICY_PATH_LIMIT \<and>
      (path = ''/'' \<or> canonical_path path)"
    by auto
next
  assume r: "CHR 0x00 \<notin> set path \<and> length path \<le> POLICY_PATH_LIMIT \<and> (path = ''/'' \<or> canonical_path path)"
  show "ValidateGenericPath path = SANDBOX_MANAGER_OK"
  proof (cases "path = ''/''")
    case True
    moreover have "NormalizePath ''/'' = ''/''"
      by code_simp
    ultimately show ?thesis by (simp add: ValidateGenericPath_def CheckEmbeddedNull_def Let_def)
  next
    case False
    with r obtain segs where segs: "segs \<noteq> []" "list_all canonical_name segs" "path = render segs"
      by (auto simp: canonical_path_def)
    note ok = canonical_segments [OF segs(2)]
    have "NormalizePath path = path"
      using lexically_normal_canonical [OF segs(2,1)] strip_render [OF ok segs(1)]
      by (simp add: NormalizePath_def segs(3))
    moreover have "path \<noteq> []" "path ! 0 = CHR ''/''" "path ! 1 \<noteq> CHR ''/''" "last path \<noteq> CHR ''/''"
      using segs(1) render_head [OF segs(1) ok] last_render [OF ok segs(1)] by (auto simp: segs(3))
    ultimately show ?thesis using r by (simp add: ValidateGenericPath_def CheckEmbeddedNull_def)
  qed
qed

end
