(* ===== verification/Claw_Glob.thy ===== *)
theory Claw_Glob
  imports Path_Rules
begin

text \<open>
  \<open>claw_sandbox/src/sandbox_glob_pattern.cpp\<close> and \<open>sandbox_utils.cpp\<close>: the wildcard pattern grammar of file
  rules, decimal parsing and path containment. The reason text of a refused pattern is the error value; the code
  is always \<open>SANDBOX_ERR_CONFIG_INVALID\<close>.
\<close>

section \<open>Error codes\<close>

abbreviation (input) SANDBOX_SUCCESS :: int where "SANDBOX_SUCCESS \<equiv> 0"
abbreviation (input) SANDBOX_ERR_GENERIC :: int where "SANDBOX_ERR_GENERIC \<equiv> - 1"
abbreviation (input) SANDBOX_ERR_BAD_PARAMETERS :: int where "SANDBOX_ERR_BAD_PARAMETERS \<equiv> - 2"
abbreviation (input) SANDBOX_ERR_CMD_INVALID :: int where "SANDBOX_ERR_CMD_INVALID \<equiv> - 3"
abbreviation (input) SANDBOX_ERR_CONFIG_INVALID :: int where "SANDBOX_ERR_CONFIG_INVALID \<equiv> - 4"
abbreviation (input) SANDBOX_ERR_TEMPLATE_INVALID :: int where "SANDBOX_ERR_TEMPLATE_INVALID \<equiv> - 5"
abbreviation (input) SANDBOX_ERR_PATH_INVALID :: int where "SANDBOX_ERR_PATH_INVALID \<equiv> - 8"
abbreviation (input) SANDBOX_ERR_SET_POLICY_FAILED :: int where "SANDBOX_ERR_SET_POLICY_FAILED \<equiv> - 21"
abbreviation (input) SANDBOX_ERR_DEVICE_IO :: int where "SANDBOX_ERR_DEVICE_IO \<equiv> - 39"
abbreviation (input) SANDBOX_ERR_SET_POLICY_PARTIAL :: int where "SANDBOX_ERR_SET_POLICY_PARTIAL \<equiv> - 50"

section \<open>Finding a substring\<close>

text \<open>\<open>s.find(p, pos)\<close>.\<close>

fun find_from :: "string \<Rightarrow> nat \<Rightarrow> string \<Rightarrow> nat option" where
  "find_from p i [] = (if p = [] then Some i else None)"
| "find_from p i (c # cs) = (if starts_with (c # cs) p then Some i else find_from p (Suc i) cs)"

definition str_find :: "string \<Rightarrow> string \<Rightarrow> nat \<Rightarrow> nat option" where
  "str_find s p pos = (if pos \<le> length s then find_from p pos (drop pos s) else None)"

section \<open>Patterns\<close>

record FilePattern =
  fp_prefix :: string
  fp_suffix :: string

definition IsWildcardPattern :: "string \<Rightarrow> bool" where
  "IsWildcardPattern path \<longleftrightarrow> CHR ''*'' \<in> set path"

abbreviation (input) GLOB_STAR_LEN :: nat where "GLOB_STAR_LEN \<equiv> 2"
abbreviation (input) STAR_TAIL_LEAD_LEN :: nat where "STAR_TAIL_LEAD_LEN \<equiv> 2"

text \<open>Every check answers the reason of its refusal, or nothing.\<close>

definition quoted :: "string \<Rightarrow> string" where
  "quoted s = [CHR 0x27] @ s @ [CHR 0x27]"

definition CheckPatternAbsolute :: "string \<Rightarrow> string option" where
  "CheckPatternAbsolute pattern =
     (if pattern = [] \<or> hd pattern \<noteq> CHR ''/'' then Some ''must be an absolute path'' else None)"

definition FindSingleGlobStar :: "string \<Rightarrow> string + nat" where
  "FindSingleGlobStar pattern = (case str_find pattern ''**'' 0 of
       None \<Rightarrow> Inl (quoted ''*'' @ '' must be part of a '' @ quoted ''**'')
     | Some star \<Rightarrow>
         if str_find pattern ''**'' (star + GLOB_STAR_LEN) \<noteq> None then Inl (''must contain exactly one '' @ quoted ''**'')
         else Inr star)"

definition CheckGlobStarBoundaries :: "string \<Rightarrow> nat \<Rightarrow> string option" where
  "CheckGlobStarBoundaries pattern star =
     (if star = 0 \<or> pattern ! (star - 1) \<noteq> CHR ''/'' then Some (''the '' @ quoted ''**'' @ '' must be preceded by '' @ quoted ''/'')
      else let afterStar = star + GLOB_STAR_LEN
        in if afterStar < length pattern \<and> pattern ! afterStar \<noteq> CHR ''/''
           then Some (''the '' @ quoted ''**'' @ '' must be followed by '' @ quoted ''/'' @ '' or the end of the pattern'') else None)"

definition CheckNoTrailingSlash :: "string \<Rightarrow> string option" where
  "CheckNoTrailingSlash pattern =
     (if pattern \<noteq> [] \<and> last pattern = CHR ''/'' then Some (''must not end with '' @ quoted ''/'' @ '': the kernel cannot restrict a pattern to directories'') else None)"

text \<open>The component loop of \<open>CheckNoSpecialComponents\<close> on the text from \<open>pos\<close> on.\<close>

function special_components :: "string \<Rightarrow> bool" where
  "special_components rest =
     (if rest = [] then False
      else let component = takeWhile (\<lambda>c. c \<noteq> CHR ''/'') rest
        in if component = ''.'' \<or> component = ''..'' then True
           else if CHR ''/'' \<notin> set rest then False
           else special_components (drop (Suc (length component)) rest))"
  by pat_completeness auto
termination special_components by (relation "measure length") auto

declare special_components.simps [simp del]

definition CheckNoSpecialComponents :: "string \<Rightarrow> string option" where
  "CheckNoSpecialComponents path =
     (if str_find path ''//'' 0 \<noteq> None then Some ''must not contain an empty path component''
      else if special_components path then Some (''must not contain a '' @ quoted ''.'' @ '' or '' @ quoted ''..'' @ '' path component'')
      else None)"

definition CheckPatternSuffix :: "string \<Rightarrow> string + bool" where
  "CheckPatternSuffix tail =
     (if tail = [] then Inr False
      else if length tail \<ge> STAR_TAIL_LEAD_LEN \<and> tail ! (STAR_TAIL_LEAD_LEN - 1) = CHR ''*'' then
        let literal = drop STAR_TAIL_LEAD_LEN tail
        in if CHR ''/'' \<in> set literal then Inl (''the '' @ quoted ''*'' @ '' after '' @ quoted ''**/'' @ '' may only match the final path component'')
           else if CHR ''*'' \<in> set literal then Inl (quoted ''*'' @ '' must be the only wildcard in the final component'')
           else Inr True
      else if CHR ''*'' \<in> set tail then Inl (quoted ''*'' @ '' after '' @ quoted ''**'' @ '' may only lead the final component ('' @ quoted ''**/*<literal>'' @ '')'')
      else case CheckNoSpecialComponents tail of Some why \<Rightarrow> Inl why | None \<Rightarrow> Inr False)"

definition META_CHARS :: string where "META_CHARS = ''?[]{}''"

definition CheckNoUnsupportedMetaChars :: "string \<Rightarrow> string option" where
  "CheckNoUnsupportedMetaChars pattern =
     (case dropWhile (\<lambda>c. c \<notin> set META_CHARS) pattern of
        meta # _ \<Rightarrow> Some (''unsupported glob metacharacter '' @ quoted [meta])
      | [] \<Rightarrow> if CHR 0x5C \<in> set pattern then Some ''escape sequences are not supported'' else None)"

definition CheckPatternPrefix :: "string \<Rightarrow> string option" where
  "CheckPatternPrefix pre =
     (if CHR ''*'' \<in> set pre then Some (quoted ''*'' @ '' is only allowed as part of the single '' @ quoted ''**'')
      else CheckNoSpecialComponents pre)"

definition ParseFilePattern :: "string \<Rightarrow> string + FilePattern" where
  "ParseFilePattern pattern =
     (case CheckPatternAbsolute pattern of Some why \<Rightarrow> Inl why
      | None \<Rightarrow> case FindSingleGlobStar pattern of Inl why \<Rightarrow> Inl why
      | Inr star \<Rightarrow> case CheckGlobStarBoundaries pattern star of Some why \<Rightarrow> Inl why
      | None \<Rightarrow> case CheckNoTrailingSlash pattern of Some why \<Rightarrow> Inl why
      | None \<Rightarrow>
          let pre = substr pattern 0 star; tail = drop (star + GLOB_STAR_LEN) pattern
          in case CheckPatternSuffix tail of Inl why \<Rightarrow> Inl why
      | Inr starLed \<Rightarrow> case CheckNoUnsupportedMetaChars pattern of Some why \<Rightarrow> Inl why
      | None \<Rightarrow> case CheckPatternPrefix pre of Some why \<Rightarrow> Inl why
      | None \<Rightarrow> Inr \<lparr>fp_prefix = pre, fp_suffix = (if starLed then drop STAR_TAIL_LEAD_LEN tail else tail)\<rparr>)"

section \<open>Utilities\<close>

text \<open>\<open>std::from_chars\<close> on an unsigned 64-bit value: all digits, at least one, and the value must fit.\<close>

definition is_digit :: "char \<Rightarrow> bool" where
  "is_digit c \<longleftrightarrow> 48 \<le> (of_char c :: nat) \<and> (of_char c :: nat) \<le> 57"

definition decimal_value :: "string \<Rightarrow> nat" where
  "decimal_value ds = foldl (\<lambda>n d. 10 * n + ((of_char d :: nat) - 48)) 0 ds"

definition ParseDecimalU64 :: "string \<Rightarrow> u64 option" where
  "ParseDecimalU64 txt =
     (let ds = takeWhile is_digit txt
      in if ds = [] \<or> decimal_value ds \<ge> 2 ^ 64 \<or> ds \<noteq> txt then None else Some (of_nat (decimal_value ds)))"

text \<open>\<open>realpath\<close> is a parameter; the result is the empty string when it fails.\<close>

definition GetRealPath :: "(string \<Rightarrow> string option) \<Rightarrow> string \<Rightarrow> string" where
  "GetRealPath realpath path =
     (if path = [] then [] else case realpath (c_str path) of None \<Rightarrow> [] | Some r \<Rightarrow> r)"

definition IsPathUnder :: "(string \<Rightarrow> string option) \<Rightarrow> string \<Rightarrow> string \<Rightarrow> bool" where
  "IsPathUnder realpath path dir =
     (let realPath = GetRealPath realpath path; realDir = GetRealPath realpath dir
      in if realPath = [] \<or> realDir = [] then False
         else if realDir = ''/'' then realPath ! 0 = CHR ''/''
         else if realPath = realDir then True
         else length realPath > length realDir \<and> substr realPath 0 (length realDir) = realDir \<and>
              realPath ! length realDir = CHR ''/'')"

end
