(* ===== verification/Claw_Config.thy ===== *)
theory Claw_Config
  imports Claw_Glob
begin

text \<open>
  \<open>claw_sandbox/include/sandbox_op_control_policy.h\<close> and the first part of \<open>sandbox_op_control_parser.cpp\<close>: the
  model of \<open>AddOperationControlRuleGroups\<close> and its parser. The JSON library is the record \<open>cjson\<close>; a null item
  is \<open>None\<close>. A parser answers an error code or what it has parsed; what an output parameter held when an error
  was met is not part of the answer, since no caller reads it.
\<close>

section \<open>Wire values\<close>

abbreviation (input) DEC_POLICY_ACTION_ALLOW :: u32 where "DEC_POLICY_ACTION_ALLOW \<equiv> 0"
abbreviation (input) DEC_POLICY_ACTION_DENY :: u32 where "DEC_POLICY_ACTION_DENY \<equiv> 1"
abbreviation (input) DEC_POLICY_ACTION_ASK :: u32 where "DEC_POLICY_ACTION_ASK \<equiv> 2"
abbreviation (input) DEC_POLICY_ACTION_NONE :: u32 where "DEC_POLICY_ACTION_NONE \<equiv> 3"

abbreviation (input) DEC_POLICY_OP_TYPE_NETWORK :: u32 where "DEC_POLICY_OP_TYPE_NETWORK \<equiv> 0"
abbreviation (input) DEC_POLICY_OP_TYPE_FILE :: u32 where "DEC_POLICY_OP_TYPE_FILE \<equiv> 1"
abbreviation (input) DEC_POLICY_OP_TYPE_PROCESS :: u32 where "DEC_POLICY_OP_TYPE_PROCESS \<equiv> 2"

abbreviation (input) DEC_POLICY_ITEM_TYPE_PATH :: u32 where "DEC_POLICY_ITEM_TYPE_PATH \<equiv> 1"
abbreviation (input) DEC_POLICY_ITEM_TYPE_CMD :: u32 where "DEC_POLICY_ITEM_TYPE_CMD \<equiv> 2"
abbreviation (input) DEC_POLICY_ITEM_TYPE_FD :: u32 where "DEC_POLICY_ITEM_TYPE_FD \<equiv> 3"
abbreviation (input) DEC_POLICY_ITEM_TYPE_NR :: u32 where "DEC_POLICY_ITEM_TYPE_NR \<equiv> 4"

abbreviation (input) DEC_POLICY_CMP_EQ :: u32 where "DEC_POLICY_CMP_EQ \<equiv> 0"
abbreviation (input) DEC_POLICY_CMP_PREFIX :: u32 where "DEC_POLICY_CMP_PREFIX \<equiv> 2"
abbreviation (input) DEC_POLICY_CMP_SUFFIX :: u32 where "DEC_POLICY_CMP_SUFFIX \<equiv> 3"
abbreviation (input) DEC_POLICY_CMP_NR :: u32 where "DEC_POLICY_CMP_NR \<equiv> 4"

abbreviation (input) DEC_POLICY_FILE_EVENT_READ :: u32 where "DEC_POLICY_FILE_EVENT_READ \<equiv> 0x5"
abbreviation (input) DEC_POLICY_FILE_EVENT_WRITE :: u32 where "DEC_POLICY_FILE_EVENT_WRITE \<equiv> 0x7A"
abbreviation (input) DEC_POLICY_FILE_EVENT_DELETE :: u32 where "DEC_POLICY_FILE_EVENT_DELETE \<equiv> 0x180"
abbreviation (input) DEC_POLICY_PROCESS_EVENT_EXEC :: u32 where "DEC_POLICY_PROCESS_EVENT_EXEC \<equiv> 1"

abbreviation (input) DEC_POLICY_SCOPE_TYPE_SELF_SESSION :: int where "DEC_POLICY_SCOPE_TYPE_SELF_SESSION \<equiv> 6"

definition PolicyFileNameOfEvent :: "u32 \<Rightarrow> string" where
  "PolicyFileNameOfEvent eventType =
     (if eventType = DEC_POLICY_FILE_EVENT_READ then ''FileRead''
      else if eventType = DEC_POLICY_FILE_EVENT_WRITE then ''FileWrite''
      else if eventType = DEC_POLICY_FILE_EVENT_DELETE then ''FileDelete''
      else ''File'')"

section \<open>The parsed model\<close>

record FileConfig =
  fc_defaultAction :: u32
  fc_denyReadData :: "string list"
  fc_allowReadData :: "string list"
  fc_askReadData :: "string list"
  fc_denyWriteData :: "string list"
  fc_allowWriteData :: "string list"
  fc_askWriteData :: "string list"
  fc_denyDelete :: "string list"
  fc_allowDelete :: "string list"
  fc_askDelete :: "string list"

record ProcessConfig =
  pc_defaultAction :: u32
  pc_denyExecCmd :: "string list"
  pc_allowExecCmd :: "string list"
  pc_askExecCmd :: "string list"

text \<open>\<open>hasNetwork\<close> with its rules is an optional value, and the same for the other modules.\<close>

record RuleGroup =
  rg_scope :: int
  rg_network :: "u32 option"
  rg_file :: "FileConfig option"
  rg_process :: "ProcessConfig option"

section \<open>The JSON library\<close>

record 'j cjson =
  j_item :: "'j \<Rightarrow> string \<Rightarrow> 'j option"
  j_isString :: "'j \<Rightarrow> bool"
  j_isArray :: "'j \<Rightarrow> bool"
  j_isObject :: "'j \<Rightarrow> bool"
  j_string :: "'j \<Rightarrow> string option"
  j_arraySize :: "'j \<Rightarrow> int"
  j_arrayItem :: "'j \<Rightarrow> int \<Rightarrow> 'j option"

type_synonym 'a res = "int + 'a"

definition res_bind :: "'a res \<Rightarrow> ('a \<Rightarrow> 'b res) \<Rightarrow> 'b res" where
  "res_bind m f = (case m of Inl e \<Rightarrow> Inl e | Inr a \<Rightarrow> f a)"

lemma res_bind_simps [simp]: "res_bind (Inl e) f = Inl e" "res_bind (Inr a) f = f a"
  by (simp_all add: res_bind_def)

lemma res_bind_Inr: "res_bind m f = Inr b \<longleftrightarrow> (\<exists>a. m = Inr a \<and> f a = Inr b)"
  by (cases m) simp_all

text \<open>\<open>cJSON_IsString(item) && item->valuestring != nullptr\<close>, with the string.\<close>

definition json_text_of :: "'j cjson \<Rightarrow> 'j option \<Rightarrow> string option" where
  "json_text_of J item = (case item of None \<Rightarrow> None | Some j \<Rightarrow> if j_isString J j then j_string J j else None)"

definition ParseStringField :: "'j cjson \<Rightarrow> 'j \<Rightarrow> string \<Rightarrow> string res" where
  "ParseStringField J root key = (case json_text_of J (j_item J root key) of
       None \<Rightarrow> Inl SANDBOX_ERR_CONFIG_INVALID | Some s \<Rightarrow> Inr s)"

definition ParseOptionalStringField :: "'j cjson \<Rightarrow> 'j \<Rightarrow> string \<Rightarrow> string option res" where
  "ParseOptionalStringField J root key = (case j_item J root key of
       None \<Rightarrow> Inr None
     | Some item \<Rightarrow> (case json_text_of J (Some item) of
           None \<Rightarrow> Inl SANDBOX_ERR_CONFIG_INVALID | Some s \<Rightarrow> Inr (Some s)))"

text \<open>The loop over an array, from an index.\<close>

fun string_items :: "'j cjson \<Rightarrow> 'j \<Rightarrow> nat \<Rightarrow> int \<Rightarrow> string list res" where
  "string_items J array 0 i = Inr []"
| "string_items J array (Suc n) i = (case json_text_of J (j_arrayItem J array i) of
       None \<Rightarrow> Inl SANDBOX_ERR_CONFIG_INVALID
     | Some s \<Rightarrow> res_bind (string_items J array n (i + 1)) (\<lambda>ss. Inr (s # ss)))"

definition ParseOptionalStringArrayField ::
    "'j cjson \<Rightarrow> 'j \<Rightarrow> string \<Rightarrow> (string list \<Rightarrow> int) \<Rightarrow> string list res" where
  "ParseOptionalStringArrayField J root key validate = (case j_item J root key of
       None \<Rightarrow> Inr []
     | Some array \<Rightarrow>
         if \<not> j_isArray J array then Inl SANDBOX_ERR_CONFIG_INVALID
         else res_bind (string_items J array (nat (j_arraySize J array)) 0) (\<lambda>out.
           let vret = validate out in if vret \<noteq> SANDBOX_SUCCESS then Inl vret else Inr out))"

section \<open>Vocabulary\<close>

definition g_ocScopeTypeMap :: "(string \<times> int) list" where
  "g_ocScopeTypeMap =
     [(''global'', 0), (''specific_user'', 1), (''specific_app'', 2), (''self_app'', 3), (''specific_task'', 4),
      (''self_task'', 5), (''self_session'', DEC_POLICY_SCOPE_TYPE_SELF_SESSION)]"

definition g_ocActionMap :: "(string \<times> u32) list" where
  "g_ocActionMap =
     [(''allow'', DEC_POLICY_ACTION_ALLOW), (''deny'', DEC_POLICY_ACTION_DENY), (''ask'', DEC_POLICY_ACTION_ASK),
      (''none'', DEC_POLICY_ACTION_NONE)]"

definition ParseOptionalDefaultAction :: "'j cjson \<Rightarrow> 'j \<Rightarrow> u32 \<Rightarrow> u32 res" where
  "ParseOptionalDefaultAction J obj action =
     res_bind (ParseOptionalStringField J obj ''DefaultAction'') (\<lambda>found. case found of
         None \<Rightarrow> Inr action
       | Some actionStr \<Rightarrow> (case map_of g_ocActionMap actionStr of
             None \<Rightarrow> Inl SANDBOX_ERR_CONFIG_INVALID | Some a \<Rightarrow> Inr a))"

text \<open>\<open>ParseOperationArrayFields\<close>: the table of keys is a list, the vectors it fills are the answer, in order.\<close>

fun ParseOperationArrayFields ::
    "'j cjson \<Rightarrow> 'j \<Rightarrow> string list \<Rightarrow> (string list \<Rightarrow> int) \<Rightarrow> string list list res" where
  "ParseOperationArrayFields J obj [] validate = Inr []"
| "ParseOperationArrayFields J obj (key # keys) validate =
     res_bind (ParseOptionalStringArrayField J obj key validate) (\<lambda>values.
       res_bind (ParseOperationArrayFields J obj keys validate) (\<lambda>rest. Inr (values # rest)))"

section \<open>Modules of a rule group\<close>

definition ParseOperationControlScopeType :: "'j cjson \<Rightarrow> 'j \<Rightarrow> int res" where
  "ParseOperationControlScopeType J scopeObj =
     res_bind (ParseStringField J scopeObj ''Type'') (\<lambda>typeStr. case map_of g_ocScopeTypeMap typeStr of
         None \<Rightarrow> Inl SANDBOX_ERR_CONFIG_INVALID
       | Some ty \<Rightarrow> if ty \<noteq> DEC_POLICY_SCOPE_TYPE_SELF_SESSION then Inl SANDBOX_ERR_CONFIG_INVALID else Inr ty)"

definition ParseOperationControlScope :: "'j cjson \<Rightarrow> 'j \<Rightarrow> int res" where
  "ParseOperationControlScope J ruleGroupItem = (case j_item J ruleGroupItem ''Scope'' of
       None \<Rightarrow> Inl SANDBOX_ERR_CONFIG_INVALID
     | Some scopeObj \<Rightarrow>
         if \<not> j_isObject J scopeObj then Inl SANDBOX_ERR_CONFIG_INVALID
         else ParseOperationControlScopeType J scopeObj)"

definition ParseNetworkOperationControl :: "'j cjson \<Rightarrow> 'j \<Rightarrow> u32 option res" where
  "ParseNetworkOperationControl J ruleGroupItem = (case j_item J ruleGroupItem ''Network'' of
       None \<Rightarrow> Inr None
     | Some networkObj \<Rightarrow>
         if \<not> j_isObject J networkObj then Inl SANDBOX_ERR_CONFIG_INVALID
         else res_bind (ParseStringField J networkObj ''DefaultAction'') (\<lambda>actionStr.
           case map_of g_ocActionMap actionStr of
             None \<Rightarrow> Inl SANDBOX_ERR_CONFIG_INVALID
           | Some a \<Rightarrow> if a \<noteq> DEC_POLICY_ACTION_DENY \<and> a \<noteq> DEC_POLICY_ACTION_ALLOW
                       then Inl SANDBOX_ERR_CONFIG_INVALID else Inr (Some a)))"

fun ValidateFilePatternArray :: "string list \<Rightarrow> int" where
  "ValidateFilePatternArray [] = SANDBOX_SUCCESS"
| "ValidateFilePatternArray (path # paths) =
     (if IsWildcardPattern path \<and> (case ParseFilePattern path of Inl _ \<Rightarrow> True | Inr _ \<Rightarrow> False)
      then SANDBOX_ERR_CONFIG_INVALID else ValidateFilePatternArray paths)"

definition file_keys :: "string list" where
  "file_keys = [''DenyReadData'', ''AllowReadData'', ''AskReadData'', ''DenyWriteData'', ''AllowWriteData'',
     ''AskWriteData'', ''DenyDelete'', ''AllowDelete'', ''AskDelete'']"

definition ParseFileOperationControl :: "'j cjson \<Rightarrow> 'j \<Rightarrow> FileConfig option res" where
  "ParseFileOperationControl J ruleGroupItem = (case j_item J ruleGroupItem ''File'' of
       None \<Rightarrow> Inr None
     | Some fileObj \<Rightarrow>
         if \<not> j_isObject J fileObj then Inl SANDBOX_ERR_CONFIG_INVALID
         else res_bind (ParseOptionalDefaultAction J fileObj DEC_POLICY_ACTION_NONE) (\<lambda>action.
           res_bind (ParseOperationArrayFields J fileObj file_keys ValidateFilePatternArray) (\<lambda>v.
             Inr (Some \<lparr>fc_defaultAction = action,
               fc_denyReadData = v ! 0, fc_allowReadData = v ! 1, fc_askReadData = v ! 2,
               fc_denyWriteData = v ! 3, fc_allowWriteData = v ! 4, fc_askWriteData = v ! 5,
               fc_denyDelete = v ! 6, fc_allowDelete = v ! 7, fc_askDelete = v ! 8\<rparr>))))"

definition IsExecCmdPathful :: "string \<Rightarrow> bool" where
  "IsExecCmdPathful cmd \<longleftrightarrow> CHR ''/'' \<in> set cmd"

definition ValidateExecCmdArray :: "string list \<Rightarrow> int" where
  "ValidateExecCmdArray cmds = (if list_ex IsExecCmdPathful cmds then SANDBOX_ERR_CONFIG_INVALID else SANDBOX_SUCCESS)"

definition process_keys :: "string list" where
  "process_keys = [''DenyExecCmd'', ''AllowExecCmd'', ''AskExecCmd'']"

definition ParseProcessOperationControl :: "'j cjson \<Rightarrow> 'j \<Rightarrow> ProcessConfig option res" where
  "ParseProcessOperationControl J ruleGroupItem = (case j_item J ruleGroupItem ''Process'' of
       None \<Rightarrow> Inr None
     | Some processObj \<Rightarrow>
         if \<not> j_isObject J processObj then Inl SANDBOX_ERR_CONFIG_INVALID
         else res_bind (ParseOptionalDefaultAction J processObj DEC_POLICY_ACTION_NONE) (\<lambda>action.
           res_bind (ParseOperationArrayFields J processObj process_keys ValidateExecCmdArray) (\<lambda>v.
             Inr (Some \<lparr>pc_defaultAction = action, pc_denyExecCmd = v ! 0, pc_allowExecCmd = v ! 1,
               pc_askExecCmd = v ! 2\<rparr>))))"

datatype SandboxPolicyParsePhase = SANDBOX_POLICY_PARSE_STARTUP | SANDBOX_POLICY_PARSE_DYNAMIC

definition EnforcePhaseRules :: "SandboxPolicyParsePhase \<Rightarrow> RuleGroup \<Rightarrow> int" where
  "EnforcePhaseRules phase ruleGroup =
     (if phase = SANDBOX_POLICY_PARSE_DYNAMIC \<and> rg_network ruleGroup \<noteq> None then SANDBOX_ERR_CONFIG_INVALID
      else SANDBOX_SUCCESS)"

definition ParseOperationControlRuleGroupItem :: "'j cjson \<Rightarrow> 'j \<Rightarrow> SandboxPolicyParsePhase \<Rightarrow> RuleGroup res" where
  "ParseOperationControlRuleGroupItem J item phase =
     res_bind (ParseOperationControlScope J item) (\<lambda>scope.
     res_bind (ParseNetworkOperationControl J item) (\<lambda>network.
     res_bind (ParseFileOperationControl J item) (\<lambda>file.
     res_bind (ParseProcessOperationControl J item) (\<lambda>process.
       let ruleGroup = \<lparr>rg_scope = scope, rg_network = network, rg_file = file, rg_process = process\<rparr>;
           ret = EnforcePhaseRules phase ruleGroup
       in if ret \<noteq> SANDBOX_SUCCESS then Inl ret else Inr ruleGroup))))"

fun rule_group_items ::
    "'j cjson \<Rightarrow> 'j \<Rightarrow> SandboxPolicyParsePhase \<Rightarrow> nat \<Rightarrow> int \<Rightarrow> RuleGroup list \<Rightarrow> RuleGroup list res" where
  "rule_group_items J array phase 0 i ruleGroups = Inr ruleGroups"
| "rule_group_items J array phase (Suc n) i ruleGroups = (case j_arrayItem J array i of
       None \<Rightarrow> Inl SANDBOX_ERR_CONFIG_INVALID
     | Some item \<Rightarrow>
         if \<not> j_isObject J item then Inl SANDBOX_ERR_CONFIG_INVALID
         else res_bind (ParseOperationControlRuleGroupItem J item phase) (\<lambda>ruleGroup.
           if list_ex (\<lambda>pushed. rg_scope pushed = rg_scope ruleGroup) ruleGroups then Inl SANDBOX_ERR_CONFIG_INVALID
           else rule_group_items J array phase n (i + 1) (ruleGroups @ [ruleGroup])))"

definition ParseOperationControlRuleGroups ::
    "'j cjson \<Rightarrow> 'j \<Rightarrow> RuleGroup list \<Rightarrow> SandboxPolicyParsePhase \<Rightarrow> RuleGroup list res" where
  "ParseOperationControlRuleGroups J policyObj ruleGroups phase =
     (case j_item J policyObj ''AddOperationControlRuleGroups'' of
        None \<Rightarrow> Inr ruleGroups
      | Some array \<Rightarrow>
          if \<not> j_isArray J array then Inl SANDBOX_ERR_CONFIG_INVALID
          else rule_group_items J array phase (nat (j_arraySize J array)) 0 ruleGroups)"

end
