(* ===== verification/Raw_Data.thy ===== *)
theory Raw_Data
  imports Policy_Types
begin

text \<open>
  The raw buffers that carry vectors over IPC (\<open>frameworks/sandbox_manager/include/*_raw_data.h\<close>): the
  writers, the stream readers, and the batch reader of the service. Integers are little endian, as the
  code copies them byte by byte from memory. The layout of one entry is a \<open>codec\<close>; the loops over entries
  and their bounds are proved once for every codec.
\<close>

section \<open>Little-endian integers\<close>

fun le_bytes :: "nat \<Rightarrow> nat \<Rightarrow> string" where
  "le_bytes 0 n = []"
| "le_bytes (Suc k) n = char_of (n mod 256) # le_bytes k (n div 256)"

fun le_value :: "string \<Rightarrow> nat" where
  "le_value [] = 0"
| "le_value (c # cs) = of_char c + 256 * le_value cs"

lemma le_bytes_length [simp]: "length (le_bytes k n) = k"
  by (induction k arbitrary: n) auto

lemma le_value_bytes: "le_value (le_bytes k n) = n mod 256 ^ k"
proof (induction k arbitrary: n)
  case (Suc k)
  have "n mod 256 + 256 * (n div 256 mod 256 ^ k) = n mod (256 * 256 ^ k)"
    by (simp add: mod_mult2_eq)
  with Suc show ?case by simp
qed simp

lemma le_value_less: "le_value s < 256 ^ length s"
proof (induction s)
  case (Cons c cs)
  have "(of_char c :: nat) < 256" by simp
  with Cons have "of_char c + 256 * le_value cs < 256 * (256 ^ length cs :: nat)" by linarith
  then show ?case by simp
qed simp

definition put_u32 :: "u32 \<Rightarrow> string" where "put_u32 w = le_bytes 4 (unat w)"
definition put_u64 :: "u64 \<Rightarrow> string" where "put_u64 w = le_bytes 8 (unat w)"

text \<open>\<open>ss.read(&v, sizeof(v))\<close> and the test of \<open>fail\<close> and \<open>eof\<close>: \<open>None\<close> when the stream is too short.\<close>

definition get_bytes :: "nat \<Rightarrow> string \<Rightarrow> (string \<times> string) option" where
  "get_bytes n s = (if length s < n then None else Some (take n s, drop n s))"

definition get_u32 :: "string \<Rightarrow> (u32 \<times> string) option" where
  "get_u32 s = map_option (\<lambda>(b, r). (of_nat (le_value b), r)) (get_bytes 4 s)"

definition get_u64 :: "string \<Rightarrow> (u64 \<times> string) option" where
  "get_u64 s = map_option (\<lambda>(b, r). (of_nat (le_value b), r)) (get_bytes 8 s)"

text \<open>Text with its length before it; the reader refuses a length beyond the rest of the stream.\<close>

definition put_text :: "string \<Rightarrow> string" where
  "put_text s = (let len = (of_nat (length s) :: u32) in put_u32 len @ take (unat len) s)"

definition get_text :: "string \<Rightarrow> (string \<times> string) option" where
  "get_text s = (case get_u32 s of
       None \<Rightarrow> None
     | Some (len, r) \<Rightarrow> if len > of_nat (length r) then None else get_bytes (unat len) r)"

section \<open>Codecs\<close>

text \<open>The interface between the layout of one entry and the loops over a buffer. Buffers have a 32-bit size.\<close>

locale codec =
  fixes enc :: "'a \<Rightarrow> string" and dec :: "string \<Rightarrow> ('a \<times> string) option"
    and ok :: "'a \<Rightarrow> bool" and width :: nat
  assumes dec_enc: "ok x \<Longrightarrow> length (enc x @ r) < 2 ^ 32 \<Longrightarrow> dec (enc x @ r) = Some (x, r)"
    and dec_prefix: "dec s = Some (x, r) \<Longrightarrow> \<exists>p. s = p @ r \<and> width \<le> length p"

text \<open>The loop over the entries of a buffer: the entries read before an error stay in the output.\<close>

fun read_list :: "(string \<Rightarrow> ('a \<times> string) option) \<Rightarrow> nat \<Rightarrow> string \<Rightarrow> 'a list \<Rightarrow> int \<times> 'a list" where
  "read_list dec 0 s out = (SANDBOX_MANAGER_OK, out)"
| "read_list dec (Suc n) s out =
     (case dec s of
        None \<Rightarrow> (SANDBOX_MANAGER_SERVICE_PARCEL_ERR, out)
      | Some (x, r) \<Rightarrow> read_list dec n r (out @ [x]))"

context codec
begin

lemma read_list_enc:
  "list_all ok xs \<Longrightarrow> length (concat (map enc xs) @ r) < 2 ^ 32 \<Longrightarrow>
   read_list dec (length xs) (concat (map enc xs) @ r) out = (SANDBOX_MANAGER_OK, out @ xs)"
proof (induction xs arbitrary: out)
  case (Cons x xs)
  then show ?case using dec_enc [of x "concat (map enc xs) @ r"] by simp
qed simp

lemma read_list_bound:
  "read_list dec n s out = (ret, out') \<Longrightarrow>
   \<exists>ys. out' = out @ ys \<and> length ys \<le> n \<and> width * length ys \<le> length s \<and>
        (ret = SANDBOX_MANAGER_OK \<longrightarrow> length ys = n)"
proof (induction n arbitrary: s out)
  case (Suc n)
  show ?case
  proof (cases "dec s")
    case (Some xr)
    obtain x r where xr: "xr = (x, r)" by fastforce
    obtain p where p: "s = p @ r" "width \<le> length p" using dec_prefix Some xr by blast
    have "read_list dec n r (out @ [x]) = (ret, out')" using Suc.prems Some xr by simp
    from Suc.IH [OF this] obtain ys where "out' = (out @ [x]) @ ys" "length ys \<le> n"
      "width * length ys \<le> length r" "ret = SANDBOX_MANAGER_OK \<longrightarrow> length ys = n" by blast
    with p show ?thesis by (intro exI [of _ "x # ys"]) auto
  qed (use Suc.prems in auto)
qed auto

end

text \<open>Two codecs one after the other.\<close>

definition dec_pair ::
  "(string \<Rightarrow> ('a \<times> string) option) \<Rightarrow> (string \<Rightarrow> ('b \<times> string) option) \<Rightarrow> string \<Rightarrow> (('a \<times> 'b) \<times> string) option" where
  "dec_pair d1 d2 s = (case d1 s of
       None \<Rightarrow> None
     | Some (a, r) \<Rightarrow> (case d2 r of None \<Rightarrow> None | Some (b, r') \<Rightarrow> Some ((a, b), r')))"

locale codec_pair = first: codec enc1 dec1 ok1 width1 + second: codec enc2 dec2 ok2 width2
  for enc1 :: "'a \<Rightarrow> string" and dec1 ok1 width1 and enc2 :: "'b \<Rightarrow> string" and dec2 ok2 width2

sublocale codec_pair \<subseteq>
  pair: codec "\<lambda>p. enc1 (fst p) @ enc2 (snd p)" "dec_pair dec1 dec2" "\<lambda>p. ok1 (fst p) \<and> ok2 (snd p)" "width1 + width2"
proof
  fix x :: "'a \<times> 'b" and r
  assume "ok1 (fst x) \<and> ok2 (snd x)" "length ((enc1 (fst x) @ enc2 (snd x)) @ r) < 2 ^ 32"
  then show "dec_pair dec1 dec2 ((enc1 (fst x) @ enc2 (snd x)) @ r) = Some (x, r)"
    using first.dec_enc [of "fst x" "enc2 (snd x) @ r"] second.dec_enc [of "snd x" r]
    by (simp add: dec_pair_def)
next
  fix s x r
  assume "dec_pair dec1 dec2 s = Some (x, r)"
  then obtain a r1 b where d1: "dec1 s = Some (a, r1)" and d2: "dec2 r1 = Some (b, r)"
    by (auto simp: dec_pair_def split: option.splits)
  obtain p where p: "s = p @ r1" "width1 \<le> length p" using first.dec_prefix [OF d1] by blast
  obtain q where "r1 = q @ r" "width2 \<le> length q" using second.dec_prefix [OF d2] by blast
  with p have "s = (p @ q) @ r" "width1 + width2 \<le> length (p @ q)" by auto
  then show "\<exists>p. s = p @ r \<and> width1 + width2 \<le> length p" by blast
qed

lemma get_bytes_exact: "length b = n \<Longrightarrow> get_bytes n (b @ r) = Some (b, r)"
  by (simp add: get_bytes_def)

lemma get_bytes_Some: "get_bytes n s = Some (b, r) \<longleftrightarrow> s = b @ r \<and> length b = n"
  by (auto simp: get_bytes_def)

interpretation u32c: codec put_u32 get_u32 "\<lambda>_. True" 4
proof
  fix x :: u32 and r
  show "get_u32 (put_u32 x @ r) = Some (x, r)"
    using unsigned_less [of x, where ?'a = nat]
    by (simp add: get_u32_def put_u32_def get_bytes_exact le_value_bytes)
qed (auto simp: get_u32_def get_bytes_Some)

interpretation u64c: codec put_u64 get_u64 "\<lambda>_. True" 8
proof
  fix x :: u64 and r
  show "get_u64 (put_u64 x @ r) = Some (x, r)"
    using unsigned_less [of x, where ?'a = nat]
    by (simp add: get_u64_def put_u64_def get_bytes_exact le_value_bytes)
qed (auto simp: get_u64_def get_bytes_Some)

interpretation textc: codec put_text get_text "\<lambda>s. length s < 2 ^ 32" 4
proof
  fix x r :: string
  assume ok: "length x < 2 ^ 32" and len: "length (put_text x @ r) < 2 ^ 32"
  have u: "unat (of_nat (length x) :: u32) = length x" by (rule unat_of_nat_u32 [OF ok])
  then have "length (x @ r) < 2 ^ 32" using len by (simp add: put_text_def)
  then have v: "unat (of_nat (length (x @ r)) :: u32) = length (x @ r)" by (rule unat_of_nat_u32)
  have "\<not> (of_nat (length x) :: u32) > of_nat (length (x @ r))"
    unfolding word_less_nat_alt u v by simp
  moreover have "get_u32 (put_text x @ r) = Some (of_nat (length x), x @ r)"
    using u32c.dec_enc [of "of_nat (length x)" "x @ r"] len u by (simp add: put_text_def)
  ultimately show "get_text (put_text x @ r) = Some (x, r)"
    using u by (simp add: get_text_def get_bytes_exact)
next
  fix s x r
  assume "get_text s = Some (x, r)"
  then obtain len r1 where len: "get_u32 s = Some (len, r1)" and b: "get_bytes (unat len) r1 = Some (x, r)"
    by (auto simp: get_text_def split: option.splits if_splits)
  obtain p where "s = p @ r1" "4 \<le> length p" using u32c.dec_prefix [OF len] by blast
  with b have "s = (p @ x) @ r \<and> 4 \<le> length (p @ x)" by (simp add: get_bytes_Some)
  then show "\<exists>p. s = p @ r \<and> 4 \<le> length p" by blast
qed

end
