(* ===== verification/Raw_Vectors.thy ===== *)
theory Raw_Vectors
  imports Raw_Data
begin

text \<open>
  The four vector buffers and the batch reader: \<open>PolicyVecRawData\<close>, \<open>PolicyVecBatchReader\<close>,
  \<open>BoolVecRawData\<close>, \<open>Uint32VecRawData\<close>, \<open>SharedDirectoryInfoVecRawData\<close> and
  \<open>PermissionStatusInfoVecRawData\<close>.
\<close>

text \<open>\<open>size\<close> and the bytes \<open>data\<close> points to.\<close>

record raw_data =
  rd_size :: u32
  rd_data :: string

definition raw_of :: "string \<Rightarrow> raw_data" where
  "raw_of serializedData = \<lparr>rd_size = of_nat (length serializedData), rd_data = serializedData\<rparr>"

text \<open>\<open>ss.write(data, size)\<close>.\<close>

definition raw_stream :: "raw_data \<Rightarrow> string" where
  "raw_stream d = take (unat (rd_size d)) (rd_data d)"

text \<open>\<open>RawDataCpy\<close>: a private copy of \<open>size\<close> bytes.\<close>

definition RawDataCpy :: "raw_data \<Rightarrow> string \<Rightarrow> int \<times> raw_data" where
  "RawDataCpy d inData = (SANDBOX_MANAGER_OK, d\<lparr>rd_data := take (unat (rd_size d)) inData\<rparr>)"

section \<open>Policies\<close>

definition put_policy :: "PolicyInfo \<Rightarrow> string" where
  "put_policy p = put_text (ppath p) @ put_u64 (pmode p) @ put_u32 (ptype p)"

definition get_policy :: "string \<Rightarrow> (PolicyInfo \<times> string) option" where
  "get_policy s = (case get_text s of
       None \<Rightarrow> None
     | Some (path, r) \<Rightarrow> (case get_u64 r of
         None \<Rightarrow> None
       | Some (mode, r') \<Rightarrow> (case get_u32 r' of
           None \<Rightarrow> None
         | Some (ty, r'') \<Rightarrow> Some (\<lparr>ppath = path, pmode = mode, ptype = ty\<rparr>, r''))))"

definition PolicyVec_Marshalling :: "PolicyInfo list \<Rightarrow> int \<times> raw_data" where
  "PolicyVec_Marshalling inp =
     (let policyNum = (of_nat (length inp) :: u32)
      in (SANDBOX_MANAGER_OK,
          raw_of (put_u32 policyNum @ concat (map put_policy (take (unat policyNum) inp)))))"

definition PolicyVec_Unmarshalling :: "raw_data \<Rightarrow> PolicyInfo list \<Rightarrow> int \<times> PolicyInfo list" where
  "PolicyVec_Unmarshalling d out =
     (case get_u32 (raw_stream d) of
        None \<Rightarrow> (SANDBOX_MANAGER_SERVICE_PARCEL_ERR, out)
      | Some (policyNum, r) \<Rightarrow>
          if policyNum > of_nat POLICY_VEC_MAX_NUM then (SANDBOX_MANAGER_SERVICE_PARCEL_ERR, out)
          else read_list get_policy (unat policyNum) r out)"

section \<open>The batch reader\<close>

record batch_reader =
  dataPtr :: string
  remainingSize :: u32
  policyCount :: u32
  isValid :: bool

definition ReadTo :: "nat \<Rightarrow> batch_reader \<Rightarrow> (nat \<times> batch_reader) option" where
  "ReadTo n rd =
     (if remainingSize rd < of_nat n then None
      else Some (le_value (take n (dataPtr rd)),
                 rd\<lparr>dataPtr := drop n (dataPtr rd), remainingSize := remainingSize rd - of_nat n\<rparr>))"

definition PolicyVecBatchReader :: "raw_data \<Rightarrow> batch_reader" where
  "PolicyVecBatchReader d =
     (let rd = \<lparr>dataPtr = rd_data d, remainingSize = rd_size d, policyCount = 0, isValid = False\<rparr>
      in case ReadTo 4 rd of
           None \<Rightarrow> rd
         | Some (n, rd') \<Rightarrow>
             let rd'' = rd'\<lparr>policyCount := of_nat n\<rparr>
             in if policyCount rd'' > of_nat POLICY_VEC_MAX_NUM then rd'' else rd''\<lparr>isValid := True\<rparr>)"

text \<open>
  One round of \<open>ReadPolicies\<close>: the path is cut at its first null byte, the reader moves past all of it. The
  reader that is answered is the one the round leaves, also when it fails half way.
\<close>

definition ReadPolicy :: "batch_reader \<Rightarrow> PolicyInfo option \<times> batch_reader" where
  "ReadPolicy rd = (case ReadTo 4 rd of
       None \<Rightarrow> (None, rd)
     | Some (n, rd1) \<Rightarrow>
         let pathLen = (of_nat n :: u32)
         in if pathLen > remainingSize rd1 then (None, rd1)
            else let path = c_str (take (unat pathLen) (dataPtr rd1));
                     rd2 = rd1\<lparr>dataPtr := drop (unat pathLen) (dataPtr rd1),
                               remainingSize := remainingSize rd1 - pathLen\<rparr>
              in case ReadTo 8 rd2 of
                   None \<Rightarrow> (None, rd2)
                 | Some (mode, rd3) \<Rightarrow> (case ReadTo 4 rd3 of
                     None \<Rightarrow> (None, rd3)
                   | Some (ty, rd4) \<Rightarrow>
                       (Some \<lparr>ppath = path, pmode = of_nat mode, ptype = of_nat ty\<rparr>, rd4)))"

fun ReadPolicies :: "nat \<Rightarrow> batch_reader \<Rightarrow> PolicyInfo list \<Rightarrow> int \<times> PolicyInfo list \<times> batch_reader" where
  "ReadPolicies 0 rd out = (SANDBOX_MANAGER_OK, out, rd)"
| "ReadPolicies (Suc n) rd out =
     (case ReadPolicy rd of
        (None, rd') \<Rightarrow> (SANDBOX_MANAGER_SERVICE_PARCEL_ERR, out, rd')
      | (Some p, rd') \<Rightarrow> ReadPolicies n rd' (out @ [p]))"

definition ReadNextBatch :: "u32 \<Rightarrow> batch_reader \<Rightarrow> int \<times> PolicyInfo list \<times> batch_reader" where
  "ReadNextBatch count rd =
     (if \<not> isValid rd then (SANDBOX_MANAGER_SERVICE_PARCEL_ERR, [], rd)
      else ReadPolicies (unat count) rd [])"

section \<open>Booleans and integers\<close>

definition BoolVec_Marshalling :: "bool list \<Rightarrow> int \<times> raw_data" where
  "BoolVec_Marshalling inp =
     (let valueNum = (of_nat (length inp) :: u32)
      in (SANDBOX_MANAGER_OK,
          raw_of (put_u32 valueNum @ map (\<lambda>b. if b then CHR ''1'' else CHR ''0'') (take (unat valueNum) inp))))"

text \<open>
  These two readers never test the stream: a count read from fewer than four bytes keeps the bytes read over
  zero, and a value that cannot be read in full is whatever the uninitialised variable holds, the parameter
  \<open>junk\<close> of the element's number.
\<close>

definition read_count :: "string \<Rightarrow> u32" where
  "read_count s = of_nat (le_value (take 4 s))"

definition BoolVec_Unmarshalling :: "(nat \<Rightarrow> char) \<Rightarrow> raw_data \<Rightarrow> bool list \<Rightarrow> int \<times> bool list" where
  "BoolVec_Unmarshalling junk d out =
     (let s = raw_stream d; body = drop 4 s
      in (SANDBOX_MANAGER_OK,
          out @ map (\<lambda>i. (if i < length body then body ! i else junk i) = CHR ''1'')
            [0..<unat (read_count s)]))"

definition Uint32Vec_Marshalling :: "u32 list \<Rightarrow> int \<times> raw_data" where
  "Uint32Vec_Marshalling inp =
     (let valueNum = (of_nat (length inp) :: u32)
      in (SANDBOX_MANAGER_OK, raw_of (put_u32 valueNum @ concat (map put_u32 (take (unat valueNum) inp)))))"

definition Uint32Vec_Unmarshalling :: "(nat \<Rightarrow> u32) \<Rightarrow> raw_data \<Rightarrow> u32 list \<Rightarrow> int \<times> u32 list" where
  "Uint32Vec_Unmarshalling junk d out =
     (let s = raw_stream d; body = drop 4 s
      in (SANDBOX_MANAGER_OK,
          out @ map (\<lambda>i. if 4 * i + 4 \<le> length body then of_nat (le_value (take 4 (drop (4 * i) body))) else junk i)
            [0..<unat (read_count s)]))"

section \<open>Shared directories and permission states\<close>

record SharedDirectoryInfo =
  sd_bundleName :: string
  sd_path :: string
  sd_permissionMode :: u32

abbreviation (input) SHARED_DIRECTORY_VEC_MAX_NUM :: u32 where "SHARED_DIRECTORY_VEC_MAX_NUM \<equiv> 10000"

definition put_shared :: "SharedDirectoryInfo \<Rightarrow> string" where
  "put_shared i = put_text (sd_bundleName i) @ put_text (sd_path i) @ put_u32 (sd_permissionMode i)"

definition SharedDirVec_Marshalling :: "SharedDirectoryInfo list \<Rightarrow> raw_data \<Rightarrow> int \<times> raw_data" where
  "SharedDirVec_Marshalling inp self =
     (let infoNum = (of_nat (length inp) :: u32)
      in if infoNum > SHARED_DIRECTORY_VEC_MAX_NUM then (SANDBOX_MANAGER_SERVICE_PARCEL_ERR, self)
         else (SANDBOX_MANAGER_OK, raw_of (put_u32 infoNum @ concat (map put_shared (take (unat infoNum) inp)))))"

text \<open>This reader bounds a text by the size of the whole buffer before it reads it.\<close>

definition get_text_sized :: "u32 \<Rightarrow> string \<Rightarrow> (string \<times> string) option" where
  "get_text_sized bufSize s = (case get_u32 s of
       None \<Rightarrow> None
     | Some (len, r) \<Rightarrow> if len > bufSize then None else get_bytes (unat len) r)"

definition get_shared :: "u32 \<Rightarrow> string \<Rightarrow> (SharedDirectoryInfo \<times> string) option" where
  "get_shared bufSize s = (case get_text_sized bufSize s of
       None \<Rightarrow> None
     | Some (bundle, r) \<Rightarrow> (case get_text_sized bufSize r of
         None \<Rightarrow> None
       | Some (path, r') \<Rightarrow> (case get_u32 r' of
           None \<Rightarrow> None
         | Some (mode, r'') \<Rightarrow>
             Some (\<lparr>sd_bundleName = bundle, sd_path = path, sd_permissionMode = mode\<rparr>, r''))))"

definition SharedDirVec_Unmarshalling :: "raw_data \<Rightarrow> SharedDirectoryInfo list \<Rightarrow> int \<times> SharedDirectoryInfo list" where
  "SharedDirVec_Unmarshalling d out =
     (case get_u32 (raw_stream d) of
        None \<Rightarrow> (SANDBOX_MANAGER_SERVICE_PARCEL_ERR, out)
      | Some (infoNum, r) \<Rightarrow>
          if infoNum > SHARED_DIRECTORY_VEC_MAX_NUM then (SANDBOX_MANAGER_SERVICE_PARCEL_ERR, out)
          else read_list (get_shared (rd_size d)) (unat infoNum) r out)"

record PermissionStatusInfo =
  ps_tokenId :: u32
  ps_policyInfo :: PolicyInfo
  ps_grantStatus :: u32

abbreviation (input) PERMISSION_STATUS_INFO_VEC_MAX_NUM :: u32 where
  "PERMISSION_STATUS_INFO_VEC_MAX_NUM \<equiv> 10000"

definition WriteSingleInfo :: "PermissionStatusInfo \<Rightarrow> string" where
  "WriteSingleInfo i = put_u32 (ps_tokenId i) @ put_policy (ps_policyInfo i) @ put_u32 (ps_grantStatus i)"

definition ReadSingleInfo :: "string \<Rightarrow> (PermissionStatusInfo \<times> string) option" where
  "ReadSingleInfo s = (case get_u32 s of
       None \<Rightarrow> None
     | Some (tok, r) \<Rightarrow> (case get_policy r of
         None \<Rightarrow> None
       | Some (p, r') \<Rightarrow> (case get_u32 r' of
           None \<Rightarrow> None
         | Some (st, r'') \<Rightarrow>
             Some (\<lparr>ps_tokenId = tok, ps_policyInfo = p, ps_grantStatus = st\<rparr>, r''))))"

definition StatusVec_Marshalling :: "PermissionStatusInfo list \<Rightarrow> raw_data \<Rightarrow> int \<times> raw_data" where
  "StatusVec_Marshalling inp self =
     (let infoNum = (of_nat (length inp) :: u32)
      in if infoNum > PERMISSION_STATUS_INFO_VEC_MAX_NUM then (SANDBOX_MANAGER_SERVICE_PARCEL_ERR, self)
         else (SANDBOX_MANAGER_OK,
               raw_of (put_u32 infoNum @ concat (map WriteSingleInfo (take (unat infoNum) inp)))))"

definition StatusVec_Unmarshalling :: "raw_data \<Rightarrow> PermissionStatusInfo list \<Rightarrow> int \<times> PermissionStatusInfo list" where
  "StatusVec_Unmarshalling d out =
     (case get_u32 (raw_stream d) of
        None \<Rightarrow> (SANDBOX_MANAGER_SERVICE_PARCEL_ERR, out)
      | Some (infoNum, r) \<Rightarrow>
          if infoNum > PERMISSION_STATUS_INFO_VEC_MAX_NUM then (SANDBOX_MANAGER_SERVICE_PARCEL_ERR, out)
          else read_list ReadSingleInfo (unat infoNum) r out)"

section \<open>The entry layouts are codecs\<close>

lemma put_u32_length [simp]: "length (put_u32 w) = 4" by (simp add: put_u32_def)
lemma put_u64_length [simp]: "length (put_u64 w) = 8" by (simp add: put_u64_def)

lemma put_text_small:
  "length s < 2 ^ 32 \<Longrightarrow> put_text s = put_u32 (of_nat (length s)) @ s"
  by (simp add: put_text_def unat_of_nat_u32)

interpretation ints: codec_pair put_u64 get_u64 "\<lambda>_. True" 8 put_u32 get_u32 "\<lambda>_. True" 4
  by (intro codec_pair.intro u64c.codec_axioms u32c.codec_axioms)

interpretation entry: codec_pair put_text get_text "\<lambda>s. length s < 2 ^ 32" 4
    "\<lambda>p. put_u64 (fst p) @ put_u32 (snd p)" "dec_pair get_u64 get_u32" "\<lambda>p. True \<and> True" "8 + 4"
  by (intro codec_pair.intro textc.codec_axioms ints.pair.codec_axioms)

lemma put_policy_pair: "put_policy p = put_text (ppath p) @ put_u64 (pmode p) @ put_u32 (ptype p)"
  by (simp add: put_policy_def)

lemma get_policy_pair:
  "get_policy s = map_option (\<lambda>((t, m, y), r). (\<lparr>ppath = t, pmode = m, ptype = y\<rparr>, r))
     (dec_pair get_text (dec_pair get_u64 get_u32) s)"
  by (auto simp: get_policy_def dec_pair_def split: option.splits)

interpretation policyc: codec put_policy get_policy "\<lambda>p. length (ppath p) < 2 ^ 32" 16
proof
  fix p :: PolicyInfo and r
  assume "length (ppath p) < 2 ^ 32" "length (put_policy p @ r) < 2 ^ 32"
  then show "get_policy (put_policy p @ r) = Some (p, r)"
    using entry.pair.dec_enc [of "(ppath p, pmode p, ptype p)" r]
    by (simp add: get_policy_pair put_policy_def)
next
  fix s p r
  assume "get_policy s = Some (p, r)"
  then obtain x where "dec_pair get_text (dec_pair get_u64 get_u32) s = Some (x, r)"
    by (auto simp: get_policy_pair)
  from entry.pair.dec_prefix [OF this] show "\<exists>q. s = q @ r \<and> 16 \<le> length q" by simp
qed

lemma get_text_sized_put:
  assumes "length x < 2 ^ 32" "length x \<le> unat n"
  shows "get_text_sized n (put_text x @ r) = Some (x, r)"
proof -
  have "get_u32 (put_text x @ r) = Some (of_nat (length x), x @ r)"
    using u32c.dec_enc [of "of_nat (length x)" "x @ r"] assms(1)
    by (simp add: put_text_small get_u32_def put_u32_def get_bytes_exact le_value_bytes unat_of_nat_u32)
  then show ?thesis using assms
    by (simp add: get_text_sized_def get_bytes_exact unat_of_nat_u32 word_less_nat_alt)
qed

lemma get_text_sized_prefix: "get_text_sized n s = Some (x, r) \<Longrightarrow> \<exists>p. s = p @ r \<and> 4 \<le> length p"
proof -
  assume "get_text_sized n s = Some (x, r)"
  then obtain len r1 where len: "get_u32 s = Some (len, r1)" and b: "get_bytes (unat len) r1 = Some (x, r)"
    by (auto simp: get_text_sized_def split: option.splits if_splits)
  obtain p where "s = p @ r1" "4 \<le> length p" using u32c.dec_prefix [OF len] by blast
  with b have "s = (p @ x) @ r \<and> 4 \<le> length (p @ x)" by (simp add: get_bytes_Some)
  then show ?thesis by blast
qed

interpretation sizedc: codec put_text "get_text_sized n" "\<lambda>s. length s < 2 ^ 32 \<and> length s \<le> unat n" 4 for n
  by unfold_locales (auto simp: get_text_sized_put get_text_sized_prefix)

interpretation shared_entry: codec_pair put_text "get_text_sized n" "\<lambda>s. length s < 2 ^ 32 \<and> length s \<le> unat n" 4
    put_text "get_text_sized n" "\<lambda>s. length s < 2 ^ 32 \<and> length s \<le> unat n" 4 for n
  by (intro codec_pair.intro sizedc.codec_axioms)

interpretation shared_mode: codec_pair
    "\<lambda>p. put_text (fst p) @ put_text (snd p)" "dec_pair (get_text_sized n) (get_text_sized n)"
    "\<lambda>p. (length (fst p) < 2 ^ 32 \<and> length (fst p) \<le> unat n) \<and> (length (snd p) < 2 ^ 32 \<and> length (snd p) \<le> unat n)"
    "4 + 4" put_u32 get_u32 "\<lambda>_. True" 4 for n
  by (intro codec_pair.intro shared_entry.pair.codec_axioms u32c.codec_axioms)

lemma get_shared_pair:
  "get_shared n s = map_option (\<lambda>(((b, p), m), r). (\<lparr>sd_bundleName = b, sd_path = p, sd_permissionMode = m\<rparr>, r))
     (dec_pair (dec_pair (get_text_sized n) (get_text_sized n)) get_u32 s)"
  by (auto simp: get_shared_def dec_pair_def split: option.splits)

definition shared_fits :: "u32 \<Rightarrow> SharedDirectoryInfo \<Rightarrow> bool" where
  "shared_fits n i \<longleftrightarrow> length (sd_bundleName i) \<le> unat n \<and> length (sd_path i) \<le> unat n"

lemma unat_u32_less: "unat (n::u32) < 4294967296"
  using unsigned_less [of n, where ?'a = nat] by simp

interpretation sharedc: codec put_shared "get_shared n" "shared_fits n" 12 for n
proof
  fix i :: SharedDirectoryInfo and r
  assume "shared_fits n i" "length (put_shared i @ r) < 2 ^ 32"
  then show "get_shared n (put_shared i @ r) = Some (i, r)"
    using shared_mode.pair.dec_enc [of "((sd_bundleName i, sd_path i), sd_permissionMode i)" n r] unat_u32_less [of n]
    by (simp add: get_shared_pair put_shared_def shared_fits_def)
next
  fix s i r
  assume "get_shared n s = Some (i, r)"
  then obtain x where "dec_pair (dec_pair (get_text_sized n) (get_text_sized n)) get_u32 s = Some (x, r)"
    by (auto simp: get_shared_pair)
  from shared_mode.pair.dec_prefix [OF this] show "\<exists>q. s = q @ r \<and> 12 \<le> length q" by simp
qed

interpretation status_tail: codec_pair put_policy get_policy "\<lambda>p. length (ppath p) < 2 ^ 32" 16
    put_u32 get_u32 "\<lambda>_. True" 4
  by (intro codec_pair.intro policyc.codec_axioms u32c.codec_axioms)

interpretation status_all: codec_pair put_u32 get_u32 "\<lambda>_. True" 4
    "\<lambda>p. put_policy (fst p) @ put_u32 (snd p)" "dec_pair get_policy get_u32"
    "\<lambda>p. length (ppath (fst p)) < 2 ^ 32 \<and> True" "16 + 4"
  by (intro codec_pair.intro status_tail.pair.codec_axioms u32c.codec_axioms)

lemma ReadSingleInfo_pair:
  "ReadSingleInfo s = map_option (\<lambda>((t, p, g), r). (\<lparr>ps_tokenId = t, ps_policyInfo = p, ps_grantStatus = g\<rparr>, r))
     (dec_pair get_u32 (dec_pair get_policy get_u32) s)"
  by (auto simp: ReadSingleInfo_def dec_pair_def split: option.splits)

interpretation statusc: codec WriteSingleInfo ReadSingleInfo "\<lambda>i. length (ppath (ps_policyInfo i)) < 2 ^ 32" 24
proof
  fix i :: PermissionStatusInfo and r
  assume "length (ppath (ps_policyInfo i)) < 2 ^ 32" "length (WriteSingleInfo i @ r) < 2 ^ 32"
  then show "ReadSingleInfo (WriteSingleInfo i @ r) = Some (i, r)"
    using status_all.pair.dec_enc [of "(ps_tokenId i, ps_policyInfo i, ps_grantStatus i)" r]
    by (simp add: ReadSingleInfo_pair WriteSingleInfo_def)
next
  fix s i r
  assume "ReadSingleInfo s = Some (i, r)"
  then obtain x where "dec_pair get_u32 (dec_pair get_policy get_u32) s = Some (x, r)"
    by (auto simp: ReadSingleInfo_pair)
  from status_all.pair.dec_prefix [OF this] show "\<exists>q. s = q @ r \<and> 24 \<le> length q" by simp
qed

end
