(* ===== verification/Claw_Socket.thy ===== *)
theory Claw_Socket
  imports Claw_Glob Raw_Vectors
begin

text \<open>
  \<open>claw_sandbox/src/sandbox_socket.cpp\<close> and \<open>sandbox_socket.h\<close>: the framed messages between the monitor and the
  application. The kernel's side of a connection is the record \<open>chan\<close>: what its next reads and writes answer, and
  the bytes it has accepted. A header travels as the bytes of its packed structure on a little-endian machine.
\<close>

section \<open>Constants\<close>

abbreviation (input) EINTR :: int where "EINTR \<equiv> 4"
abbreviation (input) EAGAIN :: int where "EAGAIN \<equiv> 11"
abbreviation (input) EPIPE :: int where "EPIPE \<equiv> 32"
abbreviation (input) ECONNRESET :: int where "ECONNRESET \<equiv> 104"
abbreviation (input) ENOTCONN :: int where "ENOTCONN \<equiv> 107"

abbreviation (input) SANDBOX_ERR_SOCKET_CLOSED :: int where "SANDBOX_ERR_SOCKET_CLOSED \<equiv> - 28"
abbreviation (input) SANDBOX_ERR_SOCKET_IO :: int where "SANDBOX_ERR_SOCKET_IO \<equiv> - 29"
abbreviation (input) SANDBOX_ERR_SOCKET_WOULD_BLOCK :: int where "SANDBOX_ERR_SOCKET_WOULD_BLOCK \<equiv> - 30"
abbreviation (input) SANDBOX_ERR_SOCKET_MSG_TOO_LARGE :: int where "SANDBOX_ERR_SOCKET_MSG_TOO_LARGE \<equiv> - 31"
abbreviation (input) SANDBOX_ERR_SOCKET_TX_FULL :: int where "SANDBOX_ERR_SOCKET_TX_FULL \<equiv> - 32"
abbreviation (input) SANDBOX_ERR_SOCKET_PROTOCOL :: int where "SANDBOX_ERR_SOCKET_PROTOCOL \<equiv> - 33"
abbreviation (input) SANDBOX_ERR_REQUEST_ID_INVALID :: int where "SANDBOX_ERR_REQUEST_ID_INVALID \<equiv> - 37"
abbreviation (input) SANDBOX_ERR_DEVICE_BUSY :: int where "SANDBOX_ERR_DEVICE_BUSY \<equiv> - 40"
abbreviation (input) SANDBOX_ERR_MONITOR_DEGRADED :: int where "SANDBOX_ERR_MONITOR_DEGRADED \<equiv> - 46"
abbreviation (input) SANDBOX_ERR_EVENT_ANSWER_INVALID :: int where "SANDBOX_ERR_EVENT_ANSWER_INVALID \<equiv> - 48"
abbreviation (input) SANDBOX_ERR_EVENT_UNKNOWN :: int where "SANDBOX_ERR_EVENT_UNKNOWN \<equiv> - 49"

definition SANDBOX_SOCKET_MAGIC :: u32 where "SANDBOX_SOCKET_MAGIC = 0x53424F58"
definition SANDBOX_SOCKET_VERSION :: u32 where "SANDBOX_SOCKET_VERSION = 1"

abbreviation (input) SANDBOX_SOCKET_MSG_ADD_POLICY :: u32 where "SANDBOX_SOCKET_MSG_ADD_POLICY \<equiv> 1"
abbreviation (input) SANDBOX_SOCKET_MSG_EVENT_ANSWER :: u32 where "SANDBOX_SOCKET_MSG_EVENT_ANSWER \<equiv> 2"
abbreviation (input) SANDBOX_SOCKET_MSG_EVENT_REPORT :: u32 where "SANDBOX_SOCKET_MSG_EVENT_REPORT \<equiv> 3"
abbreviation (input) SANDBOX_SOCKET_MSG_RESPONSE :: u32 where "SANDBOX_SOCKET_MSG_RESPONSE \<equiv> 4"

definition MAX_POLICY_JSON_LENGTH :: nat where "MAX_POLICY_JSON_LENGTH = 102400"
definition MAX_EVENT_ANSWER_JSON_LENGTH :: nat where "MAX_EVENT_ANSWER_JSON_LENGTH = 256"
definition MAX_BODY_LENGTH :: nat where "MAX_BODY_LENGTH = 100 * 1024"
definition SOCKET_HEADER_LENGTH :: nat where "SOCKET_HEADER_LENGTH = 40"
definition MAX_TX_BUFFER_SIZE :: nat where "MAX_TX_BUFFER_SIZE = MAX_BODY_LENGTH + SOCKET_HEADER_LENGTH"
definition DISCARD_CHUNK_SIZE :: nat where "DISCARD_CHUNK_SIZE = 4096"

section \<open>Response codes\<close>

text \<open>A code as its 32 bits; \<open>SandboxResponseCode\<close> is their signed reading.\<close>

definition MakeResponseCode :: "u32 \<Rightarrow> u32 \<Rightarrow> int" where
  "MakeResponseCode category index = sint (0xFFFF0000 OR push_bit 8 category OR index)"

definition SANDBOX_RSP_OK :: int where "SANDBOX_RSP_OK = 0"
definition SANDBOX_RSP_INTERNAL :: int where "SANDBOX_RSP_INTERNAL = MakeResponseCode 4 1"
definition SANDBOX_RSP_PARTIAL :: int where "SANDBOX_RSP_PARTIAL = MakeResponseCode 5 1"

definition RESPONSE_CODE_TABLE :: "(int \<times> int) list" where
  "RESPONSE_CODE_TABLE =
     [(SANDBOX_SUCCESS, SANDBOX_RSP_OK),
      (SANDBOX_ERR_REQUEST_ID_INVALID, MakeResponseCode 1 2), (SANDBOX_ERR_SOCKET_PROTOCOL, MakeResponseCode 1 3),
      (SANDBOX_ERR_EVENT_ANSWER_INVALID, MakeResponseCode 1 1), (SANDBOX_ERR_CONFIG_INVALID, MakeResponseCode 1 1),
      (SANDBOX_ERR_SOCKET_MSG_TOO_LARGE, MakeResponseCode 1 4), (SANDBOX_ERR_EVENT_UNKNOWN, MakeResponseCode 2 1),
      (SANDBOX_ERR_MONITOR_DEGRADED, MakeResponseCode 2 2), (SANDBOX_ERR_DEVICE_BUSY, MakeResponseCode 3 1),
      (SANDBOX_ERR_SET_POLICY_PARTIAL, SANDBOX_RSP_PARTIAL)]"

definition ToResponseCode :: "int \<Rightarrow> int" where
  "ToResponseCode internalError = (case map_of RESPONSE_CODE_TABLE internalError of
       Some responseCode \<Rightarrow> responseCode | None \<Rightarrow> SANDBOX_RSP_INTERNAL)"

section \<open>Headers\<close>

record MessageHeader =
  mh_magic :: u32
  mh_version :: u32
  mh_bodyLength :: u32
  mh_msgType :: u32
  mh_requestId :: u32
  mh_result :: int
  mh_reserved :: string

definition header_bytes :: "MessageHeader \<Rightarrow> string" where
  "header_bytes h = put_u32 (mh_magic h) @ put_u32 (mh_version h) @ put_u32 (mh_bodyLength h) @ put_u32 (mh_msgType h) @
     put_u32 (mh_requestId h) @ put_u32 (word_of_int (mh_result h)) @ mh_reserved h"

definition u32_at :: "nat \<Rightarrow> string \<Rightarrow> u32" where
  "u32_at k bs = of_nat (le_value (take 4 (drop k bs)))"

definition header_of :: "string \<Rightarrow> MessageHeader" where
  "header_of bs = \<lparr>mh_magic = u32_at 0 bs, mh_version = u32_at 4 bs, mh_bodyLength = u32_at 8 bs, mh_msgType = u32_at 12 bs,
     mh_requestId = u32_at 16 bs, mh_result = sint (u32_at 20 bs), mh_reserved = drop 24 bs\<rparr>"

record ParsedMessage =
  pm_header :: MessageHeader
  pm_body :: string
  pm_rejectReason :: int

section \<open>The kernel's side\<close>

text \<open>
  The bytes of a stream arrive in segments of any size; \<open>Errno\<close> is a read that fails, \<open>Eof\<close> the end of the stream.
  Nothing left means \<open>EAGAIN\<close>. A write takes at most the given number of bytes, or fails.
\<close>

datatype rx = Data string | Eof | Errno int
datatype tx = Accept nat | TxErrno int

record chan =
  ch_rx :: "rx list"
  ch_tx :: "tx list"
  ch_wire :: string

fun sock_read :: "nat \<Rightarrow> rx list \<Rightarrow> rx \<times> rx list" where
  "sock_read n [] = (Errno EAGAIN, [])"
| "sock_read n (Data s # script) =
     (if n = 0 then (Eof, Data s # script)
      else if s = [] then sock_read n script
      else (Data (take n s), if length s \<le> n then script else Data (drop n s) # script))"
| "sock_read n (Eof # script) = (Eof, Eof # script)"
| "sock_read n (Errno e # script) = (Errno e, script)"

section \<open>Receiving\<close>

datatype ReadStep = PROGRESSED | DRAINED | FAILED
datatype SocketReadState = SOCKET_STATE_READING_HEADER | SOCKET_STATE_READING_BODY | SOCKET_STATE_DISCARDING_BODY

text \<open>
  The buffers of a socket. \<open>sk_header\<close> are the bytes of the header read so far (\<open>headerBytesRead_\<close> is their number) and
  \<open>sk_body\<close> those of the body (\<open>bodyBytesRead_\<close>).
\<close>

record sock =
  sk_readState :: SocketReadState
  sk_header :: string
  sk_body :: string
  sk_discard :: nat
  sk_readError :: int
  sk_tx :: string
  sk_txOffset :: nat

definition new_sock :: sock where
  "new_sock = \<lparr>sk_readState = SOCKET_STATE_READING_HEADER, sk_header = [], sk_body = [], sk_discard = 0,
     sk_readError = SANDBOX_SUCCESS, sk_tx = [], sk_txOffset = 0\<rparr>"

definition ResetReadState :: "sock \<Rightarrow> sock" where
  "ResetReadState sk = sk\<lparr>sk_readState := SOCKET_STATE_READING_HEADER, sk_header := [], sk_body := [], sk_discard := 0\<rparr>"

definition MaxBodyLengthForType :: "u32 \<Rightarrow> nat" where
  "MaxBodyLengthForType msgType =
     (if msgType = SANDBOX_SOCKET_MSG_ADD_POLICY then MAX_POLICY_JSON_LENGTH
      else if msgType = SANDBOX_SOCKET_MSG_EVENT_ANSWER then MAX_EVENT_ANSWER_JSON_LENGTH
      else MAX_BODY_LENGTH)"

definition ValidateProtocol :: "MessageHeader \<Rightarrow> int" where
  "ValidateProtocol h =
     (if mh_magic h \<noteq> SANDBOX_SOCKET_MAGIC then SANDBOX_ERR_SOCKET_PROTOCOL
      else if mh_version h \<noteq> SANDBOX_SOCKET_VERSION then SANDBOX_ERR_SOCKET_PROTOCOL
      else SANDBOX_SUCCESS)"

definition ValidateBodyLength :: "MessageHeader \<Rightarrow> int" where
  "ValidateBodyLength h =
     (if unat (mh_bodyLength h) > MaxBodyLengthForType (mh_msgType h) then SANDBOX_ERR_SOCKET_MSG_TOO_LARGE
      else SANDBOX_SUCCESS)"

text \<open>What the three reading functions share: a read that brings no bytes.\<close>

definition read_nothing :: "rx \<Rightarrow> sock \<Rightarrow> ReadStep \<times> sock" where
  "read_nothing answer sk = (case answer of
       Errno e \<Rightarrow> if e = EINTR then (PROGRESSED, sk)
         else if e = EAGAIN then (DRAINED, sk)
         else (FAILED, sk\<lparr>sk_readError := SANDBOX_ERR_SOCKET_IO\<rparr>)
     | _ \<Rightarrow> (FAILED, sk\<lparr>sk_readError := SANDBOX_ERR_SOCKET_CLOSED\<rparr>))"

text \<open>The bytes of a step are given to these; they answer the step, the socket and the messages that are complete.\<close>

definition take_header :: "string \<Rightarrow> sock \<Rightarrow> ReadStep \<times> sock \<times> ParsedMessage list" where
  "take_header s sk =
     (let sk = sk\<lparr>sk_header := sk_header sk @ s\<rparr>
      in if length (sk_header sk) \<noteq> SOCKET_HEADER_LENGTH then (PROGRESSED, sk, [])
         else
           let h = header_of (sk_header sk);
               sk = sk\<lparr>sk_readError := ValidateProtocol h\<rparr>
           in if sk_readError sk \<noteq> SANDBOX_SUCCESS then (FAILED, sk, [])
              else if ValidateBodyLength h \<noteq> SANDBOX_SUCCESS then
                (PROGRESSED, sk\<lparr>sk_discard := unat (mh_bodyLength h), sk_readState := SOCKET_STATE_DISCARDING_BODY\<rparr>, [])
              else if mh_bodyLength h = 0 then
                (PROGRESSED, ResetReadState sk, [\<lparr>pm_header = h, pm_body = [], pm_rejectReason = SANDBOX_SUCCESS\<rparr>])
              else (PROGRESSED, sk\<lparr>sk_body := [], sk_readState := SOCKET_STATE_READING_BODY\<rparr>, []))"

definition take_body :: "string \<Rightarrow> sock \<Rightarrow> ReadStep \<times> sock \<times> ParsedMessage list" where
  "take_body s sk =
     (let sk = sk\<lparr>sk_body := sk_body sk @ s\<rparr>; h = header_of (sk_header sk)
      in if length (sk_body sk) \<noteq> unat (mh_bodyLength h) then (PROGRESSED, sk, [])
         else (PROGRESSED, ResetReadState sk, [\<lparr>pm_header = h, pm_body = sk_body sk, pm_rejectReason = SANDBOX_SUCCESS\<rparr>]))"

definition drop_body :: "string \<Rightarrow> sock \<Rightarrow> ReadStep \<times> sock \<times> ParsedMessage list" where
  "drop_body s sk =
     (let sk = sk\<lparr>sk_discard := sk_discard sk - length s\<rparr>
      in if sk_discard sk = 0 then
           (PROGRESSED, ResetReadState sk,
            [\<lparr>pm_header = header_of (sk_header sk), pm_body = [], pm_rejectReason = SANDBOX_ERR_SOCKET_MSG_TOO_LARGE\<rparr>])
         else (PROGRESSED, sk, []))"

definition reading :: "nat \<Rightarrow> (string \<Rightarrow> sock \<Rightarrow> ReadStep \<times> sock \<times> ParsedMessage list) \<Rightarrow> sock \<Rightarrow> rx list \<Rightarrow>
    ReadStep \<times> sock \<times> ParsedMessage list \<times> rx list" where
  "reading bytesToRead consume sk script = (case sock_read bytesToRead script of
       (Data s, script') \<Rightarrow> (case consume s sk of (step, sk', out) \<Rightarrow> (step, sk', out, script'))
     | (answer, script') \<Rightarrow> (case read_nothing answer sk of (step, sk') \<Rightarrow> (step, sk', [], script')))"

definition ProcessHeader :: "sock \<Rightarrow> rx list \<Rightarrow> ReadStep \<times> sock \<times> ParsedMessage list \<times> rx list" where
  "ProcessHeader sk = reading (SOCKET_HEADER_LENGTH - length (sk_header sk)) take_header sk"

definition ProcessBody :: "sock \<Rightarrow> rx list \<Rightarrow> ReadStep \<times> sock \<times> ParsedMessage list \<times> rx list" where
  "ProcessBody sk = reading (unat (mh_bodyLength (header_of (sk_header sk))) - length (sk_body sk)) take_body sk"

definition DiscardBody :: "sock \<Rightarrow> rx list \<Rightarrow> ReadStep \<times> sock \<times> ParsedMessage list \<times> rx list" where
  "DiscardBody sk = reading (min (sk_discard sk) DISCARD_CHUNK_SIZE) drop_body sk"

definition read_step :: "sock \<Rightarrow> rx list \<Rightarrow> ReadStep \<times> sock \<times> ParsedMessage list \<times> rx list" where
  "read_step sk script = (case sk_readState sk of
       SOCKET_STATE_READING_HEADER \<Rightarrow> ProcessHeader sk script
     | SOCKET_STATE_READING_BODY \<Rightarrow> ProcessBody sk script
     | SOCKET_STATE_DISCARDING_BODY \<Rightarrow> DiscardBody sk script)"

text \<open>What is left to read, as a bound on the number of steps.\<close>

definition rx_weight :: "rx list \<Rightarrow> nat" where
  "rx_weight script = sum_list (map (\<lambda>a. case a of Data s \<Rightarrow> Suc (length s) | _ \<Rightarrow> 1) script)"

lemma sock_read_Data_weight: "sock_read n script = (Data s, script') \<Longrightarrow> rx_weight script' < rx_weight script"
  by (induction n script rule: sock_read.induct) (auto simp: rx_weight_def split: if_splits)

lemma sock_read_Errno_weight: "sock_read n script = (Errno e, script') \<Longrightarrow> rx_weight script' < rx_weight script \<or> e = EAGAIN"
  by (induction n script rule: sock_read.induct) (auto simp: rx_weight_def split: if_splits)

lemma read_step_progress:
  assumes "read_step sk script = (PROGRESSED, sk', out, script')"
  shows "rx_weight script' < rx_weight script"
proof -
  obtain n consume where "reading n consume sk script = (PROGRESSED, sk', out, script')"
    using assms by (auto simp: read_step_def ProcessHeader_def ProcessBody_def DiscardBody_def split: SocketReadState.splits)
  then show ?thesis
    by (auto simp: reading_def read_nothing_def split: prod.splits rx.splits if_splits
        dest: sock_read_Data_weight sock_read_Errno_weight)
qed

function OnReadable :: "sock \<Rightarrow> rx list \<Rightarrow> int \<times> sock \<times> ParsedMessage list \<times> rx list" where
  "OnReadable sk script = (case read_step sk script of
       (PROGRESSED, sk', out, script') \<Rightarrow> (case OnReadable sk' script' of (ret, sk'', outs, rest) \<Rightarrow> (ret, sk'', out @ outs, rest))
     | (DRAINED, sk', out, script') \<Rightarrow> (SANDBOX_SUCCESS, sk', out, script')
     | (FAILED, sk', out, script') \<Rightarrow> (sk_readError sk', sk', out, script'))"
  by pat_completeness auto
termination by (relation "measure (rx_weight \<circ> snd)") (auto dest: read_step_progress [OF sym])

declare OnReadable.simps [simp del]

section \<open>Sending\<close>

definition HasPendingTxData :: "sock \<Rightarrow> bool" where
  "HasPendingTxData sk \<longleftrightarrow> sk_txOffset sk < length (sk_tx sk)"

text \<open>The loop of \<open>FlushTxBuffer\<close> over what the writes answer; a write to a full kernel answers \<open>EAGAIN\<close>.\<close>

fun flush_loop :: "sock \<Rightarrow> tx list \<Rightarrow> string \<Rightarrow> int \<times> sock \<times> tx list \<times> string" where
  "flush_loop sk [] wire =
     (if HasPendingTxData sk then (SANDBOX_SUCCESS, sk, [], wire) else (SANDBOX_SUCCESS, sk\<lparr>sk_tx := [], sk_txOffset := 0\<rparr>, [], wire))"
| "flush_loop sk (answer # script) wire =
     (if \<not> HasPendingTxData sk then (SANDBOX_SUCCESS, sk\<lparr>sk_tx := [], sk_txOffset := 0\<rparr>, answer # script, wire)
      else
        let data = drop (sk_txOffset sk) (sk_tx sk)
        in case answer of
             Accept k \<Rightarrow>
               if min k (length data) > 0 then
                 flush_loop (sk\<lparr>sk_txOffset := sk_txOffset sk + min k (length data)\<rparr>) script (wire @ take k data)
               else (SANDBOX_ERR_SOCKET_IO, sk, script, wire)
           | TxErrno e \<Rightarrow>
               if e = EINTR then flush_loop sk script wire
               else if e = EAGAIN then (SANDBOX_SUCCESS, sk, script, wire)
               else if e = EPIPE \<or> e = ECONNRESET \<or> e = ENOTCONN then (SANDBOX_ERR_SOCKET_CLOSED, sk, script, wire)
               else (SANDBOX_ERR_SOCKET_IO, sk, script, wire))"

definition FlushTxBuffer :: "sock \<Rightarrow> chan \<Rightarrow> int \<times> sock \<times> chan" where
  "FlushTxBuffer sk ch = (case flush_loop sk (ch_tx ch) (ch_wire ch) of
       (ret, sk', script, wire) \<Rightarrow> (ret, sk', ch\<lparr>ch_tx := script, ch_wire := wire\<rparr>))"

definition CompactTxBuffer :: "nat \<Rightarrow> sock \<Rightarrow> sock" where
  "CompactTxBuffer appendLength sk =
     (if sk_txOffset sk = 0 \<or> length (sk_tx sk) \<le> MAX_TX_BUFFER_SIZE - appendLength then sk
      else sk\<lparr>sk_tx := drop (sk_txOffset sk) (sk_tx sk), sk_txOffset := 0\<rparr>)"

definition frame :: "u32 \<Rightarrow> string \<Rightarrow> u32 \<Rightarrow> int \<Rightarrow> string" where
  "frame msgType body requestId result =
     header_bytes \<lparr>mh_magic = SANDBOX_SOCKET_MAGIC, mh_version = SANDBOX_SOCKET_VERSION, mh_bodyLength = of_nat (length body),
       mh_msgType = msgType, mh_requestId = requestId, mh_result = result, mh_reserved = replicate 16 (CHR 0x00)\<rparr> @ body"

definition QueueMessage :: "u32 \<Rightarrow> string \<Rightarrow> u32 \<Rightarrow> int \<Rightarrow> sock \<Rightarrow> chan \<Rightarrow> int \<times> sock \<times> chan" where
  "QueueMessage msgType body requestId result sk ch =
     (if length body > MAX_BODY_LENGTH then (SANDBOX_ERR_SOCKET_MSG_TOO_LARGE, sk, ch)
      else
        let messageLength = SOCKET_HEADER_LENGTH + length body;
            pendingLength = length (sk_tx sk) - sk_txOffset sk
        in if messageLength > MAX_TX_BUFFER_SIZE \<or> pendingLength > MAX_TX_BUFFER_SIZE - messageLength
           then (SANDBOX_ERR_SOCKET_TX_FULL, sk, ch)
           else
             let sk = CompactTxBuffer messageLength sk
             in FlushTxBuffer (sk\<lparr>sk_tx := sk_tx sk @ frame msgType body requestId result\<rparr>) ch)"

definition SendMessage :: "u32 \<Rightarrow> string \<Rightarrow> sock \<Rightarrow> chan \<Rightarrow> int \<times> sock \<times> chan" where
  "SendMessage msgType body = QueueMessage msgType body 0 SANDBOX_SUCCESS"

definition SendResponse :: "u32 \<Rightarrow> int \<Rightarrow> string \<Rightarrow> sock \<Rightarrow> chan \<Rightarrow> int \<times> sock \<times> chan" where
  "SendResponse requestId result body = QueueMessage SANDBOX_SOCKET_MSG_RESPONSE body requestId result"

definition OnWritable :: "sock \<Rightarrow> chan \<Rightarrow> int \<times> sock \<times> chan" where
  "OnWritable sk ch = FlushTxBuffer sk ch"

end
