(* ===== verification/Claw_Cmd.thy ===== *)
theory Claw_Cmd
  imports Claw_Config Claw_Socket Complex_Main
begin

text \<open>
  \<open>claw_sandbox/src/sandbox_cmd_parser.cpp\<close>: the configuration on the command line. The JSON library is the record
  \<open>cjson_doc\<close>, an extension of \<open>cjson\<close>; a number is a rational (an infinite one any value beyond the bounds). A step
  answers an error code or what it has parsed; the shell sandbox is built in, and \<open>pcMode\<close> is the answer of
  \<open>IsPcMode(true)\<close>. Messages on the standard error are left out.
\<close>

record 'j cjson_doc = "'j cjson" +
  j_itemCase :: "'j \<Rightarrow> string \<Rightarrow> 'j option"
  j_isNumber :: "'j \<Rightarrow> bool"
  j_number :: "'j \<Rightarrow> rat"
  j_children :: "'j \<Rightarrow> (string option \<times> 'j) list"
  j_parse :: "string \<Rightarrow> 'j option"
  j_print :: "'j \<Rightarrow> string option"

abbreviation (input) json_of :: "'j cjson_doc \<Rightarrow> 'j cjson" where "json_of D \<equiv> cjson.truncate D"

section \<open>Limits\<close>

definition MAX_JSON_DEPTH :: nat where "MAX_JSON_DEPTH = 10"
definition DOUBLE_SAFE_MAX :: rat where "DOUBLE_SAFE_MAX = 9007199254740992"
definition UINT32_MAX_VALUE :: rat where "UINT32_MAX_VALUE = 4294967295"
definition MAX_NAME_LENGTH :: nat where "MAX_NAME_LENGTH = 64"
definition MAX_CLI_NAME_LENGTH :: nat where "MAX_CLI_NAME_LENGTH = 256"
definition MAX_SUB_CLI_NAME_LENGTH :: nat where "MAX_SUB_CLI_NAME_LENGTH = 256"
definition MAX_CHALLENGE_LENGTH :: nat where "MAX_CHALLENGE_LENGTH = 40960"
definition MAX_APP_IDENTIFIER_LENGTH :: nat where "MAX_APP_IDENTIFIER_LENGTH = 64"
definition MAX_SUBJECT_ID_LENGTH :: nat where "MAX_SUBJECT_ID_LENGTH = 4096"
definition MAX_BUNDLE_NAME_LENGTH :: nat where "MAX_BUNDLE_NAME_LENGTH = 256"
definition MAX_WORKDIR_LENGTH :: nat where "MAX_WORKDIR_LENGTH = 1024"
definition MAX_ENV_LENGTH :: nat where "MAX_ENV_LENGTH = 10240"
definition MAX_TYPE_LENGTH :: nat where "MAX_TYPE_LENGTH = 10"
definition MAX_NS_FLAGS_COUNT :: nat where "MAX_NS_FLAGS_COUNT = 10"
definition MAX_NS_FLAG_STRING_LENGTH :: nat where "MAX_NS_FLAG_STRING_LENGTH = 24"
definition MAX_POLICY_MOUNTS_COUNT :: int where "MAX_POLICY_MOUNTS_COUNT = 1024"

abbreviation (input) CLONE_NEWNS :: u32 where "CLONE_NEWNS \<equiv> 0x00020000"
abbreviation (input) CLONE_NEWUTS :: u32 where "CLONE_NEWUTS \<equiv> 0x04000000"
abbreviation (input) CLONE_NEWIPC :: u32 where "CLONE_NEWIPC \<equiv> 0x08000000"
abbreviation (input) CLONE_NEWUSER :: u32 where "CLONE_NEWUSER \<equiv> 0x10000000"
abbreviation (input) CLONE_NEWPID :: u32 where "CLONE_NEWPID \<equiv> 0x20000000"
abbreviation (input) CLONE_NEWNET :: u32 where "CLONE_NEWNET \<equiv> 0x40000000"
definition DEFAULT_NS_FLAGS :: u32 where "DEFAULT_NS_FLAGS = CLONE_NEWNS"

section \<open>The text of a document\<close>

definition CheckShellTypeAllowed :: "bool \<Rightarrow> int" where
  "CheckShellTypeAllowed pcMode = (if pcMode then SANDBOX_SUCCESS else SANDBOX_ERR_CONFIG_INVALID)"

text \<open>The scan of \<open>CheckJsonDepth\<close> on the rest of the text.\<close>

fun depth_scan :: "nat \<Rightarrow> bool \<Rightarrow> string \<Rightarrow> int" where
  "depth_scan depth inString [] = SANDBOX_SUCCESS"
| "depth_scan depth True [c] = depth_scan depth (c \<noteq> CHR 0x22) []"
| "depth_scan depth True (c # d # cs) =
     (if c = CHR 0x5C then depth_scan depth True cs
      else depth_scan depth (c \<noteq> CHR 0x22) (d # cs))"
| "depth_scan depth False (c # cs) =
     (if c = CHR 0x22 then depth_scan depth True cs
      else if c = CHR ''{'' \<or> c = CHR ''['' then
        (if depth + 1 > MAX_JSON_DEPTH then SANDBOX_ERR_CONFIG_INVALID else depth_scan (depth + 1) False cs)
      else if c = CHR ''}'' \<or> c = CHR '']'' then depth_scan (depth - 1) False cs
      else depth_scan depth False cs)"

definition CheckJsonDepth :: "string \<Rightarrow> int" where
  "CheckJsonDepth jsonStr = depth_scan 0 False jsonStr"

section \<open>Objects that may come as text\<close>

definition ExtractFieldString :: "'j cjson_doc \<Rightarrow> 'j \<Rightarrow> (string \<times> bool) res" where
  "ExtractFieldString D object =
     (if j_isObject D object then Inr (case j_print D object of None \<Rightarrow> [] | Some s \<Rightarrow> s, True)
      else case json_text_of (json_of D) (Some object) of
          Some s \<Rightarrow> Inr (s, False) | None \<Rightarrow> Inl SANDBOX_ERR_CONFIG_INVALID)"

definition ValidateJsonConstraints :: "string \<Rightarrow> nat \<Rightarrow> int" where
  "ValidateJsonConstraints jsonStr maxLen =
     (if length jsonStr > maxLen then SANDBOX_ERR_CONFIG_INVALID else CheckJsonDepth jsonStr)"

definition GetOptionalObjectField :: "'j cjson_doc \<Rightarrow> 'j \<Rightarrow> string \<Rightarrow> nat \<Rightarrow> 'j option res" where
  "GetOptionalObjectField D rt key maxLen = (case j_item D rt key of
       None \<Rightarrow> Inr None
     | Some object \<Rightarrow> res_bind (ExtractFieldString D object) (\<lambda>(objectStr, isNativeObject).
         if \<not> isNativeObject \<and> objectStr = [] then Inr None
         else
           let ret = ValidateJsonConstraints objectStr maxLen
           in if ret \<noteq> SANDBOX_SUCCESS then Inl ret
              else if isNativeObject then Inr (Some object)
              else case j_parse D (c_str objectStr) of
                  Some parsedObject \<Rightarrow> if j_isObject D parsedObject then Inr (Some parsedObject) else Inl SANDBOX_ERR_CONFIG_INVALID
                | None \<Rightarrow> Inl SANDBOX_ERR_CONFIG_INVALID))"

section \<open>Numbers\<close>

text \<open>\<open>cJSON_IsNumber(item)\<close>, with the number.\<close>

definition number_of :: "'j cjson_doc \<Rightarrow> 'j option \<Rightarrow> rat option" where
  "number_of D item = (case item of None \<Rightarrow> None | Some j \<Rightarrow> if j_isNumber D j then Some (j_number D j) else None)"

definition ParseUint64Field :: "'j cjson_doc \<Rightarrow> 'j \<Rightarrow> string \<Rightarrow> u64 res" where
  "ParseUint64Field D rt key = (case number_of D (j_item D rt key) of
       None \<Rightarrow> Inl SANDBOX_ERR_CONFIG_INVALID
     | Some d \<Rightarrow> if d \<ge> 0 \<and> d \<le> DOUBLE_SAFE_MAX then Inr (word_of_int (floor d)) else Inl SANDBOX_ERR_CONFIG_INVALID)"

definition ParseUint32Field :: "'j cjson_doc \<Rightarrow> 'j \<Rightarrow> string \<Rightarrow> u32 res" where
  "ParseUint32Field D rt key = (case number_of D (j_item D rt key) of
       None \<Rightarrow> Inl SANDBOX_ERR_CONFIG_INVALID
     | Some d \<Rightarrow> if d < 0 \<or> d > UINT32_MAX_VALUE then Inl SANDBOX_ERR_CONFIG_INVALID else Inr (word_of_int (floor d)))"

text \<open>A conversion to an integer cuts towards zero.\<close>

definition ParseInt32Field :: "'j cjson_doc \<Rightarrow> 'j \<Rightarrow> string \<Rightarrow> int res" where
  "ParseInt32Field D rt key = (case number_of D (j_item D rt key) of
       None \<Rightarrow> Inl SANDBOX_ERR_CONFIG_INVALID
     | Some d \<Rightarrow> if d < - 2147483648 \<or> d > 2147483647 then Inl SANDBOX_ERR_CONFIG_INVALID
                 else Inr (if d \<ge> 0 then floor d else - floor (- d)))"

text \<open>\<open>strtoull\<close> with base 0: white space, a sign, the base's prefix, digits; the value, what follows, and the erange error.\<close>

definition digit_value :: "char \<Rightarrow> nat" where
  "digit_value c =
     (let n = (of_char c :: nat)
      in if 48 \<le> n \<and> n \<le> 57 then n - 48 else if 97 \<le> n \<and> n \<le> 122 then n - 87 else if 65 \<le> n \<and> n \<le> 90 then n - 55 else 99)"

definition is_space :: "char \<Rightarrow> bool" where
  "is_space c \<longleftrightarrow> (let n = (of_char c :: nat) in n = 32 \<or> (9 \<le> n \<and> n \<le> 13))"

definition number_base :: "string \<Rightarrow> nat \<times> string" where
  "number_base s =
     (case s of
        z # x # d # r \<Rightarrow>
          if z = CHR ''0'' \<and> (x = CHR ''x'' \<or> x = CHR ''X'') \<and> digit_value d < 16 then (16, d # r)
          else if z = CHR ''0'' then (8, s) else (10, s)
      | z # r \<Rightarrow> if z = CHR ''0'' then (8, s) else (10, s)
      | [] \<Rightarrow> (10, s))"

definition strtoull :: "string \<Rightarrow> (u64 \<times> string \<times> bool) option" where
  "strtoull txt =
     (let s = dropWhile is_space txt;
          neg = (s \<noteq> [] \<and> hd s = CHR ''-'');
          s = (if s \<noteq> [] \<and> (hd s = CHR ''-'' \<or> hd s = CHR ''+'') then tl s else s);
          (base, s) = number_base s;
          ds = takeWhile (\<lambda>c. digit_value c < base) s;
          n = foldl (\<lambda>n d. base * n + digit_value d) 0 ds
      in if ds = [] then None
         else Some (if n \<ge> 2 ^ 64 then - 1 else if neg then - of_nat n else of_nat n, drop (length ds) s, n \<ge> 2 ^ 64))"

definition ParseU64Strict :: "string \<Rightarrow> u64 option" where
  "ParseU64Strict txt =
     (if txt = [] \<or> hd txt = CHR ''-'' then None
      else case strtoull (c_str txt) of
          None \<Rightarrow> None
        | Some (parsed, rest, erange) \<Rightarrow> if erange \<or> rest \<noteq> [] then None else Some parsed)"

section \<open>Strings\<close>

definition ParseStringFieldWithMaxLen :: "'j cjson_doc \<Rightarrow> 'j \<Rightarrow> string \<Rightarrow> nat \<Rightarrow> string res" where
  "ParseStringFieldWithMaxLen D rt key maxLen = (case json_text_of (json_of D) (j_item D rt key) of
       None \<Rightarrow> Inl SANDBOX_ERR_CONFIG_INVALID
     | Some val \<Rightarrow> if length val > maxLen then Inl SANDBOX_ERR_CONFIG_INVALID else Inr val)"

definition ParseOptionalStringFieldWithMaxLen :: "'j cjson_doc \<Rightarrow> 'j \<Rightarrow> string \<Rightarrow> nat \<Rightarrow> string res" where
  "ParseOptionalStringFieldWithMaxLen D rt key maxLen = (case j_item D rt key of
       None \<Rightarrow> Inr []
     | Some item \<Rightarrow> (case json_text_of (json_of D) (Some item) of
           None \<Rightarrow> Inl SANDBOX_ERR_CONFIG_INVALID
         | Some val \<Rightarrow> if length val > maxLen then Inl SANDBOX_ERR_CONFIG_INVALID else Inr val))"

definition ParseTypeField :: "'j cjson_doc \<Rightarrow> 'j \<Rightarrow> string res" where
  "ParseTypeField D rt = (case j_item D rt ''type'' of
       None \<Rightarrow> Inr ''cli'' | Some _ \<Rightarrow> ParseStringFieldWithMaxLen D rt ''type'' MAX_TYPE_LENGTH)"

definition ParseNameField :: "'j cjson_doc \<Rightarrow> 'j \<Rightarrow> string res" where
  "ParseNameField D rt = (case j_item D rt ''name'' of
       None \<Rightarrow> Inr []
     | Some item \<Rightarrow> (case json_text_of (json_of D) (Some item) of
           None \<Rightarrow> Inl SANDBOX_ERR_CONFIG_INVALID
         | Some nameVal \<Rightarrow>
             if length nameVal > MAX_NAME_LENGTH then Inl SANDBOX_ERR_CONFIG_INVALID
             else if list_ex (\<lambda>c. digit_value c \<ge> 16) nameVal then Inl SANDBOX_ERR_CONFIG_INVALID
             else Inr nameVal))"

section \<open>The environment\<close>

fun env_items :: "'j cjson_doc \<Rightarrow> (string option \<times> 'j) list \<Rightarrow> (string \<rightharpoonup> string) \<Rightarrow> (string \<rightharpoonup> string) res" where
  "env_items D [] out = Inr out"
| "env_items D ((name, envItem) # items) out = (case (name, json_text_of (json_of D) (Some envItem)) of
       (Some key, Some value) \<Rightarrow>
         if key = [] \<or> CHR ''='' \<in> set key then Inl SANDBOX_ERR_CONFIG_INVALID
         else env_items D items (out(key \<mapsto> value))
     | _ \<Rightarrow> Inl SANDBOX_ERR_CONFIG_INVALID)"

definition ParseEnvField :: "'j cjson_doc \<Rightarrow> 'j \<Rightarrow> (string \<rightharpoonup> string) res" where
  "ParseEnvField D rt = res_bind (GetOptionalObjectField D rt ''env'' MAX_ENV_LENGTH) (\<lambda>item. case item of
       None \<Rightarrow> Inr Map.empty | Some obj \<Rightarrow> env_items D (j_children D obj) Map.empty)"

section \<open>Mounts\<close>

record PolicyMount =
  pmt_source :: string
  pmt_readOnly :: bool

definition ParsePolicyMountSource :: "'j cjson_doc \<Rightarrow> 'j \<Rightarrow> string res" where
  "ParsePolicyMountSource D mountItem = (case json_text_of (json_of D) (j_item D mountItem ''source'') of
       None \<Rightarrow> Inl SANDBOX_ERR_CONFIG_INVALID
     | Some path \<Rightarrow>
         if path = [] \<or> hd path \<noteq> CHR ''/'' then Inl SANDBOX_ERR_CONFIG_INVALID
         else if str_find path ''/../'' 0 \<noteq> None \<or> (length path \<ge> 3 \<and> drop (length path - 3) path = ''/..'')
         then Inl SANDBOX_ERR_CONFIG_INVALID
         else Inr path)"

definition ParsePolicyMountMode :: "'j cjson_doc \<Rightarrow> 'j \<Rightarrow> bool res" where
  "ParsePolicyMountMode D mountItem = (case json_text_of (json_of D) (j_item D mountItem ''mode'') of
       None \<Rightarrow> Inl SANDBOX_ERR_CONFIG_INVALID
     | Some mode \<Rightarrow> if mode = ''ro'' then Inr True else if mode = ''rw'' then Inr False else Inl SANDBOX_ERR_CONFIG_INVALID)"

definition ParsePolicyMountItem :: "'j cjson_doc \<Rightarrow> 'j option \<Rightarrow> PolicyMount res" where
  "ParsePolicyMountItem D mountItem = (case mountItem of
       None \<Rightarrow> Inl SANDBOX_ERR_CONFIG_INVALID
     | Some item \<Rightarrow>
         if \<not> j_isObject D item then Inl SANDBOX_ERR_CONFIG_INVALID
         else res_bind (ParsePolicyMountSource D item) (\<lambda>source.
           res_bind (ParsePolicyMountMode D item) (\<lambda>readOnly. Inr \<lparr>pmt_source = source, pmt_readOnly = readOnly\<rparr>)))"

fun mount_items :: "'j cjson_doc \<Rightarrow> 'j \<Rightarrow> nat \<Rightarrow> int \<Rightarrow> PolicyMount list res" where
  "mount_items D mounts 0 i = Inr []"
| "mount_items D mounts (Suc n) i =
     res_bind (ParsePolicyMountItem D (j_arrayItem D mounts i)) (\<lambda>mount.
       res_bind (mount_items D mounts n (i + 1)) (\<lambda>more. Inr (mount # more)))"

definition ParsePolicyMounts :: "'j cjson_doc \<Rightarrow> 'j \<Rightarrow> PolicyMount list res" where
  "ParsePolicyMounts D policy = (case j_item D policy ''mounts'' of
       None \<Rightarrow> Inr []
     | Some mounts \<Rightarrow>
         if \<not> j_isArray D mounts then Inl SANDBOX_ERR_CONFIG_INVALID
         else if j_arraySize D mounts > MAX_POLICY_MOUNTS_COUNT then Inl SANDBOX_ERR_CONFIG_INVALID
         else mount_items D mounts (nat (j_arraySize D mounts)) 0)"

record ConfigPolicy =
  cp_mounts :: "PolicyMount list"
  cp_ruleGroups :: "RuleGroup list"

definition ParsePolicyField :: "'j cjson_doc \<Rightarrow> 'j \<Rightarrow> ConfigPolicy res" where
  "ParsePolicyField D rt = res_bind (GetOptionalObjectField D rt ''policy'' MAX_POLICY_JSON_LENGTH) (\<lambda>item. case item of
       None \<Rightarrow> Inr \<lparr>cp_mounts = [], cp_ruleGroups = []\<rparr>
     | Some obj \<Rightarrow> res_bind (ParsePolicyMounts D obj) (\<lambda>mounts.
         res_bind (ParseOperationControlRuleGroups (json_of D) obj [] SANDBOX_POLICY_PARSE_STARTUP) (\<lambda>ruleGroups.
           Inr \<lparr>cp_mounts = mounts, cp_ruleGroups = ruleGroups\<rparr>)))"

section \<open>Namespaces\<close>

fun ns_flags :: "string list \<Rightarrow> u32 \<Rightarrow> u32 res" where
  "ns_flags [] parsed = Inr parsed"
| "ns_flags (flag # flags) parsed =
     (if flag = ''mnt'' then ns_flags flags (parsed OR CLONE_NEWNS)
      else if flag = ''net'' then ns_flags flags (parsed OR CLONE_NEWNET)
      else if flag = ''uts'' then ns_flags flags (parsed OR CLONE_NEWUTS)
      else if flag = ''ipc'' then ns_flags flags (parsed OR CLONE_NEWIPC)
      else if flag = ''pid'' then ns_flags flags (parsed OR CLONE_NEWPID)
      else if flag = ''user'' then ns_flags flags (parsed OR CLONE_NEWUSER)
      else Inl SANDBOX_ERR_CONFIG_INVALID)"

definition ConvertNsFlags :: "string list \<Rightarrow> u32 res" where
  "ConvertNsFlags nsFlags = ns_flags nsFlags DEFAULT_NS_FLAGS"

fun flag_items :: "'j cjson_doc \<Rightarrow> 'j \<Rightarrow> nat \<Rightarrow> int \<Rightarrow> string list res" where
  "flag_items D array 0 i = Inr []"
| "flag_items D array (Suc n) i = (case json_text_of (json_of D) (j_arrayItem D array i) of
       None \<Rightarrow> Inl SANDBOX_ERR_CONFIG_INVALID
     | Some flagVal \<Rightarrow>
         if length flagVal > MAX_NS_FLAG_STRING_LENGTH then Inl SANDBOX_ERR_CONFIG_INVALID
         else res_bind (flag_items D array n (i + 1)) (\<lambda>more. Inr (flagVal # more)))"

definition ParseNsFlagsField :: "'j cjson_doc \<Rightarrow> 'j \<Rightarrow> u32 res" where
  "ParseNsFlagsField D rt = (case j_item D rt ''nsFlags'' of
       None \<Rightarrow> Inr DEFAULT_NS_FLAGS
     | Some item \<Rightarrow>
         if \<not> j_isArray D item then Inl SANDBOX_ERR_CONFIG_INVALID
         else if nat (j_arraySize D item) > MAX_NS_FLAGS_COUNT then Inl SANDBOX_ERR_CONFIG_INVALID
         else res_bind (flag_items D item (nat (j_arraySize D item)) 0) ConvertNsFlags)"

section \<open>The configuration\<close>

record SandboxConfig =
  sc_callerTokenId :: u64
  sc_callerPid :: int
  sc_uid :: u32
  sc_gid :: u32
  sc_challenge :: string
  sc_appIdentifier :: string
  sc_appIdentifierU64 :: u64
  sc_bundleName :: string
  sc_type :: string
  sc_cliName :: string
  sc_subCliName :: string
  sc_name :: string
  sc_workdir :: string
  sc_subjectId :: string
  sc_env :: "string \<rightharpoonup> string"
  sc_policy :: ConfigPolicy
  sc_nsFlags :: u32

definition parse_appIdentifier :: "'j cjson_doc \<Rightarrow> 'j \<Rightarrow> (string \<times> u64) res" where
  "parse_appIdentifier D rt =
     res_bind (ParseStringFieldWithMaxLen D rt ''appIdentifier'' MAX_APP_IDENTIFIER_LENGTH) (\<lambda>app.
       if app = [] then Inr (app, 0)
       else case ParseU64Strict app of None \<Rightarrow> Inl SANDBOX_ERR_CONFIG_INVALID | Some v \<Rightarrow> Inr (app, v))"

text \<open>The type, with the two names a command line tool has.\<close>

definition parse_type :: "'j cjson_doc \<Rightarrow> bool \<Rightarrow> 'j \<Rightarrow> (string \<times> string \<times> string) res" where
  "parse_type D pcMode rt =
     res_bind (ParseTypeField D rt) (\<lambda>type.
       if type = ''cli'' then
         res_bind (ParseStringFieldWithMaxLen D rt ''cliName'' MAX_CLI_NAME_LENGTH) (\<lambda>cliName.
           res_bind (ParseStringFieldWithMaxLen D rt ''subCliName'' MAX_SUB_CLI_NAME_LENGTH) (\<lambda>subCliName.
             Inr (type, cliName, subCliName)))
       else if type = ''shell'' then
         (let ret = CheckShellTypeAllowed pcMode in if ret \<noteq> SANDBOX_SUCCESS then Inl ret else Inr (type, [], []))
       else Inl SANDBOX_ERR_CONFIG_INVALID)"

definition ParseConfig :: "'j cjson_doc \<Rightarrow> bool \<Rightarrow> string \<Rightarrow> SandboxConfig res" where
  "ParseConfig D pcMode jsonStr =
     (let depthRet = CheckJsonDepth jsonStr
      in if depthRet \<noteq> SANDBOX_SUCCESS then Inl depthRet
         else case j_parse D (c_str jsonStr) of
           None \<Rightarrow> Inl SANDBOX_ERR_CONFIG_INVALID
         | Some rt \<Rightarrow>
             res_bind (ParseUint64Field D rt ''callerTokenId'') (\<lambda>callerTokenId.
             res_bind (ParseInt32Field D rt ''callerPid'') (\<lambda>callerPid.
             res_bind (ParseUint32Field D rt ''uid'') (\<lambda>uid.
             res_bind (ParseUint32Field D rt ''gid'') (\<lambda>gid.
             res_bind (ParseOptionalStringFieldWithMaxLen D rt ''challenge'' MAX_CHALLENGE_LENGTH) (\<lambda>challenge.
             res_bind (parse_appIdentifier D rt) (\<lambda>(app, appU64).
             res_bind (ParseStringFieldWithMaxLen D rt ''bundleName'' MAX_BUNDLE_NAME_LENGTH) (\<lambda>bundleName.
             res_bind (parse_type D pcMode rt) (\<lambda>(type, cliName, subCliName).
             res_bind (ParseNameField D rt) (\<lambda>name.
             res_bind (ParseOptionalStringFieldWithMaxLen D rt ''workdir'' MAX_WORKDIR_LENGTH) (\<lambda>workdir.
             res_bind (ParseOptionalStringFieldWithMaxLen D rt ''subjectId'' MAX_SUBJECT_ID_LENGTH) (\<lambda>subjectId.
             res_bind (ParseEnvField D rt) (\<lambda>env.
             res_bind (ParsePolicyField D rt) (\<lambda>policy.
             res_bind (ParseNsFlagsField D rt) (\<lambda>nsFlags.
               Inr \<lparr>sc_callerTokenId = callerTokenId, sc_callerPid = callerPid, sc_uid = uid, sc_gid = gid,
                 sc_challenge = challenge, sc_appIdentifier = app, sc_appIdentifierU64 = appU64, sc_bundleName = bundleName,
                 sc_type = type, sc_cliName = cliName, sc_subCliName = subCliName, sc_name = name, sc_workdir = workdir,
                 sc_subjectId = subjectId, sc_env = env, sc_policy = policy, sc_nsFlags = nsFlags\<rparr>)))))))))))))))"

definition ParseOperationControlPolicy :: "'j cjson_doc \<Rightarrow> string \<Rightarrow> RuleGroup list res" where
  "ParseOperationControlPolicy D jsonStr =
     (if length jsonStr > MAX_POLICY_JSON_LENGTH then Inl SANDBOX_ERR_CONFIG_INVALID
      else
        let ret = CheckJsonDepth jsonStr
        in if ret \<noteq> SANDBOX_SUCCESS then Inl ret
           else case j_parse D (c_str jsonStr) of
               None \<Rightarrow> Inl SANDBOX_ERR_CONFIG_INVALID
             | Some rt \<Rightarrow>
                 if \<not> j_isObject D rt then Inl SANDBOX_ERR_CONFIG_INVALID
                 else ParseOperationControlRuleGroups (json_of D) rt [] SANDBOX_POLICY_PARSE_DYNAMIC)"

text \<open>A null argument is \<open>None\<close>; a null vector or no argument gives no command.\<close>

definition ParseCommandFromArgv :: "string option list \<Rightarrow> string list" where
  "ParseCommandFromArgv argv = concat (map (\<lambda>a. case a of None \<Rightarrow> [] | Some s \<Rightarrow> [s]) argv)"

end
