(* ===== verification/Claw_Convert.thy ===== *)
theory Claw_Convert
  imports Claw_Config
begin

text \<open>
  \<open>claw_sandbox/src/sandbox_op_control_parser.cpp\<close>, from rule groups to the TLV model: filter rules, the check
  for one object under two actions, and the conversion of the modules. The file system is read through \<open>lstat\<close>,
  a parameter that answers device and inode of a path. The list of errors is always collected, as by every caller
  in the repository.
\<close>

section \<open>The TLV model\<close>

record FilterRule =
  fr_cmpType :: u32
  fr_itemType :: u32
  fr_fd :: int
  fr_path :: string
  fr_pathSuffix :: string
  fr_cmd :: string

record Rule =
  ru_action :: u32
  ru_eventType :: u32
  ru_subjectRules :: "FilterRule list list"
  ru_objectRules :: "FilterRule list list"

record TlvPolicy =
  tp_operationType :: u32
  tp_defaultAction :: u32
  tp_askTimeoutDefaultAction :: u32
  tp_rules :: "Rule list"

record ScopeBody =
  sc_id :: u32
  sc_userid :: u32
  sc_appidentifier :: u64
  sc_taskid :: u64

record SandboxPolicyTlv =
  tlv_version :: u32
  tlv_scope :: ScopeBody
  tlv_policies :: "TlvPolicy list"

definition new_FilterRule :: FilterRule where
  "new_FilterRule = \<lparr>fr_cmpType = DEC_POLICY_CMP_NR, fr_itemType = DEC_POLICY_ITEM_TYPE_NR, fr_fd = - 1,
     fr_path = [], fr_pathSuffix = [], fr_cmd = []\<rparr>"

definition new_Rule :: Rule where
  "new_Rule = \<lparr>ru_action = DEC_POLICY_ACTION_ALLOW, ru_eventType = 0, ru_subjectRules = [], ru_objectRules = []\<rparr>"

definition new_TlvPolicy :: TlvPolicy where
  "new_TlvPolicy = \<lparr>tp_operationType = DEC_POLICY_OP_TYPE_FILE, tp_defaultAction = DEC_POLICY_ACTION_NONE,
     tp_askTimeoutDefaultAction = DEC_POLICY_ACTION_DENY, tp_rules = []\<rparr>"

definition new_Tlv :: SandboxPolicyTlv where
  "new_Tlv = \<lparr>tlv_version = 1, tlv_scope = \<lparr>sc_id = 0, sc_userid = 0, sc_appidentifier = 0, sc_taskid = 0\<rparr>, tlv_policies = []\<rparr>"

section \<open>Errors\<close>

record PolicyError =
  pe_reason :: string
  pe_operation :: string
  pe_object :: string
  pe_detail :: string
  pe_actions :: "string list"

definition ActionConflict :: "string \<Rightarrow> string \<Rightarrow> string \<Rightarrow> string \<Rightarrow> PolicyError" where
  "ActionConflict operation object firstAction secondAction =
     \<lparr>pe_reason = ''action_conflict'', pe_operation = operation, pe_object = object, pe_detail = [],
      pe_actions = [firstAction, secondAction]\<rparr>"

definition OpenFailed :: "string \<Rightarrow> string \<Rightarrow> PolicyError" where
  "OpenFailed object detail =
     \<lparr>pe_reason = ''open_failed'', pe_operation = [], pe_object = object, pe_detail = detail, pe_actions = []\<rparr>"

definition InvalidPattern :: "string \<Rightarrow> string \<Rightarrow> string \<Rightarrow> PolicyError" where
  "InvalidPattern operation object detail =
     \<lparr>pe_reason = ''invalid_pattern'', pe_operation = operation, pe_object = object, pe_detail = detail, pe_actions = []\<rparr>"

definition ProtectedObject :: "string \<Rightarrow> string \<Rightarrow> PolicyError" where
  "ProtectedObject operation object =
     \<lparr>pe_reason = ''protected_object'', pe_operation = operation, pe_object = object,
      pe_detail = ''the monitor socket is protected by the sandbox'', pe_actions = []\<rparr>"

section \<open>Rules of the arrays\<close>

definition BuildFileRuleObject :: "string \<Rightarrow> u32 \<Rightarrow> PolicyError + FilterRule" where
  "BuildFileRuleObject path eventType =
     (let objectRule = new_FilterRule\<lparr>fr_itemType := DEC_POLICY_ITEM_TYPE_PATH\<rparr>
      in if \<not> IsWildcardPattern path then Inr (objectRule\<lparr>fr_cmpType := DEC_POLICY_CMP_EQ, fr_path := path\<rparr>)
         else case ParseFilePattern path of
             Inl why \<Rightarrow> Inl (InvalidPattern (PolicyFileNameOfEvent eventType) path why)
           | Inr pattern \<Rightarrow> Inr (objectRule\<lparr>fr_cmpType := DEC_POLICY_CMP_SUFFIX, fr_path := fp_prefix pattern,
                                           fr_pathSuffix := fp_suffix pattern\<rparr>))"

definition add_rule :: "u32 \<Rightarrow> u32 \<Rightarrow> FilterRule \<Rightarrow> TlvPolicy \<Rightarrow> TlvPolicy" where
  "add_rule action eventType objectRule policy =
     policy\<lparr>tp_rules := tp_rules policy @
       [new_Rule\<lparr>ru_action := action, ru_eventType := eventType, ru_objectRules := [[objectRule]]\<rparr>]\<rparr>"

text \<open>Every entry is attempted; the flag tells whether one failed.\<close>

fun ConvertFileRules_loop ::
    "string list \<Rightarrow> u32 \<Rightarrow> u32 \<Rightarrow> TlvPolicy \<Rightarrow> PolicyError list \<Rightarrow> bool \<Rightarrow> bool \<times> TlvPolicy \<times> PolicyError list" where
  "ConvertFileRules_loop [] action eventType policy errors failed = (failed, policy, errors)"
| "ConvertFileRules_loop (path # paths) action eventType policy errors failed =
     (case BuildFileRuleObject path eventType of
        Inl e \<Rightarrow> ConvertFileRules_loop paths action eventType policy (errors @ [e]) True
      | Inr objectRule \<Rightarrow>
          ConvertFileRules_loop paths action eventType (add_rule action eventType objectRule policy) errors failed)"

definition ConvertFileRulesToTlv ::
    "string list \<Rightarrow> u32 \<Rightarrow> u32 \<Rightarrow> TlvPolicy \<Rightarrow> PolicyError list \<Rightarrow> int \<times> TlvPolicy \<times> PolicyError list" where
  "ConvertFileRulesToTlv paths action eventType policy errors =
     (let (failed, policy', errors') = ConvertFileRules_loop paths action eventType policy errors False
      in (if failed then SANDBOX_ERR_CONFIG_INVALID else SANDBOX_SUCCESS, policy', errors'))"

definition ConvertProcessExecRulesToTlv :: "string list \<Rightarrow> u32 \<Rightarrow> TlvPolicy \<Rightarrow> TlvPolicy" where
  "ConvertProcessExecRulesToTlv cmds action policy =
     fold (\<lambda>cmd. add_rule action DEC_POLICY_PROCESS_EVENT_EXEC
       (new_FilterRule\<lparr>fr_cmpType := DEC_POLICY_CMP_EQ, fr_itemType := DEC_POLICY_ITEM_TYPE_CMD, fr_cmd := cmd\<rparr>))
     cmds policy"

section \<open>One object under two actions\<close>

definition ActionToString :: "u32 \<Rightarrow> string" where
  "ActionToString action =
     (if action = DEC_POLICY_ACTION_ALLOW then ''ALLOW'' else if action = DEC_POLICY_ACTION_DENY then ''DENY''
      else if action = DEC_POLICY_ACTION_ASK then ''ASK'' else if action = DEC_POLICY_ACTION_NONE then ''NONE''
      else ''UNKNOWN'')"

text \<open>\<open>std::to_string\<close> of an unsigned number.\<close>

fun to_string :: "nat \<Rightarrow> string" where
  "to_string n = (if n < 10 then [char_of (48 + n)] else to_string (n div 10) @ [char_of (48 + n mod 10)])"

declare to_string.simps [simp del]

type_synonym lstat = "string \<Rightarrow> (nat \<times> nat) option"

definition bound_identity :: "lstat \<Rightarrow> string \<Rightarrow> string \<Rightarrow> string" where
  "bound_identity lstat boundPath tail =
     (let identitySuffix = [CHR 0x0A] @ ''suffix:'' @ tail
      in case lstat (c_str boundPath) of
           None \<Rightarrow> ''path:'' @ boundPath @ identitySuffix
         | Some (dev, ino) \<Rightarrow> ''inode:'' @ to_string dev @ '':'' @ to_string ino @ identitySuffix)"

definition ObjectIdentity :: "lstat \<Rightarrow> string \<Rightarrow> u32 \<Rightarrow> string" where
  "ObjectIdentity lstat object itemType =
     (if itemType \<noteq> DEC_POLICY_ITEM_TYPE_PATH then ''cmd:'' @ object
      else if IsWildcardPattern object then
        (case ParseFilePattern object of
           Inl _ \<Rightarrow> []
         | Inr pattern \<Rightarrow> bound_identity lstat (fp_prefix pattern) (fp_suffix pattern))
      else bound_identity lstat object [])"

text \<open>The objects of an operation in the order they are judged: deny, allow, ask.\<close>

definition operation_objects :: "string list \<Rightarrow> string list \<Rightarrow> string list \<Rightarrow> (string \<times> u32) list" where
  "operation_objects deny allow ask =
     map (\<lambda>obj. (obj, DEC_POLICY_ACTION_DENY)) deny @ map (\<lambda>obj. (obj, DEC_POLICY_ACTION_ALLOW)) allow @
     map (\<lambda>obj. (obj, DEC_POLICY_ACTION_ASK)) ask"

fun conflict_loop ::
    "lstat \<Rightarrow> string \<Rightarrow> u32 \<Rightarrow> (string \<times> u32) list \<Rightarrow> (string \<rightharpoonup> u32) \<Rightarrow> PolicyError list \<Rightarrow> bool \<Rightarrow>
     bool \<times> (string \<rightharpoonup> u32) \<times> PolicyError list" where
  "conflict_loop lstat opLabel itemType [] objectAction errors conflicted = (conflicted, objectAction, errors)"
| "conflict_loop lstat opLabel itemType ((obj, action) # rest) objectAction errors conflicted =
     (let identity = ObjectIdentity lstat obj itemType
      in if identity = [] then conflict_loop lstat opLabel itemType rest objectAction errors conflicted
         else
           let key = opLabel @ '':'' @ identity
           in case objectAction key of
                Some first \<Rightarrow>
                  if first \<noteq> action then
                    conflict_loop lstat opLabel itemType rest objectAction
                      (errors @ [ActionConflict opLabel obj (ActionToString first) (ActionToString action)]) True
                  else conflict_loop lstat opLabel itemType rest (objectAction(key \<mapsto> action)) errors conflicted
              | None \<Rightarrow> conflict_loop lstat opLabel itemType rest (objectAction(key \<mapsto> action)) errors conflicted)"

definition ValidateOperationActionConflict ::
    "lstat \<Rightarrow> string \<Rightarrow> u32 \<Rightarrow> string list \<Rightarrow> string list \<Rightarrow> string list \<Rightarrow> (string \<rightharpoonup> u32) \<Rightarrow> PolicyError list \<Rightarrow>
     int \<times> (string \<rightharpoonup> u32) \<times> PolicyError list" where
  "ValidateOperationActionConflict lstat opLabel itemType deny allow ask objectAction errors =
     (let (conflicted, objectAction', errors') =
            conflict_loop lstat opLabel itemType (operation_objects deny allow ask) objectAction errors False
      in (if conflicted then SANDBOX_ERR_CONFIG_INVALID else SANDBOX_SUCCESS, objectAction', errors'))"

section \<open>Modules\<close>

definition ConvertNetworkRuleGroupToTlv :: "u32 \<Rightarrow> TlvPolicy \<Rightarrow> TlvPolicy" where
  "ConvertNetworkRuleGroupToTlv defaultAction policy =
     policy\<lparr>tp_operationType := DEC_POLICY_OP_TYPE_NETWORK, tp_defaultAction := defaultAction\<rparr>"

definition ConvertFileOperationToTlv ::
    "lstat \<Rightarrow> u32 \<Rightarrow> string list \<Rightarrow> string list \<Rightarrow> string list \<Rightarrow> TlvPolicy \<Rightarrow> (string \<rightharpoonup> u32) \<Rightarrow> PolicyError list \<Rightarrow>
     int \<times> TlvPolicy \<times> (string \<rightharpoonup> u32) \<times> PolicyError list" where
  "ConvertFileOperationToTlv lstat eventType deny allow ask policy objectAction errors =
     (let (ret, objectAction', errors1) =
            ValidateOperationActionConflict lstat (PolicyFileNameOfEvent eventType) DEC_POLICY_ITEM_TYPE_PATH
              deny allow ask objectAction errors
      in if ret \<noteq> SANDBOX_SUCCESS then (ret, policy, objectAction', errors1)
         else let (r1, p1, e1) = ConvertFileRulesToTlv deny DEC_POLICY_ACTION_DENY eventType policy errors1
         in if r1 \<noteq> SANDBOX_SUCCESS then (r1, p1, objectAction', e1)
         else let (r2, p2, e2) = ConvertFileRulesToTlv allow DEC_POLICY_ACTION_ALLOW eventType p1 e1
         in if r2 \<noteq> SANDBOX_SUCCESS then (r2, p2, objectAction', e2)
         else let (r3, p3, e3) = ConvertFileRulesToTlv ask DEC_POLICY_ACTION_ASK eventType p2 e2
         in if r3 \<noteq> SANDBOX_SUCCESS then (r3, p3, objectAction', e3)
         else (SANDBOX_SUCCESS, p3, objectAction', e3))"

text \<open>The table of file operations and the loop over it.\<close>

definition file_operations :: "FileConfig \<Rightarrow> (u32 \<times> string list \<times> string list \<times> string list) list" where
  "file_operations f =
     [(DEC_POLICY_FILE_EVENT_READ, fc_denyReadData f, fc_allowReadData f, fc_askReadData f),
      (DEC_POLICY_FILE_EVENT_WRITE, fc_denyWriteData f, fc_allowWriteData f, fc_askWriteData f),
      (DEC_POLICY_FILE_EVENT_DELETE, fc_denyDelete f, fc_allowDelete f, fc_askDelete f)]"

fun ConvertFileOperations ::
    "lstat \<Rightarrow> (u32 \<times> string list \<times> string list \<times> string list) list \<Rightarrow> TlvPolicy \<Rightarrow> (string \<rightharpoonup> u32) \<Rightarrow> PolicyError list \<Rightarrow>
     int \<times> TlvPolicy \<times> PolicyError list" where
  "ConvertFileOperations lstat [] policy objectAction errors = (SANDBOX_SUCCESS, policy, errors)"
| "ConvertFileOperations lstat ((eventType, deny, allow, ask) # rest) policy objectAction errors =
     (let (ret, policy', objectAction', errors') =
            ConvertFileOperationToTlv lstat eventType deny allow ask policy objectAction errors
      in if ret \<noteq> SANDBOX_SUCCESS then (ret, policy', errors')
         else ConvertFileOperations lstat rest policy' objectAction' errors')"

definition ConvertFileRuleGroupToTlv ::
    "lstat \<Rightarrow> FileConfig \<Rightarrow> TlvPolicy \<Rightarrow> PolicyError list \<Rightarrow> int \<times> TlvPolicy \<times> PolicyError list" where
  "ConvertFileRuleGroupToTlv lstat f policy errors =
     ConvertFileOperations lstat (file_operations f)
       (policy\<lparr>tp_operationType := DEC_POLICY_OP_TYPE_FILE, tp_defaultAction := fc_defaultAction f\<rparr>) Map.empty errors"

definition ConvertProcessRuleGroupToTlv ::
    "lstat \<Rightarrow> ProcessConfig \<Rightarrow> TlvPolicy \<Rightarrow> PolicyError list \<Rightarrow> int \<times> TlvPolicy \<times> PolicyError list" where
  "ConvertProcessRuleGroupToTlv lstat p policy errors =
     (let policy0 = policy\<lparr>tp_operationType := DEC_POLICY_OP_TYPE_PROCESS, tp_defaultAction := pc_defaultAction p\<rparr>;
          (ret, objectAction, errors') = ValidateOperationActionConflict lstat ''ProcessExecCmd''
            DEC_POLICY_ITEM_TYPE_CMD (pc_denyExecCmd p) (pc_allowExecCmd p) (pc_askExecCmd p) Map.empty errors
      in if ret \<noteq> SANDBOX_SUCCESS then (ret, policy0, errors')
         else (SANDBOX_SUCCESS,
           ConvertProcessExecRulesToTlv (pc_askExecCmd p) DEC_POLICY_ACTION_ASK
             (ConvertProcessExecRulesToTlv (pc_allowExecCmd p) DEC_POLICY_ACTION_ALLOW
               (ConvertProcessExecRulesToTlv (pc_denyExecCmd p) DEC_POLICY_ACTION_DENY policy0)), errors'))"

text \<open>One group and one module: the result, and the policy when the group contributes one.\<close>

definition convert_group :: "lstat \<Rightarrow> RuleGroup \<Rightarrow> u32 \<Rightarrow> PolicyError list \<Rightarrow> int \<times> TlvPolicy option \<times> PolicyError list" where
  "convert_group lstat grp moduleType errors =
     (if moduleType = DEC_POLICY_OP_TYPE_NETWORK \<and> rg_network grp \<noteq> None then
        (SANDBOX_SUCCESS, Some (ConvertNetworkRuleGroupToTlv (the (rg_network grp)) new_TlvPolicy), errors)
      else if moduleType = DEC_POLICY_OP_TYPE_FILE \<and> rg_file grp \<noteq> None then
        (let (ret, policy, errors') = ConvertFileRuleGroupToTlv lstat (the (rg_file grp)) new_TlvPolicy errors
         in (ret, Some policy, errors'))
      else if moduleType = DEC_POLICY_OP_TYPE_PROCESS \<and> rg_process grp \<noteq> None then
        (let (ret, policy, errors') = ConvertProcessRuleGroupToTlv lstat (the (rg_process grp)) new_TlvPolicy errors
         in (ret, Some policy, errors'))
      else (SANDBOX_SUCCESS, None, errors))"

fun ConvertOperationControlToTlv ::
    "lstat \<Rightarrow> RuleGroup list \<Rightarrow> u32 \<Rightarrow> SandboxPolicyTlv \<Rightarrow> PolicyError list \<Rightarrow> int \<times> SandboxPolicyTlv \<times> PolicyError list" where
  "ConvertOperationControlToTlv lstat [] moduleType tlv errors = (SANDBOX_SUCCESS, tlv, errors)"
| "ConvertOperationControlToTlv lstat (grp # groups) moduleType tlv errors =
     (case convert_group lstat grp moduleType errors of
        (ret, contributed, errors') \<Rightarrow>
          if ret \<noteq> SANDBOX_SUCCESS then (ret, tlv, errors')
          else ConvertOperationControlToTlv lstat groups moduleType
            (case contributed of None \<Rightarrow> tlv | Some policy \<Rightarrow> tlv\<lparr>tlv_policies := tlv_policies tlv @ [policy]\<rparr>) errors')"

end
