(* ===== verification/Claw_Tlv.thy ===== *)
theory Claw_Tlv
  imports Claw_Convert Raw_Data
begin

text \<open>
  \<open>claw_sandbox/src/sandbox_op_control_parser.cpp\<close>, from the TLV model to the kernel's payload: serialization,
  the file descriptors of path rules, and the payload of \<open>DEC_CMD_POLICY_ADD\<close>. Bytes are characters. Opening and
  closing files are functions of the record \<open>claw_os\<close> on an abstract world; failed allocation is not a branch.
\<close>

section \<open>Bytes and TLVs\<close>

text \<open>The loop of \<open>AppendU32LE\<close> over the shifts 0, 8, 16, 24, and the two halves of \<open>AppendU64LE\<close>.\<close>

definition AppendU32LE :: "u32 \<Rightarrow> string" where
  "AppendU32LE value = map (\<lambda>shift. char_of (unat (drop_bit shift value AND 0xFF))) [0, 8, 16, 24]"

definition AppendU64LE :: "u64 \<Rightarrow> string" where
  "AppendU64LE value = AppendU32LE (ucast value) @ AppendU32LE (ucast (drop_bit 32 value))"

definition AppendTlvU32 :: "u32 \<Rightarrow> u32 \<Rightarrow> string" where
  "AppendTlvU32 type value = AppendU32LE type @ AppendU32LE 4 @ AppendU32LE value"

definition AppendTlvBytes :: "u32 \<Rightarrow> string \<Rightarrow> string" where
  "AppendTlvBytes type data = AppendU32LE type @ AppendU32LE (of_nat (length data)) @ data"

abbreviation (input) DEC_POLICY_TLV_SCOPE :: u32 where "DEC_POLICY_TLV_SCOPE \<equiv> 1"
abbreviation (input) DEC_POLICY_TLV_POLICY_CNT :: u32 where "DEC_POLICY_TLV_POLICY_CNT \<equiv> 2"
abbreviation (input) DEC_POLICY_TLV_OPERATION_SIZE :: u32 where "DEC_POLICY_TLV_OPERATION_SIZE \<equiv> 3"
abbreviation (input) DEC_POLICY_TLV_OPERATION_TYPE :: u32 where "DEC_POLICY_TLV_OPERATION_TYPE \<equiv> 4"
abbreviation (input) DEC_POLICY_TLV_DEFAULT_ACTION :: u32 where "DEC_POLICY_TLV_DEFAULT_ACTION \<equiv> 5"
abbreviation (input) DEC_POLICY_TLV_ASK_TIMEOUT_DEFAULT_ACTION :: u32 where "DEC_POLICY_TLV_ASK_TIMEOUT_DEFAULT_ACTION \<equiv> 6"
abbreviation (input) DEC_POLICY_TLV_RULESLIST_CNT :: u32 where "DEC_POLICY_TLV_RULESLIST_CNT \<equiv> 7"
abbreviation (input) DEC_POLICY_TLV_RULE_ACTION :: u32 where "DEC_POLICY_TLV_RULE_ACTION \<equiv> 8"
abbreviation (input) DEC_POLICY_TLV_RULE_EVENT_TYPE :: u32 where "DEC_POLICY_TLV_RULE_EVENT_TYPE \<equiv> 9"
abbreviation (input) DEC_POLICY_TLV_FILTER_RULE_SUBJECT_CNT :: u32 where "DEC_POLICY_TLV_FILTER_RULE_SUBJECT_CNT \<equiv> 10"
abbreviation (input) DEC_POLICY_TLV_FILTER_RULE_CMP_TYPE :: u32 where "DEC_POLICY_TLV_FILTER_RULE_CMP_TYPE \<equiv> 11"
abbreviation (input) DEC_POLICY_TLV_FILTER_RULE_ITEM_TYPE :: u32 where "DEC_POLICY_TLV_FILTER_RULE_ITEM_TYPE \<equiv> 12"
abbreviation (input) DEC_POLICY_TLV_FILTER_RULE_ITEM :: u32 where "DEC_POLICY_TLV_FILTER_RULE_ITEM \<equiv> 13"
abbreviation (input) DEC_POLICY_TLV_FILTER_RULE_OBJECT_CNT :: u32 where "DEC_POLICY_TLV_FILTER_RULE_OBJECT_CNT \<equiv> 14"

section \<open>Rules\<close>

definition IsCmpTypeAllowed :: "u32 \<Rightarrow> u32 \<Rightarrow> bool" where
  "IsCmpTypeAllowed cmpType itemType =
     (if itemType = DEC_POLICY_ITEM_TYPE_PATH
      then cmpType = DEC_POLICY_CMP_EQ \<or> cmpType = DEC_POLICY_CMP_PREFIX \<or> cmpType = DEC_POLICY_CMP_SUFFIX
      else if itemType = DEC_POLICY_ITEM_TYPE_CMD \<or> itemType = DEC_POLICY_ITEM_TYPE_FD
      then cmpType = DEC_POLICY_CMP_EQ
      else False)"

definition item_bytes :: "FilterRule \<Rightarrow> string" where
  "item_bytes rule =
     (if fr_itemType rule = DEC_POLICY_ITEM_TYPE_PATH then fr_path rule @ [CHR 0x00]
      else if fr_itemType rule = DEC_POLICY_ITEM_TYPE_CMD then fr_cmd rule @ [CHR 0x00]
      else AppendU32LE (word_of_int (fr_fd rule)))"

definition AppendFilterRuleBlock :: "FilterRule \<Rightarrow> string res" where
  "AppendFilterRuleBlock rule =
     (if \<not> IsCmpTypeAllowed (fr_cmpType rule) (fr_itemType rule) then Inl SANDBOX_ERR_CONFIG_INVALID
      else Inr (AppendTlvU32 DEC_POLICY_TLV_FILTER_RULE_CMP_TYPE (fr_cmpType rule) @
                AppendTlvU32 DEC_POLICY_TLV_FILTER_RULE_ITEM_TYPE (fr_itemType rule) @
                AppendTlvBytes DEC_POLICY_TLV_FILTER_RULE_ITEM (item_bytes rule)))"

definition GetFilterRuleWireEntityCnt :: "FilterRule \<Rightarrow> u32" where
  "GetFilterRuleWireEntityCnt rule = (if fr_itemType rule \<noteq> DEC_POLICY_ITEM_TYPE_PATH then 1 else 2)"

definition AppendFilterRuleEntities :: "FilterRule \<Rightarrow> string res" where
  "AppendFilterRuleEntities fr =
     (if fr_itemType fr \<noteq> DEC_POLICY_ITEM_TYPE_PATH then AppendFilterRuleBlock fr
      else
        let fdRule = new_FilterRule\<lparr>fr_cmpType := DEC_POLICY_CMP_EQ, fr_itemType := DEC_POLICY_ITEM_TYPE_FD, fr_fd := fr_fd fr\<rparr>
        in res_bind (AppendFilterRuleBlock fdRule) (\<lambda>out.
          res_bind
            (if fr_cmpType fr = DEC_POLICY_CMP_EQ \<or> fr_cmpType fr = DEC_POLICY_CMP_PREFIX then AppendFilterRuleBlock fr
             else if fr_cmpType fr = DEC_POLICY_CMP_SUFFIX then
               AppendFilterRuleBlock (new_FilterRule\<lparr>fr_cmpType := DEC_POLICY_CMP_SUFFIX,
                 fr_itemType := DEC_POLICY_ITEM_TYPE_PATH, fr_path := fr_pathSuffix fr\<rparr>)
             else Inl SANDBOX_ERR_CONFIG_INVALID)
            (\<lambda>more. Inr (out @ more))))"

definition CountSectionWireEntities :: "FilterRule list list \<Rightarrow> u32" where
  "CountSectionWireEntities entities = sum_list (map GetFilterRuleWireEntityCnt (concat entities))"

text \<open>A loop that appends what each element gives and stops at the first error.\<close>

fun append_all :: "('a \<Rightarrow> string res) \<Rightarrow> 'a list \<Rightarrow> string res" where
  "append_all f [] = Inr []"
| "append_all f (x # xs) = res_bind (f x) (\<lambda>out. res_bind (append_all f xs) (\<lambda>more. Inr (out @ more)))"

definition AppendEntityRules :: "FilterRule list \<Rightarrow> string res" where
  "AppendEntityRules entity = append_all AppendFilterRuleEntities entity"

definition AppendRuleEntitySection :: "u32 \<Rightarrow> FilterRule list list \<Rightarrow> string res" where
  "AppendRuleEntitySection entityCntTag entities =
     res_bind (append_all AppendEntityRules entities) (\<lambda>more.
       Inr (AppendTlvU32 entityCntTag (CountSectionWireEntities entities) @ more))"

definition AppendRuleBlock :: "Rule \<Rightarrow> string res" where
  "AppendRuleBlock rule =
     res_bind (AppendRuleEntitySection DEC_POLICY_TLV_FILTER_RULE_SUBJECT_CNT (ru_subjectRules rule)) (\<lambda>subject.
       res_bind (AppendRuleEntitySection DEC_POLICY_TLV_FILTER_RULE_OBJECT_CNT (ru_objectRules rule)) (\<lambda>object.
         Inr (AppendTlvU32 DEC_POLICY_TLV_RULE_ACTION (ru_action rule) @
              AppendTlvU32 DEC_POLICY_TLV_RULE_EVENT_TYPE (ru_eventType rule) @ subject @ object)))"

definition AppendScopeBlock :: "ScopeBody \<Rightarrow> string" where
  "AppendScopeBlock scope =
     AppendTlvBytes DEC_POLICY_TLV_SCOPE
       (AppendU32LE (sc_id scope) @ AppendU32LE (sc_userid scope) @
        AppendU64LE (sc_appidentifier scope) @ AppendU64LE (sc_taskid scope))"

definition policy_block :: "TlvPolicy \<Rightarrow> string res" where
  "policy_block policy =
     res_bind (append_all AppendRuleBlock (tp_rules policy)) (\<lambda>rules.
       Inr (AppendTlvU32 DEC_POLICY_TLV_OPERATION_TYPE (tp_operationType policy) @
            AppendTlvU32 DEC_POLICY_TLV_DEFAULT_ACTION (tp_defaultAction policy) @
            AppendTlvU32 DEC_POLICY_TLV_ASK_TIMEOUT_DEFAULT_ACTION (tp_askTimeoutDefaultAction policy) @
            AppendTlvU32 DEC_POLICY_TLV_RULESLIST_CNT (of_nat (length (tp_rules policy))) @ rules))"

definition sized_block :: "TlvPolicy \<Rightarrow> string res" where
  "sized_block policy =
     res_bind (policy_block policy) (\<lambda>policyBlock.
       Inr (AppendTlvU32 DEC_POLICY_TLV_OPERATION_SIZE (of_nat (length policyBlock)) @ policyBlock))"

definition Serialize :: "SandboxPolicyTlv \<Rightarrow> string res" where
  "Serialize tlv =
     res_bind (append_all sized_block (tlv_policies tlv)) (\<lambda>blocks.
       Inr (AppendScopeBlock (tlv_scope tlv) @
            AppendTlvU32 DEC_POLICY_TLV_POLICY_CNT (of_nat (length (tlv_policies tlv))) @ blocks))"

section \<open>The payload\<close>

record SandboxPolicyArg =
  pa_version :: u32
  pa_size :: u32
  pa_module_id :: u32
  pa_data :: string

abbreviation (input) DEC_POLICY_TLV_MAX_SIZE :: nat where "DEC_POLICY_TLV_MAX_SIZE \<equiv> 65536"

definition BuildAlPolicyContext :: "SandboxPolicyTlv \<Rightarrow> SandboxPolicyArg res" where
  "BuildAlPolicyContext tlv =
     res_bind (Serialize tlv) (\<lambda>tlvBytes.
       if tlvBytes = [] then Inl SANDBOX_ERR_CONFIG_INVALID
       else if length tlvBytes > DEC_POLICY_TLV_MAX_SIZE then Inl SANDBOX_ERR_CONFIG_INVALID
       else Inr \<lparr>pa_version = tlv_version tlv, pa_size = of_nat (length tlvBytes), pa_module_id = 0, pa_data = tlvBytes\<rparr>)"

section \<open>File descriptors\<close>

text \<open>
  The system calls of the delivery: \<open>open\<close> answers a descriptor and the error number of a negative one, \<open>fstat\<close>
  device and inode; \<open>ioctl\<close> of \<open>DEC_CMD_POLICY_ADD\<close> answers its result and the error number.
\<close>

record 'w claw_os =
  os_lstat :: "'w \<Rightarrow> lstat"
  os_open :: "string \<Rightarrow> 'w \<Rightarrow> (int \<times> int) \<times> 'w"
  os_close :: "int \<Rightarrow> 'w \<Rightarrow> 'w"
  os_fstat :: "'w \<Rightarrow> int \<Rightarrow> (nat \<times> nat) option"
  os_strerror :: "int \<Rightarrow> string"
  os_policy_add :: "int \<Rightarrow> SandboxPolicyArg \<Rightarrow> 'w \<Rightarrow> (int \<times> int) \<times> 'w"

fun each :: "('a \<Rightarrow> 's \<Rightarrow> 'a \<times> 's) \<Rightarrow> 'a list \<Rightarrow> 's \<Rightarrow> 'a list \<times> 's" where
  "each f [] s = ([], s)"
| "each f (x # xs) s = (let (y, s1) = f x s; (ys, s2) = each f xs s1 in (y # ys, s2))"

definition ForEachPathRule ::
    "(FilterRule \<Rightarrow> 's \<Rightarrow> FilterRule \<times> 's) \<Rightarrow> FilterRule list list \<Rightarrow> 's \<Rightarrow> FilterRule list list \<times> 's" where
  "ForEachPathRule fn entities =
     each (each (\<lambda>fr s. if fr_itemType fr = DEC_POLICY_ITEM_TYPE_PATH then fn fr s else (fr, s))) entities"

definition each_rule :: "(FilterRule \<Rightarrow> 's \<Rightarrow> FilterRule \<times> 's) \<Rightarrow> SandboxPolicyTlv \<Rightarrow> 's \<Rightarrow> SandboxPolicyTlv \<times> 's" where
  "each_rule fn tlv s =
     (let (ps, s') = each (\<lambda>policy s.
            let (rs, s') = each (\<lambda>rule s.
                  let (subject, s1) = ForEachPathRule fn (ru_subjectRules rule) s;
                      (object, s2) = ForEachPathRule fn (ru_objectRules rule) s1
                  in (rule\<lparr>ru_subjectRules := subject, ru_objectRules := object\<rparr>, s2)) (tp_rules policy) s
            in (policy\<lparr>tp_rules := rs\<rparr>, s')) (tlv_policies tlv) s
      in (tlv\<lparr>tlv_policies := ps\<rparr>, s'))"

abbreviation (input) INVALID_PATH_FD :: int where "INVALID_PATH_FD \<equiv> - 1"

text \<open>The state of the opening pass: the world, the errors and whether a rule failed.\<close>

definition OpenOnePathRule ::
    "'w claw_os \<Rightarrow> FilterRule \<Rightarrow> 'w \<times> PolicyError list \<times> bool \<Rightarrow> FilterRule \<times> 'w \<times> PolicyError list \<times> bool" where
  "OpenOnePathRule C fr s = (case s of (w, errors, failed) \<Rightarrow>
     (let ((fd, errno), w') = os_open C (c_str (fr_path fr)) w
      in if fd < 0 then (fr, w', errors @ [OpenFailed (fr_path fr) (os_strerror C errno)], True)
         else (fr\<lparr>fr_fd := fd\<rparr>, w', errors, failed)))"

definition OpenFileFds ::
    "'w claw_os \<Rightarrow> SandboxPolicyTlv \<Rightarrow> PolicyError list \<Rightarrow> 'w \<Rightarrow> int \<times> SandboxPolicyTlv \<times> PolicyError list \<times> 'w" where
  "OpenFileFds C tlv errors w =
     (let (marked, _) = each_rule (\<lambda>fr s. (fr\<lparr>fr_fd := INVALID_PATH_FD\<rparr>, s)) tlv ();
          (tlv', w', errors', failed) = each_rule (OpenOnePathRule C) marked (w, errors, False)
      in (if failed then SANDBOX_ERR_PATH_INVALID else SANDBOX_SUCCESS, tlv', errors', w'))"

definition close_rule :: "'w claw_os \<Rightarrow> FilterRule \<Rightarrow> 'w \<Rightarrow> FilterRule \<times> 'w" where
  "close_rule C fr w =
     (if fr_fd fr \<noteq> INVALID_PATH_FD then (fr\<lparr>fr_fd := INVALID_PATH_FD\<rparr>, os_close C (fr_fd fr) w) else (fr, w))"

definition CloseFileFds :: "'w claw_os \<Rightarrow> SandboxPolicyTlv \<Rightarrow> 'w \<Rightarrow> SandboxPolicyTlv \<times> 'w" where
  "CloseFileFds C tlv w = each_rule (close_rule C) tlv w"

end
