(* ===== verification/Claw_Deliver.thy ===== *)
theory Claw_Deliver
  imports Claw_Tlv
begin

text \<open>
  \<open>claw_sandbox/src/sandbox_policy.cpp\<close> and \<open>sandbox_op_control_deliver.cpp\<close>: one module of one rule group to the
  kernel, the protection of the monitor's socket, a dynamic policy, and the delivery at start-up before and after the
  fork. The operating system is the record \<open>claw_os\<close> on an abstract world; logs and reports to the standard error
  are left out.
\<close>

section \<open>Names\<close>

definition PolicyScopeName :: "int \<Rightarrow> string" where
  "PolicyScopeName scope =
     (if scope = 0 then ''global'' else if scope = 1 then ''specific_user'' else if scope = 2 then ''specific_app''
      else if scope = 3 then ''self_app'' else if scope = 4 then ''specific_task'' else if scope = 5 then ''self_task''
      else if scope = DEC_POLICY_SCOPE_TYPE_SELF_SESSION then ''self_session'' else ''unknown'')"

definition PolicyModuleName :: "u32 \<Rightarrow> string" where
  "PolicyModuleName module =
     (if module = DEC_POLICY_OP_TYPE_FILE then ''file'' else if module = DEC_POLICY_OP_TYPE_PROCESS then ''process''
      else if module = DEC_POLICY_OP_TYPE_NETWORK then ''network'' else ''unknown'')"

definition STARTUP_DELIVERY_MODULES :: "u32 list" where
  "STARTUP_DELIVERY_MODULES = [DEC_POLICY_OP_TYPE_NETWORK, DEC_POLICY_OP_TYPE_FILE, DEC_POLICY_OP_TYPE_PROCESS]"

definition DYNAMIC_DELIVERY_MODULES :: "u32 list" where
  "DYNAMIC_DELIVERY_MODULES = [DEC_POLICY_OP_TYPE_FILE, DEC_POLICY_OP_TYPE_PROCESS]"

section \<open>The guarded object\<close>

text \<open>A \<open>GuardedInode\<close>: device and inode, or nothing when it is not valid.\<close>

type_synonym guarded = "(nat \<times> nat) option"

definition ResolveGuardedInode :: "lstat \<Rightarrow> string \<Rightarrow> guarded" where
  "ResolveGuardedInode lstat protectedPath = (if protectedPath = [] then None else lstat (c_str protectedPath))"

definition OperationLabel :: "u32 \<Rightarrow> u32 \<Rightarrow> string" where
  "OperationLabel module eventType =
     (if module = DEC_POLICY_OP_TYPE_PROCESS then ''ProcessExecCmd'' else PolicyFileNameOfEvent eventType)"

text \<open>The rule's descriptor is open and names the guarded object.\<close>

definition names_guarded :: "(int \<Rightarrow> (nat \<times> nat) option) \<Rightarrow> nat \<times> nat \<Rightarrow> FilterRule \<Rightarrow> bool" where
  "names_guarded fstat guarded fr \<longleftrightarrow>
     fr_itemType fr = DEC_POLICY_ITEM_TYPE_PATH \<and> \<not> fr_fd fr < 0 \<and> fstat (fr_fd fr) = Some guarded"

fun refuse_loop ::
    "(int \<Rightarrow> (nat \<times> nat) option) \<Rightarrow> u32 \<Rightarrow> u32 \<Rightarrow> nat \<times> nat \<Rightarrow> FilterRule list \<Rightarrow> PolicyError list \<Rightarrow> bool \<Rightarrow> bool \<times> PolicyError list" where
  "refuse_loop fstat module eventType guarded [] errors found = (found, errors)"
| "refuse_loop fstat module eventType guarded (fr # frs) errors found =
     (if \<not> names_guarded fstat guarded fr then refuse_loop fstat module eventType guarded frs errors found
      else refuse_loop fstat module eventType guarded frs
        (errors @ [ProtectedObject (OperationLabel module eventType) (fr_path fr)]) True)"

definition RefuseGuardedInEntities ::
    "(int \<Rightarrow> (nat \<times> nat) option) \<Rightarrow> FilterRule list list \<Rightarrow> u32 \<Rightarrow> u32 \<Rightarrow> nat \<times> nat \<Rightarrow> PolicyError list \<Rightarrow> bool \<times> PolicyError list" where
  "RefuseGuardedInEntities fstat entities module eventType guarded errors =
     refuse_loop fstat module eventType guarded (concat entities) errors False"

definition refuse_rule ::
    "(int \<Rightarrow> (nat \<times> nat) option) \<Rightarrow> u32 \<Rightarrow> nat \<times> nat \<Rightarrow> Rule \<Rightarrow> bool \<times> PolicyError list \<Rightarrow> bool \<times> PolicyError list" where
  "refuse_rule fstat module guarded rule s = (case s of (found, errors) \<Rightarrow>
     (let (f1, e1) = RefuseGuardedInEntities fstat (ru_subjectRules rule) module (ru_eventType rule) guarded errors;
          (f2, e2) = RefuseGuardedInEntities fstat (ru_objectRules rule) module (ru_eventType rule) guarded e1
      in (found \<or> f1 \<or> f2, e2)))"

definition RefuseGuardedInode ::
    "(int \<Rightarrow> (nat \<times> nat) option) \<Rightarrow> SandboxPolicyTlv \<Rightarrow> u32 \<Rightarrow> guarded \<Rightarrow> PolicyError list \<Rightarrow> bool \<times> PolicyError list" where
  "RefuseGuardedInode fstat tlv module guarded errors = (case guarded of
       None \<Rightarrow> (False, errors)
     | Some g \<Rightarrow> fold (refuse_rule fstat module g) (concat (map tp_rules (tlv_policies tlv))) (False, errors))"

section \<open>One module of one group\<close>

record ModuleOutcome =
  mo_configured :: bool
  mo_result :: int
  mo_detail :: string
  mo_errors :: "PolicyError list"

definition new_ModuleOutcome :: ModuleOutcome where
  "new_ModuleOutcome = \<lparr>mo_configured = False, mo_result = SANDBOX_SUCCESS, mo_detail = [], mo_errors = []\<rparr>"

definition CheckAndSendModule ::
    "'w claw_os \<Rightarrow> int \<Rightarrow> SandboxPolicyTlv \<Rightarrow> u32 \<Rightarrow> guarded \<Rightarrow> ModuleOutcome \<Rightarrow> 'w \<Rightarrow> int \<times> ModuleOutcome \<times> 'w" where
  "CheckAndSendModule C deviceFd tlv module guarded outcome w =
     (let (refused, errors) = RefuseGuardedInode (os_fstat C w) tlv module guarded (mo_errors outcome);
          outcome = outcome\<lparr>mo_errors := errors\<rparr>
      in if refused then
           (SANDBOX_ERR_CONFIG_INVALID,
            outcome\<lparr>mo_result := SANDBOX_ERR_CONFIG_INVALID, mo_detail := ''a rule names the monitor socket''\<rparr>, w)
         else case BuildAlPolicyContext tlv of
             Inl ret \<Rightarrow> (ret, outcome\<lparr>mo_result := ret, mo_detail := ''failed to build the policy payload''\<rparr>, w)
           | Inr arg \<Rightarrow>
               (let ((ret, errno), w') = os_policy_add C deviceFd (arg\<lparr>pa_module_id := module\<rparr>) w
                in if ret < 0 then
                     (SANDBOX_ERR_SET_POLICY_FAILED,
                      outcome\<lparr>mo_result := SANDBOX_ERR_SET_POLICY_FAILED, mo_detail := os_strerror C errno\<rparr>, w')
                   else (SANDBOX_SUCCESS, outcome, w')))"

definition ConvertModuleTlv ::
    "lstat \<Rightarrow> RuleGroup \<Rightarrow> u32 \<Rightarrow> SandboxPolicyTlv \<Rightarrow> ModuleOutcome \<Rightarrow> int \<times> SandboxPolicyTlv \<times> ModuleOutcome" where
  "ConvertModuleTlv lstat grp module tlv outcome =
     (let (ret, tlv', errors) = ConvertOperationControlToTlv lstat [grp] module tlv (mo_errors outcome);
          outcome = outcome\<lparr>mo_errors := errors\<rparr>
      in if ret \<noteq> SANDBOX_SUCCESS then
           (ret, tlv', outcome\<lparr>mo_configured := True, mo_result := ret, mo_detail := ''refused before delivery, see errors''\<rparr>)
         else (SANDBOX_SUCCESS, tlv', outcome\<lparr>mo_configured := tlv_policies tlv' \<noteq> []\<rparr>))"

definition DeliverModuleToDevice ::
    "'w claw_os \<Rightarrow> int \<Rightarrow> RuleGroup \<Rightarrow> u32 \<Rightarrow> guarded \<Rightarrow> ModuleOutcome \<Rightarrow> 'w \<Rightarrow> int \<times> ModuleOutcome \<times> 'w" where
  "DeliverModuleToDevice C deviceFd grp module guarded outcome w =
     (let (ret, tlv, outcome) = ConvertModuleTlv (os_lstat C w) grp module new_Tlv outcome
      in if ret \<noteq> SANDBOX_SUCCESS \<or> \<not> mo_configured outcome then (ret, outcome, w)
         else
           let (ret, tlv, errors, w) = OpenFileFds C tlv (mo_errors outcome) w;
               outcome = outcome\<lparr>mo_errors := errors\<rparr>;
               (ret, outcome, w) =
                 (if ret \<noteq> SANDBOX_SUCCESS then
                    (ret, outcome\<lparr>mo_result := ret, mo_detail := ''a rule path could not be opened''\<rparr>, w)
                  else CheckAndSendModule C deviceFd tlv module guarded outcome w);
               (_, w) = CloseFileFds C tlv w
           in (ret, outcome, w))"

section \<open>The monitor's socket\<close>

definition BuildSocketProtectionTlv :: "int \<Rightarrow> string \<Rightarrow> SandboxPolicyTlv \<Rightarrow> SandboxPolicyTlv" where
  "BuildSocketProtectionTlv socketFd socketPath tlv =
     (let eventTypes = [DEC_POLICY_FILE_EVENT_READ, DEC_POLICY_FILE_EVENT_WRITE, DEC_POLICY_FILE_EVENT_DELETE];
          eqRule = new_FilterRule\<lparr>fr_cmpType := DEC_POLICY_CMP_EQ, fr_itemType := DEC_POLICY_ITEM_TYPE_PATH,
            fr_fd := socketFd, fr_path := socketPath\<rparr>;
          policy = new_TlvPolicy\<lparr>tp_operationType := DEC_POLICY_OP_TYPE_FILE, tp_defaultAction := DEC_POLICY_ACTION_NONE\<rparr>
      in tlv\<lparr>tlv_policies := tlv_policies tlv @
           [fold (\<lambda>eventType. add_rule DEC_POLICY_ACTION_DENY eventType eqRule) eventTypes policy]\<rparr>)"

definition DeliverSocketProtectionTlv :: "'w claw_os \<Rightarrow> int \<Rightarrow> SandboxPolicyTlv \<Rightarrow> 'w \<Rightarrow> int \<times> 'w" where
  "DeliverSocketProtectionTlv C deviceFd tlv w = (case BuildAlPolicyContext tlv of
       Inl ret \<Rightarrow> (ret, w)
     | Inr arg \<Rightarrow>
         (let ((ret, errno), w') = os_policy_add C deviceFd (arg\<lparr>pa_module_id := DEC_POLICY_OP_TYPE_FILE\<rparr>) w
          in (if ret < 0 then SANDBOX_ERR_SET_POLICY_FAILED else SANDBOX_SUCCESS, w')))"

abbreviation (input) ENOENT :: int where "ENOENT \<equiv> 2"

definition AddSocketProtectionPolicy :: "'w claw_os \<Rightarrow> int \<Rightarrow> string \<Rightarrow> 'w \<Rightarrow> int \<times> 'w" where
  "AddSocketProtectionPolicy C deviceFd socketPath w =
     (if deviceFd < 0 \<or> socketPath = [] then (SANDBOX_SUCCESS, w)
      else
        let ((fd, errno), w1) = os_open C (c_str socketPath) w
        in if fd < 0 then (if errno = ENOENT then SANDBOX_SUCCESS else SANDBOX_ERR_SET_POLICY_FAILED, w1)
           else
             let (ret, w2) = DeliverSocketProtectionTlv C deviceFd (BuildSocketProtectionTlv fd socketPath new_Tlv) w1
             in (ret, os_close C fd w2))"

section \<open>A dynamic policy\<close>

record PolicyModuleResult =
  pmr_module :: u32
  pmr_result :: int
  pmr_detail :: string

record PolicyScopeResult =
  psr_scope :: int
  psr_errors :: "PolicyError list"
  psr_delivered :: "PolicyModuleResult list"

text \<open>The modules of one group, the number that failed counted in \<open>degraded\<close>.\<close>

fun deliver_modules ::
    "'w claw_os \<Rightarrow> int \<Rightarrow> RuleGroup \<Rightarrow> guarded \<Rightarrow> u32 list \<Rightarrow> PolicyScopeResult \<Rightarrow> nat \<Rightarrow> 'w \<Rightarrow> PolicyScopeResult \<times> nat \<times> 'w" where
  "deliver_modules C deviceFd grp guarded [] result degraded w = (result, degraded, w)"
| "deliver_modules C deviceFd grp guarded (module # modules) result degraded w =
     (let (_, outcome, w) = DeliverModuleToDevice C deviceFd grp module guarded new_ModuleOutcome w;
          result = result\<lparr>psr_errors := psr_errors result @ mo_errors outcome\<rparr>
      in if \<not> mo_configured outcome then deliver_modules C deviceFd grp guarded modules result degraded w
         else deliver_modules C deviceFd grp guarded modules
           (result\<lparr>psr_delivered := psr_delivered result @
             [\<lparr>pmr_module = module, pmr_result = mo_result outcome, pmr_detail = mo_detail outcome\<rparr>]\<rparr>)
           (if mo_result outcome \<noteq> SANDBOX_SUCCESS then degraded + 1 else degraded) w)"

fun deliver_groups ::
    "'w claw_os \<Rightarrow> int \<Rightarrow> guarded \<Rightarrow> RuleGroup list \<Rightarrow> int \<Rightarrow> PolicyScopeResult list \<Rightarrow> 'w \<Rightarrow> int \<times> PolicyScopeResult list \<times> 'w" where
  "deliver_groups C deviceFd guarded [] verdict results w = (verdict, results, w)"
| "deliver_groups C deviceFd guarded (grp # groups) verdict results w =
     (let (result, degraded, w) = deliver_modules C deviceFd grp guarded DYNAMIC_DELIVERY_MODULES
            \<lparr>psr_scope = rg_scope grp, psr_errors = [], psr_delivered = []\<rparr> 0 w
      in if psr_delivered result = [] then deliver_groups C deviceFd guarded groups verdict results w
         else deliver_groups C deviceFd guarded groups
           (if degraded > 0 then SANDBOX_ERR_SET_POLICY_PARTIAL else verdict) (results @ [result]) w)"

definition AddOperationControlPolicies ::
    "'w claw_os \<Rightarrow> int \<Rightarrow> RuleGroup list \<Rightarrow> string \<Rightarrow> PolicyScopeResult list \<Rightarrow> 'w \<Rightarrow> int \<times> PolicyScopeResult list \<times> 'w" where
  "AddOperationControlPolicies C deviceFd ruleGroups protectedPath results w =
     (if deviceFd < 0 then (SANDBOX_ERR_DEVICE_IO, results, w)
      else deliver_groups C deviceFd (ResolveGuardedInode (os_lstat C w) protectedPath) ruleGroups SANDBOX_SUCCESS results w)"

section \<open>Delivery at start-up\<close>

text \<open>The device's other requests; each answers the result of its \<open>ioctl\<close>.\<close>

record 'w claw_device = "'w claw_os" +
  dev_open :: "'w \<Rightarrow> int \<times> 'w"
  dev_executer_init :: "int \<Rightarrow> 'w \<Rightarrow> int \<times> 'w"
  dev_daemon_init :: "int \<Rightarrow> u32 \<Rightarrow> u64 \<Rightarrow> u64 \<Rightarrow> 'w \<Rightarrow> int \<times> 'w"
  dev_event_sub :: "int \<Rightarrow> u32 \<Rightarrow> 'w \<Rightarrow> int \<times> 'w"
  dev_config_set :: "int \<Rightarrow> u32 \<Rightarrow> u32 \<Rightarrow> 'w \<Rightarrow> int \<times> 'w"
  dev_getpid :: "'w \<Rightarrow> int"

abbreviation (input) os_of :: "'w claw_device \<Rightarrow> 'w claw_os" where "os_of D \<equiv> claw_os.truncate D"

definition ioctl_code :: "int \<times> 'w \<Rightarrow> int \<times> 'w" where
  "ioctl_code answer = (case answer of (ret, w) \<Rightarrow> (if ret < 0 then SANDBOX_ERR_SET_POLICY_FAILED else SANDBOX_SUCCESS, w))"

definition ExecuterInit :: "'w claw_device \<Rightarrow> int \<Rightarrow> 'w \<Rightarrow> int \<times> 'w" where
  "ExecuterInit D fd w = ioctl_code (dev_executer_init D fd w)"

definition DaemonInit :: "'w claw_device \<Rightarrow> int \<Rightarrow> u32 \<Rightarrow> u64 \<Rightarrow> 'w \<Rightarrow> int \<times> 'w" where
  "DaemonInit D fd userid appIdentifier w =
     (let (ret, w1) = ioctl_code (dev_daemon_init D fd userid (word_of_int (dev_getpid D w)) appIdentifier w)
      in if ret \<noteq> SANDBOX_SUCCESS then (ret, w1) else ioctl_code (dev_event_sub D fd 0 w1))"

abbreviation (input) POLICY_SET_SET :: u32 where "POLICY_SET_SET \<equiv> 0"

definition PolicyConfigSet :: "'w claw_device \<Rightarrow> int \<Rightarrow> u32 \<Rightarrow> 'w \<Rightarrow> int \<times> 'w" where
  "PolicyConfigSet D fd scopeType w = ioctl_code (dev_config_set D fd POLICY_SET_SET scopeType w)"

fun startup_modules ::
    "'w claw_device \<Rightarrow> int \<Rightarrow> RuleGroup \<Rightarrow> u32 list \<Rightarrow> nat \<Rightarrow> PolicyError list \<Rightarrow> 'w \<Rightarrow> int \<times> nat \<times> PolicyError list \<times> 'w" where
  "startup_modules D fd grp [] okIoctls errors w = (SANDBOX_SUCCESS, okIoctls, errors, w)"
| "startup_modules D fd grp (module # modules) okIoctls errors w =
     (let (ret, outcome, w) = DeliverModuleToDevice (os_of D) fd grp module None new_ModuleOutcome w;
          errors = errors @ mo_errors outcome
      in if ret \<noteq> SANDBOX_SUCCESS then (ret, okIoctls, errors, w)
         else startup_modules D fd grp modules (if mo_configured outcome then okIoctls + 1 else okIoctls) errors w)"

definition DeliverOneGroupModules ::
    "'w claw_device \<Rightarrow> int \<Rightarrow> RuleGroup \<Rightarrow> nat \<Rightarrow> PolicyError list \<Rightarrow> 'w \<Rightarrow> int \<times> nat \<times> PolicyError list \<times> 'w" where
  "DeliverOneGroupModules D fd grp = startup_modules D fd grp STARTUP_DELIVERY_MODULES"

record GroupTally =
  gt_index :: nat
  gt_ioctls :: nat
  gt_complete :: bool

record GroupDeliveryTally =
  dt_deliveredGroups :: nat
  dt_deliveredIoctls :: nat
  dt_groups :: "GroupTally list"
  dt_errors :: "PolicyError list"

definition new_GroupDeliveryTally :: GroupDeliveryTally where
  "new_GroupDeliveryTally = \<lparr>dt_deliveredGroups = 0, dt_deliveredIoctls = 0, dt_groups = [], dt_errors = []\<rparr>"

definition DeliverScopeConfigSet :: "'w claw_device \<Rightarrow> int \<Rightarrow> RuleGroup list \<Rightarrow> 'w \<Rightarrow> int \<times> 'w" where
  "DeliverScopeConfigSet D fd ruleGroups w =
     (let scopeType = (if ruleGroups = [] then DEC_POLICY_SCOPE_TYPE_SELF_SESSION else rg_scope (hd ruleGroups))
      in PolicyConfigSet D fd (word_of_int scopeType) w)"

text \<open>The answer is the code, the tally and whether the group was skipped.\<close>

definition DeliverOneGroupStep ::
    "'w claw_device \<Rightarrow> int \<Rightarrow> RuleGroup \<Rightarrow> nat \<Rightarrow> GroupDeliveryTally \<Rightarrow> 'w \<Rightarrow> int \<times> GroupDeliveryTally \<times> bool \<times> 'w" where
  "DeliverOneGroupStep D fd grp groupIndex tally w =
     (if rg_file grp = None \<and> rg_process grp = None \<and> rg_network grp = None then (SANDBOX_SUCCESS, tally, True, w)
      else
        let (ret, groupIoctls, errors, w) = DeliverOneGroupModules D fd grp 0 (dt_errors tally) w;
            tally = tally\<lparr>dt_errors := errors, dt_deliveredIoctls := dt_deliveredIoctls tally + groupIoctls,
              dt_groups := dt_groups tally @
                [\<lparr>gt_index = groupIndex, gt_ioctls = groupIoctls, gt_complete = ret = SANDBOX_SUCCESS\<rparr>]\<rparr>
        in if ret \<noteq> SANDBOX_SUCCESS then (ret, tally, False, w)
           else (SANDBOX_SUCCESS, tally\<lparr>dt_deliveredGroups := dt_deliveredGroups tally + 1\<rparr>, False, w))"

definition RunDaemonHandshake :: "'w claw_device \<Rightarrow> int \<Rightarrow> u32 \<Rightarrow> u64 \<Rightarrow> RuleGroup list \<Rightarrow> 'w \<Rightarrow> int \<times> 'w" where
  "RunDaemonHandshake D fd userid appIdentifier ruleGroups w =
     (let (ret, w1) = DaemonInit D fd userid appIdentifier w
      in if ret \<noteq> SANDBOX_SUCCESS then (ret, w1) else DeliverScopeConfigSet D fd ruleGroups w1)"

text \<open>The loop of \<open>DeliverPolicyGroups\<close> from the index \<open>gi\<close>; the early exit for no groups is its empty case.\<close>

fun DeliverPolicyGroups ::
    "'w claw_device \<Rightarrow> int \<Rightarrow> nat \<Rightarrow> RuleGroup list \<Rightarrow> GroupDeliveryTally \<Rightarrow> 'w \<Rightarrow> int \<times> GroupDeliveryTally \<times> 'w" where
  "DeliverPolicyGroups D fd gi [] tally w = (SANDBOX_SUCCESS, tally, w)"
| "DeliverPolicyGroups D fd gi (grp # groups) tally w =
     (case DeliverOneGroupStep D fd grp (gi + 1) tally w of (ret, tally, skipped, w) \<Rightarrow>
        if skipped then DeliverPolicyGroups D fd (gi + 1) groups tally w
        else if ret \<noteq> SANDBOX_SUCCESS then (ret, tally, w)
        else DeliverPolicyGroups D fd (gi + 1) groups tally w)"

text \<open>
  The fields of \<open>SandboxManager\<close> that the delivery reads, with the descriptor it keeps across the fork. The open of
  the device answers a negative number for a failure (\<open>OpenDecDeviceBeforeFork\<close> turns it into \<open>-1\<close>).
\<close>

record ManagerConfig =
  mc_type :: string
  mc_uid :: u32
  mc_appIdentifier :: u64
  mc_ruleGroups :: "RuleGroup list"
  mc_monitorSocketPath :: string
  mc_decFd :: int

abbreviation (input) UID_BASE :: u32 where "UID_BASE \<equiv> 200000"

definition OpenDecDeviceBeforeFork :: "'w claw_device \<Rightarrow> 'w \<Rightarrow> int \<times> 'w" where
  "OpenDecDeviceBeforeFork D w = (let (fd, w') = dev_open D w in if fd < 0 then (- 1, w') else (fd, w'))"

definition DeliverDaemonSidePolicies :: "'w claw_device \<Rightarrow> ManagerConfig \<Rightarrow> 'w \<Rightarrow> int \<times> ManagerConfig \<times> 'w" where
  "DeliverDaemonSidePolicies D m w =
     (if mc_type m \<noteq> ''shell'' then (SANDBOX_SUCCESS, m, w)
      else
        let ruleGroups = mc_ruleGroups m;
            (fd, w) = OpenDecDeviceBeforeFork D w;
            m = m\<lparr>mc_decFd := fd\<rparr>
        in if fd < 0 then (SANDBOX_ERR_SET_POLICY_FAILED, m, w)
           else
             let (ret, w) = RunDaemonHandshake D fd (mc_uid m div UID_BASE) (mc_appIdentifier m) ruleGroups w;
                 (ret, w) = (if ret = SANDBOX_SUCCESS
                   then (let (ret, _, w) = DeliverPolicyGroups D fd 0 ruleGroups new_GroupDeliveryTally w in (ret, w))
                   else (ret, w))
             in if ret \<noteq> SANDBOX_SUCCESS then (ret, m\<lparr>mc_decFd := - 1\<rparr>, os_close D fd w)
                else
                  let (_, w) = AddSocketProtectionPolicy (os_of D) fd (mc_monitorSocketPath m) w
                  in (SANDBOX_SUCCESS, m, w))"

definition DeliverExecuterInit :: "'w claw_device \<Rightarrow> ManagerConfig \<Rightarrow> 'w \<Rightarrow> int \<times> 'w" where
  "DeliverExecuterInit D m w =
     (if mc_type m \<noteq> ''shell'' then (SANDBOX_SUCCESS, w)
      else
        let (fd, w) = dev_open D w
        in if fd < 0 then (SANDBOX_ERR_SET_POLICY_FAILED, w)
           else let (ret, w) = ExecuterInit D fd w in (ret, os_close D fd w))"

end
