(* ===== verification/Claw_Event.thy ===== *)
theory Claw_Event
  imports Claw_Deliver Claw_Socket
begin

text \<open>
  \<open>claw_sandbox/src/sandbox_device_event.cpp\<close> and \<open>sandbox_response.cpp\<close>: from the kernel's event record to JSON, and
  from the result of a policy to the body of a response. A JSON document is a value of \<open>json\<close>; printing it is a
  parameter, \<open>None\<close> when it fails. A failed allocation is not a branch elsewhere.
\<close>

datatype json = JString string | JNumber int | JBool bool | JArray "json list" | JObject "(string \<times> json) list"

type_synonym members = "(string \<times> json) list"
type_synonym u16 = "16 word"

abbreviation (input) SANDBOX_ERR_DATA_CORRUPT :: int where "SANDBOX_ERR_DATA_CORRUPT \<equiv> - 41"
abbreviation (input) SANDBOX_ERR_EVENT_FIELD_INVALID :: int where "SANDBOX_ERR_EVENT_FIELD_INVALID \<equiv> - 42"

section \<open>The field table\<close>

definition DEVICE_EVENT_VERSION :: u32 where "DEVICE_EVENT_VERSION = 1"

record DeviceEventHeader =
  deh_version :: u32
  deh_eventClass :: u32
  deh_eventType :: u32
  deh_valLen :: u32
  deh_eventId :: u64

record TlvHeader =
  th_tag :: u16
  th_length :: u16

datatype TlvValueType = TLV_VALUE_STRING | TLV_VALUE_UINT64 | TLV_VALUE_INT64 | TLV_VALUE_UINT32 | TLV_VALUE_INT32

record TlvFieldInfo =
  tf_tag :: u16
  tf_name :: string
  tf_type :: TlvValueType
  tf_maxLength :: u16

definition TLV_LEN_NUMERIC :: u16 where "TLV_LEN_NUMERIC = 8"
definition TLV_LEN_STRING :: u16 where "TLV_LEN_STRING = 256"

abbreviation (input) tlv_field :: "u16 \<Rightarrow> string \<Rightarrow> TlvValueType \<Rightarrow> u16 \<Rightarrow> TlvFieldInfo" where
  "tlv_field tag name t maxLength \<equiv> \<lparr>tf_tag = tag, tf_name = name, tf_type = t, tf_maxLength = maxLength\<rparr>"

definition TLV_FIELD_TABLE :: "TlvFieldInfo list" where
  "TLV_FIELD_TABLE =
     [tlv_field 1 ''event_name'' TLV_VALUE_STRING TLV_LEN_STRING,
      tlv_field 2 ''timestamp'' TLV_VALUE_STRING TLV_LEN_STRING,
      tlv_field 128 ''uid'' TLV_VALUE_UINT32 TLV_LEN_NUMERIC,
      tlv_field 131 ''pid'' TLV_VALUE_INT32 TLV_LEN_NUMERIC,
      tlv_field 133 ''comm'' TLV_VALUE_STRING TLV_LEN_STRING,
      tlv_field 140 ''cmdline'' TLV_VALUE_STRING TLV_LEN_STRING,
      tlv_field 141 ''start_time'' TLV_VALUE_UINT64 TLV_LEN_NUMERIC,
      tlv_field 160 ''exec_cmd'' TLV_VALUE_STRING TLV_LEN_STRING,
      tlv_field 161 ''exec_argv'' TLV_VALUE_STRING TLV_LEN_STRING,
      tlv_field 258 ''file_size'' TLV_VALUE_UINT64 TLV_LEN_NUMERIC,
      tlv_field 259 ''file_path'' TLV_VALUE_STRING TLV_LEN_STRING,
      tlv_field 260 ''file_mode'' TLV_VALUE_STRING TLV_LEN_STRING,
      tlv_field 261 ''file_owneruid'' TLV_VALUE_UINT32 TLV_LEN_NUMERIC,
      tlv_field 262 ''file_ownergid'' TLV_VALUE_UINT32 TLV_LEN_NUMERIC,
      tlv_field 279 ''open_flags'' TLV_VALUE_UINT64 TLV_LEN_NUMERIC,
      tlv_field 384 ''appid'' TLV_VALUE_UINT64 TLV_LEN_NUMERIC,
      tlv_field 386 ''agentid'' TLV_VALUE_UINT64 TLV_LEN_NUMERIC]"

abbreviation (input) sizeof_DeviceEventHeader :: nat where "sizeof_DeviceEventHeader \<equiv> 24"
abbreviation (input) sizeof_TlvHeader :: nat where "sizeof_TlvHeader \<equiv> 4"

definition MaxDeviceEventLength :: nat where
  "MaxDeviceEventLength =
     foldl (\<lambda>n field. n + (sizeof_TlvHeader + unat (tf_maxLength field))) sizeof_DeviceEventHeader TLV_FIELD_TABLE"

definition MAX_DEVICE_EVENT_LENGTH :: nat where "MAX_DEVICE_EVENT_LENGTH = MaxDeviceEventLength"

text \<open>The field and its place in the table.\<close>

fun find_field :: "nat \<Rightarrow> TlvFieldInfo list \<Rightarrow> u16 \<Rightarrow> (nat \<times> TlvFieldInfo) option" where
  "find_field i [] tag = None"
| "find_field i (field # others) tag = (if tf_tag field = tag then Some (i, field) else find_field (i + 1) others tag)"

definition FindTlvField :: "u16 \<Rightarrow> (nat \<times> TlvFieldInfo) option" where
  "FindTlvField tag = find_field 0 TLV_FIELD_TABLE tag"

section \<open>Fields\<close>

text \<open>The bytes of a structure in memory on a little-endian machine.\<close>

definition u16_at :: "nat \<Rightarrow> string \<Rightarrow> u16" where
  "u16_at k bs = of_nat (le_value (take 2 (drop k bs)))"

definition u64_at :: "nat \<Rightarrow> string \<Rightarrow> u64" where
  "u64_at k bs = of_nat (le_value (take 8 (drop k bs)))"

definition ReadNumericField :: "string \<Rightarrow> u64 res" where
  "ReadNumericField data = (if length data \<noteq> 8 then Inl SANDBOX_ERR_DATA_CORRUPT else Inr (u64_at 0 data))"

text \<open>\<open>std::to_string\<close> of a signed number.\<close>

definition int_to_string :: "int \<Rightarrow> string" where
  "int_to_string i = (if i < 0 then CHR ''-'' # to_string (nat (- i)) else to_string (nat i))"

definition AddUint64Field :: "members \<Rightarrow> string \<Rightarrow> string \<Rightarrow> members res" where
  "AddUint64Field object name data =
     res_bind (ReadNumericField data) (\<lambda>value. Inr (object @ [(name, JString (to_string (unat value)))]))"

definition AddInt64Field :: "members \<Rightarrow> string \<Rightarrow> string \<Rightarrow> members res" where
  "AddInt64Field object name data =
     res_bind (ReadNumericField data) (\<lambda>raw. Inr (object @ [(name, JString (int_to_string (sint raw)))]))"

definition AddUint32Field :: "members \<Rightarrow> string \<Rightarrow> string \<Rightarrow> members res" where
  "AddUint32Field object name data =
     res_bind (ReadNumericField data) (\<lambda>value.
       if value > 0xFFFFFFFF then Inl SANDBOX_ERR_EVENT_FIELD_INVALID
       else Inr (object @ [(name, JNumber (uint value))]))"

definition AddInt32Field :: "members \<Rightarrow> string \<Rightarrow> string \<Rightarrow> members res" where
  "AddInt32Field object name data =
     res_bind (ReadNumericField data) (\<lambda>raw.
       let value = sint raw
       in if value < - 2147483648 \<or> value > 2147483647 then Inl SANDBOX_ERR_EVENT_FIELD_INVALID
          else Inr (object @ [(name, JNumber value)]))"

definition AddStringField :: "members \<Rightarrow> string \<Rightarrow> string \<Rightarrow> members res" where
  "AddStringField object name data = Inr (object @ [(name, JString (c_str data))])"

definition ParseTlvField :: "TlvFieldInfo \<Rightarrow> string \<Rightarrow> members \<Rightarrow> members res" where
  "ParseTlvField field data ctx = (case tf_type field of
       TLV_VALUE_STRING \<Rightarrow> AddStringField ctx (tf_name field) data
     | TLV_VALUE_UINT64 \<Rightarrow> AddUint64Field ctx (tf_name field) data
     | TLV_VALUE_INT64 \<Rightarrow> AddInt64Field ctx (tf_name field) data
     | TLV_VALUE_UINT32 \<Rightarrow> AddUint32Field ctx (tf_name field) data
     | TLV_VALUE_INT32 \<Rightarrow> AddInt32Field ctx (tf_name field) data)"

text \<open>The value is the \<open>length\<close> bytes after the header; the answer holds the marks of the fields seen and the object.\<close>

definition ParseKnownTlvField :: "TlvHeader \<Rightarrow> string \<Rightarrow> members \<Rightarrow> u32 \<Rightarrow> (members \<times> u32) res" where
  "ParseKnownTlvField tlv data ctx renderedTags = (case FindTlvField (th_tag tlv) of
       None \<Rightarrow> Inr (ctx, renderedTags)
     | Some (i, field) \<Rightarrow>
         if th_length tlv > tf_maxLength field then Inl SANDBOX_ERR_EVENT_FIELD_INVALID
         else
           let bit = push_bit i (1 :: u32)
           in if renderedTags AND bit \<noteq> 0 then Inl SANDBOX_ERR_EVENT_FIELD_INVALID
              else res_bind (ParseTlvField field data ctx) (\<lambda>ctx'. Inr (ctx', renderedTags OR bit)))"

text \<open>The loop on the bytes from the current offset on.\<close>

function tlv_loop :: "string \<Rightarrow> members \<Rightarrow> u32 \<Rightarrow> members res" where
  "tlv_loop data ctx renderedTags =
     (if data = [] then Inr ctx
      else if length data < sizeof_TlvHeader then Inl SANDBOX_ERR_DATA_CORRUPT
      else
        let tlv = \<lparr>th_tag = u16_at 0 data, th_length = u16_at 2 data\<rparr>;
            rest = drop sizeof_TlvHeader data;
            n = unat (th_length tlv)
        in if n > length rest then Inl SANDBOX_ERR_DATA_CORRUPT
           else case ParseKnownTlvField tlv (take n rest) ctx renderedTags of
               Inl ret \<Rightarrow> Inl ret
             | Inr (ctx', renderedTags') \<Rightarrow> tlv_loop (drop n rest) ctx' renderedTags')"
  by pat_completeness auto
termination by (relation "measure (length \<circ> fst)") auto

declare tlv_loop.simps [simp del]

definition ParseTlvFields :: "string \<Rightarrow> members \<Rightarrow> members res" where
  "ParseTlvFields data ctx = tlv_loop data ctx 0"

section \<open>Events\<close>

datatype ParseStep = DONE | DROP

definition event_header_of :: "string \<Rightarrow> DeviceEventHeader" where
  "event_header_of bs = \<lparr>deh_version = u32_at 0 bs, deh_eventClass = u32_at 4 bs, deh_eventType = u32_at 8 bs,
     deh_valLen = u32_at 12 bs, deh_eventId = u64_at 16 bs\<rparr>"

definition ValidateEventFrame :: "string \<Rightarrow> DeviceEventHeader option" where
  "ValidateEventFrame data =
     (if length data < sizeof_DeviceEventHeader then None
      else
        let parsed = event_header_of data
        in if deh_version parsed \<noteq> DEVICE_EVENT_VERSION then None
           else if unat (deh_valLen parsed) > MAX_DEVICE_EVENT_LENGTH - sizeof_DeviceEventHeader then None
           else if length data < sizeof_DeviceEventHeader + unat (deh_valLen parsed) then None
           else Some parsed)"

definition BuildEventJson :: "(json \<Rightarrow> string option) \<Rightarrow> DeviceEventHeader \<Rightarrow> string \<Rightarrow> string res" where
  "BuildEventJson print header payload =
     res_bind (ParseTlvFields (take (unat (deh_valLen header)) payload) []) (\<lambda>ctx.
       let doc = JObject [(''context'', JObject ctx), (''version'', JNumber (uint (deh_version header))),
             (''event_class'', JNumber (uint (deh_eventClass header))), (''event_type'', JNumber (uint (deh_eventType header))),
             (''val_len'', JNumber (uint (deh_valLen header))), (''event_id'', JString (to_string (unat (deh_eventId header))))]
       in case print doc of
            None \<Rightarrow> Inl SANDBOX_ERR_GENERIC
          | Some jsonStr \<Rightarrow>
              if length jsonStr > MAX_BODY_LENGTH then Inl SANDBOX_ERR_SOCKET_MSG_TOO_LARGE else Inr jsonStr)"

record TlvEventParser =
  tep_header :: DeviceEventHeader
  tep_error :: int

definition no_header :: DeviceEventHeader where
  "no_header = \<lparr>deh_version = 0, deh_eventClass = 0, deh_eventType = 0, deh_valLen = 0, deh_eventId = 0\<rparr>"

definition ParseEvent :: "(json \<Rightarrow> string option) \<Rightarrow> string \<Rightarrow> string \<Rightarrow> ParseStep \<times> TlvEventParser \<times> string" where
  "ParseEvent print data jsonOutput = (case ValidateEventFrame data of
       None \<Rightarrow> (DROP, \<lparr>tep_header = no_header, tep_error = SANDBOX_ERR_DATA_CORRUPT\<rparr>, jsonOutput)
     | Some header \<Rightarrow> (case BuildEventJson print header (drop sizeof_DeviceEventHeader data) of
           Inl ret \<Rightarrow> (DROP, \<lparr>tep_header = header, tep_error = ret\<rparr>, jsonOutput)
         | Inr jsonStr \<Rightarrow> (DONE, \<lparr>tep_header = header, tep_error = SANDBOX_SUCCESS\<rparr>, jsonStr)))"

section \<open>Responses\<close>

definition MAX_RESPONSE_ERROR_COUNT :: nat where "MAX_RESPONSE_ERROR_COUNT = 64"
definition SANDBOX_RESPONSE_BODY_VERSION :: int where "SANDBOX_RESPONSE_BODY_VERSION = 1"
definition SANDBOX_RESPONSE_TYPE_ADD_POLICY :: string where "SANDBOX_RESPONSE_TYPE_ADD_POLICY = ''add_policy_result''"

definition AddOptionalString :: "members \<Rightarrow> string \<Rightarrow> string \<Rightarrow> members" where
  "AddOptionalString item name value = (if value = [] then item else item @ [(name, JString (c_str value))])"

definition BuildPolicyErrorJson :: "PolicyError \<Rightarrow> json" where
  "BuildPolicyErrorJson error =
     (let item = [(''reason'', JString (c_str (pe_reason error)))];
          item = AddOptionalString item ''operation'' (pe_operation error);
          item = AddOptionalString item ''object'' (pe_object error);
          item = AddOptionalString item ''detail'' (pe_detail error)
      in if pe_actions error = [] then JObject item
         else JObject (item @ [(''actions'', JArray (map (\<lambda>action. JString (c_str action)) (pe_actions error)))]))"

definition AppendDeliveredJson :: "members \<Rightarrow> PolicyModuleResult list \<Rightarrow> members" where
  "AppendDeliveredJson doc delivered =
     doc @ [(''delivered'', JArray (map (\<lambda>entry. JObject (AddOptionalString
       [(''module'', JString (PolicyModuleName (pmr_module entry))), (''result'', JNumber (ToResponseCode (pmr_result entry)))]
       ''detail'' (pmr_detail entry))) delivered))]"

definition BuildScopeResultJson :: "PolicyScopeResult \<Rightarrow> json" where
  "BuildScopeResultJson result =
     (let reported = min (length (psr_errors result)) MAX_RESPONSE_ERROR_COUNT;
          item = [(''errors'', JArray (map BuildPolicyErrorJson (take reported (psr_errors result)))),
            (''scope'', JString (PolicyScopeName (psr_scope result))),
            (''truncated'', JBool (reported < length (psr_errors result)))]
      in JObject (AppendDeliveredJson item (psr_delivered result)))"

definition BuildAddPolicyResult :: "(json \<Rightarrow> string option) \<Rightarrow> PolicyScopeResult list \<Rightarrow> string" where
  "BuildAddPolicyResult print results =
     (let doc = JObject [(''groups'', JArray (map BuildScopeResultJson results)),
            (''type'', JString SANDBOX_RESPONSE_TYPE_ADD_POLICY), (''version'', JNumber SANDBOX_RESPONSE_BODY_VERSION)]
      in case print doc of None \<Rightarrow> [] | Some s \<Rightarrow> s)"

end
