(* ===== verification/Claw_Monitor.thy ===== *)
theory Claw_Monitor
  imports Claw_Cmd Claw_Event
begin

text \<open>
  \<open>claw_sandbox/src/sandbox_monitor.cpp\<close> and \<open>sandbox_monitor.h\<close>: the event loop between the sandboxed child, the
  device and the application. What the kernel answers is part of the state: each kind of call has a list of coming
  answers, and an empty list answers as the text before its reader says. The clock counts nanoseconds. Closing a
  descriptor is forgetting it; logging is left out.
\<close>

section \<open>Types\<close>

abbreviation (input) EISCONN :: int where "EISCONN \<equiv> 106"
abbreviation (input) ECONNREFUSED :: int where "ECONNREFUSED \<equiv> 111"

abbreviation (input) SANDBOX_ERR_SOCKET_CREATE_FAILED :: int where "SANDBOX_ERR_SOCKET_CREATE_FAILED \<equiv> - 34"
abbreviation (input) SANDBOX_ERR_SOCKET_CONNECT_FAILED :: int where "SANDBOX_ERR_SOCKET_CONNECT_FAILED \<equiv> - 35"
abbreviation (input) SANDBOX_ERR_SOCKET_CONNECT_TIMEOUT :: int where "SANDBOX_ERR_SOCKET_CONNECT_TIMEOUT \<equiv> - 36"
abbreviation (input) SANDBOX_ERR_DEVICE_OPEN_FAILED :: int where "SANDBOX_ERR_DEVICE_OPEN_FAILED \<equiv> - 38"
abbreviation (input) SANDBOX_ERR_CHILD_WATCH_FAILED :: int where "SANDBOX_ERR_CHILD_WATCH_FAILED \<equiv> - 43"
abbreviation (input) SANDBOX_ERR_CHILD_WAIT_FAILED :: int where "SANDBOX_ERR_CHILD_WAIT_FAILED \<equiv> - 44"
abbreviation (input) SANDBOX_ERR_EPOLL_FAILED :: int where "SANDBOX_ERR_EPOLL_FAILED \<equiv> - 45"
abbreviation (input) SANDBOX_ERR_MONITOR_STOPPED :: int where "SANDBOX_ERR_MONITOR_STOPPED \<equiv> - 47"

abbreviation (input) EPOLLIN :: u32 where "EPOLLIN \<equiv> 0x001"
abbreviation (input) EPOLLOUT :: u32 where "EPOLLOUT \<equiv> 0x004"
abbreviation (input) EPOLLERR :: u32 where "EPOLLERR \<equiv> 0x008"
abbreviation (input) EPOLLHUP :: u32 where "EPOLLHUP \<equiv> 0x010"
abbreviation (input) EPOLLRDHUP :: u32 where "EPOLLRDHUP \<equiv> 0x2000"

definition MAX_EPOLL_EVENTS :: nat where "MAX_EPOLL_EVENTS = 10"
definition MONITOR_CONNECT_RETRY_BUDGET :: nat where "MONITOR_CONNECT_RETRY_BUDGET = 200 * 1000000"
definition MONITOR_RECONNECT_MAX_ATTEMPTS :: int where "MONITOR_RECONNECT_MAX_ATTEMPTS = 3"
definition MONITOR_RECONNECT_INTERVAL :: nat where "MONITOR_RECONNECT_INTERVAL = 200 * 1000000"
definition DEVICE_READ_CHUNK_SIZE :: nat where "DEVICE_READ_CHUNK_SIZE = MAX_DEVICE_EVENT_LENGTH"
definition MAX_PENDING_ANSWER_COUNT :: nat where "MAX_PENDING_ANSWER_COUNT = 256"
definition MAX_SOCKET_TX_QUEUE_COUNT :: nat where "MAX_SOCKET_TX_QUEUE_COUNT = 64"
definition MAX_SOCKET_TX_QUEUE_BYTES :: nat where "MAX_SOCKET_TX_QUEUE_BYTES = 128 * 1024"
definition SIGNAL_EXIT_BASE :: int where "SIGNAL_EXIT_BASE = 128"
definition DEC_EVENT_CLASS_ASK :: u32 where "DEC_EVENT_CLASS_ASK = 0"

datatype MonitorEventType = MONITOR_EVENT_CHILD_FD | MONITOR_EVENT_SOCKET_FD | MONITOR_EVENT_DEVICE_FD

datatype MonitorConnectMode = MONITOR_CONNECT_WAIT_FOR_BACKLOG | MONITOR_CONNECT_SINGLE_ATTEMPT

datatype MonitorAction = MONITOR_ACTION_NONE | MONITOR_ACTION_SKIP | MONITOR_ACTION_RECONNECT | MONITOR_ACTION_DEGRADE
  | MONITOR_ACTION_CHILD_EXITED | MONITOR_ACTION_STOP

datatype MonitorState = MONITOR_STATE_ACTIVE | MONITOR_STATE_RECONNECTING | MONITOR_STATE_DEGRADED

record PendingSocketMessage =
  psm_msgType :: u32
  psm_requestId :: u32
  psm_result :: int
  psm_eventId :: u64
  psm_needsAnswer :: bool
  psm_body :: string

record MonitorConfig =
  mc_childPid :: int
  mc_socketPath :: string
  mc_socketFd :: int
  mc_deviceFd :: int

section \<open>The state\<close>

text \<open>
  What \<open>waitpid\<close> answers; a call that may block passes over \<open>Running\<close>. A \<open>connect\<close> answers an error, 0 for success,
  with the channel it would give. \<open>e_taken\<close> are the answers the device has taken.
\<close>

datatype waited = Running | Exited nat | Signalled nat | Changed | WaitErrno int

record 'w mon_env =
  e_world :: 'w
  e_wait :: "waited list"
  e_device :: "rx list"
  e_answer :: "tx list"
  e_taken :: "(u64 \<times> u32) list"
  e_epoll :: "bool list"
  e_socket :: "int list"
  e_connect :: "(int \<times> chan) list"
  e_clock :: "nat list"
  e_pidfd :: int
  e_getfl :: int
  e_setfl :: int
  e_epoll_create :: int

record 'w monitor = "'w mon_env" +
  mt_childPid :: int
  mt_socketPath :: string
  mt_socket :: "(sock \<times> chan) option"
  mt_sockFd :: int
  mt_queue :: "PendingSocketMessage list"
  mt_txBytes :: nat
  mt_pending :: "u64 list"
  mt_attempts :: int
  mt_deadline :: nat
  mt_state :: MonitorState
  mt_deviceFd :: int
  mt_epollFd :: int
  mt_childFd :: int
  mt_childExit :: int
  mt_error :: int
  mt_writeEnabled :: bool

text \<open>What the monitor uses: the operating system of the policies, the JSON library and a printer.\<close>

record ('w, 'j) mon_ext =
  mx_os :: "'w claw_os"
  mx_json :: "'j cjson_doc"
  mx_print :: "json \<Rightarrow> string option"

definition new_monitor :: "MonitorConfig \<Rightarrow> chan \<Rightarrow> 'w mon_env \<Rightarrow> 'w monitor" where
  "new_monitor config ch env = mon_env.extend env (monitor.fields (mc_childPid config) (mc_socketPath config)
     (if mc_socketFd config \<ge> 0 then Some (new_sock, ch) else None) (if mc_socketFd config \<ge> 0 then mc_socketFd config else - 1)
     [] 0 [] 0 0 MONITOR_STATE_ACTIVE (mc_deviceFd config) (- 1) (- 1) (- 1) SANDBOX_SUCCESS False)"

text \<open>The clock stands at 0 when no reading is left; a registration succeeds.\<close>

definition now :: "'w monitor \<Rightarrow> nat \<times> 'w monitor" where
  "now m = (case e_clock m of [] \<Rightarrow> (0, m) | t # ts \<Rightarrow> (t, m\<lparr>e_clock := ts\<rparr>))"

definition epoll_ctl :: "'w monitor \<Rightarrow> bool \<times> 'w monitor" where
  "epoll_ctl m = (case e_epoll m of [] \<Rightarrow> (True, m) | ok # oks \<Rightarrow> (ok, m\<lparr>e_epoll := oks\<rparr>))"

section \<open>The tables\<close>

text \<open>The loop that evicts the oldest messages, on the queue and its bytes.\<close>

fun evict :: "nat \<Rightarrow> PendingSocketMessage list \<Rightarrow> nat \<Rightarrow> PendingSocketMessage list \<times> nat" where
  "evict bodySize [] txBytes = ([], txBytes)"
| "evict bodySize (msg # msgs) txBytes =
     (if length (msg # msgs) \<ge> MAX_SOCKET_TX_QUEUE_COUNT \<or> txBytes > MAX_SOCKET_TX_QUEUE_BYTES - bodySize
      then evict bodySize msgs (txBytes - length (psm_body msg))
      else (msg # msgs, txBytes))"

definition PushSocketMessage :: "PendingSocketMessage \<Rightarrow> 'w monitor \<Rightarrow> 'w monitor" where
  "PushSocketMessage message m =
     (let bodySize = length (psm_body message)
      in if bodySize > MAX_SOCKET_TX_QUEUE_BYTES then m
         else let (queue, txBytes) = evict bodySize (mt_queue m) (mt_txBytes m)
           in m\<lparr>mt_txBytes := txBytes + bodySize, mt_queue := queue @ [message]\<rparr>)"

definition PushEventReport :: "u64 \<Rightarrow> bool \<Rightarrow> string \<Rightarrow> 'w monitor \<Rightarrow> 'w monitor" where
  "PushEventReport eventId needsAnswer body =
     PushSocketMessage \<lparr>psm_msgType = SANDBOX_SOCKET_MSG_EVENT_REPORT, psm_requestId = 0, psm_result = 0,
       psm_eventId = eventId, psm_needsAnswer = needsAnswer, psm_body = body\<rparr>"

definition PushResponse :: "u32 \<Rightarrow> int \<Rightarrow> string \<Rightarrow> 'w monitor \<Rightarrow> 'w monitor" where
  "PushResponse requestId result body =
     PushSocketMessage \<lparr>psm_msgType = SANDBOX_SOCKET_MSG_RESPONSE, psm_requestId = requestId, psm_result = result,
       psm_eventId = 0, psm_needsAnswer = False, psm_body = body\<rparr>"

definition PushPendingAnswer :: "u64 \<Rightarrow> 'w monitor \<Rightarrow> 'w monitor" where
  "PushPendingAnswer eventId m =
     m\<lparr>mt_pending := (if length (mt_pending m) \<ge> MAX_PENDING_ANSWER_COUNT then tl (mt_pending m) else mt_pending m) @ [eventId]\<rparr>"

definition send_front :: "PendingSocketMessage \<Rightarrow> sock \<times> chan \<Rightarrow> int \<times> sock \<times> chan" where
  "send_front front s = (case s of (sk, ch) \<Rightarrow>
     if psm_msgType front = SANDBOX_SOCKET_MSG_RESPONSE
     then SendResponse (psm_requestId front) (psm_result front) (psm_body front) sk ch
     else SendMessage (psm_msgType front) (psm_body front) sk ch)"

lemma FlushTxBuffer_codes: "FlushTxBuffer sk ch = (ret, r) \<Longrightarrow> ret \<in> {0, SANDBOX_ERR_SOCKET_IO, SANDBOX_ERR_SOCKET_CLOSED}"
proof -
  have "fst (flush_loop sk script wire) \<in> {0, SANDBOX_ERR_SOCKET_IO, SANDBOX_ERR_SOCKET_CLOSED}" for script wire
    by (induction sk script wire rule: flush_loop.induct) (auto simp: Let_def split: tx.splits)
  then show "FlushTxBuffer sk ch = (ret, r) \<Longrightarrow> ret \<in> {0, SANDBOX_ERR_SOCKET_IO, SANDBOX_ERR_SOCKET_CLOSED}"
    unfolding FlushTxBuffer_def by (auto split: prod.splits) (metis fst_conv insertE singletonD)
qed

lemma QueueMessage_codes:
  assumes "QueueMessage msgType body requestId result sk ch = (ret, r)"
  shows "ret \<in> {0, SANDBOX_ERR_SOCKET_IO, SANDBOX_ERR_SOCKET_CLOSED, SANDBOX_ERR_SOCKET_TX_FULL} \<or>
    ret = SANDBOX_ERR_SOCKET_MSG_TOO_LARGE \<and> length body > MAX_BODY_LENGTH"
  using assms FlushTxBuffer_codes [of _ ch ret r] by (fastforce simp: QueueMessage_def Let_def split: if_splits)

lemma send_front_codes:
  assumes "send_front front s = (ret, s')"
  shows "ret \<in> {0, SANDBOX_ERR_SOCKET_IO, SANDBOX_ERR_SOCKET_CLOSED, SANDBOX_ERR_SOCKET_TX_FULL} \<or>
    ret = SANDBOX_ERR_SOCKET_MSG_TOO_LARGE \<and> length (psm_body front) > MAX_BODY_LENGTH"
  using assms QueueMessage_codes unfolding send_front_def SendResponse_def SendMessage_def
  by (cases s) (auto split: if_splits)

text \<open>The queue gets shorter, or a body that was too long gets empty.\<close>

definition queue_weight :: "PendingSocketMessage list \<Rightarrow> nat" where
  "queue_weight q = sum_list (map (\<lambda>msg. if psm_body msg = [] then 1 else 2) q)"

function FlushSocketTxQueue :: "'w monitor \<Rightarrow> int \<times> 'w monitor" where
  "FlushSocketTxQueue m = (case mt_queue m of
       [] \<Rightarrow> (SANDBOX_SUCCESS, m)
     | front # rest \<Rightarrow> (case mt_socket m of
           None \<Rightarrow> (SANDBOX_SUCCESS, m)
         | Some s \<Rightarrow>
             if HasPendingTxData (fst s) then (SANDBOX_SUCCESS, m)
             else case send_front front s of (ret, s') \<Rightarrow>
               (let m = m\<lparr>mt_socket := Some s'\<rparr>
                in if ret = SANDBOX_ERR_SOCKET_TX_FULL then (SANDBOX_SUCCESS, m)
                   else if ret = SANDBOX_ERR_SOCKET_MSG_TOO_LARGE then
                     (let m = m\<lparr>mt_txBytes := mt_txBytes m - length (psm_body front)\<rparr>
                      in if psm_msgType front = SANDBOX_SOCKET_MSG_RESPONSE
                         then FlushSocketTxQueue (m\<lparr>mt_queue := front\<lparr>psm_body := []\<rparr> # rest\<rparr>)
                         else FlushSocketTxQueue (m\<lparr>mt_queue := rest\<rparr>))
                   else if ret \<noteq> SANDBOX_SUCCESS then (ret, m)
                   else
                     let m = (if psm_needsAnswer front then PushPendingAnswer (psm_eventId front) m else m)
                     in FlushSocketTxQueue (m\<lparr>mt_txBytes := mt_txBytes m - length (psm_body front), mt_queue := rest\<rparr>))))"
  by pat_completeness auto
termination
  by (relation "measure (queue_weight \<circ> mt_queue)")
    (auto simp: queue_weight_def PushPendingAnswer_def dest: send_front_codes [OF sym] split: if_splits)

declare FlushSocketTxQueue.simps [simp del]

definition DiscardAllEvents :: "'w monitor \<Rightarrow> 'w monitor" where
  "DiscardAllEvents m = m\<lparr>mt_queue := [], mt_txBytes := 0, mt_pending := []\<rparr>"

section \<open>The channel\<close>

definition CloseSocket :: "'w monitor \<Rightarrow> 'w monitor" where
  "CloseSocket m = (case mt_socket m of
       None \<Rightarrow> m | Some _ \<Rightarrow> m\<lparr>mt_socket := None, mt_sockFd := - 1, mt_writeEnabled := False\<rparr>)"

definition SetState :: "MonitorState \<Rightarrow> 'w monitor \<Rightarrow> 'w monitor" where
  "SetState state m = (if mt_state m = state then m else m\<lparr>mt_state := state\<rparr>)"

definition Degrade :: "'w monitor \<Rightarrow> 'w monitor" where
  "Degrade m = SetState MONITOR_STATE_DEGRADED (DiscardAllEvents ((CloseSocket m)\<lparr>mt_attempts := 0\<rparr>))"

definition DropSocketChannel :: "'w monitor \<Rightarrow> 'w monitor" where
  "DropSocketChannel m =
     (let m = CloseSocket m
      in if mt_socketPath m = [] then Degrade m
         else let (t, m) = now (m\<lparr>mt_attempts := MONITOR_RECONNECT_MAX_ATTEMPTS\<rparr>)
           in SetState MONITOR_STATE_RECONNECTING (m\<lparr>mt_deadline := t + MONITOR_RECONNECT_INTERVAL\<rparr>))"

definition RegisterFdToEpoll :: "int \<Rightarrow> 'w monitor \<Rightarrow> int \<times> 'w monitor" where
  "RegisterFdToEpoll fd m =
     (if fd < 0 then (SANDBOX_ERR_BAD_PARAMETERS, m)
      else case epoll_ctl m of (ok, m) \<Rightarrow> (if ok then SANDBOX_SUCCESS else SANDBOX_ERR_EPOLL_FAILED, m))"

definition UpdateSocketEpollEvents :: "'w monitor \<Rightarrow> int \<times> 'w monitor" where
  "UpdateSocketEpollEvents m = (case mt_socket m of
       None \<Rightarrow> (SANDBOX_SUCCESS, m)
     | Some s \<Rightarrow>
         let enableWrite = (HasPendingTxData (fst s) \<or> mt_queue m \<noteq> [])
         in if enableWrite = mt_writeEnabled m then (SANDBOX_SUCCESS, m)
            else case epoll_ctl m of (ok, m) \<Rightarrow>
              if \<not> ok then (SANDBOX_ERR_EPOLL_FAILED, m) else (SANDBOX_SUCCESS, m\<lparr>mt_writeEnabled := enableWrite\<rparr>))"

definition AdoptSocket :: "int \<Rightarrow> chan \<Rightarrow> 'w monitor \<Rightarrow> int \<times> 'w monitor" where
  "AdoptSocket socketFd ch m =
     (let m = m\<lparr>mt_socket := Some (new_sock, ch), mt_sockFd := socketFd, mt_writeEnabled := False\<rparr>
      in case RegisterFdToEpoll socketFd m of (ret, m) \<Rightarrow>
        if ret \<noteq> SANDBOX_SUCCESS then (ret, CloseSocket m) else (SANDBOX_SUCCESS, m))"

text \<open>The calls of \<open>connect\<close> of one attempt; no answer left is a refusal.\<close>

fun connect_loop :: "MonitorConnectMode \<Rightarrow> nat \<Rightarrow> (int \<times> chan) list \<Rightarrow> 'w monitor \<Rightarrow> (int + chan) \<times> 'w monitor" where
  "connect_loop mode deadline [] m = (Inl SANDBOX_ERR_SOCKET_CONNECT_FAILED, m\<lparr>e_connect := []\<rparr>)"
| "connect_loop mode deadline ((error, ch) # answers) m =
     (if error = 0 \<or> error = EISCONN then (Inr ch, m\<lparr>e_connect := answers\<rparr>)
      else if error = EINTR then connect_loop mode deadline answers m
      else if error \<noteq> EAGAIN then (Inl SANDBOX_ERR_SOCKET_CONNECT_FAILED, m\<lparr>e_connect := answers\<rparr>)
      else if mode = MONITOR_CONNECT_SINGLE_ATTEMPT then (Inl SANDBOX_ERR_SOCKET_WOULD_BLOCK, m\<lparr>e_connect := answers\<rparr>)
      else case now m of (t, m) \<Rightarrow>
        if t \<ge> deadline then (Inl SANDBOX_ERR_SOCKET_CONNECT_TIMEOUT, m\<lparr>e_connect := answers\<rparr>)
        else connect_loop mode deadline answers m)"

definition AttemptConnect :: "MonitorConnectMode \<Rightarrow> 'w monitor \<Rightarrow> (int + chan) \<times> 'w monitor" where
  "AttemptConnect mode m = (case now m of (t, m) \<Rightarrow> connect_loop mode (t + MONITOR_CONNECT_RETRY_BUDGET) (e_connect m) m)"

abbreviation (input) sizeof_sun_path :: nat where "sizeof_sun_path \<equiv> 108"

definition ConnectToApp :: "string \<Rightarrow> MonitorConnectMode \<Rightarrow> 'w monitor \<Rightarrow> (int + int \<times> chan) \<times> 'w monitor" where
  "ConnectToApp socketPath mode m =
     (if socketPath = [] \<or> hd socketPath \<noteq> CHR ''/'' then (Inl SANDBOX_ERR_PATH_INVALID, m)
      else if length socketPath \<ge> sizeof_sun_path then (Inl SANDBOX_ERR_PATH_INVALID, m)
      else
        let (fd, m) = (case e_socket m of [] \<Rightarrow> (- 1, m) | fd # fds \<Rightarrow> (fd, m\<lparr>e_socket := fds\<rparr>))
        in if fd < 0 then (Inl SANDBOX_ERR_SOCKET_CREATE_FAILED, m)
           else case AttemptConnect mode m of
               (Inl ret, m) \<Rightarrow> (Inl ret, m)
             | (Inr ch, m) \<Rightarrow> (Inr (fd, ch), m))"

definition TryReconnect :: "'w monitor \<Rightarrow> 'w monitor" where
  "TryReconnect m =
     (let m = m\<lparr>mt_attempts := mt_attempts m - 1\<rparr>
      in case ConnectToApp (mt_socketPath m) MONITOR_CONNECT_SINGLE_ATTEMPT m of
           (Inl ret, m) \<Rightarrow>
             if mt_attempts m > 0 then
               (let (t, m) = now m in m\<lparr>mt_deadline := t + MONITOR_RECONNECT_INTERVAL\<rparr>)
             else Degrade (m\<lparr>mt_error := ret\<rparr>)
         | (Inr (socketFd, ch), m) \<Rightarrow>
             (let (adoptRet, m) = AdoptSocket socketFd ch m
              in if adoptRet \<noteq> SANDBOX_SUCCESS then Degrade (m\<lparr>mt_error := adoptRet\<rparr>)
                 else
                   let m = SetState MONITOR_STATE_ACTIVE (m\<lparr>mt_attempts := 0, mt_error := SANDBOX_SUCCESS\<rparr>);
                       (flushRet, m) = FlushSocketTxQueue m
                   in if flushRet \<noteq> SANDBOX_SUCCESS then DropSocketChannel (m\<lparr>mt_error := flushRet\<rparr>)
                      else let (epollRet, m) = UpdateSocketEpollEvents m
                        in if epollRet \<noteq> SANDBOX_SUCCESS then DropSocketChannel (m\<lparr>mt_error := epollRet\<rparr>) else m))"

definition NextEpollTimeout :: "'w monitor \<Rightarrow> int \<times> 'w monitor" where
  "NextEpollTimeout m =
     (if mt_attempts m \<le> 0 then (- 1, m)
      else let (t, m) = now m; remaining = (int (mt_deadline m) - int t) div 1000000
        in (if remaining \<le> 0 then 0 else remaining, m))"

section \<open>Start\<close>

definition SetNonBlock :: "int \<Rightarrow> 'w monitor \<Rightarrow> int" where
  "SetNonBlock fd m =
     (if fd < 0 then SANDBOX_ERR_BAD_PARAMETERS
      else if e_getfl m < 0 then SANDBOX_ERR_SOCKET_IO
      else if e_setfl m < 0 then SANDBOX_ERR_SOCKET_IO else SANDBOX_SUCCESS)"

definition SetupChildExitFd :: "'w monitor \<Rightarrow> int \<times> 'w monitor" where
  "SetupChildExitFd m =
     (if e_pidfd m < 0 then (SANDBOX_ERR_CHILD_WATCH_FAILED, m) else (SANDBOX_SUCCESS, m\<lparr>mt_childFd := e_pidfd m\<rparr>))"

definition Init :: "'w monitor \<Rightarrow> int \<times> 'w monitor" where
  "Init m =
     (if mt_childPid m \<le> 0 then (SANDBOX_ERR_BAD_PARAMETERS, m)
      else if mt_deviceFd m < 0 then (SANDBOX_ERR_DEVICE_OPEN_FAILED, m)
      else if mt_epollFd m \<ge> 0 then (SANDBOX_ERR_BAD_PARAMETERS, m)
      else case SetupChildExitFd m of (ret, m) \<Rightarrow>
        if ret \<noteq> SANDBOX_SUCCESS then (ret, m)
        else if SetNonBlock (mt_deviceFd m) m \<noteq> SANDBOX_SUCCESS then (SANDBOX_ERR_DEVICE_IO, m)
        else
          let m = m\<lparr>mt_epollFd := e_epoll_create m\<rparr>
          in if mt_epollFd m < 0 then (SANDBOX_ERR_EPOLL_FAILED, m)
             else case RegisterFdToEpoll (mt_childFd m) m of (ret, m) \<Rightarrow>
               if ret \<noteq> SANDBOX_SUCCESS then (ret, m)
               else case (if mt_socket m \<noteq> None then RegisterFdToEpoll (mt_sockFd m) m else (SANDBOX_SUCCESS, m)) of (ret, m) \<Rightarrow>
                 if ret \<noteq> SANDBOX_SUCCESS then (ret, m)
                 else RegisterFdToEpoll (mt_deviceFd m) m)"

section \<open>The child\<close>

text \<open>The loop around \<open>waitpid\<close>; no answer left means that the child is running.\<close>

fun wait_loop :: "bool \<Rightarrow> waited list \<Rightarrow> waited \<times> waited list" where
  "wait_loop nohang [] = (Running, [])"
| "wait_loop nohang (answer # answers) =
     (if answer = WaitErrno EINTR \<or> answer = Running \<and> \<not> nohang then wait_loop nohang answers else (answer, answers))"

definition CheckChildExit :: "bool \<Rightarrow> 'w monitor \<Rightarrow> MonitorAction \<times> 'w monitor" where
  "CheckChildExit nohang m = (case wait_loop nohang (e_wait m) of (answer, answers) \<Rightarrow>
     (let m = m\<lparr>e_wait := answers\<rparr>
      in case answer of
           Running \<Rightarrow> (MONITOR_ACTION_NONE, m)
         | Exited status \<Rightarrow> (MONITOR_ACTION_CHILD_EXITED, m\<lparr>mt_childExit := int status, mt_error := SANDBOX_SUCCESS\<rparr>)
         | Signalled signal \<Rightarrow>
             (MONITOR_ACTION_CHILD_EXITED, m\<lparr>mt_childExit := SIGNAL_EXIT_BASE + int signal, mt_error := SANDBOX_SUCCESS\<rparr>)
         | _ \<Rightarrow> (MONITOR_ACTION_STOP, m\<lparr>mt_error := SANDBOX_ERR_CHILD_WAIT_FAILED\<rparr>)))"

definition HandleChildExitEvent :: "u32 \<Rightarrow> 'w monitor \<Rightarrow> MonitorAction \<times> 'w monitor" where
  "HandleChildExitEvent events m =
     (if events AND (EPOLLERR OR EPOLLHUP) \<noteq> 0 then (MONITOR_ACTION_STOP, m\<lparr>mt_error := SANDBOX_ERR_CHILD_WATCH_FAILED\<rparr>)
      else if events AND EPOLLIN \<noteq> 0 then
        (case CheckChildExit True m of (action, m) \<Rightarrow>
           if action = MONITOR_ACTION_NONE then CheckChildExit False m else (action, m))
      else (MONITOR_ACTION_NONE, m))"

end
