(* ===== verification/Claw_Loop.thy ===== *)
theory Claw_Loop
  imports Claw_Monitor
begin

text \<open>
  The rest of \<open>claw_sandbox/src/sandbox_monitor.cpp\<close>: requests of the application, events of the device, the actions
  they ask for, and the event loop.
\<close>

section \<open>Requests\<close>

definition ValidateMessage :: "ParsedMessage \<Rightarrow> int" where
  "ValidateMessage message =
     (if mh_requestId (pm_header message) = 0 then SANDBOX_ERR_REQUEST_ID_INVALID
      else if pm_rejectReason message \<noteq> SANDBOX_SUCCESS then pm_rejectReason message
      else SANDBOX_SUCCESS)"

definition ParseEventId :: "string \<Rightarrow> u64 res" where
  "ParseEventId eventIdStr = (case ParseDecimalU64 eventIdStr of
       None \<Rightarrow> Inl SANDBOX_ERR_CONFIG_INVALID | Some eventId \<Rightarrow> Inr eventId)"

definition ParseEventAction :: "string \<Rightarrow> u32 res" where
  "ParseEventAction actionStr =
     (if actionStr = ''allow'' then Inr DEC_POLICY_ACTION_ALLOW
      else if actionStr = ''deny'' then Inr DEC_POLICY_ACTION_DENY
      else Inl SANDBOX_ERR_CONFIG_INVALID)"

definition ParseEventAnswer :: "'j cjson_doc \<Rightarrow> string \<Rightarrow> (u64 \<times> u32) res" where
  "ParseEventAnswer D jsonBody =
     (if length jsonBody > MAX_EVENT_ANSWER_JSON_LENGTH then Inl SANDBOX_ERR_CONFIG_INVALID
      else case j_parse D (c_str jsonBody) of
          None \<Rightarrow> Inl SANDBOX_ERR_CONFIG_INVALID
        | Some doc \<Rightarrow> (case (json_text_of (json_of D) (j_itemCase D doc ''event_id''), json_text_of (json_of D) (j_itemCase D doc ''action'')) of
              (Some eventIdStr, Some actionStr) \<Rightarrow>
                res_bind (ParseEventId eventIdStr) (\<lambda>eventId.
                  res_bind (ParseEventAction actionStr) (\<lambda>action. Inr (eventId, action)))
            | _ \<Rightarrow> Inl SANDBOX_ERR_CONFIG_INVALID))"

text \<open>The loop around \<open>write\<close>; no answer left means a full device.\<close>

abbreviation (input) sizeof_DecEventAnswer :: nat where "sizeof_DecEventAnswer \<equiv> 24"

fun write_loop :: "tx list \<Rightarrow> tx \<times> tx list" where
  "write_loop [] = (TxErrno EAGAIN, [])"
| "write_loop (answer # answers) = (if answer = TxErrno EINTR then write_loop answers else (answer, answers))"

definition WriteEventAnswer :: "u64 \<Rightarrow> u32 \<Rightarrow> 'w monitor \<Rightarrow> int \<times> 'w monitor" where
  "WriteEventAnswer eventId action m = (case write_loop (e_answer m) of (answer, answers) \<Rightarrow>
     (let m = m\<lparr>e_answer := answers\<rparr>
      in case answer of
           TxErrno error \<Rightarrow> (if error = EAGAIN then SANDBOX_ERR_DEVICE_BUSY else SANDBOX_ERR_DEVICE_IO, m)
         | Accept written \<Rightarrow>
             if written \<noteq> sizeof_DecEventAnswer then (SANDBOX_ERR_DEVICE_IO, m)
             else (SANDBOX_SUCCESS, m\<lparr>e_taken := e_taken m @ [(eventId, action)]\<rparr>)))"

definition HandleEventAnswer :: "('w, 'j) mon_ext \<Rightarrow> string \<Rightarrow> 'w monitor \<Rightarrow> int \<times> 'w monitor" where
  "HandleEventAnswer E jsonBody m =
     (if mt_state m = MONITOR_STATE_DEGRADED \<or> mt_deviceFd m < 0 then (SANDBOX_ERR_MONITOR_DEGRADED, m)
      else case ParseEventAnswer (mx_json E) jsonBody of
          Inl _ \<Rightarrow> (SANDBOX_ERR_EVENT_ANSWER_INVALID, m)
        | Inr (eventId, action) \<Rightarrow>
            if eventId \<notin> set (mt_pending m) then (SANDBOX_ERR_EVENT_UNKNOWN, m)
            else case WriteEventAnswer eventId action m of (ret, m) \<Rightarrow>
              if ret \<noteq> SANDBOX_SUCCESS then (ret, m)
              else (SANDBOX_SUCCESS, m\<lparr>mt_pending := remove1 eventId (mt_pending m)\<rparr>))"

definition ParseAddPolicy :: "'j cjson_doc \<Rightarrow> string \<Rightarrow> RuleGroup list res" where
  "ParseAddPolicy D jsonBody =
     res_bind (ParseOperationControlPolicy D jsonBody) (\<lambda>ruleGroups.
       if ruleGroups = [] then Inl SANDBOX_ERR_CONFIG_INVALID else Inr ruleGroups)"

text \<open>The second result is the text put into \<open>detail\<close>.\<close>

definition HandleAddPolicy :: "('w, 'j) mon_ext \<Rightarrow> string \<Rightarrow> 'w monitor \<Rightarrow> int \<times> string \<times> 'w monitor" where
  "HandleAddPolicy E jsonBody m =
     (if mt_state m = MONITOR_STATE_DEGRADED \<or> mt_deviceFd m < 0 then (SANDBOX_ERR_MONITOR_DEGRADED, [], m)
      else case ParseAddPolicy (mx_json E) jsonBody of
          Inl ret \<Rightarrow> (ret, [], m)
        | Inr ruleGroups \<Rightarrow>
            if ruleGroups = [] then (SANDBOX_SUCCESS, [], m)
            else case AddOperationControlPolicies (mx_os E) (mt_deviceFd m) ruleGroups (mt_socketPath m) [] (e_world m) of
                (ret, results, w) \<Rightarrow>
                  (ret, if ret = SANDBOX_ERR_SET_POLICY_PARTIAL then BuildAddPolicyResult (mx_print E) results else [],
                   m\<lparr>e_world := w\<rparr>))"

definition DispatchSocketMessage :: "('w, 'j) mon_ext \<Rightarrow> ParsedMessage \<Rightarrow> 'w monitor \<Rightarrow> int \<times> string \<times> 'w monitor" where
  "DispatchSocketMessage E message m =
     (if mh_msgType (pm_header message) = SANDBOX_SOCKET_MSG_ADD_POLICY then HandleAddPolicy E (pm_body message) m
      else if mh_msgType (pm_header message) = SANDBOX_SOCKET_MSG_EVENT_ANSWER then
        (case HandleEventAnswer E (pm_body message) m of (ret, m) \<Rightarrow> (ret, [], m))
      else (SANDBOX_ERR_SOCKET_PROTOCOL, [], m))"

definition QueueResponse :: "('w, 'j) mon_ext \<Rightarrow> ParsedMessage \<Rightarrow> 'w monitor \<Rightarrow> 'w monitor" where
  "QueueResponse E message m =
     (let ret = ValidateMessage message;
          (ret, detail, m) = (if ret = SANDBOX_SUCCESS then DispatchSocketMessage E message m else (ret, [], m));
          code = ToResponseCode ret
      in PushResponse (mh_requestId (pm_header message)) code (if code \<noteq> SANDBOX_RSP_PARTIAL then [] else detail) m)"

section \<open>The socket\<close>

text \<open>The next four assume a socket, as the code does; without one they do nothing.\<close>

definition HandleSocketReadable :: "('w, 'j) mon_ext \<Rightarrow> 'w monitor \<Rightarrow> MonitorAction \<times> 'w monitor" where
  "HandleSocketReadable E m = (case mt_socket m of
       None \<Rightarrow> (MONITOR_ACTION_NONE, m)
     | Some (sk, ch) \<Rightarrow> (case OnReadable sk (ch_rx ch) of (ret, sk', messages, rest) \<Rightarrow>
         (let m = fold (QueueResponse E) messages (m\<lparr>mt_socket := Some (sk', ch\<lparr>ch_rx := rest\<rparr>)\<rparr>)
          in if ret \<noteq> SANDBOX_SUCCESS then (MONITOR_ACTION_RECONNECT, m\<lparr>mt_error := ret\<rparr>) else (MONITOR_ACTION_NONE, m))))"

definition HandleSocketWritable :: "'w monitor \<Rightarrow> MonitorAction \<times> 'w monitor" where
  "HandleSocketWritable m = (case mt_socket m of
       None \<Rightarrow> (MONITOR_ACTION_NONE, m)
     | Some (sk, ch) \<Rightarrow> (case OnWritable sk ch of (ret, s') \<Rightarrow>
         (let m = m\<lparr>mt_socket := Some s'\<rparr>
          in if ret \<noteq> SANDBOX_SUCCESS then (MONITOR_ACTION_RECONNECT, m\<lparr>mt_error := ret\<rparr>) else (MONITOR_ACTION_NONE, m))))"

definition CheckSocketFailureEvents :: "u32 \<Rightarrow> 'w monitor \<Rightarrow> MonitorAction \<times> 'w monitor" where
  "CheckSocketFailureEvents events m =
     (if events AND EPOLLERR \<noteq> 0 then (MONITOR_ACTION_RECONNECT, m\<lparr>mt_error := SANDBOX_ERR_SOCKET_IO\<rparr>)
      else if events AND (EPOLLHUP OR EPOLLRDHUP) \<noteq> 0 then (MONITOR_ACTION_RECONNECT, m\<lparr>mt_error := SANDBOX_ERR_SOCKET_CLOSED\<rparr>)
      else (MONITOR_ACTION_NONE, m))"

definition ResumeSocketTx :: "'w monitor \<Rightarrow> MonitorAction \<times> 'w monitor" where
  "ResumeSocketTx m = (case FlushSocketTxQueue m of (ret, m) \<Rightarrow>
     if ret \<noteq> SANDBOX_SUCCESS then (MONITOR_ACTION_RECONNECT, m\<lparr>mt_error := ret\<rparr>)
     else case UpdateSocketEpollEvents m of (ret, m) \<Rightarrow>
       if ret \<noteq> SANDBOX_SUCCESS then (MONITOR_ACTION_STOP, m\<lparr>mt_error := ret\<rparr>) else (MONITOR_ACTION_NONE, m))"

definition HandleSocketEvent :: "('w, 'j) mon_ext \<Rightarrow> u32 \<Rightarrow> 'w monitor \<Rightarrow> MonitorAction \<times> 'w monitor" where
  "HandleSocketEvent E events m =
     (if mt_socket m = None then (MONITOR_ACTION_NONE, m)
      else case (if events AND EPOLLIN \<noteq> 0 then HandleSocketReadable E m else (MONITOR_ACTION_NONE, m)) of (action, m) \<Rightarrow>
        if action \<noteq> MONITOR_ACTION_NONE then (action, m)
        else case (if events AND EPOLLOUT \<noteq> 0 then HandleSocketWritable m else (MONITOR_ACTION_NONE, m)) of (action, m) \<Rightarrow>
          if action \<noteq> MONITOR_ACTION_NONE then (action, m)
          else case CheckSocketFailureEvents events m of (action, m) \<Rightarrow>
            if action \<noteq> MONITOR_ACTION_NONE then (action, m) else ResumeSocketTx m)"

section \<open>The device\<close>

definition SendEventReport :: "DeviceEventHeader \<Rightarrow> bool \<Rightarrow> string \<Rightarrow> 'w monitor \<Rightarrow> int \<times> 'w monitor" where
  "SendEventReport header needsAnswer jsonOutput m = (case mt_socket m of
       None \<Rightarrow> (SANDBOX_SUCCESS, m)
     | Some (sk, ch) \<Rightarrow> (case SendMessage SANDBOX_SOCKET_MSG_EVENT_REPORT jsonOutput sk ch of (ret, s') \<Rightarrow>
         (let m = m\<lparr>mt_socket := Some s'\<rparr>
          in if ret = SANDBOX_ERR_SOCKET_TX_FULL then
               (SANDBOX_SUCCESS, PushEventReport (deh_eventId header) needsAnswer jsonOutput m)
             else if ret = SANDBOX_ERR_SOCKET_MSG_TOO_LARGE then (SANDBOX_SUCCESS, m)
             else if ret \<noteq> SANDBOX_SUCCESS then (ret, PushEventReport (deh_eventId header) needsAnswer jsonOutput m)
             else (SANDBOX_SUCCESS, if needsAnswer then PushPendingAnswer (deh_eventId header) m else m))))"

definition DeliverDeviceEvent :: "DeviceEventHeader \<Rightarrow> string \<Rightarrow> 'w monitor \<Rightarrow> int \<times> 'w monitor" where
  "DeliverDeviceEvent header jsonOutput m =
     (if deh_eventClass header \<noteq> DEC_EVENT_CLASS_ASK then (SANDBOX_SUCCESS, m)
      else
        let needsAnswer = True
        in if mt_socket m = None \<or> mt_queue m \<noteq> [] \<or> (case mt_socket m of None \<Rightarrow> False | Some s \<Rightarrow> HasPendingTxData (fst s)) then
             (if mt_attempts m \<le> 0 \<and> mt_socket m = None then (SANDBOX_SUCCESS, m)
              else (SANDBOX_SUCCESS, PushEventReport (deh_eventId header) needsAnswer jsonOutput m))
           else SendEventReport header needsAnswer jsonOutput m)"

definition IsSocketChannelError :: "int \<Rightarrow> bool" where
  "IsSocketChannelError ret \<longleftrightarrow> ret = SANDBOX_ERR_SOCKET_CLOSED \<or> ret = SANDBOX_ERR_SOCKET_IO"

definition ConsumeDeviceEvent :: "('w, 'j) mon_ext \<Rightarrow> string \<Rightarrow> 'w monitor \<Rightarrow> MonitorAction \<times> 'w monitor" where
  "ConsumeDeviceEvent E data m = (case ParseEvent (mx_print E) data [] of (step, parser, jsonOutput) \<Rightarrow>
     if step \<noteq> DONE then (MONITOR_ACTION_SKIP, m)
     else case DeliverDeviceEvent (tep_header parser) jsonOutput m of (ret, m) \<Rightarrow>
       if ret = SANDBOX_SUCCESS then (MONITOR_ACTION_NONE, m)
       else if IsSocketChannelError ret then (MONITOR_ACTION_RECONNECT, m\<lparr>mt_error := ret\<rparr>)
       else (MONITOR_ACTION_STOP, m\<lparr>mt_error := ret\<rparr>))"

text \<open>
  The loop of reads over what the device answers. One read takes one record and loses what does not fit; nothing left
  means \<open>EAGAIN\<close>.
\<close>

fun read_events :: "('w, 'j) mon_ext \<Rightarrow> rx list \<Rightarrow> 'w monitor \<Rightarrow> MonitorAction \<times> 'w monitor" where
  "read_events E [] m = (MONITOR_ACTION_NONE, m\<lparr>e_device := []\<rparr>)"
| "read_events E (answer # answers) m =
     (let m = m\<lparr>e_device := answers\<rparr>
      in case answer of
           Errno error \<Rightarrow>
             if error = EINTR then read_events E answers m
             else if error = EAGAIN then (MONITOR_ACTION_NONE, m)
             else (MONITOR_ACTION_DEGRADE, m\<lparr>mt_error := SANDBOX_ERR_DEVICE_IO\<rparr>)
         | Eof \<Rightarrow> (MONITOR_ACTION_DEGRADE, m\<lparr>mt_error := SANDBOX_ERR_DEVICE_IO\<rparr>)
         | Data s \<Rightarrow>
             if s = [] then (MONITOR_ACTION_DEGRADE, m\<lparr>mt_error := SANDBOX_ERR_DEVICE_IO\<rparr>)
             else case ConsumeDeviceEvent E (take DEVICE_READ_CHUNK_SIZE s) m of (action, m) \<Rightarrow>
               if action \<noteq> MONITOR_ACTION_NONE \<and> action \<noteq> MONITOR_ACTION_SKIP then (action, m)
               else read_events E answers m)"

definition ReadDeviceEvents :: "('w, 'j) mon_ext \<Rightarrow> 'w monitor \<Rightarrow> MonitorAction \<times> 'w monitor" where
  "ReadDeviceEvents E m = read_events E (e_device m) m"

definition HandleDeviceEvent :: "('w, 'j) mon_ext \<Rightarrow> u32 \<Rightarrow> 'w monitor \<Rightarrow> MonitorAction \<times> 'w monitor" where
  "HandleDeviceEvent E events m =
     (if mt_deviceFd m < 0 then (MONITOR_ACTION_NONE, m)
      else if events AND (EPOLLERR OR EPOLLHUP) \<noteq> 0 then (MONITOR_ACTION_DEGRADE, m\<lparr>mt_error := SANDBOX_ERR_DEVICE_IO\<rparr>)
      else if events AND EPOLLIN \<noteq> 0 then
        (case ReadDeviceEvents E m of (action, m) \<Rightarrow>
           if action \<noteq> MONITOR_ACTION_NONE then (action, m)
           else case UpdateSocketEpollEvents m of (ret, m) \<Rightarrow>
             if ret \<noteq> SANDBOX_SUCCESS then (MONITOR_ACTION_STOP, m\<lparr>mt_error := ret\<rparr>) else (MONITOR_ACTION_NONE, m))
      else (MONITOR_ACTION_NONE, m))"

section \<open>The loop\<close>

definition ApplyAction :: "MonitorAction \<Rightarrow> 'w monitor \<Rightarrow> bool \<times> 'w monitor" where
  "ApplyAction action m = (case action of
       MONITOR_ACTION_NONE \<Rightarrow> (True, m)
     | MONITOR_ACTION_SKIP \<Rightarrow> (True, m)
     | MONITOR_ACTION_RECONNECT \<Rightarrow> (True, DropSocketChannel m)
     | MONITOR_ACTION_DEGRADE \<Rightarrow> (True, Degrade (m\<lparr>mt_deviceFd := - 1\<rparr>))
     | MONITOR_ACTION_CHILD_EXITED \<Rightarrow> (False, m)
     | MONITOR_ACTION_STOP \<Rightarrow> (False, m))"

text \<open>An event of \<open>epoll_wait\<close>: the type of its context, \<open>None\<close> for a null context, and its bits.\<close>

type_synonym epoll_event = "MonitorEventType option \<times> u32"

definition DispatchEpollEvent :: "('w, 'j) mon_ext \<Rightarrow> epoll_event \<Rightarrow> 'w monitor \<Rightarrow> MonitorAction \<times> 'w monitor" where
  "DispatchEpollEvent E event m = (case event of (ctx, events) \<Rightarrow> (case ctx of
       None \<Rightarrow> (MONITOR_ACTION_NONE, m)
     | Some MONITOR_EVENT_CHILD_FD \<Rightarrow> HandleChildExitEvent events m
     | Some MONITOR_EVENT_SOCKET_FD \<Rightarrow> HandleSocketEvent E events m
     | Some MONITOR_EVENT_DEVICE_FD \<Rightarrow> HandleDeviceEvent E events m))"

fun ProcessEpollBatch :: "('w, 'j) mon_ext \<Rightarrow> epoll_event list \<Rightarrow> 'w monitor \<Rightarrow> bool \<times> 'w monitor" where
  "ProcessEpollBatch E [] m = (True, m)"
| "ProcessEpollBatch E (event # events) m = (case DispatchEpollEvent E event m of (action, m) \<Rightarrow>
     (case ApplyAction action m of (running, m) \<Rightarrow> if \<not> running then (False, m) else ProcessEpollBatch E events m))"

definition ResolveRunResult :: "'w monitor \<Rightarrow> int" where
  "ResolveRunResult m =
     (if mt_childExit m \<noteq> - 1 then mt_childExit m
      else if mt_error m \<noteq> SANDBOX_SUCCESS then mt_error m
      else SANDBOX_ERR_MONITOR_STOPPED)"

text \<open>What \<open>epoll_wait\<close> answers. The loop over its answers; \<open>None\<close> is a monitor that waits for the next one.\<close>

datatype wakeup = Events "epoll_event list" | EpollErrno int

definition reconnect_if_due :: "'w monitor \<Rightarrow> 'w monitor" where
  "reconnect_if_due m =
     (if mt_attempts m > 0 then (case NextEpollTimeout m of (timeout, m) \<Rightarrow> if timeout = 0 then TryReconnect m else m) else m)"

fun run_loop :: "('w, 'j) mon_ext \<Rightarrow> wakeup list \<Rightarrow> 'w monitor \<Rightarrow> int option \<times> 'w monitor" where
  "run_loop E [] m = (None, m)"
| "run_loop E (wakeup # wakeups) m = (case NextEpollTimeout m of (_, m) \<Rightarrow> (case wakeup of
       EpollErrno error \<Rightarrow>
         if error = EINTR then run_loop E wakeups m
         else (let m = m\<lparr>mt_error := SANDBOX_ERR_EPOLL_FAILED\<rparr> in (Some (ResolveRunResult m), m))
     | Events events \<Rightarrow> (case ProcessEpollBatch E (take MAX_EPOLL_EVENTS events) m of (running, m) \<Rightarrow>
         if \<not> running then (Some (ResolveRunResult m), m) else run_loop E wakeups (reconnect_if_due m))))"

definition Run :: "('w, 'j) mon_ext \<Rightarrow> wakeup list \<Rightarrow> 'w monitor \<Rightarrow> int option \<times> 'w monitor" where
  "Run E wakeups m =
     (if mt_epollFd m < 0 then (Some SANDBOX_ERR_BAD_PARAMETERS, m)
      else case CheckChildExit True m of (action, m) \<Rightarrow> (case ApplyAction action m of (running, m) \<Rightarrow>
        if \<not> running then (Some (ResolveRunResult m), m) else run_loop E wakeups m))"

end
