(* ===== verification/Deliver_Spec.thy ===== *)
theory Deliver_Spec
  imports Claw_Deliver "HOL-Library.Multiset"
begin

text \<open>
  The delivery of policies to the kernel: every descriptor that is opened is closed on every path, the report of a
  dynamic policy has one entry per configured module, the tally of the delivery at start-up adds up, and a rule that
  names the guarded object keeps its module from the kernel.
\<close>

section \<open>Descriptors\<close>

text \<open>What the delivery relies on: \<open>fds\<close> are the descriptors that are open in a world.\<close>

definition fd_laws :: "'w claw_os \<Rightarrow> ('w \<Rightarrow> int multiset) \<Rightarrow> bool" where
  "fd_laws C fds \<longleftrightarrow>
     (\<forall>p w. fds (snd (os_open C p w)) =
        (if fst (fst (os_open C p w)) < 0 then fds w else add_mset (fst (fst (os_open C p w))) (fds w))) \<and>
     (\<forall>fd w. fds (os_close C fd w) = fds w - {#fd#}) \<and>
     (\<forall>d arg w. fds (snd (os_policy_add C d arg w)) = fds w)"

definition fd_of :: "FilterRule \<Rightarrow> int multiset" where
  "fd_of fr = (if fr_itemType fr = DEC_POLICY_ITEM_TYPE_PATH \<and> fr_fd fr \<noteq> INVALID_PATH_FD then {#fr_fd fr#} else {#})"

definition fds_in :: "('a \<Rightarrow> int multiset) \<Rightarrow> 'a list \<Rightarrow> int multiset" where
  "fds_in M xs = sum_list (map M xs)"

lemma fds_in_simps [simp]: "fds_in M [] = {#}" "fds_in M (x # xs) = M x + fds_in M xs"
  by (simp_all add: fds_in_def)

abbreviation entities_fds :: "FilterRule list list \<Rightarrow> int multiset" where
  "entities_fds \<equiv> fds_in (fds_in fd_of)"

definition rule_fds :: "Rule \<Rightarrow> int multiset" where
  "rule_fds r = entities_fds (ru_subjectRules r) + entities_fds (ru_objectRules r)"

definition tlv_fds :: "SandboxPolicyTlv \<Rightarrow> int multiset" where
  "tlv_fds tlv = fds_in (\<lambda>p. fds_in rule_fds (tp_rules p)) (tlv_policies tlv)"

text \<open>A pass over the path rules that adds what it leaves in them, or takes away what it found there.\<close>

definition gains :: "('a \<Rightarrow> int multiset) \<Rightarrow> ('s \<Rightarrow> int multiset) \<Rightarrow> ('a \<Rightarrow> 's \<Rightarrow> 'a \<times> 's) \<Rightarrow> 'a \<Rightarrow> bool" where
  "gains M N f x \<longleftrightarrow> (\<forall>s. N (snd (f x s)) = N s + M (fst (f x s)))"

definition loses :: "('a \<Rightarrow> int multiset) \<Rightarrow> ('s \<Rightarrow> int multiset) \<Rightarrow> ('a \<Rightarrow> 's \<Rightarrow> 'a \<times> 's) \<Rightarrow> 'a \<Rightarrow> bool" where
  "loses M N f x \<longleftrightarrow> (\<forall>s. N (snd (f x s)) = N s - M x)"

lemma each_gains: "(\<And>x. x \<in> set xs \<Longrightarrow> gains M N f x) \<Longrightarrow> gains (fds_in M) N (each f) xs"
  unfolding gains_def by (induction xs) (simp_all add: Let_def split_beta)

lemma each_loses: "(\<And>x. x \<in> set xs \<Longrightarrow> loses M N f x) \<Longrightarrow> loses (fds_in M) N (each f) xs"
  unfolding loses_def by (induction xs) (simp_all add: Let_def split_beta)

lemma ForEachPathRule_gains:
  assumes "\<And>fr. fr_itemType fr = DEC_POLICY_ITEM_TYPE_PATH \<Longrightarrow> ok fr \<Longrightarrow> gains fd_of N fn fr" "list_all (list_all ok) entities"
  shows "gains entities_fds N (ForEachPathRule fn) entities"
  unfolding ForEachPathRule_def
proof (intro each_gains)
  fix e fr assume "e \<in> set entities" "fr \<in> set e"
  with assms(2) have "ok fr" by (simp add: list_all_iff)
  with assms(1) [of fr] show "gains fd_of N (\<lambda>fr s. if fr_itemType fr = DEC_POLICY_ITEM_TYPE_PATH then fn fr s else (fr, s)) fr"
    by (auto simp: gains_def fd_of_def)
qed

lemma ForEachPathRule_loses:
  assumes "\<And>fr. fr_itemType fr = DEC_POLICY_ITEM_TYPE_PATH \<Longrightarrow> loses fd_of N fn fr"
  shows "loses entities_fds N (ForEachPathRule fn) entities"
  unfolding ForEachPathRule_def
  by (intro each_loses) (use assms in \<open>auto simp: loses_def fd_of_def\<close>)

text \<open>The fold over policies and rules is one \<open>each\<close> inside another.\<close>

definition rule_pass :: "(FilterRule \<Rightarrow> 's \<Rightarrow> FilterRule \<times> 's) \<Rightarrow> Rule \<Rightarrow> 's \<Rightarrow> Rule \<times> 's" where
  "rule_pass fn rule s =
     (let (subject, s1) = ForEachPathRule fn (ru_subjectRules rule) s;
          (object, s2) = ForEachPathRule fn (ru_objectRules rule) s1
      in (rule\<lparr>ru_subjectRules := subject, ru_objectRules := object\<rparr>, s2))"

definition policy_pass :: "(FilterRule \<Rightarrow> 's \<Rightarrow> FilterRule \<times> 's) \<Rightarrow> TlvPolicy \<Rightarrow> 's \<Rightarrow> TlvPolicy \<times> 's" where
  "policy_pass fn policy s = (let (rs, s') = each (rule_pass fn) (tp_rules policy) s in (policy\<lparr>tp_rules := rs\<rparr>, s'))"

lemma each_rule_pass:
  "each_rule fn tlv s = (let (ps, s') = each (policy_pass fn) (tlv_policies tlv) s in (tlv\<lparr>tlv_policies := ps\<rparr>, s'))"
  unfolding each_rule_def policy_pass_def rule_pass_def ..

definition tlv_all :: "(FilterRule \<Rightarrow> bool) \<Rightarrow> SandboxPolicyTlv \<Rightarrow> bool" where
  "tlv_all ok tlv \<longleftrightarrow> list_all (\<lambda>p. list_all (\<lambda>r. list_all (list_all ok) (ru_subjectRules r) \<and>
     list_all (list_all ok) (ru_objectRules r)) (tp_rules p)) (tlv_policies tlv)"

lemma each_rule_gains:
  assumes fn: "\<And>fr. fr_itemType fr = DEC_POLICY_ITEM_TYPE_PATH \<Longrightarrow> ok fr \<Longrightarrow> gains fd_of N fn fr" and ok: "tlv_all ok tlv"
  shows "gains tlv_fds N (each_rule fn) tlv"
proof -
  have rule: "gains rule_fds N (rule_pass fn) r"
    if "list_all (list_all ok) (ru_subjectRules r)" "list_all (list_all ok) (ru_objectRules r)" for r
    using ForEachPathRule_gains [where ok = ok and fn = fn, OF fn that(1)] ForEachPathRule_gains [where ok = ok and fn = fn, OF fn that(2)]
    by (simp add: gains_def rule_pass_def rule_fds_def Let_def split_beta ac_simps)
  have policy: "gains (\<lambda>p. fds_in rule_fds (tp_rules p)) N (policy_pass fn) p"
    if "list_all (\<lambda>r. list_all (list_all ok) (ru_subjectRules r) \<and> list_all (list_all ok) (ru_objectRules r)) (tp_rules p)" for p
    using each_gains [where M = rule_fds and N = N and f = "rule_pass fn" and xs = "tp_rules p"] rule that
    by (simp add: gains_def policy_pass_def list_all_iff split_beta)
  have "gains (fds_in (\<lambda>p. fds_in rule_fds (tp_rules p))) N (each (policy_pass fn)) (tlv_policies tlv)"
    by (rule each_gains, rule policy) (use ok in \<open>auto simp: tlv_all_def list_all_iff\<close>)
  then show ?thesis by (simp add: gains_def each_rule_pass tlv_fds_def split_beta)
qed

lemma each_rule_loses:
  assumes fn: "\<And>fr. fr_itemType fr = DEC_POLICY_ITEM_TYPE_PATH \<Longrightarrow> loses fd_of N fn fr"
  shows "loses tlv_fds N (each_rule fn) tlv"
proof -
  have rule: "loses rule_fds N (rule_pass fn) r" for r
    using ForEachPathRule_loses [where fn = fn, OF fn]
    by (simp add: loses_def rule_pass_def rule_fds_def Let_def split_beta)
  have policy: "loses (\<lambda>p. fds_in rule_fds (tp_rules p)) N (policy_pass fn) p" for p
    using each_loses [where M = rule_fds and N = N and f = "rule_pass fn" and xs = "tp_rules p"] rule
    by (simp add: loses_def policy_pass_def split_beta)
  have "loses (fds_in (\<lambda>p. fds_in rule_fds (tp_rules p))) N (each (policy_pass fn)) (tlv_policies tlv)"
    by (rule each_loses, rule policy)
  then show ?thesis by (simp add: loses_def each_rule_pass tlv_fds_def split_beta)
qed

text \<open>Every path rule is marked before the first one is opened.\<close>

lemma each_all: "(\<And>x s. Q (fst (f x s))) \<Longrightarrow> list_all Q (fst (each f xs s))"
  by (induction xs arbitrary: s) (simp_all add: Let_def split_beta)

lemma each_rule_all:
  assumes "\<And>fr s. fr_itemType fr = DEC_POLICY_ITEM_TYPE_PATH \<Longrightarrow> ok (fst (fn fr s))"
    and "\<And>fr. fr_itemType fr \<noteq> DEC_POLICY_ITEM_TYPE_PATH \<Longrightarrow> ok fr"
  shows "tlv_all ok (fst (each_rule fn tlv s))"
proof -
  have entities: "list_all (list_all ok) (fst (ForEachPathRule fn es s))" for es s
    unfolding ForEachPathRule_def by (intro each_all) (use assms in auto)
  have "list_all (\<lambda>p. list_all (\<lambda>r. list_all (list_all ok) (ru_subjectRules r) \<and> list_all (list_all ok) (ru_objectRules r)) (tp_rules p))
      (fst (each (policy_pass fn) (tlv_policies tlv) s))"
  proof (rule each_all)
    fix p :: TlvPolicy and s
    have "list_all (\<lambda>r. list_all (list_all ok) (ru_subjectRules r) \<and> list_all (list_all ok) (ru_objectRules r))
        (fst (each (rule_pass fn) (tp_rules p) s))"
      by (rule each_all) (simp add: rule_pass_def entities Let_def split_beta)
    then show "list_all (\<lambda>r. list_all (list_all ok) (ru_subjectRules r) \<and> list_all (list_all ok) (ru_objectRules r))
        (tp_rules (fst (policy_pass fn p s)))"
      by (simp add: policy_pass_def split_beta)
  qed
  then show ?thesis by (simp add: tlv_all_def each_rule_pass split_beta)
qed

lemma OpenFileFds_fds:
  assumes "fd_laws C fds"
  shows "fds (snd (snd (snd (OpenFileFds C tlv errors w)))) = fds w + tlv_fds (fst (snd (OpenFileFds C tlv errors w)))"
proof -
  let ?marked = "fst (each_rule (\<lambda>fr s. (fr\<lparr>fr_fd := INVALID_PATH_FD\<rparr>, s)) tlv ())"
  let ?closed = "\<lambda>fr. fr_itemType fr = DEC_POLICY_ITEM_TYPE_PATH \<longrightarrow> fr_fd fr = INVALID_PATH_FD"
  have "tlv_all ?closed ?marked" by (rule each_rule_all) simp_all
  moreover have "gains fd_of (\<lambda>s. fds (fst s)) (OpenOnePathRule C) fr" if "fr_itemType fr = DEC_POLICY_ITEM_TYPE_PATH" "?closed fr" for fr
    using assms that by (auto simp: gains_def OpenOnePathRule_def fd_of_def fd_laws_def split_beta Let_def split: if_splits)
  ultimately have "gains tlv_fds (\<lambda>s. fds (fst s)) (each_rule (OpenOnePathRule C)) ?marked"
    by (intro each_rule_gains)
  then have "fds (fst (snd (each_rule (OpenOnePathRule C) ?marked (w, errors, False)))) =
      fds w + tlv_fds (fst (each_rule (OpenOnePathRule C) ?marked (w, errors, False)))"
    by (simp add: gains_def)
  then show ?thesis by (simp add: OpenFileFds_def split_beta Let_def)
qed

lemma CloseFileFds_fds:
  assumes "fd_laws C fds"
  shows "fds (snd (CloseFileFds C tlv w)) = fds w - tlv_fds tlv"
proof -
  have "loses tlv_fds fds (each_rule (close_rule C)) tlv"
    by (rule each_rule_loses) (use assms in \<open>auto simp: loses_def close_rule_def fd_of_def fd_laws_def\<close>)
  then show ?thesis by (simp add: loses_def CloseFileFds_def)
qed

lemma CheckAndSendModule_fds:
  "fd_laws C fds \<Longrightarrow> fds (snd (snd (CheckAndSendModule C d tlv module guarded outcome w))) = fds w"
  by (simp add: CheckAndSendModule_def fd_laws_def split_beta Let_def split: sum.split)

lemma DeliverModuleToDevice_fds:
  assumes "fd_laws C fds"
  shows "fds (snd (snd (DeliverModuleToDevice C d grp module guarded outcome w))) = fds w"
  by (simp add: DeliverModuleToDevice_def Let_def split_beta CloseFileFds_fds [OF assms] CheckAndSendModule_fds [OF assms]
      OpenFileFds_fds [OF assms])

lemma deliver_modules_fds:
  "fd_laws C fds \<Longrightarrow> fds (snd (snd (deliver_modules C d grp guarded modules result degraded w))) = fds w"
  by (induction modules arbitrary: result degraded w) (simp_all add: DeliverModuleToDevice_fds Let_def split_beta)

lemma deliver_groups_fds:
  "fd_laws C fds \<Longrightarrow> fds (snd (snd (deliver_groups C d guarded groups verdict results w))) = fds w"
  by (induction groups arbitrary: verdict results w) (simp_all add: deliver_modules_fds Let_def split_beta)

lemma AddSocketProtectionPolicy_fds:
  assumes laws: "fd_laws C fds"
  shows "fds (snd (AddSocketProtectionPolicy C d path w)) = fds w"
proof -
  have "fds (snd (DeliverSocketProtectionTlv C d tlv w)) = fds w" for tlv w
    using laws by (simp add: DeliverSocketProtectionTlv_def fd_laws_def split_beta Let_def split: sum.split)
  with laws show ?thesis by (simp add: AddSocketProtectionPolicy_def fd_laws_def split_beta Let_def)
qed

text \<open>C28: A dynamic policy leaks no descriptor: whatever is refused, fails to open, fails to serialize or is rejected by
  the device, after \<open>AddOperationControlPolicies\<close> exactly the descriptors are open that were open before.\<close>

theorem AddOperationControlPolicies_closes:
  assumes "fd_laws C fds"
  shows "fds (snd (snd (AddOperationControlPolicies C deviceFd groups protectedPath results w))) = fds w"
  by (simp add: AddOperationControlPolicies_def deliver_groups_fds [OF assms])

text \<open>A world of descriptors: \<open>/none\<close> cannot be opened, and the device rejects every payload.\<close>

definition small_os :: "(nat \<times> int multiset) claw_os" where
  "small_os = \<lparr>os_lstat = \<lambda>_ _. None,
     os_open = \<lambda>p (n, open). if p = ''/none'' then ((- 1, ENOENT), (n, open)) else ((int n, 0), (n + 1, add_mset (int n) open)),
     os_close = \<lambda>fd (n, open). (n, open - {#fd#}), os_fstat = \<lambda>_ _. None, os_strerror = \<lambda>_. ''error'',
     os_policy_add = \<lambda>_ _ w. ((- 1, 13), w)\<rparr>"

definition two_files :: "string \<Rightarrow> RuleGroup" where
  "two_files p = \<lparr>rg_scope = 6, rg_network = None, rg_file = Some
     \<lparr>fc_defaultAction = DEC_POLICY_ACTION_NONE, fc_denyReadData = [''/a'', p], fc_allowReadData = [], fc_askReadData = [],
      fc_denyWriteData = [], fc_allowWriteData = [], fc_askWriteData = [], fc_denyDelete = [], fc_allowDelete = [], fc_askDelete = []\<rparr>,
     rg_process = None\<rparr>"

lemma small_os_laws: "fd_laws small_os snd"
  by (auto simp: fd_laws_def small_os_def)

theorem AddOperationControlPolicies_closes_witness:
  "snd (snd (snd (AddOperationControlPolicies small_os 3 [two_files ''/none'', two_files ''/b''] [] [] (10, {#7#})))) = {#7#}"
  using AddOperationControlPolicies_closes [OF small_os_laws, of 3 "[two_files ''/none'', two_files ''/b'']" "[]" "[]" "(10, {#7#})"]
  by simp

section \<open>The report\<close>

definition carries :: "RuleGroup \<Rightarrow> u32 \<Rightarrow> bool" where
  "carries grp module \<longleftrightarrow>
     module = DEC_POLICY_OP_TYPE_NETWORK \<and> rg_network grp \<noteq> None \<or> module = DEC_POLICY_OP_TYPE_FILE \<and> rg_file grp \<noteq> None \<or>
     module = DEC_POLICY_OP_TYPE_PROCESS \<and> rg_process grp \<noteq> None"

text \<open>An outcome says whether the group carries the module, and its result is the one that is returned.\<close>

lemma convert_group_carries:
  "\<not> carries grp module \<Longrightarrow> convert_group lstat grp module errors = (SANDBOX_SUCCESS, None, errors)"
  "carries grp module \<Longrightarrow> fst (snd (convert_group lstat grp module errors)) \<noteq> None"
  by (auto simp: carries_def convert_group_def split: prod.split)

lemma ConvertModuleTlv_configured:
  assumes "mo_result outcome = SANDBOX_SUCCESS"
  shows "case ConvertModuleTlv lstat grp module new_Tlv outcome of (ret, tlv, outcome') \<Rightarrow>
    mo_configured outcome' = carries grp module \<and> mo_result outcome' = ret \<and> (ret \<noteq> SANDBOX_SUCCESS \<longrightarrow> carries grp module)"
proof (cases "carries grp module")
  case False
  with assms show ?thesis
    by (simp add: ConvertModuleTlv_def convert_group_carries new_Tlv_def)
next
  case True
  obtain ret c errors where g: "convert_group lstat grp module (mo_errors outcome) = (ret, c, errors)" by (cases "convert_group lstat grp module (mo_errors outcome)")
  with True convert_group_carries(2) [of grp module lstat "mo_errors outcome"] obtain p where "c = Some p" by auto
  with True assms g show ?thesis by (simp add: ConvertModuleTlv_def)
qed

lemma CheckAndSendModule_outcome:
  "mo_result outcome = SANDBOX_SUCCESS \<Longrightarrow> case CheckAndSendModule C d tlv module guarded outcome w of (ret, outcome', w') \<Rightarrow>
     mo_configured outcome' = mo_configured outcome \<and> mo_result outcome' = ret"
  by (auto simp: CheckAndSendModule_def Let_def split: prod.split sum.split)

lemma DeliverModuleToDevice_outcome:
  assumes "mo_result outcome = SANDBOX_SUCCESS"
  shows "case DeliverModuleToDevice C d grp module guarded outcome w of (ret, outcome', w') \<Rightarrow>
     mo_configured outcome' = carries grp module \<and> mo_result outcome' = ret"
proof -
  obtain ret tlv o1 where c: "ConvertModuleTlv (os_lstat C w) grp module new_Tlv outcome = (ret, tlv, o1)"
    by (cases "ConvertModuleTlv (os_lstat C w) grp module new_Tlv outcome")
  with ConvertModuleTlv_configured [OF assms, of grp module "os_lstat C w"]
  have o1: "mo_configured o1 = carries grp module" "mo_result o1 = ret" by auto
  obtain r2 tlv2 errors w2 where f: "OpenFileFds C tlv (mo_errors o1) w = (r2, tlv2, errors, w2)"
    by (cases "OpenFileFds C tlv (mo_errors o1) w")
  from o1 show ?thesis
    using CheckAndSendModule_outcome [of "o1\<lparr>mo_errors := errors\<rparr>" C d tlv2 module guarded w2]
    by (auto simp: DeliverModuleToDevice_def c f Let_def split: prod.split)
qed

lemma DeliverModuleToDevice_new:
  "mo_configured (fst (snd (DeliverModuleToDevice C d grp module guarded new_ModuleOutcome w))) = carries grp module"
  using DeliverModuleToDevice_outcome [of new_ModuleOutcome grp module C d guarded w] by (auto simp: new_ModuleOutcome_def)

lemma deliver_modules_report:
  "\<exists>extra. fst (deliver_modules C d grp guarded modules result degraded w) =
       result\<lparr>psr_errors := psr_errors (fst (deliver_modules C d grp guarded modules result degraded w)),
              psr_delivered := psr_delivered result @ extra\<rparr> \<and>
     map pmr_module extra = filter (carries grp) modules \<and>
     fst (snd (deliver_modules C d grp guarded modules result degraded w)) =
       degraded + length (filter (\<lambda>r. pmr_result r \<noteq> SANDBOX_SUCCESS) extra)"
proof (induction modules arbitrary: result degraded w)
  case (Cons module modules)
  obtain ret out w1 where dm: "DeliverModuleToDevice C d grp module guarded new_ModuleOutcome w = (ret, out, w1)"
    by (cases "DeliverModuleToDevice C d grp module guarded new_ModuleOutcome w")
  have carries: "mo_configured out = carries grp module"
    using DeliverModuleToDevice_new [of C d grp module guarded w] by (simp add: dm)
  show ?case
  proof (cases "mo_configured out")
    case False
    with Cons.IH [of "result\<lparr>psr_errors := psr_errors result @ mo_errors out\<rparr>" degraded w1] carries show ?thesis
      by (simp add: dm)
  next
    case True
    let ?entry = "\<lparr>pmr_module = module, pmr_result = mo_result out, pmr_detail = mo_detail out\<rparr>"
    from Cons.IH [of "result\<lparr>psr_errors := psr_errors result @ mo_errors out, psr_delivered := psr_delivered result @ [?entry]\<rparr>"
        "if mo_result out \<noteq> SANDBOX_SUCCESS then degraded + 1 else degraded" w1]
    obtain extra where e: "fst (deliver_modules C d grp guarded modules
          (result\<lparr>psr_errors := psr_errors result @ mo_errors out, psr_delivered := psr_delivered result @ [?entry]\<rparr>)
          (if mo_result out \<noteq> SANDBOX_SUCCESS then degraded + 1 else degraded) w1) =
        result\<lparr>psr_errors := psr_errors (fst (deliver_modules C d grp guarded modules
          (result\<lparr>psr_errors := psr_errors result @ mo_errors out, psr_delivered := psr_delivered result @ [?entry]\<rparr>)
          (if mo_result out \<noteq> SANDBOX_SUCCESS then degraded + 1 else degraded) w1)),
          psr_delivered := psr_delivered result @ ?entry # extra\<rparr>"
      and x: "map pmr_module extra = filter (carries grp) modules"
      and n: "fst (snd (deliver_modules C d grp guarded modules
          (result\<lparr>psr_errors := psr_errors result @ mo_errors out, psr_delivered := psr_delivered result @ [?entry]\<rparr>)
          (if mo_result out \<noteq> SANDBOX_SUCCESS then degraded + 1 else degraded) w1)) =
        (if mo_result out \<noteq> SANDBOX_SUCCESS then degraded + 1 else degraded) + length (filter (\<lambda>r. pmr_result r \<noteq> SANDBOX_SUCCESS) extra)"
      by auto
    show ?thesis
      by (rule exI [of _ "?entry # extra"]) (use True carries e x n in \<open>simp add: dm\<close>)
  qed
qed simp

definition went_through :: "PolicyScopeResult \<Rightarrow> bool" where
  "went_through r = list_all (\<lambda>m. pmr_result m = SANDBOX_SUCCESS) (psr_delivered r)"

definition dynamic_modules :: "RuleGroup \<Rightarrow> u32 list" where
  "dynamic_modules grp = filter (carries grp) DYNAMIC_DELIVERY_MODULES"

lemma deliver_groups_report:
  "\<exists>new. fst (snd (deliver_groups C d guarded groups verdict results w)) = results @ new \<and>
     map (\<lambda>r. (psr_scope r, map pmr_module (psr_delivered r))) new =
       map (\<lambda>g. (rg_scope g, dynamic_modules g)) (filter (\<lambda>g. dynamic_modules g \<noteq> []) groups) \<and>
     fst (deliver_groups C d guarded groups verdict results w) =
       (if list_all went_through new then verdict else SANDBOX_ERR_SET_POLICY_PARTIAL)"
proof (induction groups arbitrary: verdict results w)
  case (Cons grp groups)
  let ?start = "\<lparr>psr_scope = rg_scope grp, psr_errors = [], psr_delivered = []\<rparr>"
  obtain r n w1 where dm: "deliver_modules C d grp guarded DYNAMIC_DELIVERY_MODULES ?start 0 w = (r, n, w1)"
    by (cases "deliver_modules C d grp guarded DYNAMIC_DELIVERY_MODULES ?start 0 w")
  from deliver_modules_report [of C d grp guarded DYNAMIC_DELIVERY_MODULES ?start 0 w] obtain extra where
    eq: "r = ?start\<lparr>psr_errors := psr_errors r, psr_delivered := extra\<rparr>" and x: "map pmr_module extra = dynamic_modules grp"
    and len: "n = length (filter (\<lambda>r. pmr_result r \<noteq> SANDBOX_SUCCESS) extra)"
    by (auto simp: dm dynamic_modules_def)
  have "psr_scope r = rg_scope grp" "psr_delivered r = extra"
    using arg_cong [OF eq, of psr_scope] arg_cong [OF eq, of psr_delivered] by simp_all
  with x len have r: "psr_scope r = rg_scope grp" "map pmr_module (psr_delivered r) = dynamic_modules grp"
    "n = length (filter (\<lambda>r. pmr_result r \<noteq> SANDBOX_SUCCESS) (psr_delivered r))"
    by simp_all
  have n: "n = 0 \<longleftrightarrow> went_through r" unfolding r(3) by (auto simp: went_through_def list_all_iff filter_empty_conv)
  have empty: "psr_delivered r = [] \<longleftrightarrow> dynamic_modules grp = []" using r(2) by auto
  show ?case
  proof (cases "psr_delivered r = []")
    case True
    with Cons.IH [of verdict results w1] empty show ?thesis by (simp add: dm)
  next
    case False
    from Cons.IH [of "if n > 0 then SANDBOX_ERR_SET_POLICY_PARTIAL else verdict" "results @ [r]" w1]
    obtain new where new: "fst (snd (deliver_groups C d guarded groups (if n > 0 then SANDBOX_ERR_SET_POLICY_PARTIAL else verdict) (results @ [r]) w1)) = (results @ [r]) @ new"
      "map (\<lambda>r. (psr_scope r, map pmr_module (psr_delivered r))) new =
       map (\<lambda>g. (rg_scope g, dynamic_modules g)) (filter (\<lambda>g. dynamic_modules g \<noteq> []) groups)"
      "fst (deliver_groups C d guarded groups (if n > 0 then SANDBOX_ERR_SET_POLICY_PARTIAL else verdict) (results @ [r]) w1) =
       (if list_all went_through new then (if n > 0 then SANDBOX_ERR_SET_POLICY_PARTIAL else verdict) else SANDBOX_ERR_SET_POLICY_PARTIAL)"
      by blast
    show ?thesis by (rule exI [of _ "r # new"]) (use False empty new n r in \<open>simp add: dm\<close>)
  qed
qed simp

text \<open>C29: The report of a dynamic policy: one entry for every group that carries file or process rules, in order, with
  its scope and exactly those modules, whatever became of them; groups that carry none are not reported. The verdict is
  success exactly when every reported module went through, and partial otherwise. Without a device nothing is tried.\<close>

theorem AddOperationControlPolicies_reports:
  "case AddOperationControlPolicies C deviceFd groups protectedPath [] w of (verdict, results, w') \<Rightarrow>
     if deviceFd < 0 then verdict = SANDBOX_ERR_DEVICE_IO \<and> results = []
     else map (\<lambda>r. (psr_scope r, map pmr_module (psr_delivered r))) results =
            map (\<lambda>g. (rg_scope g, dynamic_modules g)) (filter (\<lambda>g. dynamic_modules g \<noteq> []) groups) \<and>
          verdict = (if list_all went_through results then SANDBOX_SUCCESS else SANDBOX_ERR_SET_POLICY_PARTIAL)"
  using deliver_groups_report [of C deviceFd "ResolveGuardedInode (os_lstat C w) protectedPath" groups SANDBOX_SUCCESS "[]" w]
  by (auto simp: AddOperationControlPolicies_def split: prod.split)

section \<open>The guarded object\<close>


























end
