(* ===== verification/Event_Spec.thy ===== *)
theory Event_Spec
  imports Claw_Event
begin

text \<open>
  The events of the device: what the kernel writes, and the document the application gets for it.
\<close>

section \<open>What the kernel writes\<close>

definition tlv_bytes :: "u16 \<times> string \<Rightarrow> string" where
  "tlv_bytes tlv = le_bytes 2 (unat (fst tlv)) @ le_bytes 2 (length (snd tlv)) @ snd tlv"

definition payload_bytes :: "(u16 \<times> string) list \<Rightarrow> string" where
  "payload_bytes tlvs = concat (map tlv_bytes tlvs)"

definition event_header :: "u32 \<Rightarrow> u32 \<Rightarrow> u64 \<Rightarrow> (u16 \<times> string) list \<Rightarrow> DeviceEventHeader" where
  "event_header cls etype event tlvs = \<lparr>deh_version = DEVICE_EVENT_VERSION, deh_eventClass = cls, deh_eventType = etype,
     deh_valLen = of_nat (length (payload_bytes tlvs)), deh_eventId = event\<rparr>"

definition event_bytes :: "u32 \<Rightarrow> u32 \<Rightarrow> u64 \<Rightarrow> (u16 \<times> string) list \<Rightarrow> string" where
  "event_bytes cls etype event tlvs = put_u32 DEVICE_EVENT_VERSION @ put_u32 cls @ put_u32 etype @
     put_u32 (of_nat (length (payload_bytes tlvs))) @ put_u64 event @ payload_bytes tlvs"

section \<open>What the application gets\<close>

text \<open>The value of a field by its type; nothing when the bytes are not a value of the type.\<close>

definition field_value :: "TlvValueType \<Rightarrow> string \<Rightarrow> json option" where
  "field_value t v = (let n = (of_nat (le_value v) :: u64) in
     case t of
       TLV_VALUE_STRING \<Rightarrow> Some (JString (c_str v))
     | TLV_VALUE_UINT64 \<Rightarrow> if length v = 8 then Some (JString (to_string (unat n))) else None
     | TLV_VALUE_INT64 \<Rightarrow> if length v = 8 then Some (JString (int_to_string (sint n))) else None
     | TLV_VALUE_UINT32 \<Rightarrow> if length v = 8 \<and> unat n < 2 ^ 32 then Some (JNumber (uint n)) else None
     | TLV_VALUE_INT32 \<Rightarrow> if length v = 8 \<and> - (2 ^ 31) \<le> sint n \<and> sint n < 2 ^ 31 then Some (JNumber (sint n)) else None)"

text \<open>A field the table does not know shows nothing.\<close>

definition field_shown :: "u16 \<times> string \<Rightarrow> members option" where
  "field_shown tlv = (case FindTlvField (fst tlv) of
       None \<Rightarrow> Some []
     | Some (_, field) \<Rightarrow>
         if length (snd tlv) > unat (tf_maxLength field) then None
         else map_option (\<lambda>j. [(tf_name field, j)]) (field_value (tf_type field) (snd tlv)))"

definition known_tags :: "(u16 \<times> string) list \<Rightarrow> u16 list" where
  "known_tags tlvs = filter (\<lambda>tag. FindTlvField tag \<noteq> None) (map fst tlvs)"

definition event_acceptable :: "(u16 \<times> string) list \<Rightarrow> bool" where
  "event_acceptable tlvs \<longleftrightarrow> list_all (\<lambda>tlv. field_shown tlv \<noteq> None) tlvs \<and> distinct (known_tags tlvs)"

definition event_json :: "u32 \<Rightarrow> u32 \<Rightarrow> u64 \<Rightarrow> (u16 \<times> string) list \<Rightarrow> json" where
  "event_json cls etype event tlvs = JObject
     [(''context'', JObject (concat (map (the \<circ> field_shown) tlvs))), (''version'', JNumber 1),
      (''event_class'', JNumber (uint cls)), (''event_type'', JNumber (uint etype)),
      (''val_len'', JNumber (int (length (payload_bytes tlvs)))), (''event_id'', JString (to_string (unat event)))]"

section \<open>Reading\<close>

lemma word_unat_eq: "unat w = n \<Longrightarrow> w = of_nat n" for w :: "'a::len word"
  by auto

lemma u16_at_bytes: "u16_at k bs = of_nat n" if "take 2 (drop k bs) = le_bytes 2 n" "n < 2 ^ 16"
  using that by (simp add: u16_at_def le_value_bytes)

lemma tlv_header_read:
  fixes tag :: u16
  assumes "length v < 2 ^ 16"
  shows "u16_at 0 (tlv_bytes (tag, v) @ r) = tag" "unat (u16_at 2 (tlv_bytes (tag, v) @ r)) = length v"
proof -
  have t: "unat tag < 2 ^ 16" using unsigned_less [of tag, where ?'a = nat] by simp
  have "u16_at 0 (tlv_bytes (tag, v) @ r) = of_nat (unat tag)"
    using t by (intro u16_at_bytes) (simp_all add: tlv_bytes_def)
  then show "u16_at 0 (tlv_bytes (tag, v) @ r) = tag" by simp
  have "u16_at 2 (tlv_bytes (tag, v) @ r) = of_nat (length v)"
    using assms by (intro u16_at_bytes) (simp_all add: tlv_bytes_def)
  then show "unat (u16_at 2 (tlv_bytes (tag, v) @ r)) = length v"
    using assms by (simp add: unsigned_of_nat take_bit_nat_eq_self)
qed

lemma find_field_Some:
  "find_field k fs tag = Some (i, f) \<Longrightarrow> k \<le> i \<and> i < k + length fs \<and> fs ! (i - k) = f \<and> tf_tag f = tag"
  by (induction k fs tag rule: find_field.induct) (auto split: if_splits simp: nth_Cons' le_Suc_eq Suc_le_eq)

lemma FindTlvField_Some:
  assumes "FindTlvField tag = Some (i, f)"
  shows "i < 17" "TLV_FIELD_TABLE ! i = f" "tf_tag f = tag"
  using find_field_Some [OF assms [unfolded FindTlvField_def]] by (simp_all add: TLV_FIELD_TABLE_def)

lemma FindTlvField_inj:
  "FindTlvField tag = Some (i, f) \<Longrightarrow> FindTlvField tag' = Some (i, f') \<Longrightarrow> tag' = tag"
  by (metis FindTlvField_Some(2,3))

text \<open>The marks of the fields seen.\<close>

definition marked :: "u32 \<Rightarrow> u16 \<Rightarrow> bool" where
  "marked m tag \<longleftrightarrow> (case FindTlvField tag of None \<Rightarrow> False | Some (i, _) \<Rightarrow> bit m i)"

lemma and_mark: "((m :: u32) AND push_bit i 1 = 0) = (\<not> bit m i)"
  by (simp add: and_exp_eq_0_iff_not_bit)

lemma marked_none: "\<not> marked 0 tag"
  by (simp add: marked_def split: option.splits)

lemma marked_add:
  assumes "FindTlvField tag = Some (i, f)" "FindTlvField tag' \<noteq> None"
  shows "marked (m OR push_bit i 1) tag' \<longleftrightarrow> marked m tag' \<or> tag' = tag"
proof -
  obtain i' f' where f: "FindTlvField tag' = Some (i', f')" using assms(2) by auto
  have "bit (push_bit i (1 :: u32)) i' \<longleftrightarrow> i' = i"
    using FindTlvField_Some(1) [OF f] by (auto simp: bit_simps)
  moreover have "i' = i \<longleftrightarrow> tag' = tag" 
  proof
    assume "i' = i"
    with f show "tag' = tag" using FindTlvField_inj [OF assms(1)] by blast
  next
    assume "tag' = tag"
    with f assms(1) show "i' = i" by simp
  qed
  ultimately show ?thesis using f by (simp add: marked_def bit_or_iff)
qed

definition result_of :: "'a res \<Rightarrow> 'a option" where
  "result_of r = (case r of Inl _ \<Rightarrow> None | Inr a \<Rightarrow> Some a)"

lemma result_of_simps [simp]: "result_of (Inl e) = None" "result_of (Inr a) = Some a"
  by (simp_all add: result_of_def)

lemma ParseTlvField_value:
  "result_of (ParseTlvField field v ctx) = map_option (\<lambda>j. ctx @ [(tf_name field, j)]) (field_value (tf_type field) v)"
proof -
  define n where "n = (of_nat (le_value v) :: u64)"
  have r: "ReadNumericField v = (if length v \<noteq> 8 then Inl SANDBOX_ERR_DATA_CORRUPT else Inr n)"
    by (simp add: ReadNumericField_def u64_at_def n_def)
  have over: "(0xFFFFFFFF < n) = (\<not> unat n < 2 ^ 32)"
    unfolding word_less_nat_alt by auto
  have signed: "(sint n < - 2147483648 \<or> sint n > 2147483647) = (\<not> (- (2 ^ 31) \<le> sint n \<and> sint n < 2 ^ 31))"
    by auto
  show ?thesis
  proof (cases "tf_type field")
    case TLV_VALUE_STRING
    then show ?thesis by (simp only: ParseTlvField_def field_value_def AddStringField_def TlvValueType.case result_of_simps Let_def option.map)
  next
    case TLV_VALUE_UINT64
    then show ?thesis
      unfolding ParseTlvField_def field_value_def AddUint64Field_def r n_def [symmetric] Let_def TlvValueType.case TLV_VALUE_UINT64
      by (cases "length v = 8") (simp_all only: if_True if_False simp_thms res_bind_simps result_of_simps option.map)
  next
    case TLV_VALUE_INT64
    then show ?thesis
      unfolding ParseTlvField_def field_value_def AddInt64Field_def r n_def [symmetric] Let_def TlvValueType.case TLV_VALUE_INT64
      by (cases "length v = 8") (simp_all only: if_True if_False simp_thms res_bind_simps result_of_simps option.map)
  next
    case TLV_VALUE_UINT32
    then show ?thesis
      unfolding ParseTlvField_def field_value_def AddUint32Field_def r n_def [symmetric] Let_def TlvValueType.case TLV_VALUE_UINT32
      by (cases "length v = 8"; cases "unat n < 2 ^ 32")
        (simp_all only: over if_True if_False simp_thms res_bind_simps result_of_simps option.map)
  next
    case TLV_VALUE_INT32
    then show ?thesis
      unfolding ParseTlvField_def field_value_def AddInt32Field_def r n_def [symmetric] Let_def TlvValueType.case TLV_VALUE_INT32
      by (cases "length v = 8"; cases "- (2 ^ 31) \<le> sint n \<and> sint n < 2 ^ 31")
        (simp_all only: signed if_True if_False simp_thms res_bind_simps result_of_simps option.map)
  qed
qed

lemma ParseKnownTlvField_value:
  assumes "length v < 2 ^ 16"
  shows "result_of (ParseKnownTlvField \<lparr>th_tag = tag, th_length = of_nat (length v)\<rparr> v ctx m) =
    (if marked m tag then None
     else map_option (\<lambda>s. (ctx @ s, case FindTlvField tag of None \<Rightarrow> m | Some (i, _) \<Rightarrow> m OR push_bit i 1)) (field_shown (tag, v)))"
proof (cases "FindTlvField tag")
  case None
  then show ?thesis by (simp add: ParseKnownTlvField_def marked_def field_shown_def)
next
  case (Some p)
  then obtain i f where f: "FindTlvField tag = Some (i, f)" by (cases p) auto
  have over: "(of_nat (length v) > tf_maxLength f) = (length v > unat (tf_maxLength f))"
    using assms by (simp add: word_less_nat_alt unsigned_of_nat take_bit_nat_eq_self)
  have bind: "result_of (res_bind r (\<lambda>x. Inr (g x))) = map_option g (result_of r)" for r :: "members res" and g :: "members \<Rightarrow> members \<times> u32"
    by (cases r) simp_all
  show ?thesis
    unfolding ParseKnownTlvField_def Let_def
    by (simp add: marked_def field_shown_def f over and_mark bind ParseTlvField_value option.map_comp comp_def del: push_bit_of_1)
qed

lemma tlv_loop_value:
  "list_all (\<lambda>tlv. length (snd tlv) < 2 ^ 16) tlvs \<Longrightarrow>
   result_of (tlv_loop (payload_bytes tlvs) ctx m) =
     (if list_all (\<lambda>tlv. field_shown tlv \<noteq> None) tlvs \<and> distinct (known_tags tlvs) \<and> list_all (\<lambda>tag. \<not> marked m tag) (known_tags tlvs)
      then Some (ctx @ concat (map (the \<circ> field_shown) tlvs)) else None)"
proof (induction tlvs arbitrary: ctx m)
  case Nil
  show ?case by (simp add: payload_bytes_def known_tags_def tlv_loop.simps)
next
  case (Cons tlv tlvs)
  obtain tag v where tlv: "tlv = (tag, v)" by (cases tlv)
  have v: "length v < 2 ^ 16" using Cons.prems tlv by simp
  let ?rest = "payload_bytes tlvs"
  let ?K = "ParseKnownTlvField \<lparr>th_tag = tag, th_length = of_nat (length v)\<rparr> v ctx m"
  have p: "payload_bytes (tlv # tlvs) = tlv_bytes (tag, v) @ ?rest" by (simp add: payload_bytes_def tlv)
  have l: "u16_at 2 (tlv_bytes (tag, v) @ ?rest) = of_nat (length v)"
    using tlv_header_read(2) [OF v, of tag ?rest] by (metis word_unat_eq)
  have n: "unat (of_nat (length v) :: u16) = length v"
    using v by (simp add: unsigned_of_nat take_bit_nat_eq_self)
  have d: "drop 4 (tlv_bytes (tag, v) @ ?rest) = v @ ?rest" "\<not> length (tlv_bytes (tag, v) @ ?rest) < 4" "tlv_bytes (tag, v) @ ?rest \<noteq> []"
    by (simp_all add: tlv_bytes_def flip: length_0_conv)
  have e: "\<not> length (v @ ?rest) < length v" "drop (length v) (v @ ?rest) = ?rest" "take (length v) (v @ ?rest) = v"
    by simp_all
  have "tlv_loop (payload_bytes (tlv # tlvs)) ctx m = (case ?K of Inl ret \<Rightarrow> Inl ret | Inr (ctx', m') \<Rightarrow> tlv_loop ?rest ctx' m')"
    unfolding p by (subst tlv_loop.simps) (simp only: d e tlv_header_read(1) [OF v] l n Let_def TlvHeader.simps if_False)
  then have step: "result_of (tlv_loop (payload_bytes (tlv # tlvs)) ctx m) =
      (case result_of ?K of None \<Rightarrow> None | Some (ctx', m') \<Rightarrow> result_of (tlv_loop ?rest ctx' m'))"
    by (cases ?K) (auto split: prod.splits)
  show ?case
  proof (cases "marked m tag \<or> field_shown (tag, v) = None")
    case True
    have "marked m tag \<longrightarrow> tag \<in> set (known_tags (tlv # tlvs))"
      by (simp add: marked_def known_tags_def tlv split: option.splits)
    with True show ?thesis
      by (auto simp: step [unfolded tlv] ParseKnownTlvField_value [OF v] tlv list_all_iff)
  next
    case False
    then obtain s where s: "field_shown (tag, v) = Some s" and nm: "\<not> marked m tag" by auto
    have IH: "result_of (tlv_loop ?rest ctx' m') =
       (if list_all (\<lambda>tlv. field_shown tlv \<noteq> None) tlvs \<and> distinct (known_tags tlvs) \<and> list_all (\<lambda>tag. \<not> marked m' tag) (known_tags tlvs)
        then Some (ctx' @ concat (map (the \<circ> field_shown) tlvs)) else None)" for ctx' m'
      using Cons by simp
    have kt: "set (known_tags tlvs) \<subseteq> {t. FindTlvField t \<noteq> None}" by (auto simp: known_tags_def)
    show ?thesis
    proof (cases "FindTlvField tag")
      case None
      then have "known_tags (tlv # tlvs) = known_tags tlvs" by (simp add: known_tags_def tlv)
      then show ?thesis by (simp add: step [unfolded tlv] ParseKnownTlvField_value [OF v] s nm None IH tlv comp_def)
    next
      case (Some p)
      then obtain i f where f: "FindTlvField tag = Some (i, f)" by (cases p) auto
      have k: "known_tags (tlv # tlvs) = tag # known_tags tlvs" by (simp add: known_tags_def tlv f)
      have "list_all (\<lambda>t. \<not> marked (m OR push_bit i 1) t) (known_tags tlvs) \<longleftrightarrow>
          list_all (\<lambda>t. \<not> marked m t) (known_tags tlvs) \<and> tag \<notin> set (known_tags tlvs)"
        using kt marked_add [OF f] unfolding list_all_iff by blast
      then show ?thesis by (auto simp: step [unfolded tlv] ParseKnownTlvField_value [OF v] s nm f IH tlv k [unfolded tlv] comp_def)
    qed
  qed
qed

lemma MAX_DEVICE_EVENT_LENGTH_value: "MAX_DEVICE_EVENT_LENGTH = 2212"
  by (simp add: MAX_DEVICE_EVENT_LENGTH_def MaxDeviceEventLength_def TLV_FIELD_TABLE_def TLV_LEN_NUMERIC_def TLV_LEN_STRING_def)

lemma put_u32_at: "take 4 (drop k bs) = put_u32 w \<Longrightarrow> u32_at k bs = w"
  using unsigned_less [of w, where ?'a = nat] by (simp add: u32_at_def put_u32_def le_value_bytes)

lemma put_u64_at: "take 8 (drop k bs) = put_u64 w \<Longrightarrow> u64_at k bs = w"
  using unsigned_less [of w, where ?'a = nat] by (simp add: u64_at_def put_u64_def le_value_bytes)

lemma event_header_of_bytes: "event_header_of (event_bytes cls etype event tlvs @ r) = event_header cls etype event tlvs"
  unfolding event_header_of_def event_header_def event_bytes_def
  by (intro DeviceEventHeader.equality) (simp_all add: put_u32_at put_u64_at put_u32_def put_u64_def)

lemma tlv_loop_error: "tlv_loop data ctx m = Inl e \<Longrightarrow> e \<noteq> 0"
proof (induction data ctx m rule: tlv_loop.induct)
  case (1 data ctx m)
  show ?case
    using 1(2)
    by (subst (asm) tlv_loop.simps)
      (auto simp: Let_def ParseKnownTlvField_def ParseTlvField_def AddStringField_def AddUint64Field_def AddInt64Field_def
        AddUint32Field_def AddInt32Field_def ReadNumericField_def res_bind_def
        split: if_splits option.splits TlvValueType.splits sum.splits prod.splits dest!: 1(1))
qed

lemma event_frame:
  fixes cls etype :: u32 and event :: u64 and rest :: string
  assumes "length (payload_bytes tlvs) \<le> MAX_DEVICE_EVENT_LENGTH - 24"
  defines "h \<equiv> event_header cls etype event tlvs" and "bytes \<equiv> event_bytes cls etype event tlvs @ rest"
  shows "ValidateEventFrame bytes = Some h" "take (unat (deh_valLen h)) (drop 24 bytes) = payload_bytes tlvs"
    "uint (deh_valLen h) = int (length (payload_bytes tlvs))"
proof -
  have l: "unat (deh_valLen h) = length (payload_bytes tlvs)"
    using assms(1) by (simp add: h_def event_header_def MAX_DEVICE_EVENT_LENGTH_value unat_of_nat_u32)
  show "ValidateEventFrame bytes = Some h"
    using assms(1) l unfolding ValidateEventFrame_def bytes_def event_header_of_bytes h_def
    by (simp add: Let_def event_bytes_def put_u32_def put_u64_def event_header_def)
  show "take (unat (deh_valLen h)) (drop 24 bytes) = payload_bytes tlvs"
    unfolding l by (simp add: bytes_def event_bytes_def put_u32_def put_u64_def)
  show "uint (deh_valLen h) = int (length (payload_bytes tlvs))"
    using l by (metis of_nat_unat)
qed

lemma ParseTlvFields_value:
  "list_all (\<lambda>tlv. length (snd tlv) < 2 ^ 16) tlvs \<Longrightarrow> result_of (ParseTlvFields (payload_bytes tlvs) []) =
    (if event_acceptable tlvs then Some (concat (map (the \<circ> field_shown) tlvs)) else None)"
  using tlv_loop_value [of tlvs "[]" 0] by (simp add: ParseTlvFields_def event_acceptable_def marked_none list_all_iff)

lemma ParseEvent_accepted:
  assumes "list_all (\<lambda>tlv. length (snd tlv) < 2 ^ 16) tlvs"
    and "length (payload_bytes tlvs) \<le> MAX_DEVICE_EVENT_LENGTH - 24" and "event_acceptable tlvs"
  shows "ParseEvent print (event_bytes cls etype event tlvs @ rest) out = (case print (event_json cls etype event tlvs) of
      None \<Rightarrow> (DROP, \<lparr>tep_header = event_header cls etype event tlvs, tep_error = SANDBOX_ERR_GENERIC\<rparr>, out)
    | Some s \<Rightarrow>
        if length s > MAX_BODY_LENGTH
        then (DROP, \<lparr>tep_header = event_header cls etype event tlvs, tep_error = SANDBOX_ERR_SOCKET_MSG_TOO_LARGE\<rparr>, out)
        else (DONE, \<lparr>tep_header = event_header cls etype event tlvs, tep_error = 0\<rparr>, s))"
proof -
  let ?h = "event_header cls etype event tlvs"
  note f = event_frame(1,2) [OF assms(2), of cls etype event rest]
  have "ParseTlvFields (payload_bytes tlvs) [] = Inr (concat (map (the \<circ> field_shown) tlvs))"
    using ParseTlvFields_value [OF assms(1)] assms(3) by (simp add: result_of_def split: sum.splits)
  then have b: "BuildEventJson print ?h (drop 24 (event_bytes cls etype event tlvs @ rest)) =
      (case print (event_json cls etype event tlvs) of None \<Rightarrow> Inl SANDBOX_ERR_GENERIC
       | Some s \<Rightarrow> if length s > MAX_BODY_LENGTH then Inl SANDBOX_ERR_SOCKET_MSG_TOO_LARGE else Inr s)"
    using event_frame(3) [OF assms(2), of cls etype event] unfolding BuildEventJson_def f(2) by (simp add: event_json_def event_header_def DEVICE_EVENT_VERSION_def Let_def)
  show ?thesis
    by (simp add: ParseEvent_def f(1) b del: drop_append split: option.splits)
qed

text \<open>C34: An event of the kernel is parsed exactly when it is acceptable: every known field is within its length and a value
  of its type, and no known field comes twice; unknown fields are skipped. The document then has the header's values and
  the fields in the order they came, and is delivered when it can be printed within a message's body. Bytes after the
  declared length make no difference, and an event that is not accepted leaves the output as it was.\<close>

theorem ParseEvent_renders:
  assumes "list_all (\<lambda>tlv. length (snd tlv) < 2 ^ 16) tlvs"
    and "length (payload_bytes tlvs) \<le> MAX_DEVICE_EVENT_LENGTH - 24"
  shows "case ParseEvent print (event_bytes cls etype event tlvs @ rest) out of (step, parser, json) \<Rightarrow>
    (case (event_acceptable tlvs, print (event_json cls etype event tlvs)) of
       (True, Some s) \<Rightarrow>
         if length s \<le> MAX_BODY_LENGTH then step = DONE \<and> json = s \<and> parser = \<lparr>tep_header = event_header cls etype event tlvs, tep_error = 0\<rparr>
         else step = DROP \<and> json = out \<and> tep_error parser = SANDBOX_ERR_SOCKET_MSG_TOO_LARGE
     | _ \<Rightarrow> step = DROP \<and> json = out \<and> tep_error parser \<noteq> 0)"
proof (cases "event_acceptable tlvs")
  case True
  then show ?thesis by (simp add: ParseEvent_accepted [OF assms] split: option.splits)
next
  case False
  note f = event_frame(1,2) [OF assms(2), of cls etype event rest]
  from False ParseTlvFields_value [OF assms(1)] obtain e where e: "ParseTlvFields (payload_bytes tlvs) [] = Inl e"
    by (auto simp: result_of_def split: sum.splits)
  then have b: "BuildEventJson print (event_header cls etype event tlvs) (drop 24 (event_bytes cls etype event tlvs @ rest)) = Inl e"
    unfolding BuildEventJson_def f(2) by simp
  have "e \<noteq> 0" using e tlv_loop_error by (simp add: ParseTlvFields_def)
  with False show ?thesis
    by (simp add: ParseEvent_def f(1) b del: drop_append)
qed

text \<open>A call of \<open>open\<close> by process 4711: the event has the name, the process, the path and a field this build does not know.\<close>

definition demo_tlvs :: "(u16 \<times> string) list" where
  "demo_tlvs = [(1, ''open''), (131, le_bytes 8 4711), (388, ''?''), (259, ''/data/a'')]"

lemma demo_event:
  "list_all (\<lambda>tlv. length (snd tlv) < 2 ^ 16) demo_tlvs" "length (payload_bytes demo_tlvs) \<le> MAX_DEVICE_EVENT_LENGTH - 24"
  "event_acceptable demo_tlvs"
proof -
  show "list_all (\<lambda>tlv. length (snd tlv) < 2 ^ 16) demo_tlvs" "length (payload_bytes demo_tlvs) \<le> MAX_DEVICE_EVENT_LENGTH - 24"
    by (simp_all add: demo_tlvs_def payload_bytes_def tlv_bytes_def MAX_DEVICE_EVENT_LENGTH_value)
  have f: "FindTlvField 1 = Some (0, TLV_FIELD_TABLE ! 0)" "FindTlvField 131 = Some (3, TLV_FIELD_TABLE ! 3)"
    "FindTlvField 388 = None" "FindTlvField 259 = Some (10, TLV_FIELD_TABLE ! 10)"
    by (simp_all add: FindTlvField_def TLV_FIELD_TABLE_def)
  have "le_value (le_bytes 8 4711) = 4711" by (simp add: le_value_bytes)
  then show "event_acceptable demo_tlvs"
    by (simp add: event_acceptable_def demo_tlvs_def field_shown_def known_tags_def f field_value_def TLV_FIELD_TABLE_def
        TLV_LEN_STRING_def TLV_LEN_NUMERIC_def)
qed

theorem ParseEvent_renders_witness:
  "case ParseEvent (\<lambda>_. Some ''{}'') (event_bytes 0 1 77 demo_tlvs @ ''tail'') [] of (step, parser, json) \<Rightarrow>
     step = DONE \<and> json = ''{}'' \<and> deh_eventId (tep_header parser) = 77"
  using ParseEvent_renders [OF demo_event(1,2), where print = "\<lambda>_. Some ''{}''" and cls = 0 and etype = 1 and event = 77
      and rest = "''tail''" and out = "[]"] demo_event(3)
  by (auto simp: MAX_BODY_LENGTH_def event_header_def split: prod.splits)

end
