(* ===== verification/Glob_Spec.thy ===== *)
theory Glob_Spec
  imports Claw_Glob
begin

text \<open>
  The pattern parser against the grammar its header comment describes: a literal canonical directory, the double
  star, and a tail that is empty, a literal canonical path or a star-led final component. The parser is a list of
  searches and position tests; the grammar is a set of strings.
\<close>

section \<open>Searches\<close>

lemma find_from_None: "find_from p i s = None \<longleftrightarrow> \<not> sublist p s"
  by (induction p i s rule: find_from.induct) (auto simp: sublist_Cons_right starts_with_prefix)

lemma find_from_Some:
  "find_from p i s = Some k \<Longrightarrow> \<exists>u v. s = u @ p @ v \<and> k = i + length u"
proof (induction p i s rule: find_from.induct)
  case (2 p i c cs)
  show ?case
  proof (cases "starts_with (c # cs) p")
    case True
    then obtain v where "c # cs = p @ v" by (auto simp: starts_with_prefix prefix_def)
    moreover have "k = i" using 2 True by simp
    ultimately show ?thesis by (intro exI [of _ "[]"] exI [of _ v]) simp
  next
    case False
    with 2 obtain u v where "cs = u @ p @ v" "k = Suc i + length u" by auto
    then show ?thesis by (intro exI [of _ "c # u"] exI [of _ v]) simp
  qed
qed (auto split: if_splits)

lemma find_from_first:
  assumes "hd p \<notin> set u" "p \<noteq> []"
  shows "find_from p i (u @ p @ v) = Some (i + length u)"
  using assms
proof (induction u arbitrary: i)
  case Nil
  then show ?case by (cases p) (simp_all add: starts_with_def)
next
  case (Cons c u)
  then have "\<not> starts_with (c # u @ p @ v) p" by (cases p) (auto simp: starts_with_def)
  with Cons show ?case by simp
qed

section \<open>Components\<close>

lemma first_component:
  "CHR ''/'' \<notin> set c \<Longrightarrow> takeWhile (\<lambda>x. x \<noteq> CHR ''/'') c = c"
  "CHR ''/'' \<notin> set c \<Longrightarrow> takeWhile (\<lambda>x. x \<noteq> CHR ''/'') (c @ CHR ''/'' # r) = c"
  by (subst takeWhile_eq_all_conv takeWhile_append2; auto)+

lemma special_cases:
  "CHR ''/'' \<notin> set c \<Longrightarrow> special_components c \<longleftrightarrow> c = ''.'' \<or> c = ''..''"
  "CHR ''/'' \<notin> set c \<Longrightarrow> special_components (c @ CHR ''/'' # r) \<longleftrightarrow> c = ''.'' \<or> c = ''..'' \<or> special_components r"
  by (subst special_components.simps, simp add: Let_def first_component)+

lemma canonical_name_cases: "CHR ''/'' \<notin> set c \<Longrightarrow> canonical_name c \<longleftrightarrow> \<not> (c = ''.'' \<or> c = ''..'') \<and> c \<noteq> []"
  by (auto simp: canonical_name_def segment_ok_def)

lemma double_cases:
  assumes "CHR ''/'' \<notin> set c"
  shows "sublist ''//'' (CHR ''/'' # c) \<longleftrightarrow> False"
    and "sublist ''//'' (CHR ''/'' # c @ CHR ''/'' # r) \<longleftrightarrow> c = [] \<or> sublist ''//'' (CHR ''/'' # r)"
proof -
  have plain: "\<not> sublist ''//'' c" using assms by (auto simp: sublist_def)
  have "sublist ''//'' (c @ CHR ''/'' # r) \<longleftrightarrow> sublist ''//'' (CHR ''/'' # r)"
    using assms by (induction c) (auto simp: sublist_Cons_right)
  then show "sublist ''//'' (CHR ''/'' # c @ CHR ''/'' # r) \<longleftrightarrow> c = [] \<or> sublist ''//'' (CHR ''/'' # r)"
    using assms by (cases c) (auto simp: sublist_Cons_right)
  show "sublist ''//'' (CHR ''/'' # c) \<longleftrightarrow> False"
    using assms plain by (cases c) (auto simp: sublist_Cons_right)
qed

definition absolute_text :: "string \<Rightarrow> bool" where
  "absolute_text s \<longleftrightarrow> s = ''/'' \<or> canonical_path s \<or> (\<exists>q. canonical_path q \<and> s = q @ ''/'')"

lemma absolute_text_render:
  "absolute_text s \<longleftrightarrow> (\<exists>segs. list_all canonical_name segs \<and> (segs \<noteq> [] \<and> s = render segs \<or> s = render segs @ ''/''))"
proof
  assume "absolute_text s"
  then consider "s = render [] @ ''/''" | segs where "segs \<noteq> []" "list_all canonical_name segs" "s = render segs \<or> s = render segs @ ''/''"
    by (auto simp: absolute_text_def canonical_path_def render_def)
  then show "\<exists>segs. list_all canonical_name segs \<and> (segs \<noteq> [] \<and> s = render segs \<or> s = render segs @ ''/'')"
  proof cases
    case 1
    then show ?thesis by (intro exI [of _ "[]"]) simp
  qed blast
next
  assume "\<exists>segs. list_all canonical_name segs \<and> (segs \<noteq> [] \<and> s = render segs \<or> s = render segs @ ''/'')"
  then obtain segs where segs: "list_all canonical_name segs" "segs \<noteq> [] \<and> s = render segs \<or> s = render segs @ ''/''" by blast
  then show "absolute_text s"
    by (cases "segs = []") (auto simp: absolute_text_def canonical_path_def render_def)
qed

lemma first_component_eq:
  assumes "CHR ''/'' \<notin> set c" "CHR ''/'' \<notin> set d" "t = [] \<or> hd t = CHR ''/''" "u = [] \<or> hd u = CHR ''/''"
  shows "c @ t = d @ u \<longleftrightarrow> c = d \<and> t = u"
proof
  assume eq: "c @ t = d @ u"
  have "takeWhile (\<lambda>x. x \<noteq> CHR ''/'') (c @ t) = c" "takeWhile (\<lambda>x. x \<noteq> CHR ''/'') (d @ u) = d"
    using assms by (cases t; cases u; auto simp: takeWhile_append takeWhile_eq_all_conv)+
  with eq show "c = d \<and> t = u" by auto
qed simp

lemma render_slash_head: "render segs = [] \<or> hd (render segs) = CHR ''/''"
  by (cases segs) (simp_all add: render_def)

lemma absolute_cases:
  assumes "CHR ''/'' \<notin> set c"
  shows "absolute_text (CHR ''/'' # c) \<longleftrightarrow> c = [] \<or> canonical_name c"
    and "absolute_text (CHR ''/'' # c @ CHR ''/'' # r) \<longleftrightarrow> canonical_name c \<and> absolute_text (CHR ''/'' # r)"
proof -
  have eq: "CHR ''/'' # c @ t = render (d # ds) @ e \<longleftrightarrow> c = d \<and> t = render ds @ e"
    if "canonical_name d" "e = [] \<or> e = ''/''" "t = [] \<or> hd t = CHR ''/''" for t d ds e
  proof -
    have "CHR ''/'' \<notin> set d" using that(1) by (simp add: canonical_name_def segment_ok_def)
    moreover have "render ds @ e = [] \<or> hd (render ds @ e) = CHR ''/''" using that(2) by (cases ds) (auto simp: render_def)
    ultimately show ?thesis using first_component_eq [OF assms _ that(3)] by (simp add: render_def)
  qed
  have one: "absolute_text (CHR ''/'' # c @ t) \<longleftrightarrow>
      c = [] \<and> t = [] \<or> canonical_name c \<and> (t = [] \<or> absolute_text t)" if t: "t = [] \<or> hd t = CHR ''/''" for t
  proof
    assume "absolute_text (CHR ''/'' # c @ t)"
    then obtain segs e where segs: "list_all canonical_name segs" "CHR ''/'' # c @ t = render segs @ e"
        "e = [] \<and> segs \<noteq> [] \<or> e = ''/''"
      unfolding absolute_text_render by (metis append_Nil2)
    show "c = [] \<and> t = [] \<or> canonical_name c \<and> (t = [] \<or> absolute_text t)"
    proof (cases segs)
      case Nil
      with segs show ?thesis by (auto simp: render_def)
    next
      case (Cons d ds)
      with eq [of d e t ds] segs t have "c = d" "t = render ds @ e" by auto
      moreover have "list_all canonical_name ds" "canonical_name d" using segs(1) Cons by simp_all
      moreover have "t = [] \<or> ds \<noteq> [] \<and> t = render ds \<or> t = render ds @ ''/''"
        using segs(3) calculation(2) by (cases "ds = []") (auto simp: render_def)
      ultimately show ?thesis unfolding absolute_text_render by blast
    qed
  next
    assume "c = [] \<and> t = [] \<or> canonical_name c \<and> (t = [] \<or> absolute_text t)"
    then consider "c = []" "t = []" | "canonical_name c" "t = []" | "canonical_name c" "absolute_text t" by blast
    then show "absolute_text (CHR ''/'' # c @ t)"
    proof cases
      case 1
      then show ?thesis by (simp add: absolute_text_def)
    next
      case 2
      then show ?thesis unfolding absolute_text_render by (intro exI [of _ "[c]"]) (simp add: render_def)
    next
      case 3
      then obtain ds e where "list_all canonical_name ds" "t = render ds @ e" "e = [] \<or> e = ''/''"
        unfolding absolute_text_render by (metis append_Nil2)
      with 3 show ?thesis unfolding absolute_text_render by (intro exI [of _ "c # ds"]) (auto simp: render_def)
    qed
  qed
  from one [of "[]"] show "absolute_text (CHR ''/'' # c) \<longleftrightarrow> c = [] \<or> canonical_name c" by auto
  from one [of "CHR ''/'' # r"] show "absolute_text (CHR ''/'' # c @ CHR ''/'' # r) \<longleftrightarrow> canonical_name c \<and> absolute_text (CHR ''/'' # r)"
    by auto
qed

lemma absolute_text_iff:
  "\<not> sublist ''//'' (CHR ''/'' # r) \<and> \<not> special_components r \<longleftrightarrow> absolute_text (CHR ''/'' # r)"
proof (induction r rule: length_induct)
  case (1 r)
  show ?case
  proof (cases "CHR ''/'' \<in> set r")
    case False
    have "r = [] \<longrightarrow> r \<noteq> ''.'' \<and> r \<noteq> ''..''" by simp
    then show ?thesis
      unfolding special_cases(1) [OF False] double_cases(1) [OF False] absolute_cases(1) [OF False] canonical_name_cases [OF False]
      by argo
  next
    case True
    then obtain c r' where r: "r = c @ CHR ''/'' # r'" and c: "CHR ''/'' \<notin> set c" by (meson split_list_first)
    then have "length r' < length r" by simp
    with 1 have "\<not> sublist ''//'' (CHR ''/'' # r') \<and> \<not> special_components r' \<longleftrightarrow> absolute_text (CHR ''/'' # r')" by blast
    then show ?thesis
      unfolding r special_cases(2) [OF c] double_cases(2) [OF c] absolute_cases(2) [OF c] canonical_name_cases [OF c] by argo
  qed
qed

lemma CheckNoSpecialComponents_iff: "CheckNoSpecialComponents (CHR ''/'' # r) = None \<longleftrightarrow> absolute_text (CHR ''/'' # r)"
  using absolute_text_iff [of r] special_cases(2) [of "[]" r]
  by (simp add: CheckNoSpecialComponents_def str_find_def find_from_None del: find_from.simps) blast

section \<open>The grammar\<close>

definition literal_dir :: "string \<Rightarrow> bool" where
  "literal_dir d \<longleftrightarrow> d = ''/'' \<or> (\<exists>q. canonical_path q \<and> d = q @ ''/'')"

text \<open>The tail after the double star, and what is sent to the kernel for it.\<close>

definition tail_form :: "string \<Rightarrow> string \<Rightarrow> bool" where
  "tail_form tail sent \<longleftrightarrow>
     tail = [] \<and> sent = [] \<or>
     tail = ''/*'' @ sent \<and> CHR ''/'' \<notin> set sent \<and> CHR ''*'' \<notin> set sent \<or>
     canonical_path tail \<and> CHR ''*'' \<notin> set tail \<and> sent = tail"

definition file_pattern :: "string \<Rightarrow> string \<Rightarrow> string \<Rightarrow> bool" where
  "file_pattern p dir sent \<longleftrightarrow>
     (\<exists>tail. p = dir @ ''**'' @ tail \<and> literal_dir dir \<and> CHR ''*'' \<notin> set dir \<and> tail_form tail sent) \<and>
     set p \<inter> set (META_CHARS @ [CHR 0x5C]) = {}"

lemma canonical_path_ends: "canonical_path q \<Longrightarrow> q \<noteq> [] \<and> hd q = CHR ''/'' \<and> last q \<noteq> CHR ''/''"
  using last_render [OF canonical_segments] by (auto simp: canonical_path_def render_def neq_Nil_conv)

lemma absolute_text_dir: "absolute_text s \<and> last s = CHR ''/'' \<longleftrightarrow> literal_dir s"
  using canonical_path_ends [of s] by (auto simp: absolute_text_def literal_dir_def)

lemma absolute_text_tail: "absolute_text s \<and> last s \<noteq> CHR ''/'' \<longleftrightarrow> canonical_path s"
  using canonical_path_ends [of s] by (auto simp: absolute_text_def)

lemma literal_dir_ends: "literal_dir d \<Longrightarrow> d \<noteq> [] \<and> hd d = CHR ''/'' \<and> last d = CHR ''/''"
  using canonical_path_ends by (auto simp: literal_dir_def)

lemma CheckPatternPrefix_iff:
  assumes "pre \<noteq> []" "hd pre = CHR ''/''" "last pre = CHR ''/''"
  shows "CheckPatternPrefix pre = None \<longleftrightarrow> CHR ''*'' \<notin> set pre \<and> literal_dir pre"
proof -
  obtain r where "pre = CHR ''/'' # r" using assms(1,2) by (cases pre) auto
  then show ?thesis using CheckNoSpecialComponents_iff [of r] absolute_text_dir [of pre] assms(3)
    by (simp add: CheckPatternPrefix_def)
qed

lemma CheckNoUnsupportedMetaChars_iff:
  "CheckNoUnsupportedMetaChars p = None \<longleftrightarrow> set p \<inter> set (META_CHARS @ [CHR 0x5C]) = {}"
proof (cases "dropWhile (\<lambda>c. c \<notin> set META_CHARS) p")
  case Nil
  then have "\<forall>c \<in> set p. c \<notin> set META_CHARS" by (simp add: dropWhile_eq_Nil_conv)
  then show ?thesis unfolding CheckNoUnsupportedMetaChars_def Nil by auto
next
  case (Cons m ms)
  then have "m \<in> set p" "m \<in> set META_CHARS"
    using set_dropWhileD [of m "\<lambda>c. c \<notin> set META_CHARS" p] hd_dropWhile [of "\<lambda>c. c \<notin> set META_CHARS" p] by auto
  with Cons show ?thesis by (auto simp: CheckNoUnsupportedMetaChars_def)
qed

text \<open>The tail as the parser sees it: it starts with a separator and the pattern does not end with one.\<close>

lemma CheckPatternSuffix_iff:
  assumes "tail = [] \<or> hd tail = CHR ''/''" "tail = [] \<or> last tail \<noteq> CHR ''/''"
  shows "(\<exists>b. CheckPatternSuffix tail = Inr b \<and> sent = (if b then drop 2 tail else tail)) \<longleftrightarrow> tail_form tail sent"
proof (cases "tail = []")
  case True
  then show ?thesis by (auto simp: CheckPatternSuffix_def tail_form_def dest: canonical_path_ends)
next
  case False
  then obtain r where tail: "tail = CHR ''/'' # r" using assms(1) by (cases tail) auto
  show ?thesis
  proof (cases "\<exists>lit. r = CHR ''*'' # lit")
    case True
    then obtain lit where "r = CHR ''*'' # lit" by blast
    with tail show ?thesis by (auto simp: CheckPatternSuffix_def tail_form_def)
  next
    case lit: False
    then have no_lead: "\<not> (length tail \<ge> 2 \<and> tail ! 1 = CHR ''*'')" using tail by (cases r) auto
    have "CheckNoSpecialComponents tail = None \<longleftrightarrow> canonical_path tail"
      using CheckNoSpecialComponents_iff [of r] absolute_text_tail [of tail] assms(2) False tail by simp
    with no_lead lit tail show ?thesis
      by (auto simp: CheckPatternSuffix_def tail_form_def split: option.splits)
  qed
qed

lemma no_double_star: "CHR ''*'' \<notin> set s \<Longrightarrow> \<not> sublist ''**'' s"
  by (auto simp: sublist_def)

lemma tail_form_stars:
  assumes "tail_form tail sent"
  shows "\<not> sublist ''**'' tail"
proof -
  have "\<not> sublist ''**'' (''/*'' @ sent)" if "CHR ''*'' \<notin> set sent"
    using no_double_star [OF that] that by (cases sent) (auto simp: sublist_Cons_right)
  with assms no_double_star show ?thesis by (auto simp: tail_form_def)
qed

lemma tail_form_ends:
  assumes "tail_form tail sent"
  shows "(tail = [] \<or> hd tail = CHR ''/'') \<and> (tail = [] \<or> last tail \<noteq> CHR ''/'')"
proof -
  have "CHR ''/'' \<notin> set sent \<Longrightarrow> sent \<noteq> [] \<Longrightarrow> last sent \<noteq> CHR ''/''" by (metis last_in_set)
  with assms canonical_path_ends [of tail] show ?thesis by (cases "sent = []") (auto simp: tail_form_def)
qed

lemma FindSingleGlobStar_iff:
  "FindSingleGlobStar (u @ ''**'' @ v) = Inr (length u) \<longleftrightarrow> \<not> sublist ''**'' v"
  if "CHR ''*'' \<notin> set u"
  using find_from_first [of "''**''" u 0 v] that
  by (simp add: FindSingleGlobStar_def str_find_def find_from_None)

lemma ParseFilePattern_Inr:
  "ParseFilePattern p = Inr fp \<longleftrightarrow>
   (\<exists>star b. CheckPatternAbsolute p = None \<and> FindSingleGlobStar p = Inr star \<and> CheckGlobStarBoundaries p star = None \<and>
     CheckNoTrailingSlash p = None \<and> CheckPatternSuffix (drop (star + 2) p) = Inr b \<and> CheckNoUnsupportedMetaChars p = None \<and>
     CheckPatternPrefix (take star p) = None \<and>
     fp = \<lparr>fp_prefix = take star p, fp_suffix = (if b then drop 2 (drop (star + 2) p) else drop (star + 2) p)\<rparr>)"
  unfolding ParseFilePattern_def Let_def substr_def drop_0
  by (cases "CheckPatternAbsolute p"; cases "FindSingleGlobStar p"; cases "CheckNoTrailingSlash p";
      cases "CheckNoUnsupportedMetaChars p"; simp split: option.split sum.split; blast)

lemma FindSingleGlobStar_split:
  assumes c: "FindSingleGlobStar p = Inr star" "dir = take star p"
  shows "\<exists>tail. p = dir @ ''**'' @ tail \<and> star = length dir \<and> drop (star + 2) p = tail"
proof -
  obtain u v where "p = u @ ''**'' @ v" "star = length u"
    using c(1) find_from_Some [of "''**''" 0 p star]
    by (auto simp: FindSingleGlobStar_def str_find_def split: option.splits if_splits)
  with c(2) show ?thesis by simp
qed
lemma CheckGlobStarBoundaries_ends:
  assumes "CheckGlobStarBoundaries (dir @ ''**'' @ tail) (length dir) = None"
  shows "dir \<noteq> [] \<and> last dir = CHR ''/'' \<and> (tail = [] \<or> hd tail = CHR ''/'')"
  using assms by (cases tail; cases dir rule: rev_cases) (auto simp: CheckGlobStarBoundaries_def Let_def nth_append split: if_splits)
lemma CheckGlobStarBoundaries_ok: "literal_dir dir \<Longrightarrow> tail = [] \<or> hd tail = CHR ''/'' \<Longrightarrow> CheckGlobStarBoundaries (dir @ ''**'' @ tail) (length dir) = None"
  using literal_dir_ends [of dir]
  by (cases tail; cases dir rule: rev_cases) (auto simp: CheckGlobStarBoundaries_def Let_def nth_append split: if_splits)

text \<open>
  The comment at the head of the file (rule 4) asks for a non-empty literal after the star. The parser does not
  test that: /data/**/* is a pattern, and what is sent for it is the empty suffix, the whole subtree, as for
  /data/**.
\<close>

definition documented_tail :: "string \<Rightarrow> string \<Rightarrow> bool" where
  "documented_tail tail sent \<longleftrightarrow> tail_form tail sent \<and> tail \<noteq> ''/*''"

lemma bare_star_accepted:
  "file_pattern ''/data/**/*'' ''/data/'' [] \<and> tail_form ''/*'' [] \<and> \<not> documented_tail ''/*'' []"
proof -
  have "canonical_path ''/data''"
    unfolding canonical_path_def by (rule exI [of _ "[''data'']"]) code_simp
  then have "literal_dir ''/data/''" unfolding literal_dir_def by (intro disjI2 exI [of _ "''/data''"]) simp
  then show ?thesis
    by (auto simp: file_pattern_def tail_form_def documented_tail_def META_CHARS_def)
qed

text \<open>C24: The pattern parser accepts exactly the patterns of its grammar and sends exactly what the grammar says: a
  pattern is a literal canonical directory, one double star, and nothing, a literal canonical path, or a star and a
  fragment without separator or star; no other star and no other wildcard character occurs. The directory is what is
  opened, and the fragment is sent without its star and separator. This is the grammar of the file's comment except
  for its rule 4, which asks for a non-empty fragment: the code accepts an empty one (\<open>bare_star_accepted\<close>) and sends
  the empty suffix for it, which stands for the whole subtree.\<close>

theorem ParseFilePattern_grammar:
  "ParseFilePattern p = Inr \<lparr>fp_prefix = dir, fp_suffix = sent\<rparr> \<longleftrightarrow> file_pattern p dir sent"
proof
  assume "ParseFilePattern p = Inr \<lparr>fp_prefix = dir, fp_suffix = sent\<rparr>"
  then obtain star b where c: "CheckPatternAbsolute p = None" "FindSingleGlobStar p = Inr star" "CheckGlobStarBoundaries p star = None"
    "CheckNoTrailingSlash p = None" "CheckPatternSuffix (drop (star + 2) p) = Inr b" "CheckNoUnsupportedMetaChars p = None"
    "CheckPatternPrefix dir = None" "dir = take star p" "sent = (if b then drop 2 (drop (star + 2) p) else drop (star + 2) p)"
    unfolding ParseFilePattern_Inr by (elim exE conjE) simp
  obtain tail where p: "p = dir @ ''**'' @ tail" "star = length dir" "drop (star + 2) p = tail"
    using FindSingleGlobStar_split [OF c(2,8)] by blast
  have ends: "dir \<noteq> []" "last dir = CHR ''/''" "tail = [] \<or> hd tail = CHR ''/''"
    using CheckGlobStarBoundaries_ends c(3) p(1,2) by blast+
  have "hd dir = CHR ''/''" using c(1) p(1) ends(1) by (simp add: CheckPatternAbsolute_def split: if_splits)
  then have dir: "CHR ''*'' \<notin> set dir \<and> literal_dir dir" using CheckPatternPrefix_iff [of dir] ends c(7) by blast
  have "tail = [] \<or> last tail \<noteq> CHR ''/''" using c(4) by (simp add: p(1) CheckNoTrailingSlash_def split: if_splits)
  then have "tail_form tail sent" using CheckPatternSuffix_iff [of tail sent] ends(3) c(5,9) unfolding p(3) by blast
  with dir p(1) c(6) show "file_pattern p dir sent" unfolding file_pattern_def CheckNoUnsupportedMetaChars_iff by blast
next
  assume "file_pattern p dir sent"
  then obtain tail where p: "p = dir @ ''**'' @ tail" "literal_dir dir" "CHR ''*'' \<notin> set dir" "tail_form tail sent"
    "CheckNoUnsupportedMetaChars p = None"
    unfolding file_pattern_def CheckNoUnsupportedMetaChars_iff by blast
  note dir = literal_dir_ends [OF p(2)] and tail = tail_form_ends [OF p(4)]
  have "CheckPatternAbsolute p = None" using dir by (simp add: p(1) CheckPatternAbsolute_def)
  moreover have "FindSingleGlobStar p = Inr (length dir)"
    using FindSingleGlobStar_iff [OF p(3)] tail_form_stars [OF p(4)] p(1) by blast
  moreover have "CheckGlobStarBoundaries p (length dir) = None"
    unfolding p(1) by (rule CheckGlobStarBoundaries_ok [OF p(2) conjunct1 [OF tail]])
  moreover have "CheckNoTrailingSlash p = None"
    using conjunct2 [OF tail] by (cases "tail = []") (simp_all add: p(1) CheckNoTrailingSlash_def)
  moreover have "CheckPatternPrefix dir = None" using CheckPatternPrefix_iff dir p(2,3) by blast
  moreover obtain b where "CheckPatternSuffix tail = Inr b" "sent = (if b then drop 2 tail else tail)"
    using CheckPatternSuffix_iff [of tail sent] tail p(4) by blast
  moreover have "take (length dir) p = dir" "drop (length dir + 2) p = tail" by (simp_all add: p(1))
  ultimately show "ParseFilePattern p = Inr \<lparr>fp_prefix = dir, fp_suffix = sent\<rparr>"
    using p(5) unfolding ParseFilePattern_Inr by (intro exI [of _ "length dir"] exI [of _ b]) simp
qed

section \<open>Containment\<close>

lemma render_below:
  assumes "list_all segment_ok a" "list_all segment_ok b"
  shows "render a = render b \<or> (\<exists>r. render a = render b @ CHR ''/'' # r) \<longleftrightarrow> (\<exists>rest. a = b @ rest)"
proof
  assume "render a = render b \<or> (\<exists>r. render a = render b @ CHR ''/'' # r)"
  then obtain r where "segments_of [] (render a) = segments_of [] (render b) @ r"
    by (metis append_Nil2 segments_of_slash)
  with assms show "\<exists>rest. a = b @ rest" by (simp add: segments_of_render)
next
  assume "\<exists>rest. a = b @ rest"
  then obtain rest where "a = b @ rest" by blast
  then show "render a = render b \<or> (\<exists>r. render a = render b @ CHR ''/'' # r)"
    by (cases rest) (simp_all add: render_def)
qed

lemma boundary_prefix:
  "length s > length p \<and> take (length p) s = p \<and> s ! length p = CHR ''/'' \<longleftrightarrow> (\<exists>r. s = p @ CHR ''/'' # r)"
proof
  assume a: "length s > length p \<and> take (length p) s = p \<and> s ! length p = CHR ''/''"
  then have "drop (length p) s = CHR ''/'' # drop (Suc (length p)) s" by (metis Cons_nth_drop_Suc)
  with a show "\<exists>r. s = p @ CHR ''/'' # r" by (metis append_take_drop_id)
qed auto

text \<open>C25: On resolved paths \<open>IsPathUnder\<close> is containment of directories: both paths resolve, and the names of the
  directory are a prefix of the names of the path. In particular a sibling whose name only starts with the
  directory's name is not under it. Resolving is the system's: its results are absolute and canonical.\<close>

theorem IsPathUnder_containment:
  assumes "\<forall>q r. realpath q = Some r \<longrightarrow> r = ''/'' \<or> canonical_path r"
  shows "IsPathUnder realpath path dir \<longleftrightarrow> path \<noteq> [] \<and> dir \<noteq> [] \<and>
    (\<exists>rp rd rest. realpath (c_str path) = Some rp \<and> realpath (c_str dir) = Some rd \<and>
       segments_of [] rp = segments_of [] rd @ rest)"
proof -
  have names: "\<exists>a. list_all segment_ok a \<and> segments_of [] r = a \<and> (a = [] \<and> r = ''/'' \<or> a \<noteq> [] \<and> r = render a)"
    if "realpath q = Some r" for q r
  proof -
    from assms that consider "r = ''/''" | segs where "segs \<noteq> []" "list_all canonical_name segs" "r = render segs"
      by (auto simp: canonical_path_def)
    then show ?thesis
      by cases (auto simp: segments_of_render canonical_segments)
  qed
  show ?thesis
  proof (cases "path \<noteq> [] \<and> dir \<noteq> [] \<and> realpath (c_str path) \<noteq> None \<and> realpath (c_str dir) \<noteq> None")
    case False
    then show ?thesis by (auto simp: IsPathUnder_def GetRealPath_def Let_def)
  next
    case True
    then obtain rp rd where r: "realpath (c_str path) = Some rp" "realpath (c_str dir) = Some rd" by blast
    obtain a b where a: "list_all segment_ok a" "segments_of [] rp = a" "a = [] \<and> rp = ''/'' \<or> a \<noteq> [] \<and> rp = render a"
      and b: "list_all segment_ok b" "segments_of [] rd = b" "b = [] \<and> rd = ''/'' \<or> b \<noteq> [] \<and> rd = render b"
      using names [OF r(1)] names [OF r(2)] by blast
    have ne: "render c \<noteq> [] \<and> hd (render c) = CHR ''/'' \<and> render c \<noteq> ''/''" if "c \<noteq> []" "list_all segment_ok c" for c
      using that by (cases c) (auto simp: render_def segment_ok_def)
    have "IsPathUnder realpath path dir \<longleftrightarrow> (\<exists>rest. a = b @ rest)"
    proof (cases "b = []")
      case True
      moreover have "rp \<noteq> [] \<and> rp ! 0 = CHR ''/''" using a ne [of a] by (auto simp: hd_conv_nth)
      ultimately show ?thesis using b r \<open>path \<noteq> [] \<and> _\<close> by (simp add: IsPathUnder_def GetRealPath_def)
    next
      case b0: False
      then have rd: "rd = render b" "rd \<noteq> ''/''" "rd \<noteq> []" using b ne [of b] by auto
      have rp: "rp \<noteq> []" using a ne [of a] by auto
      have eq: "IsPathUnder realpath path dir \<longleftrightarrow> rp = rd \<or> (\<exists>r. rp = rd @ CHR ''/'' # r)"
        using True r rd rp boundary_prefix [of rd rp] by (auto simp: IsPathUnder_def GetRealPath_def substr_def Let_def)
      show ?thesis
      proof (cases "a = []")
        case True
        then have "rp = ''/''" using a by simp
        with True b0 rd eq show ?thesis by (auto simp: Cons_eq_append_conv)
      next
        case False
        then have "rp = render a" using a by simp
        with eq rd render_below [OF a(1) b(1)] show ?thesis by simp
      qed
    qed
    with True r a b show ?thesis by auto
  qed
qed

text \<open>A system with three resolved paths.\<close>

definition three_paths :: "string \<Rightarrow> string option" where
  "three_paths q = (if q = ''/data'' \<or> q = ''/data/app'' \<or> q = ''/data_app'' then Some q else None)"

theorem IsPathUnder_containment_witness:
  "IsPathUnder three_paths ''/data/app'' ''/data'' \<and> \<not> IsPathUnder three_paths ''/data_app'' ''/data''"
proof -
  have c: "canonical_path ''/data''" "canonical_path ''/data/app''" "canonical_path ''/data_app''"
    unfolding canonical_path_def
    by (rule exI [of _ "[''data'']"], code_simp, rule exI [of _ "[''data'', ''app'']"], code_simp,
        rule exI [of _ "[''data_app'']"], code_simp)
  then have "\<forall>q r. three_paths q = Some r \<longrightarrow> r = ''/'' \<or> canonical_path r"
    unfolding three_paths_def by (auto split: if_splits)
  note iff = IsPathUnder_containment [OF this]
  have "segments_of [] ''/data/app'' = segments_of [] ''/data'' @ [''app'']" by simp
  moreover have "\<not> (\<exists>rest. segments_of [] ''/data_app'' = segments_of [] ''/data'' @ rest)" by simp
  ultimately show ?thesis unfolding iff by (simp add: three_paths_def c_str_def)
qed

end
