(* ===== verification/Cmd_Spec.thy ===== *)
theory Cmd_Spec
  imports Claw_Cmd Claw_Event Glob_Spec
begin

text \<open>
  What a configuration that \<open>ParseConfig\<close> returns can hold, whatever the document and whatever the JSON library answers.
\<close>

section \<open>Well-formed configurations\<close>

definition action_ok :: "u32 \<Rightarrow> bool" where
  "action_ok a \<longleftrightarrow> a \<in> {DEC_POLICY_ACTION_ALLOW, DEC_POLICY_ACTION_DENY, DEC_POLICY_ACTION_ASK, DEC_POLICY_ACTION_NONE}"

definition pattern_ok :: "string \<Rightarrow> bool" where
  "pattern_ok path \<longleftrightarrow> \<not> IsWildcardPattern path \<or> (\<exists>p. ParseFilePattern path = Inr p)"

definition file_ok :: "FileConfig \<Rightarrow> bool" where
  "file_ok f \<longleftrightarrow> action_ok (fc_defaultAction f) \<and>
     list_all pattern_ok (fc_denyReadData f @ fc_allowReadData f @ fc_askReadData f @ fc_denyWriteData f @ fc_allowWriteData f @
       fc_askWriteData f @ fc_denyDelete f @ fc_allowDelete f @ fc_askDelete f)"

definition process_ok :: "ProcessConfig \<Rightarrow> bool" where
  "process_ok p \<longleftrightarrow> action_ok (pc_defaultAction p) \<and>
     list_all (\<lambda>cmd. CHR ''/'' \<notin> set cmd) (pc_denyExecCmd p @ pc_allowExecCmd p @ pc_askExecCmd p)"

definition group_ok :: "RuleGroup \<Rightarrow> bool" where
  "group_ok g \<longleftrightarrow> rg_scope g = DEC_POLICY_SCOPE_TYPE_SELF_SESSION \<and>
     rg_network g \<in> {None, Some DEC_POLICY_ACTION_DENY, Some DEC_POLICY_ACTION_ALLOW} \<and>
     pred_option file_ok (rg_file g) \<and> pred_option process_ok (rg_process g)"

definition mount_ok :: "PolicyMount \<Rightarrow> bool" where
  "mount_ok m \<longleftrightarrow> pmt_source m \<noteq> [] \<and> hd (pmt_source m) = CHR ''/'' \<and> ''..'' \<notin> set (getlines [] (pmt_source m))"

definition policy_ok :: "ConfigPolicy \<Rightarrow> bool" where
  "policy_ok p \<longleftrightarrow> length (cp_mounts p) \<le> 1024 \<and> list_all mount_ok (cp_mounts p) \<and>
     length (cp_ruleGroups p) \<le> 1 \<and> list_all group_ok (cp_ruleGroups p)"

definition env_ok :: "(string \<rightharpoonup> string) \<Rightarrow> bool" where
  "env_ok env \<longleftrightarrow> (\<forall>key \<in> dom env. key \<noteq> [] \<and> CHR ''='' \<notin> set key)"

definition ns_ok :: "u32 \<Rightarrow> bool" where
  "ns_ok flags \<longleftrightarrow> flags AND CLONE_NEWNS = CLONE_NEWNS \<and>
     flags AND NOT (CLONE_NEWNS OR CLONE_NEWNET OR CLONE_NEWUTS OR CLONE_NEWIPC OR CLONE_NEWPID OR CLONE_NEWUSER) = 0"

definition type_ok :: "bool \<Rightarrow> string \<Rightarrow> string \<Rightarrow> string \<Rightarrow> bool" where
  "type_ok pcMode ty cliName subCliName \<longleftrightarrow>
     ty = ''cli'' \<and> length cliName \<le> 256 \<and> length subCliName \<le> 256 \<or>
     ty = ''shell'' \<and> pcMode \<and> cliName = [] \<and> subCliName = []"

definition config_ok :: "bool \<Rightarrow> SandboxConfig \<Rightarrow> bool" where
  "config_ok pcMode c \<longleftrightarrow>
     type_ok pcMode (sc_type c) (sc_cliName c) (sc_subCliName c) \<and>
     unat (sc_callerTokenId c) \<le> 9007199254740992 \<and> - (2 ^ 31) \<le> sc_callerPid c \<and> sc_callerPid c < 2 ^ 31 \<and>
     length (sc_challenge c) \<le> 40960 \<and> length (sc_appIdentifier c) \<le> 64 \<and> length (sc_bundleName c) \<le> 256 \<and>
     length (sc_name c) \<le> 64 \<and> list_all (\<lambda>d. digit_value d < 16) (sc_name c) \<and>
     length (sc_workdir c) \<le> 1024 \<and> length (sc_subjectId c) \<le> 4096 \<and>
     env_ok (sc_env c) \<and> policy_ok (sc_policy c) \<and> ns_ok (sc_nsFlags c)"

section \<open>Fields\<close>

lemma ParseString_bound: "ParseStringFieldWithMaxLen D rt key maxLen = Inr v \<Longrightarrow> length v \<le> maxLen"
  by (auto simp: ParseStringFieldWithMaxLen_def split: option.splits if_splits)

lemma ParseOptionalString_bound: "ParseOptionalStringFieldWithMaxLen D rt key maxLen = Inr v \<Longrightarrow> length v \<le> maxLen"
  by (auto simp: ParseOptionalStringFieldWithMaxLen_def split: option.splits if_splits)

lemma ParseNameField_ok: "ParseNameField D rt = Inr v \<Longrightarrow> length v \<le> 64 \<and> list_all (\<lambda>d. digit_value d < 16) v"
  by (auto simp: ParseNameField_def MAX_NAME_LENGTH_def list_all_iff list_ex_iff not_le split: option.splits if_splits)

lemma parse_type_ok: "parse_type D pcMode rt = Inr (ty, cliName, subCliName) \<Longrightarrow> type_ok pcMode ty cliName subCliName"
  by (auto simp: parse_type_def res_bind_Inr type_ok_def CheckShellTypeAllowed_def MAX_CLI_NAME_LENGTH_def
      MAX_SUB_CLI_NAME_LENGTH_def Let_def dest!: ParseString_bound split: if_splits)

lemma parse_appIdentifier_bound: "parse_appIdentifier D rt = Inr (app, n) \<Longrightarrow> length app \<le> 64"
  by (auto simp: parse_appIdentifier_def res_bind_Inr MAX_APP_IDENTIFIER_LENGTH_def dest!: ParseString_bound
      split: if_splits option.splits)

lemma ParseUint64Field_bound:
  assumes "ParseUint64Field D rt key = Inr n"
  shows "unat n \<le> 9007199254740992"
proof -
  obtain d where d: "number_of D (j_item D rt key) = Some d"
    using assms by (auto simp: ParseUint64Field_def split: option.splits)
  with assms have b: "0 \<le> d" "d \<le> DOUBLE_SAFE_MAX" "n = word_of_int (floor d)"
    by (auto simp: ParseUint64Field_def split: if_splits)
  have f: "0 \<le> floor d" "floor d \<le> 9007199254740992"
    using b(1,2) by (simp_all add: DOUBLE_SAFE_MAX_def floor_le_iff)
  then have "uint n = floor d"
    unfolding b(3) uint_word_of_int_eq by (intro take_bit_int_eq_self) simp_all
  with f have "uint n \<le> 9007199254740992" by simp
  then show ?thesis unfolding uint_nat by linarith
qed

lemma ParseInt32Field_bound:
  assumes "ParseInt32Field D rt key = Inr n"
  shows "- (2 ^ 31) \<le> n \<and> n < 2 ^ 31"
proof -
  obtain d where d: "number_of D (j_item D rt key) = Some d"
    using assms by (auto simp: ParseInt32Field_def split: option.splits)
  with assms have b: "- 2147483648 \<le> d" "d \<le> 2147483647" "n = (if d \<ge> 0 then floor d else - floor (- d))"
    by (auto simp: ParseInt32Field_def not_less split: if_splits)
  show ?thesis
  proof (cases "d \<ge> 0")
    case True
    with b have "0 \<le> n" "n \<le> 2147483647" by (simp_all add: floor_le_iff)
    then show ?thesis by simp
  next
    case False
    with b have "floor (- d) \<le> 2147483648" "0 \<le> floor (- d)"
      by (simp_all add: floor_le_iff)
    with b(3) False show ?thesis by simp linarith
  qed
qed

section \<open>The environment and the namespaces\<close>

lemma env_items_ok: "env_items D items out = Inr env \<Longrightarrow> env_ok out \<Longrightarrow> env_ok env"
proof (induction items arbitrary: out)
  case (Cons item items)
  obtain name j where item: "item = (name, j)" by (cases item)
  with Cons.prems(1) obtain key v where kv: "name = Some key" "json_text_of (json_of D) (Some j) = Some v"
    by (auto split: option.splits)
  with Cons.prems(1) item have ok: "key \<noteq> []" "CHR ''='' \<notin> set key" and rest: "env_items D items (out(key \<mapsto> v)) = Inr env"
    by (simp_all split: if_splits)
  have "env_ok (out(key \<mapsto> v))" using Cons.prems(2) ok by (simp add: env_ok_def)
  with rest show ?case by (rule Cons.IH)
qed simp

lemma ParseEnvField_ok: "ParseEnvField D rt = Inr env \<Longrightarrow> env_ok env"
  by (auto simp: ParseEnvField_def res_bind_Inr env_ok_def [of Map.empty] intro: env_items_ok split: option.splits)

lemma or_keeps:
  fixes x b c :: u32
  shows "x AND c = c \<Longrightarrow> (x OR b) AND c = c"
    and "x AND c = 0 \<Longrightarrow> b AND c = 0 \<Longrightarrow> (x OR b) AND c = 0"
  by (auto simp: bit_eq_iff bit_and_iff bit_or_iff)

lemma ns_flags_ok: "ns_flags flags parsed = Inr v \<Longrightarrow> ns_ok parsed \<Longrightarrow> ns_ok v"
proof (induction flags arbitrary: parsed)
  case (Cons flag flags)
  have more: "ns_ok (parsed OR b)"
    if "b AND NOT (CLONE_NEWNS OR CLONE_NEWNET OR CLONE_NEWUTS OR CLONE_NEWIPC OR CLONE_NEWPID OR CLONE_NEWUSER) = 0" for b
    using Cons.prems(2) that unfolding ns_ok_def by (blast intro: or_keeps)
  obtain b where "ns_flags flags (parsed OR b) = Inr v"
      "b \<in> {CLONE_NEWNS, CLONE_NEWNET, CLONE_NEWUTS, CLONE_NEWIPC, CLONE_NEWPID, CLONE_NEWUSER}"
    using Cons.prems(1) by (auto split: if_splits)
  moreover from this(2) have "ns_ok (parsed OR b)" by (intro more) auto
  ultimately show ?case by (blast intro: Cons.IH)
qed simp

lemma ParseNsFlagsField_ok: "ParseNsFlagsField D rt = Inr flags \<Longrightarrow> ns_ok flags"
proof -
  assume p: "ParseNsFlagsField D rt = Inr flags"
  have d: "ns_ok DEFAULT_NS_FLAGS" by (simp add: ns_ok_def DEFAULT_NS_FLAGS_def)
  from p show "ns_ok flags"
    using d by (auto simp: ParseNsFlagsField_def res_bind_Inr ConvertNsFlags_def intro: ns_flags_ok [OF _ d] split: option.splits if_splits)
qed

section \<open>Mounts\<close>

lemma getlines_parent:
  "''..'' \<in> set (getlines acc s) \<Longrightarrow>
   (\<exists>v. acc @ s = ''..'' @ v \<and> (v = [] \<or> hd v = CHR ''/'')) \<or> (\<exists>u v. s = u @ ''/..'' @ v \<and> (v = [] \<or> hd v = CHR ''/''))"
proof (induction acc s rule: getlines.induct)
  case (2 acc c cs)
  show ?case
  proof (cases "c = CHR ''/''")
    case True
    with 2(3) consider "acc = ''..''" | "''..'' \<in> set (getlines [] cs)" by auto
    then show ?thesis
    proof cases
      case 1
      with True show ?thesis by (intro disjI1 exI [of _ "c # cs"]) simp
    next
      case 2
      from "2.IH"(1) [OF True 2] consider v where "cs = ''..'' @ v" "v = [] \<or> hd v = CHR ''/''"
        | u v where "cs = u @ ''/..'' @ v" "v = [] \<or> hd v = CHR ''/''" by auto
      then show ?thesis
      proof cases
        case 1
        with True have "c # cs = [] @ ''/..'' @ v" by simp
        with 1(2) show ?thesis by blast
      next
        case 2
        then have "c # cs = (c # u) @ ''/..'' @ v" by simp
        with 2(2) show ?thesis by blast
      qed
    qed
  next
    case False
    with 2(3) have "''..'' \<in> set (getlines (acc @ [c]) cs)" by simp
    from "2.IH"(2) [OF False this] consider v where "acc @ c # cs = ''..'' @ v" "v = [] \<or> hd v = CHR ''/''"
      | u v where "cs = u @ ''/..'' @ v" "v = [] \<or> hd v = CHR ''/''" by auto
    then show ?thesis
    proof cases
      case 1
      then show ?thesis by blast
    next
      case 2
      then have "c # cs = (c # u) @ ''/..'' @ v" by simp
      with 2(2) show ?thesis by blast
    qed
  qed
qed (auto split: if_splits)

lemma ParsePolicyMountSource_ok:
  assumes "ParsePolicyMountSource D item = Inr path"
  shows "path \<noteq> [] \<and> hd path = CHR ''/'' \<and> ''..'' \<notin> set (getlines [] path)"
proof -
  have p: "path \<noteq> []" "hd path = CHR ''/''" and n: "str_find path ''/../'' 0 = None"
      and e: "\<not> (length path \<ge> 3 \<and> drop (length path - 3) path = ''/..'')"
    using assms by (auto simp: ParsePolicyMountSource_def split: option.splits if_splits)
  have "''..'' \<notin> set (getlines [] path)"
  proof
    assume "''..'' \<in> set (getlines [] path)"
    with getlines_parent [of "[]" path] p obtain u v where uv: "path = u @ ''/..'' @ v" "v = [] \<or> hd v = CHR ''/''"
      by auto
    show False
    proof (cases v)
      case Nil
      with uv e show False by simp
    next
      case (Cons c w)
      with uv have "path = u @ ''/../'' @ w" by simp
      then have "sublist ''/../'' path" by (metis sublist_appendI)
      with n show False by (simp add: str_find_def find_from_None)
    qed
  qed
  with p show ?thesis by blast
qed

lemma mount_items_ok: "mount_items D mounts n i = Inr ms \<Longrightarrow> length ms = n \<and> list_all mount_ok ms"
  by (induction D mounts n i arbitrary: ms rule: mount_items.induct)
    (auto simp: res_bind_Inr ParsePolicyMountItem_def mount_ok_def dest: ParsePolicyMountSource_ok split: option.splits if_splits)

lemma ParsePolicyMounts_ok: "ParsePolicyMounts D policy = Inr ms \<Longrightarrow> length ms \<le> 1024 \<and> list_all mount_ok ms"
  by (auto simp: ParsePolicyMounts_def MAX_POLICY_MOUNTS_COUNT_def dest!: mount_items_ok split: option.splits if_splits)

section \<open>Rule groups\<close>

lemma g_ocActionMap_ok: "map_of g_ocActionMap actionStr = Some a \<Longrightarrow> action_ok a"
proof -
  assume "map_of g_ocActionMap actionStr = Some a"
  then have "snd (actionStr, a) \<in> snd ` set g_ocActionMap" by (intro imageI map_of_SomeD)
  moreover have "list_all action_ok (map snd g_ocActionMap)" by (simp add: g_ocActionMap_def action_ok_def)
  ultimately show "action_ok a" by (simp only: list_all_iff set_map snd_conv)
qed

lemma ParseDefaultAction_ok:
  assumes "ParseOptionalDefaultAction J obj action = Inr a" "action_ok action"
  shows "action_ok a"
proof -
  obtain found where "(case found of None \<Rightarrow> Inr action
       | Some actionStr \<Rightarrow> (case map_of g_ocActionMap actionStr of
             None \<Rightarrow> Inl SANDBOX_ERR_CONFIG_INVALID | Some a \<Rightarrow> Inr a)) = Inr a"
    using assms(1) unfolding ParseOptionalDefaultAction_def res_bind_Inr by blast
  then show ?thesis
    using assms(2) by (cases found) (auto split: option.splits dest: g_ocActionMap_ok)
qed

lemma ParseOptionalStringArrayField_ok:
  "ParseOptionalStringArrayField J obj key validate = Inr v \<Longrightarrow> v = [] \<or> validate v = 0"
  by (auto simp: ParseOptionalStringArrayField_def res_bind_Inr Let_def split: option.splits if_splits)

lemma ParseOperationArrayFields_ok:
  "ParseOperationArrayFields J obj keys validate = Inr vs \<Longrightarrow>
   length vs = length keys \<and> list_all (\<lambda>v. v = [] \<or> validate v = 0) vs"
  by (induction keys arbitrary: vs) (auto simp: res_bind_Inr dest: ParseOptionalStringArrayField_ok)

lemma ValidateFilePatternArray_ok: "v = [] \<or> ValidateFilePatternArray v = 0 \<Longrightarrow> list_all pattern_ok v"
  by (induction v) (auto simp: pattern_ok_def split: if_splits sum.splits)

lemma ValidateExecCmdArray_ok: "v = [] \<or> ValidateExecCmdArray v = 0 \<Longrightarrow> list_all (\<lambda>cmd. CHR ''/'' \<notin> set cmd) v"
  by (auto simp: ValidateExecCmdArray_def IsExecCmdPathful_def list_ex_iff list_all_iff split: if_splits)

lemma ParseFileOperationControl_ok:
  assumes "ParseFileOperationControl J item = Inr f"
  shows "pred_option file_ok f"
proof (cases f)
  case (Some c)
  with assms obtain obj action v where a: "ParseOptionalDefaultAction J obj DEC_POLICY_ACTION_NONE = Inr action"
      and v: "ParseOperationArrayFields J obj file_keys ValidateFilePatternArray = Inr v"
      and c: "c = \<lparr>fc_defaultAction = action, fc_denyReadData = v ! 0, fc_allowReadData = v ! 1, fc_askReadData = v ! 2,
        fc_denyWriteData = v ! 3, fc_allowWriteData = v ! 4, fc_askWriteData = v ! 5,
        fc_denyDelete = v ! 6, fc_allowDelete = v ! 7, fc_askDelete = v ! 8\<rparr>"
    by (auto simp: ParseFileOperationControl_def res_bind_Inr split: option.splits if_splits)
  have "action_ok action" by (rule ParseDefaultAction_ok [OF a]) (simp add: action_ok_def)
  moreover have "list_all pattern_ok (v ! k)" if "k < 9" for k
    using ParseOperationArrayFields_ok [OF v] that
    by (intro ValidateFilePatternArray_ok) (simp add: file_keys_def list_all_length)
  ultimately show ?thesis by (simp add: Some c file_ok_def)
qed simp

lemma ParseProcessOperationControl_ok:
  assumes "ParseProcessOperationControl J item = Inr p"
  shows "pred_option process_ok p"
proof (cases p)
  case (Some c)
  with assms obtain obj action v where a: "ParseOptionalDefaultAction J obj DEC_POLICY_ACTION_NONE = Inr action"
      and v: "ParseOperationArrayFields J obj process_keys ValidateExecCmdArray = Inr v"
      and c: "c = \<lparr>pc_defaultAction = action, pc_denyExecCmd = v ! 0, pc_allowExecCmd = v ! 1, pc_askExecCmd = v ! 2\<rparr>"
    by (auto simp: ParseProcessOperationControl_def res_bind_Inr split: option.splits if_splits)
  have "action_ok action" by (rule ParseDefaultAction_ok [OF a]) (simp add: action_ok_def)
  moreover have "list_all (\<lambda>cmd. CHR ''/'' \<notin> set cmd) (v ! k)" if "k < 3" for k
    using ParseOperationArrayFields_ok [OF v] that
    by (intro ValidateExecCmdArray_ok) (simp add: process_keys_def list_all_length)
  ultimately show ?thesis by (simp add: Some c process_ok_def)
qed simp

lemma ParseScope_ok: "ParseOperationControlScope J item = Inr ty \<Longrightarrow> ty = DEC_POLICY_SCOPE_TYPE_SELF_SESSION"
  by (auto simp: ParseOperationControlScope_def ParseOperationControlScopeType_def res_bind_Inr split: option.splits if_splits)

lemma ParseNetwork_ok:
  "ParseNetworkOperationControl J item = Inr n \<Longrightarrow> n \<in> {None, Some DEC_POLICY_ACTION_DENY, Some DEC_POLICY_ACTION_ALLOW}"
  by (auto simp: ParseNetworkOperationControl_def res_bind_Inr split: option.splits if_splits)

lemma ParseGroupItem_ok: "ParseOperationControlRuleGroupItem J item phase = Inr g \<Longrightarrow> group_ok g"
  by (auto simp: ParseOperationControlRuleGroupItem_def res_bind_Inr Let_def group_ok_def
      dest: ParseScope_ok ParseNetwork_ok ParseFileOperationControl_ok ParseProcessOperationControl_ok split: if_splits)

text \<open>Every scope is the session's own and no scope comes twice, so there is at most one group.\<close>

lemma rule_group_items_ok:
  "rule_group_items J array phase n i gs = Inr out \<Longrightarrow> length gs \<le> 1 \<Longrightarrow> list_all group_ok gs \<Longrightarrow>
   length out \<le> 1 \<and> list_all group_ok out"
proof (induction n arbitrary: i gs)
  case (Suc n)
  then obtain item g where g: "ParseOperationControlRuleGroupItem J item phase = Inr g"
      and fresh: "\<not> list_ex (\<lambda>pushed. rg_scope pushed = rg_scope g) gs"
      and rest: "rule_group_items J array phase n (i + 1) (gs @ [g]) = Inr out"
    by (auto simp: res_bind_Inr split: option.splits if_splits)
  have "group_ok g" by (rule ParseGroupItem_ok [OF g])
  moreover from this fresh Suc.prems(3) have "gs = []" by (cases gs) (auto simp: group_ok_def)
  ultimately show ?case using Suc.IH [OF rest] by simp
qed simp

lemma ParseOperationControlRuleGroups_ok:
  "ParseOperationControlRuleGroups J obj [] phase = Inr out \<Longrightarrow> length out \<le> 1 \<and> list_all group_ok out"
  by (auto simp: ParseOperationControlRuleGroups_def dest!: rule_group_items_ok split: option.splits if_splits)

lemma ParsePolicyField_ok: "ParsePolicyField D rt = Inr p \<Longrightarrow> policy_ok p"
  by (auto simp: ParsePolicyField_def res_bind_Inr policy_ok_def dest!: ParsePolicyMounts_ok ParseOperationControlRuleGroups_ok
      split: option.splits)

section \<open>The configuration\<close>

text \<open>C35: Every configuration \<open>ParseConfig\<close> returns is well formed, whatever the text and the JSON library: the type is
  \<open>cli\<close>, or \<open>shell\<close> in PC mode and then without tool names; every text is within its bound and the name is hexadecimal;
  the token and the process id are within their range; an environment name is neither empty nor contains an equals sign;
  a mount is absolute and has no parent component; there is at most one rule group, of the session's own scope, with
  accepted patterns and commands without a path; and the namespaces are known ones, the mount namespace among them.\<close>

theorem ParseConfig_well_formed:
  assumes "ParseConfig D pcMode txt = Inr c"
  shows "config_ok pcMode c"
proof -
  obtain rt callerTokenId callerPid uid gid challenge app appU64 bundleName ty cliName subCliName name workdir subjectId env policy nsFlags
    where f: "ParseUint64Field D rt ''callerTokenId'' = Inr callerTokenId" "ParseInt32Field D rt ''callerPid'' = Inr callerPid"
      "ParseOptionalStringFieldWithMaxLen D rt ''challenge'' MAX_CHALLENGE_LENGTH = Inr challenge"
      "parse_appIdentifier D rt = Inr (app, appU64)"
      "ParseStringFieldWithMaxLen D rt ''bundleName'' MAX_BUNDLE_NAME_LENGTH = Inr bundleName"
      "parse_type D pcMode rt = Inr (ty, cliName, subCliName)" "ParseNameField D rt = Inr name"
      "ParseOptionalStringFieldWithMaxLen D rt ''workdir'' MAX_WORKDIR_LENGTH = Inr workdir"
      "ParseOptionalStringFieldWithMaxLen D rt ''subjectId'' MAX_SUBJECT_ID_LENGTH = Inr subjectId"
      "ParseEnvField D rt = Inr env" "ParsePolicyField D rt = Inr policy" "ParseNsFlagsField D rt = Inr nsFlags"
      "c = \<lparr>sc_callerTokenId = callerTokenId, sc_callerPid = callerPid, sc_uid = uid, sc_gid = gid,
        sc_challenge = challenge, sc_appIdentifier = app, sc_appIdentifierU64 = appU64, sc_bundleName = bundleName,
        sc_type = ty, sc_cliName = cliName, sc_subCliName = subCliName, sc_name = name, sc_workdir = workdir,
        sc_subjectId = subjectId, sc_env = env, sc_policy = policy, sc_nsFlags = nsFlags\<rparr>"
    using assms by (auto simp: ParseConfig_def res_bind_Inr Let_def split: if_splits option.splits)
  have bounds: "length challenge \<le> 40960" "length bundleName \<le> 256" "length workdir \<le> 1024" "length subjectId \<le> 4096"
    using ParseOptionalString_bound [OF f(3)] ParseString_bound [OF f(5)] ParseOptionalString_bound [OF f(8)]
      ParseOptionalString_bound [OF f(9)]
    by (simp_all add: MAX_CHALLENGE_LENGTH_def MAX_BUNDLE_NAME_LENGTH_def MAX_WORKDIR_LENGTH_def MAX_SUBJECT_ID_LENGTH_def)
  show ?thesis
    using bounds ParseUint64Field_bound [OF f(1)] ParseInt32Field_bound [OF f(2)] parse_appIdentifier_bound [OF f(4)]
      parse_type_ok [OF f(6)] ParseNameField_ok [OF f(7)] ParseEnvField_ok [OF f(10)] ParsePolicyField_ok [OF f(11)]
      ParseNsFlagsField_ok [OF f(12)]
    by (simp only: config_ok_def f(13) SandboxConfig.simps simp_thms)
qed

text \<open>A library that knows one document.\<close>

definition demo_config :: json where
  "demo_config = JObject
     [(''callerTokenId'', JNumber 7), (''callerPid'', JNumber 12), (''uid'', JNumber 1000), (''gid'', JNumber 1000),
      (''appIdentifier'', JString ''42''), (''bundleName'', JString ''com.a''), (''type'', JString ''shell''),
      (''name'', JString ''a0''), (''env'', JObject [(''HOME'', JString ''/data'')]),
      (''policy'', JObject
        [(''mounts'', JArray [JObject [(''source'', JString ''/data/a''), (''mode'', JString ''ro'')]]),
         (''AddOperationControlRuleGroups'', JArray [JObject
           [(''Scope'', JObject [(''Type'', JString ''self_session'')]),
            (''Network'', JObject [(''DefaultAction'', JString ''deny'')])]])]),
      (''nsFlags'', JArray [JString ''net''])]"

definition demo_library :: "json cjson_doc" where
  "demo_library = \<lparr>
     j_item = (\<lambda>j key. case j of JObject ms \<Rightarrow> map_of ms key | _ \<Rightarrow> None),
     j_isString = (\<lambda>j. case j of JString _ \<Rightarrow> True | _ \<Rightarrow> False),
     j_isArray = (\<lambda>j. case j of JArray _ \<Rightarrow> True | _ \<Rightarrow> False),
     j_isObject = (\<lambda>j. case j of JObject _ \<Rightarrow> True | _ \<Rightarrow> False),
     j_string = (\<lambda>j. case j of JString s \<Rightarrow> Some s | _ \<Rightarrow> None),
     j_arraySize = (\<lambda>j. case j of JArray js \<Rightarrow> int (length js) | _ \<Rightarrow> 0),
     j_arrayItem = (\<lambda>j i. case j of JArray js \<Rightarrow> if 0 \<le> i \<and> nat i < length js then Some (js ! nat i) else None | _ \<Rightarrow> None),
     j_itemCase = (\<lambda>j key. case j of JObject ms \<Rightarrow> map_of ms key | _ \<Rightarrow> None),
     j_isNumber = (\<lambda>j. case j of JNumber _ \<Rightarrow> True | _ \<Rightarrow> False),
     j_number = (\<lambda>j. case j of JNumber i \<Rightarrow> of_int i | _ \<Rightarrow> 0),
     j_children = (\<lambda>j. case j of JObject ms \<Rightarrow> map (\<lambda>(k, v). (Some k, v)) ms | _ \<Rightarrow> []),
     j_parse = (\<lambda>s. if s = ''{}'' then Some demo_config else None),
     j_print = (\<lambda>_. Some ''{..}'')\<rparr>"

lemma demo_parsers:
  "j_isString demo_library (JString s) = True" "j_string demo_library (JString s) = Some s"
  "j_isNumber demo_library (JNumber i) = True" "j_number demo_library (JNumber i) = of_int i"
  "j_isArray demo_library (JArray js) = True" "j_arraySize demo_library (JArray js) = int (length js)"
  "j_isObject demo_library (JObject ms) = True" "j_item demo_library (JObject ms) key = map_of ms key"
  "j_arrayItem demo_library (JArray (j # js)) 0 = Some j"
  "j_children demo_library (JObject [(k, v)]) = [(Some k, v)]"
  "j_print demo_library d = Some ''{..}''"
  by (simp_all add: demo_library_def)

lemma demo_truncated:
  "j_item (json_of demo_library) (JObject ms) key = map_of ms key"
  "j_isArray (json_of demo_library) (JArray js) = True" "j_arraySize (json_of demo_library) (JArray js) = int (length js)"
  "j_isObject (json_of demo_library) (JObject ms) = True" "j_arrayItem (json_of demo_library) (JArray (j # js)) 0 = Some j"
  "json_text_of (json_of demo_library) (Some (JString s)) = Some s"
  by (simp_all add: demo_library_def cjson.truncate_def json_text_of_def)

lemma demo_fields:
  "ParseUint64Field demo_library demo_config ''callerTokenId'' = Inr 7"
  "ParseInt32Field demo_library demo_config ''callerPid'' = Inr 12"
  "ParseUint32Field demo_library demo_config ''uid'' = Inr 1000"
  "ParseUint32Field demo_library demo_config ''gid'' = Inr 1000"
  "ParseOptionalStringFieldWithMaxLen demo_library demo_config ''challenge'' MAX_CHALLENGE_LENGTH = Inr []"
  "ParseStringFieldWithMaxLen demo_library demo_config ''appIdentifier'' MAX_APP_IDENTIFIER_LENGTH = Inr ''42''"
  "ParseStringFieldWithMaxLen demo_library demo_config ''bundleName'' MAX_BUNDLE_NAME_LENGTH = Inr ''com.a''"
  "parse_type demo_library True demo_config = Inr (''shell'', [], [])"
  "ParseNameField demo_library demo_config = Inr ''a0''"
  "ParseOptionalStringFieldWithMaxLen demo_library demo_config ''workdir'' MAX_WORKDIR_LENGTH = Inr []"
  "ParseOptionalStringFieldWithMaxLen demo_library demo_config ''subjectId'' MAX_SUBJECT_ID_LENGTH = Inr []"
  by (simp_all add: demo_config_def demo_parsers demo_truncated ParseUint64Field_def ParseInt32Field_def ParseUint32Field_def
      number_of_def ParseOptionalStringFieldWithMaxLen_def ParseStringFieldWithMaxLen_def ParseNameField_def parse_type_def
      ParseTypeField_def CheckShellTypeAllowed_def DOUBLE_SAFE_MAX_def UINT32_MAX_VALUE_def MAX_APP_IDENTIFIER_LENGTH_def
      MAX_BUNDLE_NAME_LENGTH_def MAX_TYPE_LENGTH_def MAX_NAME_LENGTH_def digit_value_def)

lemma demo_number: "ParseU64Strict ''42'' = Some 42"
  by (simp add: ParseU64Strict_def strtoull_def c_str_def is_space_def number_base_def digit_value_def)

lemma demo_objects:
  "ParseEnvField demo_library demo_config = Inr [''HOME'' \<mapsto> ''/data'']"
  "ParseNsFlagsField demo_library demo_config = Inr (CLONE_NEWNS OR CLONE_NEWNET)"
  "ParsePolicyField demo_library demo_config = Inr \<lparr>cp_mounts = [\<lparr>pmt_source = ''/data/a'', pmt_readOnly = True\<rparr>],
     cp_ruleGroups = [\<lparr>rg_scope = 6, rg_network = Some 1, rg_file = None, rg_process = None\<rparr>]\<rparr>"
proof -
  have depth: "CheckJsonDepth ''{..}'' = 0" by (simp add: CheckJsonDepth_def MAX_JSON_DEPTH_def)
  show "ParseEnvField demo_library demo_config = Inr [''HOME'' \<mapsto> ''/data'']"
    by (simp add: ParseEnvField_def GetOptionalObjectField_def ExtractFieldString_def ValidateJsonConstraints_def depth
        demo_config_def demo_parsers demo_truncated MAX_ENV_LENGTH_def)
  show "ParseNsFlagsField demo_library demo_config = Inr (CLONE_NEWNS OR CLONE_NEWNET)"
    by (simp add: ParseNsFlagsField_def demo_config_def demo_parsers demo_truncated MAX_NS_FLAGS_COUNT_def
        MAX_NS_FLAG_STRING_LENGTH_def ConvertNsFlags_def DEFAULT_NS_FLAGS_def)
  have m: "ParsePolicyMountSource demo_library (JObject [(''source'', JString ''/data/a''), (''mode'', JString ''ro'')]) = Inr ''/data/a''"
    by (simp add: ParsePolicyMountSource_def demo_parsers demo_truncated str_find_def starts_with_def)
  have g: "ParseOperationControlRuleGroupItem (json_of demo_library) (JObject [(''Scope'', JObject [(''Type'', JString ''self_session'')]),
      (''Network'', JObject [(''DefaultAction'', JString ''deny'')])]) SANDBOX_POLICY_PARSE_STARTUP
      = Inr \<lparr>rg_scope = 6, rg_network = Some 1, rg_file = None, rg_process = None\<rparr>"
    by (simp add: ParseOperationControlRuleGroupItem_def ParseOperationControlScope_def ParseOperationControlScopeType_def
        ParseNetworkOperationControl_def ParseFileOperationControl_def ParseProcessOperationControl_def ParseStringField_def
        EnforcePhaseRules_def g_ocScopeTypeMap_def g_ocActionMap_def demo_truncated)
  show "ParsePolicyField demo_library demo_config = Inr \<lparr>cp_mounts = [\<lparr>pmt_source = ''/data/a'', pmt_readOnly = True\<rparr>],
     cp_ruleGroups = [\<lparr>rg_scope = 6, rg_network = Some 1, rg_file = None, rg_process = None\<rparr>]\<rparr>"
    by (simp add: ParsePolicyField_def GetOptionalObjectField_def ExtractFieldString_def ValidateJsonConstraints_def depth
        demo_config_def demo_parsers demo_truncated MAX_POLICY_JSON_LENGTH_def ParsePolicyMounts_def MAX_POLICY_MOUNTS_COUNT_def
        ParsePolicyMountItem_def ParsePolicyMountMode_def m g ParseOperationControlRuleGroups_def)
qed

lemma demo_config_parses:
  "case ParseConfig demo_library True ''{}'' of Inl _ \<Rightarrow> False | Inr c \<Rightarrow> sc_type c = ''shell'' \<and> sc_appIdentifierU64 c = 42"
proof -
  have p: "CheckJsonDepth ''{}'' = 0" "j_parse demo_library (c_str ''{}'') = Some demo_config"
    by (simp_all add: CheckJsonDepth_def MAX_JSON_DEPTH_def demo_library_def c_str_def)
  show ?thesis
    by (simp add: ParseConfig_def p demo_fields demo_objects parse_appIdentifier_def demo_number)
qed

theorem ParseConfig_well_formed_witness:
  "\<exists>c. ParseConfig demo_library True ''{}'' = Inr c \<and> config_ok True c \<and> sc_type c = ''shell''"
  using demo_config_parses ParseConfig_well_formed [of demo_library True "''{}''"] by (auto split: sum.splits)

text \<open>A leading blank gets a negative number past the test for a minus sign.\<close>

lemma ParseU64Strict_blank_minus: "ParseU64Strict '' -5'' = Some (- 5)" "ParseU64Strict ''-5'' = None"
  by (simp_all add: ParseU64Strict_def strtoull_def c_str_def is_space_def number_base_def digit_value_def)

end
