(* ===== verification/Monitor_Spec.thy ===== *)
theory Monitor_Spec
  imports Claw_Loop Deliver_Spec Event_Spec Cmd_Spec "HOL-Library.Multiset"
begin

text \<open>
  What the monitor keeps over any run, against a kernel, a device and an application that answer anything: the invariant
  of its tables and states, the events it may answer, and that only its child or its own plumbing ends it. The event loop
  is treated once, in the locales; each property is an interpretation.
\<close>

section \<open>The loop\<close>

lemma CheckChildExit_action:
  "CheckChildExit nohang m = (action, m') \<Longrightarrow> action \<in> {MONITOR_ACTION_NONE, MONITOR_ACTION_CHILD_EXITED, MONITOR_ACTION_STOP}"
  by (auto simp: CheckChildExit_def Let_def split: prod.splits waited.splits)

text \<open>\<open>G\<close> are the events considered.\<close>

locale monitor_preserves =
  fixes E :: "('w, 'j) mon_ext" and G :: "epoll_event \<Rightarrow> bool" and P :: "'w monitor \<Rightarrow> bool"
  assumes clock: "P m \<Longrightarrow> P (m\<lparr>e_clock := ts\<rparr>)"
    and error: "P m \<Longrightarrow> P (m\<lparr>mt_error := e\<rparr>)"
    and dispatch: "P m \<Longrightarrow> G event \<Longrightarrow> DispatchEpollEvent E event m = (action, m1) \<Longrightarrow> P (snd (ApplyAction action m1))"
    and reconnect: "P m \<Longrightarrow> mt_attempts m > 0 \<Longrightarrow> P (TryReconnect m)"
begin

lemma NextEpollTimeout_P: "P m \<Longrightarrow> P (snd (NextEpollTimeout m))"
  by (auto simp: NextEpollTimeout_def now_def Let_def intro: clock split: list.splits)

lemma ProcessEpollBatch_P: "P m \<Longrightarrow> list_all G events \<Longrightarrow> P (snd (ProcessEpollBatch E events m))"
proof (induction events arbitrary: m)
  case (Cons event events)
  obtain action m1 where d: "DispatchEpollEvent E event m = (action, m1)" by fastforce
  obtain running m2 where a: "ApplyAction action m1 = (running, m2)" by fastforce
  have "P m2" using dispatch [OF Cons.prems(1) _ d] Cons.prems(2) a by simp
  then show ?case using Cons.IH [of m2] Cons.prems(2) by (simp add: d a)
qed simp

lemma reconnect_if_due_P:
  assumes "P m"
  shows "P (reconnect_if_due m)"
proof -
  obtain timeout m1 where t: "NextEpollTimeout m = (timeout, m1)" by fastforce
  have "P m1" using NextEpollTimeout_P [OF assms] t by simp
  moreover have "mt_attempts m1 = mt_attempts m" using t by (auto simp: NextEpollTimeout_def now_def Let_def split: if_splits list.splits)
  ultimately show ?thesis using assms by (simp add: reconnect_if_due_def t reconnect)
qed

lemma run_loop_P:
  "P m \<Longrightarrow> list_all (\<lambda>w. case w of Events events \<Rightarrow> list_all G events | _ \<Rightarrow> True) wakeups \<Longrightarrow> P (snd (run_loop E wakeups m))"
proof (induction wakeups arbitrary: m)
  case (Cons w wakeups)
  obtain t m1 where n: "NextEpollTimeout m = (t, m1)" by fastforce
  have p1: "P m1" using NextEpollTimeout_P [OF Cons.prems(1)] n by simp
  show ?case
  proof (cases w)
    case (EpollErrno e)
    then show ?thesis using Cons p1 by (simp add: n error Let_def)
  next
    case (Events events)
    obtain running m2 where b: "ProcessEpollBatch E (take MAX_EPOLL_EVENTS events) m1 = (running, m2)" by fastforce
    have "list_all G (take MAX_EPOLL_EVENTS events)" using Cons.prems(2) Events by (auto simp: list_all_iff dest: in_set_takeD)
    then have "P m2" using ProcessEpollBatch_P [OF p1] b by fastforce
    then show ?thesis using Cons.IH [OF reconnect_if_due_P] Cons.prems(2) by (simp add: Events n b)
  qed
qed simp

end

text \<open>Every event is considered.\<close>

locale monitor_always = monitor_preserves E "\<lambda>_. True" P
  for E :: "('w, 'j) mon_ext" and P :: "'w monitor \<Rightarrow> bool" +
  assumes child: "P m \<Longrightarrow> P (snd (CheckChildExit nohang m))"
begin

lemma Run_P: "P m \<Longrightarrow> P (snd (Run E wakeups m))"
proof -
  assume p: "P m"
  obtain action m1 where c: "CheckChildExit True m = (action, m1)" by fastforce
  obtain running m2 where a: "ApplyAction action m1 = (running, m2)" by fastforce
  have "P m1" using child [OF p, of True] c by simp
  moreover have "m2 = m1" using CheckChildExit_action [OF c] a by (auto simp: ApplyAction_def)
  ultimately have "P m2" by simp
  moreover have "list_all (\<lambda>w. case w of Events events \<Rightarrow> list_all (\<lambda>_. True) events | _ \<Rightarrow> True) wakeups"
    by (auto simp: list_all_iff split: wakeup.splits)
  ultimately have "P (snd (run_loop E wakeups m2))" by (rule run_loop_P)
  with p \<open>P m2\<close> show ?thesis by (simp add: Run_def c a)
qed

end

text \<open>No event considered ends the loop.\<close>

locale monitor_survives = monitor_preserves +
  assumes goes_on: "P m \<Longrightarrow> G event \<Longrightarrow> fst (DispatchEpollEvent E event m) \<notin> {MONITOR_ACTION_CHILD_EXITED, MONITOR_ACTION_STOP}"
begin

lemma ProcessEpollBatch_goes_on:
  assumes "P m" "list_all G events"
  shows "ProcessEpollBatch E (events @ rest) m = ProcessEpollBatch E rest (snd (ProcessEpollBatch E events m))"
    and "fst (ProcessEpollBatch E events m)"
proof -
  have "ProcessEpollBatch E (events @ rest) m = ProcessEpollBatch E rest (snd (ProcessEpollBatch E events m)) \<and>
      fst (ProcessEpollBatch E events m)"
    using assms
  proof (induction events arbitrary: m)
    case (Cons event events)
    obtain action m1 where d: "DispatchEpollEvent E event m = (action, m1)" by fastforce
    obtain running m2 where a: "ApplyAction action m1 = (running, m2)" by fastforce
    have p2: "P m2" using dispatch [OF Cons.prems(1) _ d] Cons.prems(2) a by simp
    have "action \<notin> {MONITOR_ACTION_CHILD_EXITED, MONITOR_ACTION_STOP}"
      using goes_on [OF Cons.prems(1), of event] Cons.prems(2) d by simp
    then have "running" using a by (cases action) (auto simp: ApplyAction_def)
    then show ?case using Cons.IH [OF p2] Cons.prems(2) by (simp add: d a)
  qed simp
  then show "ProcessEpollBatch E (events @ rest) m = ProcessEpollBatch E rest (snd (ProcessEpollBatch E events m))"
    and "fst (ProcessEpollBatch E events m)" by blast+
qed

lemma run_loop_goes_on:
  "P m \<Longrightarrow> list_all (\<lambda>w. case w of Events events \<Rightarrow> list_all G events | EpollErrno e \<Rightarrow> e = EINTR) wakeups \<Longrightarrow>
   run_loop E (wakeups @ after) m = run_loop E after (snd (run_loop E wakeups m)) \<and> P (snd (run_loop E wakeups m))
     \<and> fst (run_loop E wakeups m) = None"
proof (induction wakeups arbitrary: m)
  case (Cons w wakeups)
  obtain t m1 where n: "NextEpollTimeout m = (t, m1)" by fastforce
  have p1: "P m1" using NextEpollTimeout_P [OF Cons.prems(1)] n by simp
  show ?case
  proof (cases w)
    case (EpollErrno e)
    then show ?thesis using Cons.IH [OF p1] Cons.prems(2) by (simp add: n)
  next
    case (Events events)
    obtain running m2 where b: "ProcessEpollBatch E (take MAX_EPOLL_EVENTS events) m1 = (running, m2)" by fastforce
    have g: "list_all G (take MAX_EPOLL_EVENTS events)" using Cons.prems(2) Events by (auto simp: list_all_iff dest: in_set_takeD)
    then have "P m2" "running" using ProcessEpollBatch_P [OF p1 g] ProcessEpollBatch_goes_on(2) [OF p1 g] b by simp_all
    then show ?thesis using Cons.IH [OF reconnect_if_due_P] Cons.prems(2) by (simp add: Events n b)
  qed
qed simp

end

section \<open>The tables\<close>

definition queue_bytes :: "PendingSocketMessage list \<Rightarrow> nat" where
  "queue_bytes q = sum_list (map (\<lambda>msg. length (psm_body msg)) q)"

lemma queue_bytes_simps [simp]:
  "queue_bytes [] = 0" "queue_bytes (msg # q) = length (psm_body msg) + queue_bytes q"
  "queue_bytes (q @ r) = queue_bytes q + queue_bytes r"
  by (simp_all add: queue_bytes_def)

definition tables_ok :: "'w monitor \<Rightarrow> bool" where
  "tables_ok m \<longleftrightarrow> length (mt_queue m) \<le> 64 \<and> mt_txBytes m = queue_bytes (mt_queue m) \<and> mt_txBytes m \<le> 131072 \<and>
     length (mt_pending m) \<le> 256"

text \<open>The events somebody may still answer: those answered, those outstanding, and those in the queue.\<close>

definition owed :: "'w monitor \<Rightarrow> u64 multiset" where
  "owed m = mset (map fst (e_taken m)) + mset (mt_pending m) + mset (map psm_eventId (filter psm_needsAnswer (mt_queue m)))"

lemma evict_spec:
  "txBytes = queue_bytes q \<Longrightarrow> bodySize \<le> 131072 \<Longrightarrow> case evict bodySize q txBytes of (q', txBytes') \<Rightarrow>
     (\<exists>k. q' = drop k q) \<and> txBytes' = queue_bytes q' \<and> length q' < 64 \<and> txBytes' + bodySize \<le> 131072"
proof (induction bodySize q txBytes rule: evict.induct)
  case (2 bodySize msg msgs txBytes)
  show ?case
  proof (cases "length (msg # msgs) \<ge> MAX_SOCKET_TX_QUEUE_COUNT \<or> txBytes > MAX_SOCKET_TX_QUEUE_BYTES - bodySize")
    case True
    obtain q' t' where e: "evict bodySize msgs (txBytes - length (psm_body msg)) = (q', t')" by fastforce
    from 2(1) [OF True] 2(2,3) e obtain k where "q' = drop k msgs" "t' = queue_bytes q'" "length q' < 64" "t' + bodySize \<le> 131072"
      by auto
    then show ?thesis using True e by (auto intro: exI [of _ "Suc k"])
  next
    case False
    then show ?thesis using 2(2,3) by (auto simp: MAX_SOCKET_TX_QUEUE_COUNT_def MAX_SOCKET_TX_QUEUE_BYTES_def intro: exI [of _ 0])
  qed
qed simp

lemma mset_filter_drop: "mset (map f (filter g (drop k xs))) \<subseteq># mset (map f (filter g xs))"
  by (metis append_take_drop_id filter_append map_append mset_append mset_subset_eq_add_right)

lemma PushSocketMessage_spec:
  assumes "tables_ok m" and "m' = PushSocketMessage msg m"
  shows "tables_ok m'" "owed m' \<subseteq># owed m + (if psm_needsAnswer msg then {#psm_eventId msg#} else {#})"
    "\<exists>q n. m' = m\<lparr>mt_txBytes := n, mt_queue := q\<rparr>"
proof -
  consider "m' = m" | q t where "evict (length (psm_body msg)) (mt_queue m) (mt_txBytes m) = (q, t)"
      "m' = m\<lparr>mt_txBytes := t + length (psm_body msg), mt_queue := q @ [msg]\<rparr>" "length (psm_body msg) \<le> 131072"
  proof (cases "length (psm_body msg) > MAX_SOCKET_TX_QUEUE_BYTES")
    case True
    then have "m' = m" using assms(2) by (simp add: PushSocketMessage_def)
    then show thesis by (rule that(1))
  next
    case False
    obtain q t where e: "evict (length (psm_body msg)) (mt_queue m) (mt_txBytes m) = (q, t)" by fastforce
    have "m' = m\<lparr>mt_txBytes := t + length (psm_body msg), mt_queue := q @ [msg]\<rparr>"
      using False assms(2) e by (simp add: PushSocketMessage_def)
    moreover have "length (psm_body msg) \<le> 131072" using False by (simp add: MAX_SOCKET_TX_QUEUE_BYTES_def)
    ultimately show thesis using e by (intro that(2))
  qed
  then have "tables_ok m' \<and> owed m' \<subseteq># owed m + (if psm_needsAnswer msg then {#psm_eventId msg#} else {#}) \<and>
    (\<exists>q n. m' = m\<lparr>mt_txBytes := n, mt_queue := q\<rparr>)"
  proof cases
    case 1
    have "m' = m\<lparr>mt_txBytes := mt_txBytes m, mt_queue := mt_queue m\<rparr>" using 1 by simp
    with assms(1) 1 show ?thesis by (metis mset_subset_eq_add_left)
  next
    case 2
    have "mt_txBytes m = queue_bytes (mt_queue m)" using assms(1) by (simp add: tables_ok_def)
    from evict_spec [OF this 2(3)] 2(1) obtain k where k: "q = drop k (mt_queue m)" "t = queue_bytes q" "length q < 64"
        "t + length (psm_body msg) \<le> 131072" by auto
    have "mset (map psm_eventId (filter psm_needsAnswer q)) \<subseteq># mset (map psm_eventId (filter psm_needsAnswer (mt_queue m)))"
      unfolding k(1) by (rule mset_filter_drop)
    then show ?thesis using assms(1) k by (auto simp: 2(2) tables_ok_def owed_def)
  qed
  then show "tables_ok m'" "owed m' \<subseteq># owed m + (if psm_needsAnswer msg then {#psm_eventId msg#} else {#})"
    "\<exists>q n. m' = m\<lparr>mt_txBytes := n, mt_queue := q\<rparr>" by blast+
qed

lemma PushPendingAnswer_spec:
  assumes "tables_ok m" and "m' = PushPendingAnswer eventId m"
  shows "tables_ok m'" "owed m' \<subseteq># add_mset eventId (owed m)" "\<exists>p. m' = m\<lparr>mt_pending := p\<rparr>"
proof -
  have "mset (tl (mt_pending m)) \<subseteq># mset (mt_pending m)"
    by (cases "mt_pending m") simp_all
  then show "tables_ok m'" "owed m' \<subseteq># add_mset eventId (owed m)" "\<exists>p. m' = m\<lparr>mt_pending := p\<rparr>"
    using assms by (auto simp: PushPendingAnswer_def tables_ok_def owed_def MAX_PENDING_ANSWER_COUNT_def)
qed

text \<open>
  What a step on the tables and the socket leaves: everything but the queue, the outstanding events, the socket's
  buffers and the device's answers to writes.
\<close>

definition same_frame :: "'w monitor \<Rightarrow> 'w monitor \<Rightarrow> bool" where
  "same_frame m m' \<longleftrightarrow> mt_attempts m' = mt_attempts m \<and> mt_state m' = mt_state m \<and> mt_deviceFd m' = mt_deviceFd m \<and>
     mt_socketPath m' = mt_socketPath m \<and> (mt_socket m' = None) = (mt_socket m = None) \<and> mt_writeEnabled m' = mt_writeEnabled m \<and>
     e_device m' = e_device m \<and> e_epoll m' = e_epoll m \<and> e_wait m' = e_wait m"

lemma same_frame_refl [simp]: "same_frame m m"
  by (simp add: same_frame_def)

lemma same_frame_trans: "same_frame m m' \<Longrightarrow> same_frame m' m'' \<Longrightarrow> same_frame m m''"
  by (simp add: same_frame_def)

lemma PushSocketMessage_frame: "same_frame m (PushSocketMessage msg m)"
  by (auto simp: PushSocketMessage_def same_frame_def Let_def split: prod.splits)

lemma PushPendingAnswer_frame: "same_frame m (PushPendingAnswer e m)"
  by (simp add: PushPendingAnswer_def same_frame_def)

text \<open>Flushing the queue.\<close>

lemma FlushSocketTxQueue_spec:
  "tables_ok m \<Longrightarrow> FlushSocketTxQueue m = (ret, m') \<Longrightarrow>
   tables_ok m' \<and> owed m' \<subseteq># owed m \<and> same_frame m m' \<and> ret \<in> {0, SANDBOX_ERR_SOCKET_IO, SANDBOX_ERR_SOCKET_CLOSED}"
proof (induction m arbitrary: ret m' rule: FlushSocketTxQueue.induct)
  case (1 m)
  show ?case
  proof (cases "mt_queue m = [] \<or> mt_socket m = None \<or> (\<exists>s. mt_socket m = Some s \<and> HasPendingTxData (fst s))")
    case True
    then show ?thesis using 1(4,5)
      by (auto simp: FlushSocketTxQueue.simps [of m] split: list.splits option.splits)
  next
    case False
    then obtain front rest s where q: "mt_queue m = front # rest" and s: "mt_socket m = Some s" "\<not> HasPendingTxData (fst s)"
      by (cases "mt_queue m") auto
    obtain r s' where f: "send_front front s = (r, s')" by (metis surj_pair)
    let ?m1 = "m\<lparr>mt_socket := Some s'\<rparr>"
    let ?sub = "mt_txBytes ?m1 - length (psm_body front)"
    have t1: "tables_ok ?m1" and o1: "owed ?m1 = owed m" and f1: "same_frame m ?m1"
      using 1(4) s by (simp_all add: tables_ok_def owed_def same_frame_def)
    have bytes: "mt_txBytes m = length (psm_body front) + queue_bytes rest" "length rest < 64" "mt_txBytes m \<le> 131072"
      "length (mt_pending m) \<le> 256"
      using 1(4) q by (simp_all add: tables_ok_def)
    have "FlushSocketTxQueue m =
      (if r = SANDBOX_ERR_SOCKET_TX_FULL then (0, ?m1)
       else if r = SANDBOX_ERR_SOCKET_MSG_TOO_LARGE then
         (if psm_msgType front = SANDBOX_SOCKET_MSG_RESPONSE
          then FlushSocketTxQueue (?m1\<lparr>mt_txBytes := mt_txBytes ?m1 - length (psm_body front)\<rparr>\<lparr>mt_queue := front\<lparr>psm_body := []\<rparr> # rest\<rparr>)
          else FlushSocketTxQueue (?m1\<lparr>mt_txBytes := mt_txBytes ?m1 - length (psm_body front)\<rparr>\<lparr>mt_queue := rest\<rparr>))
       else if r \<noteq> 0 then (r, ?m1)
       else FlushSocketTxQueue ((if psm_needsAnswer front then PushPendingAnswer (psm_eventId front) ?m1 else ?m1)
         \<lparr>mt_txBytes := mt_txBytes (if psm_needsAnswer front then PushPendingAnswer (psm_eventId front) ?m1 else ?m1) - length (psm_body front),
           mt_queue := rest\<rparr>))"
      by (subst FlushSocketTxQueue.simps) (simp only: q s f Let_def list.case option.case prod.case if_False)
    note eq = trans [OF 1(5) [symmetric] this]
    have codes: "r \<in> {0, SANDBOX_ERR_SOCKET_IO, SANDBOX_ERR_SOCKET_CLOSED, SANDBOX_ERR_SOCKET_TX_FULL, SANDBOX_ERR_SOCKET_MSG_TOO_LARGE}"
      using send_front_codes [OF f] by auto
    have carry: ?thesis if "tables_ok n" "owed n \<subseteq># owed m" "same_frame m n"
        "tables_ok n \<Longrightarrow> FlushSocketTxQueue n = (ret, m') \<Longrightarrow>
          tables_ok m' \<and> owed m' \<subseteq># owed n \<and> same_frame n m' \<and> ret \<in> {0, SANDBOX_ERR_SOCKET_IO, SANDBOX_ERR_SOCKET_CLOSED}"
        "FlushSocketTxQueue n = (ret, m')" for n
      using that by (meson same_frame_trans subset_mset.order_trans)
    consider "r = SANDBOX_ERR_SOCKET_TX_FULL" | "r = SANDBOX_ERR_SOCKET_MSG_TOO_LARGE" "psm_msgType front = SANDBOX_SOCKET_MSG_RESPONSE"
      | "r = SANDBOX_ERR_SOCKET_MSG_TOO_LARGE" "psm_msgType front \<noteq> SANDBOX_SOCKET_MSG_RESPONSE"
      | "r \<in> {SANDBOX_ERR_SOCKET_IO, SANDBOX_ERR_SOCKET_CLOSED}" | "r = 0"
      using codes by auto
    then show ?thesis
    proof cases
      case 1
      then show ?thesis using eq t1 o1 f1 by simp
    next
      case 2
      let ?n = "?m1\<lparr>mt_txBytes := ?sub, mt_queue := front\<lparr>psm_body := []\<rparr> # rest\<rparr>"
      have "tables_ok ?n" "owed ?n \<subseteq># owed m" "same_frame m ?n"
        using bytes f1 by (simp_all add: tables_ok_def owed_def q same_frame_def)
      moreover have "FlushSocketTxQueue ?n = (ret, m')" using eq 2 by (simp only: if_True if_False) simp
      moreover have "r \<noteq> SANDBOX_ERR_SOCKET_TX_FULL" using 2(1) by simp
      ultimately show ?thesis by (intro carry [OF _ _ _ 1(1) [OF q s f [symmetric] refl _ 2(1) refl 2(2)]])
    next
      case 3
      let ?n = "?m1\<lparr>mt_txBytes := ?sub, mt_queue := rest\<rparr>"
      have "tables_ok ?n" "owed ?n \<subseteq># owed m" "same_frame m ?n"
        using bytes f1 by (simp_all add: tables_ok_def owed_def q same_frame_def)
      moreover have "FlushSocketTxQueue ?n = (ret, m')" using eq 3 by (simp only: if_True if_False) simp
      moreover have "r \<noteq> SANDBOX_ERR_SOCKET_TX_FULL" using 3(1) by simp
      ultimately show ?thesis by (intro carry [OF _ _ _ 1(2) [OF q s f [symmetric] refl _ 3(1) refl 3(2)]])
    next
      case 4
      then show ?thesis using eq t1 o1 f1 by auto
    next
      case 5
      define m2 where "m2 = (if psm_needsAnswer front then PushPendingAnswer (psm_eventId front) ?m1 else ?m1)"
      let ?n = "m2\<lparr>mt_txBytes := mt_txBytes m2 - length (psm_body front), mt_queue := rest\<rparr>"
      have m2: "m2 = ?m1\<lparr>mt_pending := mt_pending m2\<rparr>" "mt_txBytes m2 = mt_txBytes m"
        by (simp_all add: m2_def PushPendingAnswer_def)
      have p: "length (mt_pending m2) \<le> 256" "mset (mt_pending m2) \<subseteq># mset (mt_pending m) + (if psm_needsAnswer front then {#psm_eventId front#} else {#})"
        using PushPendingAnswer_spec(1,2) [OF t1 refl, of "psm_eventId front"] bytes(4)
        by (auto simp: m2_def tables_ok_def owed_def PushPendingAnswer_def split: if_splits)
      have "tables_ok ?n" using bytes p(1) unfolding m2(2) by (simp add: tables_ok_def)
      moreover have "owed ?n \<subseteq># owed m"
        using p(2) by (subst m2(1)) (auto simp: owed_def q split: if_splits)
      moreover have "same_frame m ?n"
        using f1 by (subst m2(1)) (simp add: same_frame_def)
      moreover have "FlushSocketTxQueue ?n = (ret, m')" using eq 5 unfolding m2_def [symmetric] by simp
      moreover have "r \<noteq> SANDBOX_ERR_SOCKET_TX_FULL" "r \<noteq> SANDBOX_ERR_SOCKET_MSG_TOO_LARGE" "\<not> r \<noteq> 0" using 5 by simp_all
      ultimately show ?thesis by (intro carry [OF _ _ _ 1(3) [OF q s f [symmetric] refl _ _ _ m2_def]])
    qed
  qed
qed

section \<open>The invariant\<close>

definition monitor_ok :: "'w monitor \<Rightarrow> bool" where
  "monitor_ok m \<longleftrightarrow> tables_ok m \<and> (mt_writeEnabled m \<longrightarrow> mt_socket m \<noteq> None) \<and>
     (case mt_state m of
        MONITOR_STATE_ACTIVE \<Rightarrow> mt_attempts m = 0 \<and> mt_deviceFd m \<ge> 0 \<and>
          (mt_socket m = None \<longrightarrow> mt_queue m = [] \<and> mt_pending m = [])
      | MONITOR_STATE_RECONNECTING \<Rightarrow> mt_socket m = None \<and> mt_attempts m \<in> {1..3} \<and> mt_socketPath m \<noteq> [] \<and> mt_deviceFd m \<ge> 0
      | MONITOR_STATE_DEGRADED \<Rightarrow> mt_socket m = None \<and> mt_attempts m = 0 \<and> mt_queue m = [] \<and> mt_pending m = [])"

text \<open>The events of the device's coming records that ask for an answer.\<close>

definition asked_by :: "('w, 'j) mon_ext \<Rightarrow> string \<Rightarrow> u64 multiset" where
  "asked_by E s = (case ParseEvent (mx_print E) (take DEVICE_READ_CHUNK_SIZE s) [] of (step, parser, _) \<Rightarrow>
     if step = DONE \<and> deh_eventClass (tep_header parser) = DEC_EVENT_CLASS_ASK then {#deh_eventId (tep_header parser)#} else {#})"

fun asked :: "('w, 'j) mon_ext \<Rightarrow> rx list \<Rightarrow> u64 multiset" where
  "asked E [] = {#}"
| "asked E (Data s # script) = asked_by E s + asked E script"
| "asked E (_ # script) = asked E script"

definition allowance :: "('w, 'j) mon_ext \<Rightarrow> 'w monitor \<Rightarrow> u64 multiset" where
  "allowance E m = owed m + asked E (e_device m)"

text \<open>A step of the monitor keeps the invariant and the allowance, leaves the child alone, and does not spoil its plumbing.\<close>

definition step :: "('w, 'j) mon_ext \<Rightarrow> 'w monitor \<Rightarrow> 'w monitor \<Rightarrow> bool" where
  "step E m m' \<longleftrightarrow> monitor_ok m' \<and> allowance E m' \<subseteq># allowance E m \<and> e_wait m' = e_wait m \<and>
     (list_all id (e_epoll m) \<longrightarrow> list_all id (e_epoll m'))"

lemma monitor_ok_field [simp]:
  "monitor_ok (m\<lparr>mt_error := e\<rparr>) = monitor_ok m" "allowance E (m\<lparr>mt_error := e\<rparr>) = allowance E m"
  "mt_socket m \<noteq> None \<Longrightarrow> monitor_ok (m\<lparr>mt_writeEnabled := b\<rparr>) = monitor_ok m"
  "allowance E (m\<lparr>mt_writeEnabled := b\<rparr>) = allowance E m"
  "monitor_ok (m\<lparr>e_epoll := l\<rparr>) = monitor_ok m" "allowance E (m\<lparr>e_epoll := l\<rparr>) = allowance E m"
  "monitor_ok (m\<lparr>e_clock := ts\<rparr>) = monitor_ok m" "allowance E (m\<lparr>e_clock := ts\<rparr>) = allowance E m"
  by (cases "mt_state m"; simp add: monitor_ok_def tables_ok_def allowance_def owed_def)+

lemma step_refl [intro]: "monitor_ok m \<Longrightarrow> step E m m"
  by (simp add: step_def)

lemma step_trans: "step E m m' \<Longrightarrow> step E m' m'' \<Longrightarrow> step E m m''"
  by (auto simp: step_def intro: subset_mset.order_trans)

lemma step_ok: "step E m m' \<Longrightarrow> monitor_ok m'"
  by (simp add: step_def)

lemma socket_active: "monitor_ok m \<Longrightarrow> mt_socket m \<noteq> None \<Longrightarrow> mt_state m = MONITOR_STATE_ACTIVE"
  by (auto simp: monitor_ok_def split: MonitorState.splits)

text \<open>Steps on the tables and the socket alone.\<close>

definition table_step :: "'w monitor \<Rightarrow> 'w monitor \<Rightarrow> bool" where
  "table_step m m' \<longleftrightarrow> (tables_ok m \<longrightarrow> tables_ok m' \<and> owed m' \<subseteq># owed m \<and> same_frame m m')"

lemma table_step_refl [intro, simp]: "table_step m m"
  by (simp add: table_step_def)

lemma table_step_trans: "table_step m m' \<Longrightarrow> table_step m' m'' \<Longrightarrow> table_step m m''"
  unfolding table_step_def by (meson same_frame_trans subset_mset.order_trans)

lemma table_step_error [simp]: "table_step m (m'\<lparr>mt_error := e\<rparr>) = table_step m m'"
  by (simp add: table_step_def tables_ok_def owed_def same_frame_def)

lemma table_step_step:
  assumes "table_step m m'" "monitor_ok m" "mt_socket m \<noteq> None \<or> mt_state m = MONITOR_STATE_RECONNECTING"
  shows "step E m m'"
  using assms socket_active [OF assms(2)]
  by (auto simp: table_step_def step_def monitor_ok_def same_frame_def allowance_def split: MonitorState.splits)

lemma table_step_socket: "table_step m m' \<Longrightarrow> monitor_ok m \<Longrightarrow> mt_socket m \<noteq> None \<Longrightarrow> mt_socket m' \<noteq> None"
  by (simp add: table_step_def same_frame_def monitor_ok_def)

lemma table_step_flush: "FlushSocketTxQueue m = (ret, m') \<Longrightarrow> table_step m m'"
  using FlushSocketTxQueue_spec [of m ret m'] by (simp add: table_step_def)

lemma table_step_field [simp]:
  "table_step m (m\<lparr>e_answer := a\<rparr>)" "table_step m (m\<lparr>e_world := w\<rparr>)"
  "mt_socket m \<noteq> None \<Longrightarrow> table_step m (m\<lparr>mt_socket := Some s\<rparr>)"
  by (simp_all add: table_step_def tables_ok_def owed_def same_frame_def)

lemma table_step_push: "\<not> psm_needsAnswer msg \<Longrightarrow> table_step m (PushSocketMessage msg m)"
  using PushSocketMessage_spec(1,2) [OF _ refl, of m msg] PushSocketMessage_frame [of m msg] by (simp add: table_step_def)

section \<open>Requests\<close>

lemma WriteEventAnswer_spec:
  assumes "WriteEventAnswer eventId action m = (ret, m')"
  shows "\<exists>a. if ret = 0 then m' = m\<lparr>e_answer := a, e_taken := e_taken m @ [(eventId, action)]\<rparr> else m' = m\<lparr>e_answer := a\<rparr>"
  using assms by (auto simp: WriteEventAnswer_def Let_def split: prod.splits tx.splits if_splits)

lemma HandleEventAnswer_step:
  assumes "HandleEventAnswer E jsonBody m = (ret, m')"
  shows "table_step m m'"
proof -
  consider "m' = m" | eventId action m1 where "WriteEventAnswer eventId action m = (ret, m1)" "ret \<noteq> 0" "m' = m1"
    | eventId action m1 where "WriteEventAnswer eventId action m = (0, m1)" "eventId \<in> set (mt_pending m)"
      "m' = m1\<lparr>mt_pending := remove1 eventId (mt_pending m1)\<rparr>"
    using assms by (auto simp: HandleEventAnswer_def split: if_splits sum.splits prod.splits)
  then show ?thesis
  proof cases
    case 2
    then show ?thesis using WriteEventAnswer_spec [OF 2(1)] by auto
  next
    case 3
    from WriteEventAnswer_spec [OF 3(1)] obtain a where m1: "m1 = m\<lparr>e_answer := a, e_taken := e_taken m @ [(eventId, action)]\<rparr>"
      by auto
    have "add_mset eventId (mset (remove1 eventId (mt_pending m))) = mset (mt_pending m)"
      using 3(2) by simp
    then have "owed m' = owed m" by (simp add: owed_def 3(3) m1 del: mset_remove1)
    moreover have "length (remove1 eventId (mt_pending m)) \<le> length (mt_pending m)" by (simp add: length_remove1)
    ultimately show ?thesis by (auto simp: table_step_def tables_ok_def same_frame_def 3(3) m1)
  qed simp
qed

lemma HandleAddPolicy_step: "HandleAddPolicy E jsonBody m = (ret, detail, m') \<Longrightarrow> table_step m m'"
  by (auto simp: HandleAddPolicy_def split: if_splits sum.splits prod.splits)

lemma DispatchSocketMessage_step: "DispatchSocketMessage E message m = (ret, detail, m') \<Longrightarrow> table_step m m'"
  by (auto simp: DispatchSocketMessage_def split: if_splits prod.splits dest: HandleAddPolicy_step HandleEventAnswer_step)

lemma QueueResponse_step: "table_step m (QueueResponse E message m)"
proof -
  have push: "table_step n (PushResponse r c b n)" for n :: "'a monitor" and r c b
    by (simp add: PushResponse_def table_step_push)
  obtain ret detail m1 where d: "DispatchSocketMessage E message m = (ret, detail, m1)" by (metis surj_pair)
  show ?thesis
    using push push [THEN table_step_trans [OF DispatchSocketMessage_step [OF d]]] by (simp add: QueueResponse_def d Let_def)
qed

lemma fold_QueueResponse_step: "table_step m (fold (QueueResponse E) messages m)"
  by (induction messages arbitrary: m) (auto intro: table_step_trans [OF QueueResponse_step])

section \<open>The socket\<close>

lemma HandleSocketReadable_step: "HandleSocketReadable E m = (action, m') \<Longrightarrow> table_step m m' \<and> action \<in> {MONITOR_ACTION_NONE, MONITOR_ACTION_RECONNECT}"
proof -
  have "table_step m (fold (QueueResponse E) messages (m\<lparr>mt_socket := Some s\<rparr>))" if "mt_socket m \<noteq> None" for messages s
    using that by (intro table_step_trans [OF _ fold_QueueResponse_step]) simp
  then show "HandleSocketReadable E m = (action, m') \<Longrightarrow> table_step m m' \<and> action \<in> {MONITOR_ACTION_NONE, MONITOR_ACTION_RECONNECT}"
    by (auto simp: HandleSocketReadable_def Let_def split: option.splits prod.splits if_splits)
qed

lemma HandleSocketWritable_step: "HandleSocketWritable m = (action, m') \<Longrightarrow> table_step m m' \<and> action \<in> {MONITOR_ACTION_NONE, MONITOR_ACTION_RECONNECT}"
  by (auto simp: HandleSocketWritable_def Let_def split: option.splits prod.splits if_splits)

lemma CheckSocketFailureEvents_step:
  "CheckSocketFailureEvents events m = (action, m') \<Longrightarrow> table_step m m' \<and> action \<in> {MONITOR_ACTION_NONE, MONITOR_ACTION_RECONNECT}"
  by (auto simp: CheckSocketFailureEvents_def split: if_splits)

lemma epoll_ctl_ok: "epoll_ctl m = (ok, m') \<Longrightarrow> list_all id (e_epoll m) \<Longrightarrow> ok \<and> list_all id (e_epoll m')"
  by (auto simp: epoll_ctl_def split: list.splits)

lemma epoll_ctl_frame: "epoll_ctl m = (ok, m') \<Longrightarrow> \<exists>l. m' = m\<lparr>e_epoll := l\<rparr>"
  by (auto simp: epoll_ctl_def split: list.splits intro: exI [of _ "[]"])

lemma step_epoll: "monitor_ok m \<Longrightarrow> epoll_ctl m = (ok, m') \<Longrightarrow> step E m m'"
  using epoll_ctl_ok [of m ok m'] epoll_ctl_frame [of m ok m'] by (auto simp: step_def)

lemma UpdateSocketEpollEvents_step:
  assumes "UpdateSocketEpollEvents m = (ret, m')" "monitor_ok m"
  shows "step E m m' \<and> (list_all id (e_epoll m) \<longrightarrow> ret = 0)"
proof -
  consider "m' = m" "ret = 0" | ok m1 where "epoll_ctl m = (ok, m1)" "m' = m1 \<or> (\<exists>b. m' = m1\<lparr>mt_writeEnabled := b\<rparr>)"
      "mt_socket m \<noteq> None" "ret = 0 \<longleftrightarrow> ok"
  proof (cases "mt_socket m = None \<or> (\<exists>s. mt_socket m = Some s \<and> (HasPendingTxData (fst s) \<or> mt_queue m \<noteq> []) = mt_writeEnabled m)")
    case True
    then have "m' = m \<and> ret = 0" using assms(1) by (auto simp: UpdateSocketEpollEvents_def Let_def)
    then show thesis using that(1) by blast
  next
    case False
    then obtain s where s: "mt_socket m = Some s" "(HasPendingTxData (fst s) \<or> mt_queue m \<noteq> []) \<noteq> mt_writeEnabled m" by auto
    obtain ok m1 where e: "epoll_ctl m = (ok, m1)" by fastforce
    have "(if \<not> ok then (SANDBOX_ERR_EPOLL_FAILED, m1)
        else (SANDBOX_SUCCESS, m1\<lparr>mt_writeEnabled := (HasPendingTxData (fst s) \<or> mt_queue m \<noteq> [])\<rparr>)) = (ret, m')"
      using assms(1) s(2) by (simp only: UpdateSocketEpollEvents_def s(1) e Let_def option.case prod.case if_False)
    then have "(m' = m1 \<or> (\<exists>b. m' = m1\<lparr>mt_writeEnabled := b\<rparr>)) \<and> (ret = 0 \<longleftrightarrow> ok)" by (auto split: if_splits)
    with e s(1) show thesis by (intro that(2)) auto
  qed
  then show ?thesis
  proof cases
    case 2
    have s: "step E m m1" by (rule step_epoll [OF assms(2) 2(1)])
    moreover have "mt_socket m1 \<noteq> None" using epoll_ctl_frame [OF 2(1)] 2(3) by auto
    ultimately have "step E m (m1\<lparr>mt_writeEnabled := b\<rparr>)" for b
      by (simp add: step_def)
    with s 2 epoll_ctl_ok [OF 2(1)] show ?thesis by auto
  qed (use assms(2) in auto)
qed

lemma UpdateSocketEpollEvents_device: "UpdateSocketEpollEvents m = (ret, m') \<Longrightarrow> mt_deviceFd m' = mt_deviceFd m"
  by (auto simp: UpdateSocketEpollEvents_def Let_def epoll_ctl_def split: option.splits if_splits list.splits)

lemma step_error: "step E m m' \<Longrightarrow> step E m (m'\<lparr>mt_error := e\<rparr>)"
  by (simp add: step_def)

lemma ResumeSocketTx_step:
  assumes "ResumeSocketTx m = (action, m')" "monitor_ok m" "mt_socket m \<noteq> None"
  shows "step E m m' \<and> (list_all id (e_epoll m) \<longrightarrow> action \<in> {MONITOR_ACTION_NONE, MONITOR_ACTION_RECONNECT}) \<and>
    action \<in> {MONITOR_ACTION_NONE, MONITOR_ACTION_RECONNECT, MONITOR_ACTION_STOP} \<and> mt_deviceFd m' = mt_deviceFd m"
proof -
  obtain ret m1 where f: "FlushSocketTxQueue m = (ret, m1)" by fastforce
  have s1: "step E m m1" using table_step_step [OF table_step_flush [OF f] assms(2)] assms(3) by blast
  obtain ret2 m2 where u: "UpdateSocketEpollEvents m1 = (ret2, m2)" by fastforce
  from UpdateSocketEpollEvents_step [OF u step_ok [OF s1], of E] s1
  have "step E m m2" "list_all id (e_epoll m) \<longrightarrow> ret2 = 0"
    using step_trans by (blast, simp add: step_def)
  moreover have "mt_deviceFd m1 = mt_deviceFd m"
    using FlushSocketTxQueue_spec [OF _ f] assms(2) by (simp add: monitor_ok_def same_frame_def)
  ultimately show ?thesis
    using s1 assms(1) UpdateSocketEpollEvents_device [OF u]
    by (auto simp: ResumeSocketTx_def f u intro: step_error split: if_splits)
qed

lemma HandleSocketEvent_step:
  assumes "HandleSocketEvent E events m = (action, m')" "monitor_ok m"
  shows "step E m m' \<and> (list_all id (e_epoll m) \<longrightarrow> action \<in> {MONITOR_ACTION_NONE, MONITOR_ACTION_RECONNECT}) \<and>
    action \<in> {MONITOR_ACTION_NONE, MONITOR_ACTION_RECONNECT, MONITOR_ACTION_STOP} \<and> mt_deviceFd m' = mt_deviceFd m"
proof (cases "mt_socket m = None")
  case True
  then show ?thesis using assms by (auto simp: HandleSocketEvent_def)
next
  case False
  obtain a1 m1 where r: "(if events AND EPOLLIN \<noteq> 0 then HandleSocketReadable E m else (MONITOR_ACTION_NONE, m)) = (a1, m1)" by fastforce
  have t1: "table_step m m1 \<and> a1 \<in> {MONITOR_ACTION_NONE, MONITOR_ACTION_RECONNECT}"
    using r HandleSocketReadable_step by (auto split: if_splits)
  obtain a2 m2 where w: "(if events AND EPOLLOUT \<noteq> 0 then HandleSocketWritable m1 else (MONITOR_ACTION_NONE, m1)) = (a2, m2)" by fastforce
  have t2: "table_step m1 m2 \<and> a2 \<in> {MONITOR_ACTION_NONE, MONITOR_ACTION_RECONNECT}"
    using w HandleSocketWritable_step by (auto split: if_splits)
  obtain a3 m3 where c: "CheckSocketFailureEvents events m2 = (a3, m3)" by fastforce
  have t3: "table_step m2 m3 \<and> a3 \<in> {MONITOR_ACTION_NONE, MONITOR_ACTION_RECONNECT}"
    by (rule CheckSocketFailureEvents_step [OF c])
  have t13: "table_step m m2" "table_step m m3"
    using t1 t2 t3 by (blast intro: table_step_trans)+
  have steps: "step E m m1" "step E m m2" "step E m m3"
    using t1 t13 False by (blast intro: table_step_step [OF _ assms(2)])+
  have devs: "mt_deviceFd m1 = mt_deviceFd m" "mt_deviceFd m2 = mt_deviceFd m" "mt_deviceFd m3 = mt_deviceFd m"
    using t1 t13 assms(2) by (simp_all add: table_step_def same_frame_def monitor_ok_def)
  have s3: "mt_socket m3 \<noteq> None" by (rule table_step_socket [OF t13(2) assms(2) False])
  obtain a4 m4 where x: "ResumeSocketTx m3 = (a4, m4)" by fastforce
  have r4: "step E m3 m4 \<and> (list_all id (e_epoll m3) \<longrightarrow> a4 \<in> {MONITOR_ACTION_NONE, MONITOR_ACTION_RECONNECT}) \<and>
      a4 \<in> {MONITOR_ACTION_NONE, MONITOR_ACTION_RECONNECT, MONITOR_ACTION_STOP} \<and> mt_deviceFd m4 = mt_deviceFd m3"
    by (rule ResumeSocketTx_step [OF x step_ok [OF steps(3)] s3])
  have s4: "step E m m4" using steps(3) r4 by (blast intro: step_trans)
  have "list_all id (e_epoll m) \<longrightarrow> list_all id (e_epoll m3)" using steps(3) by (simp add: step_def)
  then show ?thesis
    using assms(1) False t1 t2 t3 steps s4 r4 devs
    by (simp add: HandleSocketEvent_def r w c x split: if_splits)
qed

section \<open>The device\<close>

lemma frame_ok:
  assumes "monitor_ok m" "tables_ok m'" "same_frame m m'" "mt_socket m \<noteq> None \<or> mt_state m = MONITOR_STATE_RECONNECTING"
  shows "monitor_ok m'"
  using assms socket_active [OF assms(1)] by (auto simp: monitor_ok_def same_frame_def split: MonitorState.splits)

lemma SendEventReport_step:
  assumes "SendEventReport header needsAnswer jsonOutput m = (ret, m')" "tables_ok m" "mt_socket m \<noteq> None"
  shows "tables_ok m' \<and> owed m' \<subseteq># add_mset (deh_eventId header) (owed m) \<and> same_frame m m' \<and>
    ret \<in> {0, SANDBOX_ERR_SOCKET_IO, SANDBOX_ERR_SOCKET_CLOSED}"
proof -
  obtain sk ch where sk: "mt_socket m = Some (sk, ch)" using assms(3) by auto
  obtain r s' where q: "SendMessage SANDBOX_SOCKET_MSG_EVENT_REPORT jsonOutput sk ch = (r, s')" by (metis surj_pair)
  have codes: "r \<in> {0, SANDBOX_ERR_SOCKET_IO, SANDBOX_ERR_SOCKET_CLOSED, SANDBOX_ERR_SOCKET_TX_FULL, SANDBOX_ERR_SOCKET_MSG_TOO_LARGE}"
    using QueueMessage_codes [OF q [unfolded SendMessage_def]] by auto
  let ?m1 = "m\<lparr>mt_socket := Some s'\<rparr>"
  have t1: "tables_ok ?m1" "owed ?m1 = owed m" "same_frame m ?m1"
    using assms(2,3) by (simp_all add: tables_ok_def owed_def same_frame_def)
  have push: "tables_ok (PushEventReport (deh_eventId header) b jsonOutput ?m1) \<and>
      owed (PushEventReport (deh_eventId header) b jsonOutput ?m1) \<subseteq># add_mset (deh_eventId header) (owed m) \<and>
      same_frame m (PushEventReport (deh_eventId header) b jsonOutput ?m1)" for b
  proof -
    let ?msg = "\<lparr>psm_msgType = SANDBOX_SOCKET_MSG_EVENT_REPORT, psm_requestId = 0, psm_result = 0,
       psm_eventId = deh_eventId header, psm_needsAnswer = b, psm_body = jsonOutput\<rparr>"
    have "owed (PushSocketMessage ?msg ?m1) \<subseteq># add_mset (deh_eventId header) (owed m)"
      using PushSocketMessage_spec(2) [OF t1(1) refl, of ?msg] t1(2)
      by (auto intro: subset_mset.order_trans split: if_splits)
    then show ?thesis
      using PushSocketMessage_spec(1) [OF t1(1) refl, of ?msg] same_frame_trans [OF t1(3) PushSocketMessage_frame [of _ ?msg]]
      by (simp add: PushEventReport_def)
  qed
  have pend: "tables_ok (PushPendingAnswer (deh_eventId header) ?m1)"
      "owed (PushPendingAnswer (deh_eventId header) ?m1) \<subseteq># add_mset (deh_eventId header) (owed m)"
      "same_frame m (PushPendingAnswer (deh_eventId header) ?m1)"
    using PushPendingAnswer_spec(1,2) [OF t1(1) refl, of "deh_eventId header"] t1(2)
      same_frame_trans [OF t1(3) PushPendingAnswer_frame] by simp_all
  have e: "(ret, m') = (if r = SANDBOX_ERR_SOCKET_TX_FULL then (0, PushEventReport (deh_eventId header) needsAnswer jsonOutput ?m1)
      else if r = SANDBOX_ERR_SOCKET_MSG_TOO_LARGE then (0, ?m1)
      else if r \<noteq> 0 then (r, PushEventReport (deh_eventId header) needsAnswer jsonOutput ?m1)
      else (0, if needsAnswer then PushPendingAnswer (deh_eventId header) ?m1 else ?m1))"
    using assms(1) by (simp add: SendEventReport_def sk q Let_def)
  show ?thesis
    using e codes t1 push pend by (auto split: if_splits)
qed

lemma DeliverDeviceEvent_step:
  assumes "DeliverDeviceEvent header jsonOutput m = (ret, m')" "monitor_ok m"
  shows "monitor_ok m' \<and> owed m' \<subseteq># owed m + (if deh_eventClass header = DEC_EVENT_CLASS_ASK then {#deh_eventId header#} else {#}) \<and>
    same_frame m m' \<and> ret \<in> {0, SANDBOX_ERR_SOCKET_IO, SANDBOX_ERR_SOCKET_CLOSED}"
proof -
  have tables: "tables_ok m" using assms(2) by (simp add: monitor_ok_def)
  let ?msg = "\<lparr>psm_msgType = SANDBOX_SOCKET_MSG_EVENT_REPORT, psm_requestId = 0, psm_result = 0,
       psm_eventId = deh_eventId header, psm_needsAnswer = True, psm_body = jsonOutput\<rparr>"
  consider "m' = m" "ret = 0"
    | "deh_eventClass header = DEC_EVENT_CLASS_ASK" "m' = PushSocketMessage ?msg m" "ret = 0" "mt_socket m \<noteq> None \<or> mt_attempts m > 0"
    | "deh_eventClass header = DEC_EVENT_CLASS_ASK" "SendEventReport header True jsonOutput m = (ret, m')" "mt_socket m \<noteq> None"
  proof (cases "deh_eventClass header = DEC_EVENT_CLASS_ASK")
    case False
    then show thesis using assms(1) that(1) by (simp add: DeliverDeviceEvent_def)
  next
    case ask: True
    define blocked where "blocked \<longleftrightarrow> mt_socket m = None \<or> mt_queue m \<noteq> [] \<or> (case mt_socket m of None \<Rightarrow> False | Some s \<Rightarrow> HasPendingTxData (fst s))"
    have d: "(if blocked then
         (if mt_attempts m \<le> 0 \<and> mt_socket m = None then (SANDBOX_SUCCESS, m) else (SANDBOX_SUCCESS, PushSocketMessage ?msg m))
       else SendEventReport header True jsonOutput m) = (ret, m')"
      using assms(1) ask by (simp only: DeliverDeviceEvent_def PushEventReport_def blocked_def [symmetric] Let_def simp_thms if_False)
    show thesis
    proof (cases blocked)
      case True
      then show thesis
        using d ask that(1,2) by (cases "mt_attempts m \<le> 0 \<and> mt_socket m = None") auto
    next
      case False
      then have "mt_socket m \<noteq> None" by (simp add: blocked_def)
      with False d ask show thesis using that(3) by simp
    qed
  qed
  then show ?thesis
  proof cases
    case 1
    then show ?thesis using assms(2) by simp
  next
    case 2
    have "mt_socket m \<noteq> None \<or> mt_state m = MONITOR_STATE_RECONNECTING"
      using 2(4) assms(2) by (auto simp: monitor_ok_def split: MonitorState.splits)
    then show ?thesis
      using frame_ok [OF assms(2) PushSocketMessage_spec(1) [OF tables 2(2)]] PushSocketMessage_spec(2) [OF tables 2(2)]
        PushSocketMessage_frame [of m ?msg] 2 by simp
  next
    case 3
    with SendEventReport_step [OF 3(2) tables 3(3)] show ?thesis using frame_ok [OF assms(2)] by auto
  qed
qed

lemma ConsumeDeviceEvent_step:
  assumes "ConsumeDeviceEvent E (take DEVICE_READ_CHUNK_SIZE s) m = (action, m')" "monitor_ok m"
  shows "monitor_ok m' \<and> owed m' \<subseteq># owed m + asked_by E s \<and> same_frame m m' \<and>
    action \<in> {MONITOR_ACTION_NONE, MONITOR_ACTION_SKIP, MONITOR_ACTION_RECONNECT}"
proof -
  obtain st parser jsonOutput where p: "ParseEvent (mx_print E) (take DEVICE_READ_CHUNK_SIZE s) [] = (st, parser, jsonOutput)"
    by (metis surj_pair)
  show ?thesis
  proof (cases "st = DONE")
    case False
    then show ?thesis using assms by (auto simp: ConsumeDeviceEvent_def p)
  next
    case True
    obtain ret m1 where d: "DeliverDeviceEvent (tep_header parser) jsonOutput m = (ret, m1)" by fastforce
    from DeliverDeviceEvent_step [OF d assms(2)] have f: "monitor_ok m1" "same_frame m m1"
        "owed m1 \<subseteq># owed m + asked_by E s" "ret \<in> {0, SANDBOX_ERR_SOCKET_IO, SANDBOX_ERR_SOCKET_CLOSED}"
      by (simp_all add: asked_by_def p True)
    have "owed (m1\<lparr>mt_error := ret\<rparr>) = owed m1" "same_frame m (m1\<lparr>mt_error := ret\<rparr>) = same_frame m m1"
      by (simp_all add: owed_def same_frame_def)
    with f assms(1) show ?thesis
      by (auto simp: ConsumeDeviceEvent_def p True d IsSocketChannelError_def split: if_splits)
  qed
qed

lemma monitor_ok_device [simp]: "monitor_ok (m\<lparr>e_device := l\<rparr>) = monitor_ok m" "owed (m\<lparr>e_device := l\<rparr>) = owed m"
  "owed (m\<lparr>mt_error := e\<rparr>) = owed m"
  by (cases "mt_state m"; simp add: monitor_ok_def tables_ok_def owed_def)+

lemma read_events_step:
  "read_events E script m = (action, m') \<Longrightarrow> monitor_ok m \<Longrightarrow>
   monitor_ok m' \<and> allowance E m' \<subseteq># owed m + asked E script \<and> e_wait m' = e_wait m \<and> e_epoll m' = e_epoll m \<and>
   mt_deviceFd m' = mt_deviceFd m \<and> action \<in> {MONITOR_ACTION_NONE, MONITOR_ACTION_RECONNECT, MONITOR_ACTION_DEGRADE}"
proof (induction script arbitrary: m)
  case Nil
  then show ?case by (auto simp: allowance_def)
next
  case (Cons answer answers)
  let ?m1 = "m\<lparr>e_device := answers\<rparr>"
  show ?case
  proof (cases answer)
    case (Data s)
    show ?thesis
    proof (cases "s = []")
      case True
      then show ?thesis using Cons.prems Data by (auto simp: allowance_def Let_def)
    next
      case False
      obtain a2 m2 where c: "ConsumeDeviceEvent E (take DEVICE_READ_CHUNK_SIZE s) ?m1 = (a2, m2)" by fastforce
      from ConsumeDeviceEvent_step [OF c] Cons.prems(2) have f: "monitor_ok m2" "owed m2 \<subseteq># owed m + asked_by E s"
          "e_device m2 = answers" "e_wait m2 = e_wait m" "e_epoll m2 = e_epoll m" "mt_deviceFd m2 = mt_deviceFd m"
          "a2 \<in> {MONITOR_ACTION_NONE, MONITOR_ACTION_SKIP, MONITOR_ACTION_RECONNECT}"
        by (auto simp: same_frame_def)
      show ?thesis
      proof (cases "a2 \<noteq> MONITOR_ACTION_NONE \<and> a2 \<noteq> MONITOR_ACTION_SKIP")
        case True
        then have "action = a2" "m' = m2" using Cons.prems(1) Data False c by (simp_all add: Let_def)
        with f True show ?thesis by (auto simp: Data allowance_def ac_simps)
      next
        case stay: False
        then have "read_events E answers m2 = (action, m')"
          using Cons.prems(1) Data False c by (simp add: Let_def split: if_splits)
        from Cons.IH [OF this f(1)] f(2,4,5,6) show ?thesis
          by (auto simp: Data ac_simps intro: subset_mset.order_trans)
      qed
    qed
  next
    case Eof
    then show ?thesis using Cons.prems by (auto simp: allowance_def)
  next
    case (Errno e)
    show ?thesis
    proof (cases "e = EINTR")
      case True
      then show ?thesis using Cons.prems Errno Cons.IH [of ?m1] by simp
    next
      case False
      then show ?thesis using Cons.prems Errno by (auto simp: allowance_def Let_def split: if_splits)
    qed
  qed
qed

lemma HandleDeviceEvent_step:
  assumes "HandleDeviceEvent E events m = (action, m')" "monitor_ok m"
  shows "step E m m' \<and>
    (list_all id (e_epoll m) \<longrightarrow> action \<in> {MONITOR_ACTION_NONE, MONITOR_ACTION_RECONNECT, MONITOR_ACTION_DEGRADE}) \<and>
    action \<noteq> MONITOR_ACTION_CHILD_EXITED \<and> mt_deviceFd m' = mt_deviceFd m \<and> (action = MONITOR_ACTION_RECONNECT \<longrightarrow> mt_deviceFd m \<ge> 0)"
proof -
  obtain a1 m1 where r: "ReadDeviceEvents E m = (a1, m1)" by fastforce
  from read_events_step [OF r [unfolded ReadDeviceEvents_def] assms(2)]
  have s1: "step E m m1" and a1: "a1 \<in> {MONITOR_ACTION_NONE, MONITOR_ACTION_RECONNECT, MONITOR_ACTION_DEGRADE}"
      and d1: "mt_deviceFd m1 = mt_deviceFd m"
    by (auto simp: step_def allowance_def)
  obtain ret m2 where u: "UpdateSocketEpollEvents m1 = (ret, m2)" by fastforce
  from UpdateSocketEpollEvents_step [OF u step_ok [OF s1], of E] s1
  have s2: "step E m m2" "list_all id (e_epoll m) \<longrightarrow> ret = 0"
    using step_trans by (blast, simp add: step_def)
  show ?thesis
    using assms s1 s2 a1 d1 UpdateSocketEpollEvents_device [OF u] step_error [OF s2(1)] step_error [OF step_refl [OF assms(2)]]
    by (auto simp: HandleDeviceEvent_def r u split: if_splits)
qed

section \<open>The channel\<close>

definition base_ok :: "'w monitor \<Rightarrow> bool" where
  "base_ok m \<longleftrightarrow> tables_ok m \<and> (mt_writeEnabled m \<longrightarrow> mt_socket m \<noteq> None)"

lemma CloseSocket_shape: "base_ok m \<Longrightarrow> \<exists>f. CloseSocket m = m\<lparr>mt_socket := None, mt_sockFd := f, mt_writeEnabled := False\<rparr>"
  by (cases "mt_socket m") (auto simp: CloseSocket_def base_ok_def intro: exI [of _ "mt_sockFd m"])

lemma Degrade_step:
  assumes "base_ok m"
  shows "step E m (Degrade m)"
proof -
  obtain f where c: "CloseSocket m = m\<lparr>mt_socket := None, mt_sockFd := f, mt_writeEnabled := False\<rparr>"
    using CloseSocket_shape [OF assms] by blast
  have "Degrade m = m\<lparr>mt_socket := None, mt_sockFd := f, mt_writeEnabled := False, mt_attempts := 0, mt_queue := [], mt_txBytes := 0,
      mt_pending := [], mt_state := MONITOR_STATE_DEGRADED\<rparr>"
    by (simp add: Degrade_def c DiscardAllEvents_def SetState_def)
  then show ?thesis by (simp add: step_def monitor_ok_def tables_ok_def allowance_def owed_def)
qed

lemma now_frame: "now m = (t, m') \<Longrightarrow> \<exists>ts. m' = m\<lparr>e_clock := ts\<rparr>"
  by (auto simp: now_def split: list.splits intro: exI [of _ "[]"])

lemma DropSocketChannel_step:
  assumes "base_ok m" "mt_deviceFd m \<ge> 0"
  shows "step E m (DropSocketChannel m)"
proof -
  obtain f where c: "CloseSocket m = m\<lparr>mt_socket := None, mt_sockFd := f, mt_writeEnabled := False\<rparr>"
    using CloseSocket_shape [OF assms(1)] by blast
  have base: "base_ok (CloseSocket m)" using assms(1) by (simp add: c base_ok_def tables_ok_def)
  have same: "allowance E (CloseSocket m) = allowance E m" by (simp add: c allowance_def owed_def)
  show ?thesis
  proof (cases "mt_socketPath m = []")
    case True
    then show ?thesis
      using Degrade_step [OF base, of E] same by (simp add: DropSocketChannel_def c step_def)
  next
    case False
    obtain t m1 where n: "now ((CloseSocket m)\<lparr>mt_attempts := MONITOR_RECONNECT_MAX_ATTEMPTS\<rparr>) = (t, m1)" by fastforce
    from now_frame [OF n] obtain ts where m1: "m1 = (CloseSocket m)\<lparr>mt_attempts := MONITOR_RECONNECT_MAX_ATTEMPTS\<rparr>\<lparr>e_clock := ts\<rparr>" by blast
    have d: "DropSocketChannel m = SetState MONITOR_STATE_RECONNECTING (m1\<lparr>mt_deadline := t + MONITOR_RECONNECT_INTERVAL\<rparr>)"
      using False n by (simp add: DropSocketChannel_def Let_def c)
    have "SetState MONITOR_STATE_RECONNECTING n = n\<lparr>mt_state := MONITOR_STATE_RECONNECTING\<rparr>" for n :: "'a monitor"
      by (simp add: SetState_def)
    then show ?thesis
      using assms False unfolding d m1 c
      by (simp add: step_def monitor_ok_def base_ok_def tables_ok_def allowance_def owed_def MONITOR_RECONNECT_MAX_ATTEMPTS_def)
  qed
qed

text \<open>What connecting leaves.\<close>

definition connect_frame :: "'w monitor \<Rightarrow> 'w monitor \<Rightarrow> bool" where
  "connect_frame m m' \<longleftrightarrow> (\<exists>cs ts fds. m' = m\<lparr>e_connect := cs, e_clock := ts, e_socket := fds\<rparr>)"

lemma connect_frame_refl: "connect_frame m m"
  unfolding connect_frame_def by (rule exI [of _ "e_connect m"], rule exI [of _ "e_clock m"], rule exI [of _ "e_socket m"]) simp

lemma connect_frame_more:
  assumes "connect_frame m m'"
  shows "connect_frame m (m'\<lparr>e_connect := a\<rparr>)" "connect_frame m (m'\<lparr>e_clock := b\<rparr>)" "connect_frame m (m'\<lparr>e_socket := c\<rparr>)"
proof -
  from assms obtain cs ts fds where m: "m' = m\<lparr>e_connect := cs, e_clock := ts, e_socket := fds\<rparr>" unfolding connect_frame_def by blast
  have "m'\<lparr>e_connect := a\<rparr> = m\<lparr>e_connect := a, e_clock := ts, e_socket := fds\<rparr>"
    "m'\<lparr>e_clock := b\<rparr> = m\<lparr>e_connect := cs, e_clock := b, e_socket := fds\<rparr>"
    "m'\<lparr>e_socket := c\<rparr> = m\<lparr>e_connect := cs, e_clock := ts, e_socket := c\<rparr>"
    unfolding m by (cases m; simp)+
  then show "connect_frame m (m'\<lparr>e_connect := a\<rparr>)" "connect_frame m (m'\<lparr>e_clock := b\<rparr>)" "connect_frame m (m'\<lparr>e_socket := c\<rparr>)"
    unfolding connect_frame_def by blast+
qed

lemma connect_frame_now: "now m1 = (t, m2) \<Longrightarrow> connect_frame m m1 \<Longrightarrow> connect_frame m m2"
  by (auto dest!: now_frame intro: connect_frame_more)

lemma connect_loop_frame:
  "connect_loop mode deadline answers m1 = (r, m') \<Longrightarrow> connect_frame m m1 \<Longrightarrow> connect_frame m m'"
proof (induction answers arbitrary: m1)
  case (Cons a answers)
  obtain error ch where a: "a = (error, ch)" by fastforce
  obtain t m2 where n: "now m1 = (t, m2)" by fastforce
  have c2: "connect_frame m m2" by (rule connect_frame_now [OF n Cons.prems(2)])
  show ?case
    using Cons.prems(1) Cons.IH [OF _ Cons.prems(2)] Cons.IH [OF _ c2]
      connect_frame_more(1) [OF Cons.prems(2)] connect_frame_more(1) [OF c2]
    by (auto simp: a n split: if_splits)
qed (auto intro: connect_frame_more)

lemma ConnectToApp_frame:
  assumes "ConnectToApp socketPath mode m = (r, m')"
  shows "connect_frame m m'"
proof -
  define m1 where "m1 = snd (case e_socket m of [] \<Rightarrow> (- 1 :: int, m) | fd # fds \<Rightarrow> (fd, m\<lparr>e_socket := fds\<rparr>))"
  have c1: "connect_frame m m1"
    by (auto simp: m1_def connect_frame_refl intro: connect_frame_more split: list.splits)
  have a: "connect_frame m m2" if "AttemptConnect mode m1 = (r2, m2)" for r2 m2
    using that connect_loop_frame connect_frame_now [OF _ c1] by (fastforce simp: AttemptConnect_def split: prod.splits)
  show ?thesis
    using assms a c1 by (auto simp: ConnectToApp_def m1_def connect_frame_refl Let_def split: if_splits prod.splits sum.splits list.splits)
qed

lemma connect_frame_same:
  assumes "connect_frame m m'"
  shows "tables_ok m' = tables_ok m" "allowance E m' = allowance E m" "e_wait m' = e_wait m" "e_epoll m' = e_epoll m"
    "mt_attempts m' = mt_attempts m" "mt_state m' = mt_state m" "mt_deviceFd m' = mt_deviceFd m" "mt_socketPath m' = mt_socketPath m"
    "mt_socket m' = mt_socket m" "mt_writeEnabled m' = mt_writeEnabled m" "mt_queue m' = mt_queue m" "mt_pending m' = mt_pending m"
  using assms by (auto simp: connect_frame_def tables_ok_def allowance_def owed_def)

lemma monitor_base: "monitor_ok m \<Longrightarrow> base_ok m"
  by (simp add: monitor_ok_def base_ok_def)

lemma base_ok_field [simp]: "base_ok (m\<lparr>mt_error := e\<rparr>) = base_ok m"
  by (simp add: base_ok_def tables_ok_def)

lemma step_from: "step E m1 m' \<Longrightarrow> allowance E m1 \<subseteq># allowance E m \<Longrightarrow> e_wait m1 = e_wait m \<Longrightarrow>
    (list_all id (e_epoll m) \<longrightarrow> list_all id (e_epoll m1)) \<Longrightarrow> step E m m'"
  by (auto simp: step_def intro: subset_mset.order_trans)

lemma active_socket_ok:
  "base_ok m \<Longrightarrow> mt_socket m \<noteq> None \<Longrightarrow> mt_state m = MONITOR_STATE_ACTIVE \<Longrightarrow> mt_attempts m = 0 \<Longrightarrow> mt_deviceFd m \<ge> 0 \<Longrightarrow> monitor_ok m"
  by (auto simp: base_ok_def monitor_ok_def)

lemma AdoptSocket_spec:
  assumes "AdoptSocket socketFd ch m = (ret, m')" "tables_ok m" "\<not> mt_writeEnabled m"
  shows "base_ok m' \<and> allowance E m' = allowance E m \<and> e_wait m' = e_wait m \<and> mt_deviceFd m' = mt_deviceFd m \<and>
    (list_all id (e_epoll m) \<longrightarrow> list_all id (e_epoll m')) \<and> (ret = 0 \<longrightarrow> mt_socket m' \<noteq> None)"
proof -
  let ?m1 = "m\<lparr>mt_socket := Some (new_sock, ch), mt_sockFd := socketFd, mt_writeEnabled := False\<rparr>"
  obtain r m2 where r: "RegisterFdToEpoll socketFd ?m1 = (r, m2)" by fastforce
  have "\<exists>l. m2 = ?m1\<lparr>e_epoll := l\<rparr> \<and> (list_all id (e_epoll m) \<longrightarrow> list_all id l)"
  proof (cases "socketFd < 0")
    case True
    then have "m2 = ?m1" using r by (simp add: RegisterFdToEpoll_def)
    then show ?thesis by (intro exI [of _ "e_epoll m"]) simp
  next
    case False
    obtain ok m3 where e: "epoll_ctl ?m1 = (ok, m3)" by fastforce
    then have "m3 = m2" using r False by (simp add: RegisterFdToEpoll_def)
    then show ?thesis using epoll_ctl_frame [OF e] epoll_ctl_ok [OF e] by auto
  qed
  then obtain l where m2: "m2 = ?m1\<lparr>e_epoll := l\<rparr>" and l: "list_all id (e_epoll m) \<longrightarrow> list_all id l" by blast
  have "m' = (if r \<noteq> 0 then CloseSocket m2 else m2)" "ret = r"
    using assms(1) r by (auto simp: AdoptSocket_def Let_def split: if_splits)
  then show ?thesis
    using assms(2) l unfolding m2
    by (auto simp: CloseSocket_def base_ok_def tables_ok_def allowance_def owed_def)
qed

lemma TryReconnect_step:
  assumes ok: "monitor_ok m" and more: "mt_attempts m > 0"
  shows "step E m (TryReconnect m)"
proof -
  have st: "mt_state m = MONITOR_STATE_RECONNECTING"
    using assms by (auto simp: monitor_ok_def split: MonitorState.splits)
  have m: "tables_ok m" "mt_socket m = None" "mt_attempts m \<le> 3" "mt_socketPath m \<noteq> []" "mt_deviceFd m \<ge> 0" "\<not> mt_writeEnabled m"
    using ok by (auto simp: monitor_ok_def st)
  let ?m0 = "m\<lparr>mt_attempts := mt_attempts m - 1\<rparr>"
  obtain r m1 where c: "ConnectToApp (mt_socketPath m) MONITOR_CONNECT_SINGLE_ATTEMPT ?m0 = (r, m1)" by fastforce
  note f = connect_frame_same [OF ConnectToApp_frame [OF c]]
  have m1: "tables_ok m1" "mt_socket m1 = None" "\<not> mt_writeEnabled m1" "mt_deviceFd m1 \<ge> 0" "mt_attempts m1 = mt_attempts m - 1"
      "mt_state m1 = MONITOR_STATE_RECONNECTING" "mt_socketPath m1 \<noteq> []" "allowance E m1 = allowance E m" "e_wait m1 = e_wait m"
      "e_epoll m1 = e_epoll m"
  proof -
    have "tables_ok ?m0" "allowance E ?m0 = allowance E m" using m(1) by (simp_all add: tables_ok_def allowance_def owed_def)
    then show "tables_ok m1" "allowance E m1 = allowance E m" by (simp_all only: f(1) f(2))
  qed (use m f(3-10) st in simp_all)
  have base1: "base_ok m1" using m1 by (simp add: base_ok_def)
  show ?thesis
  proof (cases r)
    case (Inl ret)
    show ?thesis
    proof (cases "mt_attempts m1 > 0")
      case True
      obtain t m2 where n: "now m1 = (t, m2)" by fastforce
      from now_frame [OF n] obtain ts where m2: "m2 = m1\<lparr>e_clock := ts\<rparr>" by blast
      have "TryReconnect m = m2\<lparr>mt_deadline := t + MONITOR_RECONNECT_INTERVAL\<rparr>"
        using True by (simp add: TryReconnect_def c Inl n)
      then show ?thesis
        using m1 m(3) True unfolding m2
        by (simp add: step_def monitor_ok_def tables_ok_def allowance_def owed_def)
    next
      case False
      then have "TryReconnect m = Degrade (m1\<lparr>mt_error := ret\<rparr>)" by (simp add: TryReconnect_def c Inl)
      moreover have "step E (m1\<lparr>mt_error := ret\<rparr>) (Degrade (m1\<lparr>mt_error := ret\<rparr>))"
        using base1 by (intro Degrade_step) simp
      ultimately show ?thesis using m1 by (auto intro: step_from)
    qed
  next
    case (Inr p)
    obtain socketFd ch where p: "p = (socketFd, ch)" by fastforce
    obtain a m2 where ad: "AdoptSocket socketFd ch m1 = (a, m2)" by fastforce
    from AdoptSocket_spec [OF ad m1(1,3), of E] m1
    have m2: "base_ok m2" "allowance E m2 = allowance E m" "e_wait m2 = e_wait m" "mt_deviceFd m2 \<ge> 0"
        "list_all id (e_epoll m) \<longrightarrow> list_all id (e_epoll m2)" "a = 0 \<longrightarrow> mt_socket m2 \<noteq> None" by auto
    show ?thesis
    proof (cases "a = 0")
      case False
      then have "TryReconnect m = Degrade (m2\<lparr>mt_error := a\<rparr>)" by (simp add: TryReconnect_def c Inr p ad)
      moreover have "step E (m2\<lparr>mt_error := a\<rparr>) (Degrade (m2\<lparr>mt_error := a\<rparr>))"
        using m2(1) by (intro Degrade_step) simp
      ultimately show ?thesis using m2 by (auto intro: step_from)
    next
      case True
      define m3 where "m3 = SetState MONITOR_STATE_ACTIVE (m2\<lparr>mt_attempts := 0, mt_error := SANDBOX_SUCCESS\<rparr>)"
      have m3: "m3 = m2\<lparr>mt_attempts := 0, mt_error := 0, mt_state := MONITOR_STATE_ACTIVE\<rparr>"
        by (simp add: m3_def SetState_def)
      have ok3: "monitor_ok m3" and s3: "mt_socket m3 \<noteq> None"
        using m2 True by (auto simp: m3 base_ok_def tables_ok_def intro!: active_socket_ok)
      have step3: "step E m m3"
        using ok3 m2 by (simp add: step_def) (simp add: m3 allowance_def owed_def)
      obtain fr m4 where fl: "FlushSocketTxQueue m3 = (fr, m4)" by fastforce
      have step4: "step E m3 m4" by (rule table_step_step [OF table_step_flush [OF fl] ok3]) (use s3 in blast)
      have dev: "mt_deviceFd m3 = mt_deviceFd m2" by (simp add: m3)
      have dev4: "mt_deviceFd m4 \<ge> 0"
        using FlushSocketTxQueue_spec [OF _ fl] ok3 m2(4) dev by (simp add: monitor_ok_def same_frame_def)
      obtain er m5 where u: "UpdateSocketEpollEvents m4 = (er, m5)" by fastforce
      have step5: "step E m4 m5" using UpdateSocketEpollEvents_step [OF u step_ok [OF step4]] by blast
      have dev5: "mt_deviceFd m5 = mt_deviceFd m4"
        using u by (auto simp: UpdateSocketEpollEvents_def Let_def epoll_ctl_def split: option.splits if_splits list.splits)
      have drop: "step E m (DropSocketChannel (n\<lparr>mt_error := e\<rparr>))" if "step E m n" "mt_deviceFd n \<ge> 0" for n e
        using that DropSocketChannel_step [of "n\<lparr>mt_error := e\<rparr>" E] monitor_base [OF step_ok [OF that(1)]]
        by (auto intro: step_trans [OF step_error])
      have "TryReconnect m = (if fr \<noteq> 0 then DropSocketChannel (m4\<lparr>mt_error := fr\<rparr>)
          else if er \<noteq> 0 then DropSocketChannel (m5\<lparr>mt_error := er\<rparr>) else m5)"
        using True by (simp add: TryReconnect_def c Inr p ad m3_def [symmetric] fl u)
      then show ?thesis
        using drop [OF step_trans [OF step3 step4] dev4] drop [OF step_trans [OF step3 step_trans [OF step4 step5]]] dev4 dev5
          step_trans [OF step3 step_trans [OF step4 step5]] by simp
    qed
  qed
qed

section \<open>One event\<close>

lemma CheckChildExit_frame:
  assumes "CheckChildExit nohang m = (action, m')"
  shows "monitor_ok m' = monitor_ok m" "allowance E m' = allowance E m"
proof -
  have ok: "monitor_ok (m\<lparr>e_wait := w, mt_childExit := x\<rparr>) = monitor_ok m" "monitor_ok (m\<lparr>e_wait := w\<rparr>) = monitor_ok m"
    "allowance E (m\<lparr>e_wait := w, mt_childExit := x\<rparr>) = allowance E m" "allowance E (m\<lparr>e_wait := w\<rparr>) = allowance E m" for w x
    by (cases "mt_state m"; simp add: monitor_ok_def tables_ok_def allowance_def owed_def)+
  show "monitor_ok m' = monitor_ok m" "allowance E m' = allowance E m"
    using assms by (auto simp: CheckChildExit_def Let_def ok split: prod.splits waited.splits)
qed

lemma HandleChildExitEvent_frame:
  assumes "HandleChildExitEvent events m = (action, m')"
  shows "action \<in> {MONITOR_ACTION_NONE, MONITOR_ACTION_CHILD_EXITED, MONITOR_ACTION_STOP}"
    and "monitor_ok m' = monitor_ok m" and "allowance E m' = allowance E m"
proof -
  obtain a1 m1 where c1: "CheckChildExit True m = (a1, m1)" by fastforce
  obtain a2 m2 where c2: "CheckChildExit False m1 = (a2, m2)" by fastforce
  show "action \<in> {MONITOR_ACTION_NONE, MONITOR_ACTION_CHILD_EXITED, MONITOR_ACTION_STOP}"
    and "monitor_ok m' = monitor_ok m" and "allowance E m' = allowance E m"
    using assms CheckChildExit_frame(1) [OF c1] CheckChildExit_frame(2) [OF c1, of E] CheckChildExit_frame(1) [OF c2]
      CheckChildExit_frame(2) [OF c2, of E] CheckChildExit_action [OF c1] CheckChildExit_action [OF c2]
    by (auto simp: HandleChildExitEvent_def c1 c2 split: if_splits)
qed

lemma ApplyAction_step:
  assumes "monitor_ok m" "action = MONITOR_ACTION_RECONNECT \<longrightarrow> mt_deviceFd m \<ge> 0"
  shows "step E m (snd (ApplyAction action m))"
proof (cases action)
  case MONITOR_ACTION_RECONNECT
  then show ?thesis using DropSocketChannel_step [OF monitor_base [OF assms(1)]] assms(2) by (simp add: ApplyAction_def)
next
  case MONITOR_ACTION_DEGRADE
  have "base_ok (m\<lparr>mt_deviceFd := - 1\<rparr>)" using monitor_base [OF assms(1)] by (simp add: base_ok_def tables_ok_def)
  from Degrade_step [OF this, of E] show ?thesis
    by (simp add: ApplyAction_def MONITOR_ACTION_DEGRADE step_def allowance_def owed_def)
qed (use assms(1) in \<open>auto simp: ApplyAction_def\<close>)

text \<open>Events of the socket and the device, then those of the child.\<close>

abbreviation not_child :: "epoll_event \<Rightarrow> bool" where
  "not_child event \<equiv> fst event \<noteq> Some MONITOR_EVENT_CHILD_FD"

lemma event_step:
  assumes "monitor_ok m" "not_child event" "DispatchEpollEvent E event m = (action, m1)"
  shows "step E m (snd (ApplyAction action m1))"
    and "list_all id (e_epoll m) \<Longrightarrow> action \<notin> {MONITOR_ACTION_CHILD_EXITED, MONITOR_ACTION_STOP}"
proof -
  obtain ctx events where e: "event = (ctx, events)" by fastforce
  have "step E m m1 \<and> (action = MONITOR_ACTION_RECONNECT \<longrightarrow> mt_deviceFd m1 \<ge> 0) \<and>
      (list_all id (e_epoll m) \<longrightarrow> action \<notin> {MONITOR_ACTION_CHILD_EXITED, MONITOR_ACTION_STOP})"
  proof (cases ctx)
    case None
    then show ?thesis using assms by (auto simp: DispatchEpollEvent_def e)
  next
    case (Some t)
    then consider "t = MONITOR_EVENT_SOCKET_FD" | "t = MONITOR_EVENT_DEVICE_FD" using assms(2) e by (cases t) auto
    then show ?thesis
    proof cases
      case 1
      then have h: "HandleSocketEvent E events m = (action, m1)" using assms(3) by (simp add: DispatchEpollEvent_def e Some)
      have "mt_socket m = None \<longrightarrow> action = MONITOR_ACTION_NONE" using h by (auto simp: HandleSocketEvent_def)
      then have "action = MONITOR_ACTION_RECONNECT \<longrightarrow> mt_socket m \<noteq> None" by auto
      moreover have "mt_socket m \<noteq> None \<longrightarrow> mt_deviceFd m \<ge> 0"
        using assms(1) by (auto simp: monitor_ok_def split: MonitorState.splits)
      ultimately show ?thesis using HandleSocketEvent_step [OF h assms(1)] by auto
    next
      case 2
      then have h: "HandleDeviceEvent E events m = (action, m1)" using assms(3) by (simp add: DispatchEpollEvent_def e Some)
      show ?thesis using HandleDeviceEvent_step [OF h assms(1)] by auto
    qed
  qed
  then show "step E m (snd (ApplyAction action m1))"
    and "list_all id (e_epoll m) \<Longrightarrow> action \<notin> {MONITOR_ACTION_CHILD_EXITED, MONITOR_ACTION_STOP}"
    using ApplyAction_step [OF step_ok] by (blast intro: step_trans)+
qed

lemma child_event:
  assumes "monitor_ok m" "\<not> not_child event" "DispatchEpollEvent E event m = (action, m1)"
  shows "monitor_ok (snd (ApplyAction action m1))" "allowance E (snd (ApplyAction action m1)) = allowance E m"
proof -
  obtain ev where h: "HandleChildExitEvent ev m = (action, m1)"
    using assms(2,3) by (cases event) (auto simp: DispatchEpollEvent_def)
  have "snd (ApplyAction action m1) = m1" using HandleChildExitEvent_frame(1) [OF h] by (auto simp: ApplyAction_def)
  then show "monitor_ok (snd (ApplyAction action m1))" "allowance E (snd (ApplyAction action m1)) = allowance E m"
    using HandleChildExitEvent_frame(2,3) [OF h] assms(1) by auto
qed

lemma event_keeps:
  assumes "monitor_ok m" "DispatchEpollEvent E event m = (action, m1)"
  shows "monitor_ok (snd (ApplyAction action m1))" "allowance E (snd (ApplyAction action m1)) \<subseteq># allowance E m"
  using event_step(1) [OF assms(1) _ assms(2)] child_event [OF assms(1) _ assms(2)]
  by (cases "not_child event"; simp add: step_def)+

section \<open>The loop on the model\<close>

interpretation inv: monitor_always E monitor_ok
  for E :: "('w, 'j) mon_ext"
proof unfold_locales
  show "monitor_ok (m\<lparr>e_clock := ts\<rparr>)" if "monitor_ok m" for m :: "'w monitor" and ts using that by simp
  show "monitor_ok (m\<lparr>mt_error := e\<rparr>)" if "monitor_ok m" for m :: "'w monitor" and e using that by simp
  show "monitor_ok (snd (ApplyAction action m1))" if "monitor_ok m" "DispatchEpollEvent E event m = (action, m1)"
    for m m1 :: "'w monitor" and event action
    by (rule event_keeps(1) [OF that])
  show "monitor_ok (TryReconnect m)" if "monitor_ok m" "mt_attempts m > 0" for m :: "'w monitor"
    by (rule step_ok [OF TryReconnect_step [OF that]])
  show "monitor_ok (snd (CheckChildExit nohang m))" if "monitor_ok m" for m :: "'w monitor" and nohang
    using that CheckChildExit_frame(1) [of nohang m] by (cases "CheckChildExit nohang m") simp
qed

interpretation allow: monitor_always E "\<lambda>m. monitor_ok m \<and> allowance E m \<subseteq># X"
  for E :: "('w, 'j) mon_ext" and X
proof unfold_locales
  show "monitor_ok (m\<lparr>e_clock := ts\<rparr>) \<and> allowance E (m\<lparr>e_clock := ts\<rparr>) \<subseteq># X" if "monitor_ok m \<and> allowance E m \<subseteq># X"
    for m :: "'w monitor" and ts using that by simp
  show "monitor_ok (m\<lparr>mt_error := e\<rparr>) \<and> allowance E (m\<lparr>mt_error := e\<rparr>) \<subseteq># X" if "monitor_ok m \<and> allowance E m \<subseteq># X"
    for m :: "'w monitor" and e using that by simp
  show "monitor_ok (snd (ApplyAction action m1)) \<and> allowance E (snd (ApplyAction action m1)) \<subseteq># X"
    if "monitor_ok m \<and> allowance E m \<subseteq># X" "DispatchEpollEvent E event m = (action, m1)" for m m1 :: "'w monitor" and event action
    using event_keeps [OF _ that(2)] that(1) by (blast intro: subset_mset.order_trans)
  show "monitor_ok (TryReconnect m) \<and> allowance E (TryReconnect m) \<subseteq># X" if "monitor_ok m \<and> allowance E m \<subseteq># X" "mt_attempts m > 0"
    for m :: "'w monitor"
    using TryReconnect_step [of m E] that by (auto simp: step_def intro: subset_mset.order_trans)
  show "monitor_ok (snd (CheckChildExit nohang m)) \<and> allowance E (snd (CheckChildExit nohang m)) \<subseteq># X"
    if "monitor_ok m \<and> allowance E m \<subseteq># X" for m :: "'w monitor" and nohang
  proof -
    obtain a b where c: "CheckChildExit nohang m = (a, b)" by fastforce
    show ?thesis using that CheckChildExit_frame(1) [OF c] CheckChildExit_frame(2) [OF c, of E] by (simp add: c)
  qed
qed

interpretation alive: monitor_survives E not_child "\<lambda>m. monitor_ok m \<and> list_all id (e_epoll m) \<and> e_wait m = W"
  for E :: "('w, 'j) mon_ext" and W
proof unfold_locales
  fix m m1 :: "'w monitor" and event action
  assume m: "monitor_ok m \<and> list_all id (e_epoll m) \<and> e_wait m = W"
  show "monitor_ok (m\<lparr>e_clock := ts\<rparr>) \<and> list_all id (e_epoll (m\<lparr>e_clock := ts\<rparr>)) \<and> e_wait (m\<lparr>e_clock := ts\<rparr>) = W" for ts using m by simp
  show "monitor_ok (m\<lparr>mt_error := e\<rparr>) \<and> list_all id (e_epoll (m\<lparr>mt_error := e\<rparr>)) \<and> e_wait (m\<lparr>mt_error := e\<rparr>) = W" for e using m by simp
  show "monitor_ok (snd (ApplyAction action m1)) \<and> list_all id (e_epoll (snd (ApplyAction action m1))) \<and> e_wait (snd (ApplyAction action m1)) = W"
    if "not_child event" "DispatchEpollEvent E event m = (action, m1)"
    using event_step(1) [OF _ that] m by (simp add: step_def)
  show "monitor_ok (TryReconnect m) \<and> list_all id (e_epoll (TryReconnect m)) \<and> e_wait (TryReconnect m) = W" if "mt_attempts m > 0"
    using TryReconnect_step [of m E] m that by (simp add: step_def)
  show "fst (DispatchEpollEvent E event m) \<notin> {MONITOR_ACTION_CHILD_EXITED, MONITOR_ACTION_STOP}" if "not_child event"
  proof -
    obtain a b where d: "DispatchEpollEvent E event m = (a, b)" by fastforce
    show ?thesis using event_step(2) [OF _ that d] m by (simp add: d)
  qed
qed

section \<open>Start\<close>

lemma RegisterFdToEpoll_frame:
  "RegisterFdToEpoll fd m = (ret, m') \<Longrightarrow> \<exists>l. m' = m\<lparr>e_epoll := l\<rparr> \<and> (list_all id (e_epoll m) \<longrightarrow> list_all id l)"
  using epoll_ctl_frame [of m] epoll_ctl_ok [of m]
  by (cases "epoll_ctl m") (fastforce simp: RegisterFdToEpoll_def split: if_splits intro: exI [of _ "e_epoll m"])

lemma Init_spec:
  assumes "Init (new_monitor config ch env) = (0, m)"
  shows "monitor_ok m" "owed m = mset (map fst (e_taken env))" "e_device m = e_device env" "e_wait m = e_wait env" "mt_epollFd m \<ge> 0"
    "list_all id (e_epoll env) \<Longrightarrow> list_all id (e_epoll m)"
proof -
  let ?m0 = "new_monitor config ch env"
  let ?m1 = "?m0\<lparr>mt_childFd := e_pidfd ?m0\<rparr>"
  let ?m2 = "?m1\<lparr>mt_epollFd := e_epoll_create ?m1\<rparr>"
  define m2 where "m2 = ?m2"
  have pre: "mt_deviceFd ?m0 \<ge> 0" "mt_epollFd ?m2 \<ge> 0"
    and run: "(case RegisterFdToEpoll (mt_childFd m2) m2 of (ret, m) \<Rightarrow>
        if ret \<noteq> SANDBOX_SUCCESS then (ret, m)
        else case (if mt_socket m \<noteq> None then RegisterFdToEpoll (mt_sockFd m) m else (SANDBOX_SUCCESS, m)) of (ret, m) \<Rightarrow>
          if ret \<noteq> SANDBOX_SUCCESS then (ret, m) else RegisterFdToEpoll (mt_deviceFd m) m) = (0, m)"
    using assms by (simp_all add: Init_def SetupChildExitFd_def Let_def m2_def split: if_splits)
  obtain r3 m3 where r3: "RegisterFdToEpoll (mt_childFd m2) m2 = (r3, m3)" by fastforce
  obtain r4 m4 where r4: "(if mt_socket m3 \<noteq> None then RegisterFdToEpoll (mt_sockFd m3) m3 else (SANDBOX_SUCCESS, m3)) = (r4, m4)" by fastforce
  have r5: "RegisterFdToEpoll (mt_deviceFd m4) m4 = (0, m)"
    using run unfolding r3 prod.case r4 by (cases "r3 = 0"; cases "r4 = 0"; simp)
  obtain l3 where m3: "m3 = ?m2\<lparr>e_epoll := l3\<rparr>" "list_all id (e_epoll ?m2) \<longrightarrow> list_all id l3"
    using RegisterFdToEpoll_frame [OF r3] unfolding m2_def by blast
  have "\<exists>l. m4 = m3\<lparr>e_epoll := l\<rparr> \<and> (list_all id (e_epoll m3) \<longrightarrow> list_all id l)"
    using RegisterFdToEpoll_frame [of "mt_sockFd m3" m3 r4 m4] r4
    by (cases "mt_socket m3 = None") (auto intro: exI [of _ "e_epoll m3"])
  then obtain l4 where m4: "m4 = m3\<lparr>e_epoll := l4\<rparr>" "list_all id (e_epoll m3) \<longrightarrow> list_all id l4" by blast
  obtain l5 where m5: "m = m4\<lparr>e_epoll := l5\<rparr>" "list_all id (e_epoll m4) \<longrightarrow> list_all id l5"
    using RegisterFdToEpoll_frame [OF r5] by blast
  have m: "m = ?m2\<lparr>e_epoll := l5\<rparr>" by (simp add: m5(1) m4(1) m3(1))
  have f: "e_taken ?m0 = e_taken env" "e_device ?m0 = e_device env" "e_wait ?m0 = e_wait env" "e_epoll ?m0 = e_epoll env"
    "mt_queue ?m0 = []" "mt_txBytes ?m0 = 0" "mt_pending ?m0 = []" "mt_attempts ?m0 = 0" "mt_state ?m0 = MONITOR_STATE_ACTIVE"
    "\<not> mt_writeEnabled ?m0"
    by (simp_all add: new_monitor_def mon_env.defs monitor.defs)
  show "monitor_ok m" "owed m = mset (map fst (e_taken env))" "e_device m = e_device env" "e_wait m = e_wait env" "mt_epollFd m \<ge> 0"
    using pre f by (simp_all add: m monitor_ok_def tables_ok_def owed_def)
  show "list_all id (e_epoll m)" if "list_all id (e_epoll env)"
    using that m3(2) m4 m5 f(4) by (simp add: m3(1))
qed

section \<open>The properties\<close>

text \<open>C37: A monitor that has started keeps its invariant whatever the kernel, the device and the application answer, and
  whenever it ends: the queue for the socket has at most 64 messages and 128 KiB, its byte count is the sum of the bodies, and
  at most 256 events are outstanding; an active monitor has its device and no reconnection under way, a reconnecting one
  has no socket, its device, a path and one to three attempts left, and a degraded one has no socket, no attempt and empty
  tables.\<close>

theorem Run_keeps_monitor_ok:
  assumes "Init (new_monitor config ch env) = (0, m)"
  shows "monitor_ok (snd (Run E wakeups m))"
  by (rule inv.Run_P [OF Init_spec(1) [OF assms]])

text \<open>C36: The monitor answers only events the device asked about, and each at most as often as it asked: the events whose
  answers the device has taken are among those of the records read from it whose class asks for an answer, counted with
  repetition. No message of the application, reconnection, full queue or eviction adds to them.\<close>

theorem Run_answers_only_asked:
  assumes "Init (new_monitor config ch env) = (0, m)" and "e_taken env = []"
  shows "mset (map fst (e_taken (snd (Run E wakeups m)))) \<subseteq># asked E (e_device env)"
proof -
  have start: "allowance E m = asked E (e_device env)"
    using Init_spec(2,3) [OF assms(1)] assms(2) by (simp add: allowance_def)
  have "monitor_ok m \<and> allowance E m \<subseteq># asked E (e_device env)" using Init_spec(1) [OF assms(1)] start by simp
  from allow.Run_P [OF this, of wakeups] have "allowance E (snd (Run E wakeups m)) \<subseteq># asked E (e_device env)" by blast
  moreover have "mset (map fst (e_taken m')) \<subseteq># allowance E m'" for m'
    by (simp add: allowance_def owed_def)
  ultimately show ?thesis by (blast intro: subset_mset.order_trans)
qed

text \<open>What the loop is woken by without the child: interruptions and events of the socket and the device.\<close>

definition quiet :: "wakeup \<Rightarrow> bool" where
  "quiet w = (case w of Events events \<Rightarrow> list_all not_child events | EpollErrno e \<Rightarrow> e = EINTR)"

lemma quiet_wakeups:
  "list_all quiet wakeups = list_all (\<lambda>w. case w of Events events \<Rightarrow> list_all not_child events | EpollErrno e \<Rightarrow> e = EINTR) wakeups"
  by (simp add: quiet_def [abs_def])

lemma child_exits:
  assumes "wait_loop True (e_wait m) = (Exited status, W')"
  shows "ProcessEpollBatch E [(Some MONITOR_EVENT_CHILD_FD, EPOLLIN)] m =
    (False, m\<lparr>e_wait := W', mt_childExit := int status, mt_error := 0\<rparr>)"
  using assms by (simp add: DispatchEpollEvent_def HandleChildExitEvent_def CheckChildExit_def ApplyAction_def Let_def)

text \<open>C38: As long as epoll accepts its requests, the monitor outlives everything but its child: no event of the socket or the
  device and no interruption ends the loop, in any number and order, and when the child has exited the loop ends with the
  child's exit status, even with events of the others before it in the same batch.\<close>

theorem Run_ends_with_the_child:
  assumes init: "Init (new_monitor config ch env) = (0, m)" and epoll: "list_all id (e_epoll env)"
    and running: "wait_loop True (e_wait env) = (Running, W)" and exited: "wait_loop True W = (Exited status, W')"
    and wakeups: "list_all quiet wakeups" and events: "quiet (Events events)" "length events < 10"
  shows "fst (Run E wakeups m) = None \<and>
    fst (Run E (wakeups @ [Events (events @ [(Some MONITOR_EVENT_CHILD_FD, EPOLLIN)])]) m) = Some (int status)"
proof -
  let ?P = "\<lambda>m. monitor_ok m \<and> list_all id (e_epoll m) \<and> e_wait m = W"
  let ?m1 = "m\<lparr>e_wait := W\<rparr>"
  have "CheckChildExit True m = (MONITOR_ACTION_NONE, ?m1)"
    using running Init_spec(4) [OF init] by (simp add: CheckChildExit_def)
  then have run: "Run E ws m = run_loop E ws ?m1" for ws
    using Init_spec(5) [OF init] by (simp add: Run_def ApplyAction_def)
  have "monitor_ok ?m1"
    using Init_spec(1) [OF init] by (cases "mt_state m"; simp add: monitor_ok_def tables_ok_def)
  then have "?P ?m1" using Init_spec(6) [OF init epoll] by simp
  note goes_on = alive.run_loop_goes_on [where E = E, OF this wakeups [unfolded quiet_wakeups]]
  define m2 where "m2 = snd (run_loop E wakeups ?m1)"
  have p2: "?P m2" using goes_on by (simp add: m2_def)
  obtain t m3 where n: "NextEpollTimeout m2 = (t, m3)" by fastforce
  have p3: "?P m3" using alive.NextEpollTimeout_P [OF p2] n by simp
  have q: "list_all not_child events" using events(1) by (simp add: quiet_def)
  define m4 where "m4 = snd (ProcessEpollBatch E events m3)"
  have p4: "?P m4" using alive.ProcessEpollBatch_P [OF p3 q] by (simp add: m4_def)
  have "take MAX_EPOLL_EVENTS (events @ [(Some MONITOR_EVENT_CHILD_FD, EPOLLIN)]) = events @ [(Some MONITOR_EVENT_CHILD_FD, EPOLLIN)]"
    using events(2) by (simp add: MAX_EPOLL_EVENTS_def)
  then have "fst (run_loop E [Events (events @ [(Some MONITOR_EVENT_CHILD_FD, EPOLLIN)])] m2) = Some (int status)"
    using child_exits [of m4 status W' E] p4 exited
    by (simp add: n alive.ProcessEpollBatch_goes_on(1) [OF p3 q] m4_def [symmetric] ResolveRunResult_def)
  then show ?thesis
    using goes_on by (simp add: run m2_def)
qed

text \<open>
  An application that is connected, a device that has read one event to decide, and a child that runs, then exits with 3.
\<close>

definition demo_env :: "(nat \<times> int multiset) mon_env" where
  "demo_env = \<lparr>e_world = (0, {#}), e_wait = [Running, Exited 3], e_device = [Data (event_bytes 0 1 77 demo_tlvs), Errno EAGAIN],
     e_answer = [], e_taken = [], e_epoll = [], e_socket = [], e_connect = [], e_clock = [], e_pidfd = 8, e_getfl = 0, e_setfl = 0,
     e_epoll_create = 9\<rparr>"

definition demo_monitor :: "(nat \<times> int multiset) monitor" where
  "demo_monitor = new_monitor \<lparr>mc_childPid = 4711, mc_socketPath = ''/a.sock'', mc_socketFd = 5, mc_deviceFd = 6\<rparr>
     \<lparr>ch_rx = [], ch_tx = [], ch_wire = []\<rparr> demo_env"

definition demo_ext :: "(nat \<times> int multiset, json) mon_ext" where
  "demo_ext = \<lparr>mx_os = small_os, mx_json = demo_library, mx_print = (\<lambda>_. Some ''{}'')\<rparr>"

lemma demo_starts: "Init demo_monitor = (0, demo_monitor\<lparr>mt_childFd := 8, mt_epollFd := 9\<rparr>)"
  by (simp add: demo_monitor_def demo_env_def new_monitor_def mon_env.defs monitor.defs Init_def SetupChildExitFd_def SetNonBlock_def
      RegisterFdToEpoll_def epoll_ctl_def)

theorem Run_keeps_monitor_ok_witness:
  "\<forall>wakeups. monitor_ok (snd (Run demo_ext wakeups (demo_monitor\<lparr>mt_childFd := 8, mt_epollFd := 9\<rparr>)))"
  by (intro allI Run_keeps_monitor_ok [OF demo_starts [unfolded demo_monitor_def], folded demo_monitor_def])

theorem Run_answers_only_asked_witness:
  "\<forall>wakeups. mset (map fst (e_taken (snd (Run demo_ext wakeups (demo_monitor\<lparr>mt_childFd := 8, mt_epollFd := 9\<rparr>))))) \<subseteq># {#77#}"
proof -
  have "length (event_bytes 0 1 77 demo_tlvs) \<le> DEVICE_READ_CHUNK_SIZE"
    by (simp add: DEVICE_READ_CHUNK_SIZE_def MAX_DEVICE_EVENT_LENGTH_value event_bytes_def demo_tlvs_def payload_bytes_def tlv_bytes_def
        put_u32_def put_u64_def)
  then have "asked demo_ext (e_device demo_env) = {#77#}"
    using ParseEvent_accepted [OF demo_event(1,2) demo_event(3), where print = "\<lambda>_. Some ''{}''" and rest = "[]"]
    by (simp add: demo_env_def demo_ext_def asked_by_def MAX_BODY_LENGTH_def event_header_def DEC_EVENT_CLASS_ASK_def)
  then show ?thesis
    using Run_answers_only_asked [OF demo_starts [unfolded demo_monitor_def], folded demo_monitor_def, where E = demo_ext]
    by (simp add: demo_env_def)
qed

theorem Run_ends_with_the_child_witness:
  "fst (Run demo_ext [EpollErrno EINTR, Events [(Some MONITOR_EVENT_DEVICE_FD, EPOLLIN), (Some MONITOR_EVENT_CHILD_FD, EPOLLIN)]]
     (demo_monitor\<lparr>mt_childFd := 8, mt_epollFd := 9\<rparr>)) = Some 3"
proof -
  have "list_all id (e_epoll demo_env)" "wait_loop True (e_wait demo_env) = (Running, [Exited 3])" "wait_loop True [Exited 3] = (Exited 3, [])"
    by (simp_all add: demo_env_def)
  from Run_ends_with_the_child [OF demo_starts [unfolded demo_monitor_def] this, folded demo_monitor_def,
      where wakeups = "[EpollErrno EINTR]" and events = "[(Some MONITOR_EVENT_DEVICE_FD, EPOLLIN)]" and E = demo_ext]
  show ?thesis by (simp add: quiet_def)
qed

end
