(* ===== verification/Trie_Spec.thy ===== *)
theory Trie_Spec
  imports Policy_Trie
begin

text \<open>
  What the trie stores and how its walks decide. \<open>policy_at\<close> and \<open>deny_at\<close> read a trie as a map
  from key paths; inserting a path is an update of that map, and \<open>CheckPathNew\<close> is equal to a
  reference decision over the marks found along the path.
\<close>

section \<open>The map a trie stands for\<close>

fun subtrie :: "ptrie \<Rightarrow> string list \<Rightarrow> ptrie option" where
  "subtrie t [] = Some t"
| "subtrie t (k # ks) = (case child t k of None \<Rightarrow> None | Some c \<Rightarrow> subtrie c ks)"

definition mode_at :: "ptrie \<Rightarrow> string list \<Rightarrow> u64" where
  "mode_at t ks = (case subtrie t ks of None \<Rightarrow> 0 | Some n \<Rightarrow> tmode (node n))"

definition policy_at :: "ptrie \<Rightarrow> string list \<Rightarrow> u64 option" where
  "policy_at t ks = (case subtrie t ks of None \<Rightarrow> None
     | Some n \<Rightarrow> if isEndOfPath (node n) then Some (tmode (node n)) else None)"

definition deny_at :: "ptrie \<Rightarrow> string list \<Rightarrow> bool" where
  "deny_at t ks = (case subtrie t ks of None \<Rightarrow> False | Some n \<Rightarrow> denyInherit (node n))"

text \<open>The keys under which a path is stored and looked up.\<close>

fun key_path :: "ptrie \<Rightarrow> string list \<Rightarrow> string list" where
  "key_path t [] = []"
| "key_path t (s # ss) =
     (let k = key_in t s in k # key_path (child_or (fresh_inheriting t) t k) ss)"

lemma node_set_child [simp]: "node (set_child k c t) = node t"
  by (simp add: set_child_def)

lemma child_set_child [simp, trie_simps]:
  "child (set_child k c t) k' = (if k' = k then Some c else child t k')"
  by (simp add: child_def set_child_def update_conv')

lemma child_PTrie_data [simp, trie_simps]: "child (PTrie d (children t)) k = child t k"
  by (simp add: child_def)

lemma child_fresh [simp, trie_simps]: "child (fresh_inheriting t) k = None" "child PolicyTrie k = None"
  by (simp_all add: child_def fresh_inheriting_def PolicyTrie_def)

lemma node_fresh [simp]:
  "node (fresh_inheriting t) = new_data\<lparr>caseInsensitive := caseInsensitive (node t)\<rparr>"
  "node PolicyTrie = new_data"
  by (simp_all add: fresh_inheriting_def PolicyTrie_def)

lemma new_data_simps [simp]:
  "isEndOfPath new_data = False" "caseInsensitive new_data = False" "denyInherit new_data = False"
  "indexMap new_data = []" "tmode new_data = 0" "tmodes new_data = []"
  by (simp_all add: new_data_def)

lemma key_in_cong: "caseInsensitive (node t) = caseInsensitive (node u) \<Longrightarrow> key_in t = key_in u"
  by (rule ext) (simp add: key_in_def)

lemma fresh_cong:
  "caseInsensitive (node t) = caseInsensitive (node u) \<Longrightarrow> fresh_inheriting t = fresh_inheriting u"
  by (simp add: fresh_inheriting_def)

lemma key_in_set_child [simp]: "key_in (set_child k c t) = key_in t"
  and fresh_set_child [simp]: "fresh_inheriting (set_child k c t) = fresh_inheriting t"
  by (rule key_in_cong, simp) (rule fresh_cong, simp)

lemma child_or_set_child [simp]:
  "child_or f (set_child k c t) k' = (if k' = k then c else child_or f t k')"
  by (simp add: child_or_def)

lemma subtrie_append:
  "subtrie t (ks @ ls) = (case subtrie t ks of None \<Rightarrow> None | Some n \<Rightarrow> subtrie n ls)"
  by (induction ks arbitrary: t) (auto split: option.splits)

lemma subtrie_fresh: "subtrie (fresh_inheriting t) ks = (if ks = [] then Some (fresh_inheriting t) else None)"
  by (cases ks) auto

text \<open>Reading below a child that may have just been allocated.\<close>

lemma at_Nil:
  "policy_at t [] = (if isEndOfPath (node t) then Some (tmode (node t)) else None)"
  "mode_at t [] = tmode (node t)" "deny_at t [] = denyInherit (node t)"
  by (simp_all add: policy_at_def mode_at_def deny_at_def)

lemma at_Cons:
  "policy_at t (k # ks) = policy_at (child_or (fresh_inheriting t) t k) ks"
  "mode_at t (k # ks) = mode_at (child_or (fresh_inheriting t) t k) ks"
  "deny_at t (k # ks) = deny_at (child_or (fresh_inheriting t) t k) ks"
  by (auto simp: policy_at_def mode_at_def deny_at_def child_or_def subtrie_fresh split: option.splits)

section \<open>Insertion is a map update\<close>

lemma key_path_InsertPath_walk [simp]:
  "key_path (InsertPath_walk m False p t) q = key_path t q"
proof (induction p arbitrary: t q)
  case Nil
  have "child_or f (InsertPath_walk m False [] t) k = child_or f t k" for f k
    by (simp add: child_or_def)
  moreover have "key_in (InsertPath_walk m False [] t) = key_in t"
    and "fresh_inheriting (InsertPath_walk m False [] t) = fresh_inheriting t"
    by (auto intro: key_in_cong fresh_cong)
  ultimately show ?case by (cases q) (simp_all del: InsertPath_walk.simps)
next
  case (Cons s p)
  show ?case by (cases q) (simp_all add: Cons.IH Let_def)
qed

lemma policy_at_InsertPath_walk:
  "policy_at (InsertPath_walk m False p t) ks =
     (if ks = key_path t p then Some (mode_at t ks OR m) else policy_at t ks)"
proof (induction p arbitrary: t ks)
  case Nil
  then show ?case
    by (cases ks) (simp_all add: at_Nil, simp_all add: policy_at_def)
next
  case (Cons s p)
  show ?case
  proof (cases ks)
    case Nil
    then show ?thesis by (simp add: at_Nil Let_def)
  next
    case (Cons k ls)
    then show ?thesis by (simp add: at_Cons Let_def Cons.IH [symmetric]) (simp add: Cons.IH)
  qed
qed

lemma mode_at_InsertPath_walk:
  "mode_at (InsertPath_walk m False p t) ks =
     (if ks = key_path t p then mode_at t ks OR m else mode_at t ks)"
proof (induction p arbitrary: t ks)
  case Nil
  then show ?case by (cases ks) (simp_all add: at_Nil, simp_all add: mode_at_def)
next
  case (Cons s p)
  show ?case
    by (cases ks) (simp_all add: at_Nil at_Cons Let_def Cons.IH)
qed

lemma deny_at_InsertPath_walk [simp]: "deny_at (InsertPath_walk m False p t) ks = deny_at t ks"
proof (induction p arbitrary: t ks)
  case Nil
  then show ?case by (cases ks) (simp_all add: at_Nil, simp_all add: deny_at_def)
next
  case (Cons s p)
  show ?case by (cases ks) (simp_all add: at_Nil at_Cons Let_def Cons.IH)
qed

lemma key_path_AddDenied [simp]: "key_path (AddDeniedPath_walk p t) q = key_path t q"
proof (induction p arbitrary: t q)
  case Nil
  have "child_or f (AddDeniedPath_walk [] t) k = child_or f t k" for f k
    by (simp add: child_or_def)
  moreover have "key_in (AddDeniedPath_walk [] t) = key_in t"
    and "fresh_inheriting (AddDeniedPath_walk [] t) = fresh_inheriting t"
    by (auto intro: key_in_cong fresh_cong)
  ultimately show ?case by (cases q) (simp_all del: AddDeniedPath_walk.simps)
next
  case (Cons s p)
  show ?case by (cases q) (simp_all add: Cons.IH Let_def)
qed

lemma at_AddDenied:
  "policy_at (AddDeniedPath_walk p t) ks = policy_at t ks"
  "mode_at (AddDeniedPath_walk p t) ks = mode_at t ks"
  "deny_at (AddDeniedPath_walk p t) ks = (deny_at t ks \<or> ks = key_path t p)"
proof (induction p arbitrary: t ks)
  case Nil
  { case 1 show ?case by (cases ks) (simp_all add: at_Nil, simp_all add: policy_at_def)
  next
    case 2 show ?case by (cases ks) (simp_all add: at_Nil, simp_all add: mode_at_def)
  next
    case 3 show ?case by (cases ks) (simp_all add: at_Nil, simp_all add: deny_at_def) }
next
  case (Cons s p)
  { case 1 show ?case by (cases ks) (simp_all add: at_Nil at_Cons Let_def Cons.IH)
  next
    case 2 show ?case by (cases ks) (simp_all add: at_Nil at_Cons Let_def Cons.IH)
  next
    case 3 show ?case by (cases ks) (auto simp: at_Nil at_Cons Let_def Cons.IH) }
qed

text \<open>A run of insertions and of deny marks.\<close>

fun InsertAll :: "(string \<times> u64) list \<Rightarrow> ptrie \<Rightarrow> ptrie" where
  "InsertAll [] t = t"
| "InsertAll ((p, m) # rows) t = InsertAll rows (InsertPath p m False t)"

fun or_modes :: "u64 list \<Rightarrow> u64" where
  "or_modes [] = 0"
| "or_modes (m # ms) = m OR or_modes ms"

definition modes_for :: "ptrie \<Rightarrow> (string \<times> u64) list \<Rightarrow> string list \<Rightarrow> u64 list" where
  "modes_for t rows ks = map snd (filter (\<lambda>r. key_path t (SplitPath (fst r)) = ks) rows)"

lemma key_path_InsertAll [simp]: "key_path (InsertAll rows t) q = key_path t q"
  by (induction rows t rule: InsertAll.induct) (simp_all add: InsertPath_def)

lemma deny_at_InsertAll [simp]: "deny_at (InsertAll rows t) q = deny_at t q"
  by (induction rows t rule: InsertAll.induct) (simp_all add: InsertPath_def)

lemma mode_at_InsertAll: "mode_at (InsertAll rows t) ks = mode_at t ks OR or_modes (modes_for t rows ks)"
  by (induction rows t rule: InsertAll.induct)
     (auto simp: InsertPath_def mode_at_InsertPath_walk modes_for_def or.assoc)

lemma policy_at_InsertAll:
  "policy_at (InsertAll rows t) ks =
     (if modes_for t rows ks = [] then policy_at t ks
      else Some (mode_at t ks OR or_modes (modes_for t rows ks)))"
  by (induction rows t rule: InsertAll.induct)
     (auto simp: InsertPath_def policy_at_InsertPath_walk mode_at_InsertPath_walk modes_for_def or.assoc)

lemma AddDeniedPaths_at:
  "policy_at (snd (AddDeniedPaths ps t)) ks = policy_at t ks"
  "mode_at (snd (AddDeniedPaths ps t)) ks = mode_at t ks"
  "key_path (snd (AddDeniedPaths ps t)) q = key_path t q"
  "deny_at (snd (AddDeniedPaths ps t)) ks =
     (deny_at t ks \<or> (\<exists>p \<in> set ps. ks = key_path t (SplitPath p)))"
proof -
  have "policy_at (fold (\<lambda>p. AddDeniedPath_walk (SplitPath p)) ps t) ks = policy_at t ks \<and>
    mode_at (fold (\<lambda>p. AddDeniedPath_walk (SplitPath p)) ps t) ks = mode_at t ks \<and>
    (\<forall>q. key_path (fold (\<lambda>p. AddDeniedPath_walk (SplitPath p)) ps t) q = key_path t q) \<and>
    deny_at (fold (\<lambda>p. AddDeniedPath_walk (SplitPath p)) ps t) ks =
      (deny_at t ks \<or> (\<exists>p \<in> set ps. ks = key_path t (SplitPath p)))"
    by (induction ps arbitrary: t) (auto simp: at_AddDenied)
  then show
    "policy_at (snd (AddDeniedPaths ps t)) ks = policy_at t ks"
    "mode_at (snd (AddDeniedPaths ps t)) ks = mode_at t ks"
    "key_path (snd (AddDeniedPaths ps t)) q = key_path t q"
    "deny_at (snd (AddDeniedPaths ps t)) ks =
       (deny_at t ks \<or> (\<exists>p \<in> set ps. ks = key_path t (SplitPath p)))"
    by (simp_all add: AddDeniedPaths_def)
qed

section \<open>The reference decision of CheckPathNew\<close>

text \<open>What a walk finds below the root: a stored mode and a deny mark per prefix of the path.\<close>

definition marks :: "ptrie \<Rightarrow> string list \<Rightarrow> (u64 option \<times> bool) list" where
  "marks t ks = map (\<lambda>j. (policy_at t (take j ks), deny_at t (take j ks))) [1..<Suc (length ks)]"

text \<open>Everything above the last deny mark is cut off; the shallowest stored mode left decides.\<close>

fun since_deny :: "(u64 option \<times> bool) list \<Rightarrow> (u64 option \<times> bool) list" where
  "since_deny [] = []"
| "since_deny (x # xs) = (if list_ex snd xs then since_deny xs else x # xs)"

definition deciding_mode :: "(u64 option \<times> bool) list \<Rightarrow> u64 option" where
  "deciding_mode xs = (case dropWhile (\<lambda>x. fst x = None) (since_deny xs) of [] \<Rightarrow> None | x # _ \<Rightarrow> fst x)"

definition grants :: "u64 \<Rightarrow> u64 option \<Rightarrow> bool" where
  "grants mode d = (case d of None \<Rightarrow> False | Some m \<Rightarrow> IsPolicyMatch m mode)"

lemma marks_Cons:
  "marks t (k # ks) = (policy_at t [k], deny_at t [k]) #
     (case child t k of None \<Rightarrow> replicate (length ks) (None, False) | Some c \<Rightarrow> marks c ks)"
proof -
  have "marks t (k # ks) = (policy_at t [k], deny_at t [k]) #
      map (\<lambda>j. (policy_at t (k # take j ks), deny_at t (k # take j ks))) [1..<Suc (length ks)]"
    unfolding marks_def by (simp add: upt_conv_Cons map_Suc_upt [symmetric] del: upt_Suc)
  moreover have "map (\<lambda>j. (policy_at t (k # take j ks), deny_at t (k # take j ks))) [1..<Suc (length ks)]
      = (case child t k of None \<Rightarrow> replicate (length ks) (None, False) | Some c \<Rightarrow> marks c ks)"
    by (auto simp: marks_def policy_at_def deny_at_def map_replicate_const simp del: upt_Suc
        split: option.split)
  ultimately show ?thesis by simp
qed

lemma since_deny_False: "\<not> list_ex snd xs \<Longrightarrow> since_deny xs = xs"
  by (cases xs) auto

lemma deciding_replicate [simp]: "deciding_mode (replicate n (None, False)) = None"
proof -
  have "\<not> list_ex snd (replicate n (None :: u64 option, False))" by (auto simp: list_ex_iff)
  then show ?thesis by (simp add: deciding_mode_def since_deny_False dropWhile_replicate)
qed

lemma deciding_Cons:
  "deciding_mode (x # xs) =
     (if list_ex snd xs then deciding_mode xs
      else case fst x of Some m \<Rightarrow> Some m | None \<Rightarrow> deciding_mode xs)"
  by (auto simp: deciding_mode_def since_deny_False split: option.splits)

lemma CheckPathNew_walk_decides:
  "CheckPathNew_walk mode True st segs t =
     (let xs = marks t (key_path t segs)
      in if list_ex snd xs \<or> st = INIT then grants mode (deciding_mode xs) else st = ALLOWED)"
proof (induction segs arbitrary: t st)
  case Nil
  then show ?case by (simp add: marks_def deciding_mode_def grants_def)
next
  case (Cons s ss)
  show ?case
  proof (cases "child t (key_in t s)")
    case None
    then show ?thesis
      by (auto simp: marks_Cons Let_def policy_at_def deny_at_def deciding_Cons grants_def list_ex_iff)
  next
    case (Some c)
    have c: "child_or (fresh_inheriting t) t (key_in t s) = c" using Some by (simp add: child_or_def)
    have "policy_at t [key_in t s] = policy_at c []" "deny_at t [key_in t s] = deny_at c []"
      using Some by (simp_all add: policy_at_def deny_at_def)
    with Some c show ?thesis
      by (auto simp: marks_Cons Let_def deciding_Cons grants_def at_Nil Cons.IH)
  qed
qed

section \<open>FindMatchingPaths as a set of key paths\<close>

text \<open>
  The stored key path \<open>ks\<close> answers a query for \<open>segs\<close> when every key is one of the keys the node
  offers for the segment: the segment itself, or its recorded spellings at a case-insensitive node.
\<close>

fun key_match :: "ptrie \<Rightarrow> string list \<Rightarrow> string list \<Rightarrow> bool" where
  "key_match t [] [] = True"
| "key_match t (s # ss) (k # ks) =
     (k \<in> set (FindMatching_keys t s) \<and>
      (case child t k of None \<Rightarrow> False | Some c \<Rightarrow> key_match c ss ks))"
| "key_match t _ _ = False"

definition stored_at :: "ptrie \<Rightarrow> string list \<Rightarrow> u64 \<Rightarrow> bool" where
  "stored_at t ks mode =
     (case subtrie t ks of None \<Rightarrow> False | Some n \<Rightarrow> isEndOfPath (node n) \<and> mode \<in> set (tmodes (node n)))"

definition found_below :: "u64 \<Rightarrow> string list \<Rightarrow> search_state \<Rightarrow> string set" where
  "found_below mode segs x =
     (case x of (t, i, p) \<Rightarrow> {p @ render ks | ks. key_match t (drop i segs) ks \<and> stored_at t ks mode})"

lemma push_set:
  "set (FindMatching_push t i p ks) = {(c, Suc i, BuildPath p k) | c k. k \<in> set ks \<and> child t k = Some c}"
  by (induction t i p ks rule: FindMatching_push.induct) (auto split: option.splits)

lemma BuildPath_append: "BuildPath p k @ render ks = p @ render (k # ks)"
  by (simp add: BuildPath_def render_def)

lemma found_below_end:
  "i \<ge> length segs \<Longrightarrow> found_below mode segs (t, i, p) =
     (if isEndOfPath (node t) \<and> mode \<in> set (tmodes (node t)) then {p} else {})"
  by (auto simp: found_below_def stored_at_def render_def elim: key_match.elims)

lemma found_below_step:
  assumes "i < length segs"
  shows "found_below mode segs (t, i, p) =
    (\<Union>x \<in> set (FindMatching_push t i p (FindMatching_keys t (segs ! i))). found_below mode segs x)"
proof -
  have d: "drop i segs = segs ! i # drop (Suc i) segs" using assms by (simp add: Cons_nth_drop_Suc)
  have kmst: "key_match t (s # ss) ks \<and> stored_at t ks mode \<longleftrightarrow>
     (\<exists>k ls c. ks = k # ls \<and> k \<in> set (FindMatching_keys t s) \<and> child t k = Some c \<and>
        key_match c ss ls \<and> stored_at c ls mode)" for s ss ks
    by (cases ks) (auto simp: stored_at_def split: option.splits)
  let ?keys = "set (FindMatching_keys t (segs ! i))"
  have "found_below mode segs (t, i, p) =
      {p @ render (k # ls) | k ls c. k \<in> ?keys \<and> child t k = Some c \<and>
        key_match c (drop (Suc i) segs) ls \<and> stored_at c ls mode}"
    by (simp only: found_below_def prod.case d kmst) blast
  also have "\<dots> = {BuildPath p k @ render ls | k ls c. k \<in> ?keys \<and> child t k = Some c \<and>
        key_match c (drop (Suc i) segs) ls \<and> stored_at c ls mode}"
    by (simp only: BuildPath_append)
  also have "\<dots> = (\<Union>x \<in> {(c, Suc i, BuildPath p k) | c k. k \<in> ?keys \<and> child t k = Some c}.
      found_below mode segs x)"
    by (simp only: found_below_def) blast
  finally show ?thesis by (simp only: push_set)
qed

lemma FindMatching_loop_set:
  "set (FindMatching_loop mode segs stack results) =
     set results \<union> (\<Union>x \<in> set stack. found_below mode segs x)"
proof (induction mode segs stack results rule: FindMatching_loop.induct)
  case (2 mode segs t i p stack results)
  show ?case
  proof (cases "length segs \<le> i")
    case True
    with "2.IH"(1) show ?thesis by (auto simp: found_below_end)
  next
    case False
    with "2.IH"(2) show ?thesis by (auto simp: found_below_step)
  qed
qed simp

lemma FindMatchingPaths_set:
  "set (FindMatchingPaths path mode t) =
     (if SplitPath path = [] then {}
      else {render ks | ks. key_match t (SplitPath path) ks \<and> stored_at t ks mode})"
  by (simp add: FindMatchingPaths_def Let_def FindMatching_loop_set found_below_def
      del: FindMatching_loop.simps)

section \<open>Case-insensitive spellings\<close>

text \<open>
  Two segment lists are the same file for a node when they agree key by key, up to letter case
  below case-insensitive nodes; the node for the next segment is the one stored under the second
  list's spelling.
\<close>

fun same_spelling :: "ptrie \<Rightarrow> string list \<Rightarrow> string list \<Rightarrow> bool" where
  "same_spelling t [] [] = True"
| "same_spelling t (s # ss) (k # ks) =
     (key_in t s = key_in t k \<and> same_spelling (child_or (fresh_inheriting t) t k) ss ks)"
| "same_spelling t _ _ = False"

text \<open>
  The data invariant of a node: every recorded spelling is recorded under its lower case, and
  only an end of path holds modes.
\<close>

definition node_ok :: "trie_data \<Rightarrow> bool" where
  "node_ok d \<longleftrightarrow> list_all (\<lambda>e. list_all (\<lambda>k. ToLowerCase k = fst e) (snd e)) (indexMap d) \<and>
     (isEndOfPath d \<or> tmodes d = [] \<and> tmode d = 0)"

primrec trie_ok :: "ptrie \<Rightarrow> bool" where
  "trie_ok (PTrie d cs) = (node_ok d \<and> list_all snd (map (map_prod (\<lambda>k. k) trie_ok) cs))"

lemma trie_ok_child: "trie_ok t \<Longrightarrow> child t k = Some c \<Longrightarrow> trie_ok c"
  by (cases t) (auto simp: child_def list_all_iff dest!: map_of_SomeD)

lemma trie_ok_node: "trie_ok t \<Longrightarrow> node_ok (node t)"
  by (cases t) simp

lemma trie_ok_keys:
  assumes "trie_ok t" and "k \<in> set (FindMatching_keys t s)"
  shows "key_in t s = key_in t k"
proof (cases "caseInsensitive (node t)")
  case True
  with assms(2) obtain ks where ks: "map_of (indexMap (node t)) (ToLowerCase s) = Some ks" "k \<in> set ks"
    by (cases "map_of (indexMap (node t)) (ToLowerCase s)") (simp_all add: FindMatching_keys_def)
  then have "ToLowerCase k = ToLowerCase s"
    using trie_ok_node [OF assms(1)]
    by (fastforce simp: node_ok_def list_all_iff dest!: map_of_SomeD)
  with True show ?thesis by (simp add: key_in_def)
next
  case False
  with assms(2) show ?thesis by (simp add: FindMatching_keys_def)
qed

lemma key_match_spelling: "trie_ok t \<Longrightarrow> key_match t ss ks \<Longrightarrow> same_spelling t ss ks"
proof (induction t ss ks rule: key_match.induct)
  case (2 t s ss k ks)
  then obtain c where c: "child t k = Some c" "k \<in> set (FindMatching_keys t s)" "key_match c ss ks"
    by (auto split: option.splits)
  with "2.IH" [OF c(1) trie_ok_child [OF "2.prems"(1) c(1)]] show ?case
    using trie_ok_keys [OF "2.prems"(1) c(2)] by (simp add: child_or_def)
qed auto

lemma trie_ok_PTrie [simp]: "trie_ok (PTrie d cs) \<longleftrightarrow> node_ok d \<and> list_all (\<lambda>e. trie_ok (snd e)) cs"
proof -
  have "list_all snd (map (map_prod (\<lambda>k. k) trie_ok) cs) = list_all (\<lambda>e. trie_ok (snd e)) cs"
    by (induction cs) simp_all
  then show ?thesis by simp
qed

declare trie_ok.simps [simp del]

lemma trie_ok_iff: "trie_ok t \<longleftrightarrow> node_ok (node t) \<and> list_all (\<lambda>e. trie_ok (snd e)) (children t)"
  by (cases t) simp

lemma trie_ok_set_child: "trie_ok t \<Longrightarrow> trie_ok c \<Longrightarrow> trie_ok (set_child k c t)"
proof -
  assume t: "trie_ok t" and c: "trie_ok c"
  have upd: "list_all (\<lambda>e. trie_ok (snd e)) al \<Longrightarrow> list_all (\<lambda>e. trie_ok (snd e)) (AList.update k c al)" for al
    using c by (induction al) auto
  from t show ?thesis by (cases t) (simp add: set_child_def upd)
qed

lemma trie_ok_fresh [simp]: "trie_ok (fresh_inheriting t)" "trie_ok PolicyTrie"
  by (simp_all add: fresh_inheriting_def PolicyTrie_def node_ok_def)

lemma trie_ok_child_or: "trie_ok t \<Longrightarrow> trie_ok f \<Longrightarrow> trie_ok (child_or f t k)"
  by (auto simp: child_or_def split: option.split dest: trie_ok_child)

lemma ToLowerCase_idem [simp]: "ToLowerCase (ToLowerCase s) = ToLowerCase s"
  by (simp add: ToLowerCase_def)

lemma node_index_add [simp]:
  "isEndOfPath (node (index_add s t)) = isEndOfPath (node t)"
  "caseInsensitive (node (index_add s t)) = caseInsensitive (node t)"
  "tmode (node (index_add s t)) = tmode (node t)" "tmodes (node (index_add s t)) = tmodes (node t)"
  "children (index_add s t) = children t" "child (index_add s t) k = child t k"
  by (simp_all add: index_add_def Let_def child_def)

lemma set_insert_set [simp]: "set (set_insert x xs) = insert x (set xs)"
  by (auto simp: set_insert_def)

lemma index_add_lookup:
  "map_of (indexMap (node (index_add s t))) low =
     (if low = ToLowerCase s
      then Some (set_insert s (case map_of (indexMap (node t)) low of Some xs \<Rightarrow> xs | None \<Rightarrow> []))
      else map_of (indexMap (node t)) low)"
  by (simp add: index_add_def Let_def update_conv')

lemma node_ok_index_add: "node_ok (node t) \<Longrightarrow> node_ok (node (index_add s t))"
proof -
  assume ok: "node_ok (node t)"
  let ?P = "\<lambda>e. list_all (\<lambda>k. ToLowerCase k = fst e) (snd e)"
  have upd: "list_all ?P al \<Longrightarrow> list_all (\<lambda>k. ToLowerCase k = low) xs \<Longrightarrow> list_all ?P (AList.update low xs al)" for al low xs
    by (induction al) auto
  have old: "list_all (\<lambda>k. ToLowerCase k = ToLowerCase s)
      (case map_of (indexMap (node t)) (ToLowerCase s) of Some xs \<Rightarrow> xs | None \<Rightarrow> [])"
    using ok by (cases "map_of (indexMap (node t)) (ToLowerCase s)")
      (fastforce simp: node_ok_def list_all_iff dest: map_of_SomeD)+
  have "list_all (\<lambda>k. ToLowerCase k = ToLowerCase s) (set_insert s
      (case map_of (indexMap (node t)) (ToLowerCase s) of Some xs \<Rightarrow> xs | None \<Rightarrow> []))"
    using old by (auto simp: list_all_iff)
  from upd [OF _ this] ok show ?thesis
    by (simp add: node_ok_def) (simp add: index_add_def Let_def)
qed

lemma trie_ok_InsertPath_walk: "trie_ok t \<Longrightarrow> trie_ok (InsertPath_walk m pc p t)"
proof (induction p arbitrary: t)
  case Nil
  then show ?case by (cases t) (simp add: node_ok_def)
next
  case (Cons s p)
  have "trie_ok (index_add s t)"
    using Cons.prems by (simp add: trie_ok_iff [of t] trie_ok_iff [of "index_add s t"] node_ok_index_add)
  then have t1: "trie_ok (if pc \<and> caseInsensitive (node t) then index_add s t else t)"
    using Cons.prems by simp
  have "trie_ok (InsertPath_walk m pc p (child_or (fresh_inheriting t) t k))" for k
    by (rule Cons.IH, rule trie_ok_child_or, rule Cons.prems, rule trie_ok_fresh)
  then show ?case
    unfolding InsertPath_walk.simps Let_def by (rule trie_ok_set_child [OF t1])
qed

lemma trie_ok_SetCasePolicy_walk: "trie_ok t \<Longrightarrow> trie_ok (SetCasePolicy_walk b p t)"
proof (induction p arbitrary: t)
  case Nil
  then show ?case by (cases t) (simp add: node_ok_def)
next
  case (Cons s p)
  have "trie_ok (SetCasePolicy_walk b p (child_or PolicyTrie t k))" for k
    by (rule Cons.IH, rule trie_ok_child_or, rule Cons.prems, rule trie_ok_fresh)
  then show ?case
    unfolding SetCasePolicy_walk.simps Let_def by (rule trie_ok_set_child [OF Cons.prems])
qed

section \<open>What a case-preserving trie finds\<close>

lemma FindMatching_keys_set_child [simp]: "FindMatching_keys (set_child c u t) = FindMatching_keys t"
  by (rule ext) (simp add: FindMatching_keys_def)

lemma FindMatching_keys_index_add [simp]:
  "set (FindMatching_keys (index_add k t) s) =
     set (FindMatching_keys t s) \<union> (if caseInsensitive (node t) \<and> ToLowerCase s = ToLowerCase k then {k} else {})"
  by (cases "map_of (indexMap (node t)) (ToLowerCase s)")
     (auto simp: FindMatching_keys_def index_add_lookup)

lemma index_add_walk [simp]:
  "key_in (index_add s t) = key_in t" "fresh_inheriting (index_add s t) = fresh_inheriting t"
  "child_or f (index_add s t) k = child_or f t k"
  by (auto simp: child_or_def intro: key_in_cong fresh_cong)

lemma same_spelling_InsertPath_walk [simp]:
  "same_spelling (InsertPath_walk m True p t) ss ks = same_spelling t ss ks"
proof (induction p arbitrary: t ss ks)
  case Nil
  have "child_or f (InsertPath_walk m True [] t) k = child_or f t k" for f k
    by (simp add: child_or_def)
  moreover have "key_in (InsertPath_walk m True [] t) = key_in t"
    and "fresh_inheriting (InsertPath_walk m True [] t) = fresh_inheriting t"
    by (auto intro: key_in_cong fresh_cong)
  ultimately show ?case
    by (cases ss; cases ks) (simp_all del: InsertPath_walk.simps)
next
  case (Cons s p)
  show ?case by (cases ss; cases ks) (simp_all add: Cons.IH Let_def)
qed

lemma key_match_InsertPath_walk:
  "same_spelling t ss p \<Longrightarrow> key_match (InsertPath_walk m True p t) ss p"
proof (induction p arbitrary: t ss)
  case Nil
  then show ?case by (cases ss) auto
next
  case (Cons k p)
  then obtain s ss' where ss: "ss = s # ss'" by (cases ss) auto
  with Cons.prems have "key_in t s = key_in t k" and "same_spelling (child_or (fresh_inheriting t) t k) ss' p"
    by auto
  with Cons.IH show ?case
    by (auto simp: ss Let_def key_in_def)
       (auto simp: FindMatching_keys_def)
qed

lemma key_match_InsertPath_mono:
  "key_match t ss ks \<Longrightarrow> key_match (InsertPath_walk m True p t) ss ks"
proof (induction p arbitrary: t ss ks)
  case Nil
  then show ?case
    by (cases ss; cases ks) (auto simp: FindMatching_keys_def split: option.splits)
next
  case (Cons r p)
  then show ?case
    by (cases ss; cases ks) (auto simp: Let_def child_or_def split: option.splits)
qed

lemma stored_at_Cons: "stored_at t (k # ks) m = (case child t k of None \<Rightarrow> False | Some c \<Rightarrow> stored_at c ks m)"
  by (simp add: stored_at_def split: option.split)

lemma stored_at_Nil: "stored_at t [] m = (isEndOfPath (node t) \<and> m \<in> set (tmodes (node t)))"
  by (simp add: stored_at_def)

lemma stored_at_fresh [simp]: "stored_at (fresh_inheriting t) ks m = False"
  by (cases ks) (simp_all add: stored_at_def)

lemma stored_at_InsertPath_walk:
  "trie_ok t \<Longrightarrow>
   stored_at (InsertPath_walk m True p t) ks m' = (stored_at t ks m' \<or> ks = p \<and> m' = m)"
proof (induction p arbitrary: t ks)
  case Nil
  then have ok: "isEndOfPath (node t) \<or> tmodes (node t) = []"
    by (cases t) (auto simp: node_ok_def)
  show ?case
  proof (cases ks)
    case Nil
    with ok show ?thesis by (auto simp: stored_at_Nil)
  next
    case (Cons k ls)
    then show ?thesis by (simp add: stored_at_Cons)
  qed
next
  case (Cons s p)
  show ?case
  proof (cases ks)
    case Nil
    then show ?thesis by (simp add: stored_at_Nil Let_def)
  next
    case (Cons k ls)
    have "trie_ok (child_or (fresh_inheriting t) t s)" using Cons.prems by (simp add: trie_ok_child_or)
    note IH = Cons.IH [OF this]
    have "stored_at (child_or (fresh_inheriting t) t s) ls m' = stored_at t (s # ls) m'"
      by (simp add: stored_at_Cons child_or_def split: option.split)
    with IH [of ls] show ?thesis
      by (cases "k = s") (simp_all add: Cons stored_at_Cons Let_def)
  qed
qed

fun InsertAllPreserving :: "(string \<times> u64) list \<Rightarrow> ptrie \<Rightarrow> ptrie" where
  "InsertAllPreserving [] t = t"
| "InsertAllPreserving ((p, m) # rows) t = InsertAllPreserving rows (InsertPreservingCase p m t)"

lemma InsertAllPreserving_facts:
  "trie_ok t \<Longrightarrow> trie_ok (InsertAllPreserving rows t) \<and>
   same_spelling (InsertAllPreserving rows t) ss ks = same_spelling t ss ks \<and>
   stored_at (InsertAllPreserving rows t) ks m =
     (stored_at t ks m \<or> (\<exists>p. (p, m) \<in> set rows \<and> SplitPath p = ks)) \<and>
   (key_match t ss ks \<or> same_spelling t ss ks \<and> (\<exists>r \<in> set rows. SplitPath (fst r) = ks) \<longrightarrow>
     key_match (InsertAllPreserving rows t) ss ks)"
proof (induction rows t rule: InsertAllPreserving.induct)
  case (2 p m' rows t)
  let ?u = "InsertPath_walk m' True (SplitPath p) t"
  have ok: "trie_ok ?u" using "2.prems" by (rule trie_ok_InsertPath_walk)
  have u: "InsertPreservingCase p m' t = ?u" by (simp add: InsertPreservingCase_def InsertPath_def)
  note IH = "2.IH" [unfolded u, OF ok]
  show ?case
    using IH stored_at_InsertPath_walk [OF "2.prems", of m' "SplitPath p" ks m]
      key_match_InsertPath_mono [of t ss ks m' "SplitPath p"]
      key_match_InsertPath_walk [of t ss "SplitPath p" m']
    by (auto simp: u)
qed simp

section \<open>Properties of the trie\<close>

lemma deciding_None: "list_all (\<lambda>x. fst x = None) xs \<Longrightarrow> deciding_mode xs = None"
  by (induction xs) (simp_all add: deciding_Cons, simp add: deciding_mode_def)

lemma deciding_after_deny:
  "list_all (\<lambda>x. fst x = None) bs \<Longrightarrow> deciding_mode (as @ (None, True) # bs) = None"
  by (induction as) (auto simp: deciding_Cons deciding_None)

lemma length_marks [simp]: "length (marks t ks) = length ks"
  by (simp add: marks_def del: upt_Suc)

lemma marks_nth: "i < length ks \<Longrightarrow> marks t ks ! i = (policy_at t (take (Suc i) ks), deny_at t (take (Suc i) ks))"
  by (simp add: marks_def nth_upt del: upt_Suc)

text \<open>C1: \<open>CheckPathNew\<close> equals its reference definition: among the marks met along the path, everything
  above the last deny mark is cut off, and the shallowest stored mode that remains decides.\<close>

theorem CheckPathNew_reference:
  "CheckPathNew path mode t = grants mode (deciding_mode (marks t (key_path t (SplitPath path))))"
  by (simp add: CheckPathNew_def CheckPathInternalNew_def CheckPathNew_walk_decides Let_def)

text \<open>C2: inserting a path is exactly one update of the map the trie stands for: the mode is or-ed into
  the entry at the path's key, every other entry, every deny mark and every key stays.\<close>

theorem InsertPath_is_map_update:
  "policy_at (InsertPath path mode False t) =
     (policy_at t)(key_path t (SplitPath path) \<mapsto> mode_at t (key_path t (SplitPath path)) OR mode) \<and>
   deny_at (InsertPath path mode False t) = deny_at t \<and>
   key_path (InsertPath path mode False t) = key_path t"
  by (auto simp: InsertPath_def fun_eq_iff policy_at_InsertPath_walk)

text \<open>C3: on a trie filled from database rows with preserved case, \<open>FindMatchingPaths\<close> returns exactly
  the stored paths of rows with the searched mode whose segments spell the searched path, up to letter
  case below case-insensitive directories.\<close>

theorem FindMatchingPaths_exact:
  assumes "trie_ok t" and "\<forall>ks m. \<not> stored_at t ks m" and "SplitPath path \<noteq> []"
  shows "set (FindMatchingPaths path mode (InsertAllPreserving rows t)) =
    {render (SplitPath p) | p. (p, mode) \<in> set rows \<and> same_spelling t (SplitPath path) (SplitPath p)}"
proof -
  let ?u = "InsertAllPreserving rows t"
  let ?ss = "SplitPath path"
  have iff: "key_match ?u ?ss ks \<and> stored_at ?u ks mode \<longleftrightarrow>
      (\<exists>p. (p, mode) \<in> set rows \<and> SplitPath p = ks \<and> same_spelling t ?ss ks)" for ks
  proof -
    note facts = InsertAllPreserving_facts [OF assms(1), of rows ?ss ks mode]
    have "key_match ?u ?ss ks \<Longrightarrow> same_spelling t ?ss ks"
      using key_match_spelling [of ?u ?ss ks] facts by blast
    moreover have "\<not> stored_at t ks mode" using assms(2) by blast
    ultimately show ?thesis using facts by (metis fst_conv)
  qed
  have "set (FindMatchingPaths path mode ?u) = {render ks | ks. key_match ?u ?ss ks \<and> stored_at ?u ks mode}"
    using assms(3) by (simp add: FindMatchingPaths_set)
  then show ?thesis unfolding iff by blast
qed

theorem FindMatchingPaths_exact_witness:
  "''/A/b'' \<in> set (FindMatchingPaths ''/a/B'' 2 (InsertAllPreserving [(''/A/b'', 2), (''/c'', 1)]
      (PTrie (new_data\<lparr>caseInsensitive := True\<rparr>) [])))"
proof -
  let ?t = "PTrie (new_data\<lparr>caseInsensitive := True\<rparr>) []"
  have none: "\<not> stored_at ?t ks m" for ks m
    by (cases ks) (simp_all add: stored_at_def child_def)
  have ok: "trie_ok ?t" by (simp add: node_ok_def)
  have ne: "SplitPath ''/a/B'' \<noteq> []" by code_simp
  have "same_spelling ?t (SplitPath ''/a/B'') (SplitPath ''/A/b'')" by code_simp
  moreover have "render (SplitPath ''/A/b'') = ''/A/b''" by code_simp
  ultimately show ?thesis
    using FindMatchingPaths_exact [OF ok _ ne, of 2 "[(''/A/b'', 2), (''/c'', 1)]"] none by force
qed

text \<open>C4: a deny mark stops inheritance: when the path meets one and no policy is stored at it or below it
  on the path, \<open>CheckPathNew\<close> refuses every mode, whatever is stored above.\<close>

theorem deny_mark_blocks_inheritance:
  assumes "ks = key_path t (SplitPath path)" and "j < length ks" and "deny_at t (take (Suc j) ks)"
    and "\<forall>i. j \<le> i \<and> i < length ks \<longrightarrow> policy_at t (take (Suc i) ks) = None"
  shows "\<not> CheckPathNew path mode t"
proof -
  let ?xs = "marks t ks"
  have "?xs = take j ?xs @ ?xs ! j # drop (Suc j) ?xs"
    using assms(2) by (simp add: id_take_nth_drop)
  moreover have "?xs ! j = (None, True)"
    using assms by (simp add: marks_nth)
  moreover have "list_all (\<lambda>x. fst x = None) (drop (Suc j) ?xs)"
    using assms by (auto simp: list_all_length marks_nth)
  ultimately have "deciding_mode ?xs = None" by (metis deciding_after_deny)
  then show ?thesis by (simp add: CheckPathNew_reference assms(1) grants_def)
qed

theorem deny_mark_blocks_inheritance_witness:
  "\<not> CheckPathNew ''/a/b'' 1 (snd (AddDeniedPaths [''/a/b''] (InsertPath ''/a'' 1 False PolicyTrie)))"
proof (rule deny_mark_blocks_inheritance [of "[''a'', ''b'']" _ _ 1])
  let ?t = "snd (AddDeniedPaths [''/a/b''] (InsertPath ''/a'' 1 False PolicyTrie))"
  show "[''a'', ''b''] = key_path ?t (SplitPath ''/a/b'')" by code_simp
  show "deny_at ?t (take (Suc 1) [''a'', ''b''])" by code_simp
  have "policy_at ?t [''a'', ''b''] = None" by code_simp
  then show "\<forall>i. 1 \<le> i \<and> i < length [''a'', ''b''] \<longrightarrow> policy_at ?t (take (Suc i) [''a'', ''b'']) = None"
    by (auto simp: less_Suc_eq)
qed simp

text \<open>
  The retired check knows no deny marks. It walks down like \<open>CheckPathNew\<close> and stops at the first
  stored mode, but below a built-in denied path (\<open>DENIED_PATHS\<close>: the applications' own data of the
  current user) it passes over whatever is stored above level four. \<open>below_appdata\<close> says which
  paths these are, by components, and \<open>shallowest\<close> takes the first stored mode of a list of prefixes.
\<close>

definition below_appdata :: "string \<Rightarrow> bool" where
  "below_appdata path \<longleftrightarrow>
     (\<exists>rest. path = ''/storage/Users/currentUser/appdata'' @ rest \<and>
        (rest = [] \<or> hd rest = CHR ''/''))"

definition shallowest :: "u64 option list \<Rightarrow> u64 option" where
  "shallowest ps = (case filter (\<lambda>p. p \<noteq> None) ps of [] \<Rightarrow> None | p # _ \<Rightarrow> p)"

lemma shallowest_Nil [simp]: "shallowest [] = None"
  by (simp add: shallowest_def)

lemma shallowest_Cons [simp]:
  "shallowest (p # ps) = (case p of None \<Rightarrow> shallowest ps | Some m \<Rightarrow> Some m)"
  by (simp add: shallowest_def split: option.split)

lemma shallowest_replicate [simp]: "shallowest (replicate n None) = None"
  by (induction n) simp_all

lemma starts_with_component:
  "take (length d) p = d \<and> (length p = length d \<or> p ! length d = c) \<longleftrightarrow>
     (\<exists>r. p = d @ r \<and> (r = [] \<or> hd r = c))"
proof
  assume l: "take (length d) p = d \<and> (length p = length d \<or> p ! length d = c)"
  then have p: "p = d @ drop (length d) p" by (metis append_take_drop_id)
  moreover have "drop (length d) p = [] \<or> hd (drop (length d) p) = c"
    using l p by (cases "drop (length d) p = []") (auto simp: hd_drop_conv_nth)
  ultimately show "\<exists>r. p = d @ r \<and> (r = [] \<or> hd r = c)" by blast
next
  assume "\<exists>r. p = d @ r \<and> (r = [] \<or> hd r = c)"
  then obtain r where "p = d @ r" "r = [] \<or> hd r = c" by blast
  then show "take (length d) p = d \<and> (length p = length d \<or> p ! length d = c)"
    by (cases r) auto
qed

lemma deny_level_below_appdata: "deny_level path = (if below_appdata path then 4 else 0)"
proof -
  have "deny_level path =
      (if take (length ''/storage/Users/currentUser/appdata'') path = ''/storage/Users/currentUser/appdata'' \<and>
          (length path = length ''/storage/Users/currentUser/appdata'' \<or>
           path ! length ''/storage/Users/currentUser/appdata'' = CHR ''/'')
       then 4 else 0)"
    by (simp only: deny_level_def DENIED_PATHS_def fold_simps prod.case comp_def id_def)
  also have "\<dots> = (if below_appdata path then 4 else 0)"
    by (simp only: below_appdata_def starts_with_component)
  finally show ?thesis .
qed

lemma CheckPath_walk_shallowest:
  "CheckPath_walk mode True need cur segs t =
     grants mode (shallowest (drop (need - 1 - cur) (map fst (marks t (key_path t segs)))))"
proof (induction segs arbitrary: t cur)
  case Nil
  then show ?case by (simp add: marks_def grants_def)
next
  case (Cons s ss)
  show ?case
  proof (cases "child t (key_in t s)")
    case None
    then show ?thesis
      by (cases "need - 1 - cur") (auto simp: marks_Cons policy_at_def grants_def Let_def)
  next
    case (Some c)
    have c: "child_or (fresh_inheriting t) t (key_in t s) = c" using Some by (simp add: child_or_def)
    have p: "policy_at t [key_in t s] = policy_at c []"
      using Some by (simp add: policy_at_def)
    show ?thesis
    proof (cases "need - 1 - cur")
      case 0
      then have "need \<le> Suc cur" "need - 1 - Suc cur = 0" by simp_all
      with 0 Some c p show ?thesis
        by (auto simp: marks_Cons Cons.IH at_Nil grants_def Let_def)
    next
      case (Suc n)
      then have "\<not> need \<le> Suc cur" "need - 1 - Suc cur = n" by simp_all
      with Suc Some c show ?thesis by (simp add: marks_Cons Cons.IH Let_def)
    qed
  qed
qed

text \<open>C5: the decision of the retired check \<open>CheckPath\<close>, for every trie and path: the shallowest mode
  stored on the path decides, deny marks play no part, and for a path that is or lies below
  /storage/Users/currentUser/appdata only the modes stored from the fourth component on count. The
  current check, \<open>CheckPathNew\<close>, differs in both: a deny mark cuts off what lies above it, and the
  built-in list is not consulted.\<close>

theorem CheckPath_reference:
  "CheckPathMode path mode t =
     grants mode (shallowest (drop (if below_appdata path then 3 else 0)
       (map fst (marks t (key_path t (SplitPath path))))))"
  by (simp add: CheckPathMode_def CheckPathInternal_def CheckPath_walk_shallowest
      deny_level_below_appdata)

end
