(* ===== verification/Path_Checks.thy ===== *)
theory Path_Checks
  imports Path_Rules
begin

text \<open>
  The path and mode checks of \<open>policy_info_manager.cpp\<close> that need no state, the static half of
  \<open>SandboxParamValidator\<close>, the batch size rule and the masking of \<open>sandbox_manager_log.cpp\<close>.
\<close>

section \<open>Paths and depth\<close>

definition AdjustPath :: "string \<Rightarrow> string" where
  "AdjustPath path = (if path = [] then path else if last path = CHR ''/'' then butlast path else path)"

definition GetDepth :: "string \<Rightarrow> int" where
  "GetDepth path =
     (let inputPath = AdjustPath path; n = int (length (filter (\<lambda>c. c = CHR ''/'') inputPath))
      in if inputPath = [] then 0 else if last inputPath = CHR ''/'' then n - 1 else n)"

text \<open>\<open>PolicyInfoManager::IsPolicyMatch\<close>, with the filter of \<open>sandbox_manager_const.h\<close> (the trie's own
  filter has five bits).\<close>

definition READ_WRITE_FILTER :: u64 where "READ_WRITE_FILTER = 3"

definition IsPolicyMatch_depth :: "PolicyInfo \<Rightarrow> u64 \<Rightarrow> PolicyInfo \<Rightarrow> u64 \<Rightarrow> bool" where
  "IsPolicyMatch_depth searchPolicy searchDepth referPolicy referDepth =
     (if searchDepth \<noteq> referDepth \<and>
         \<not> (searchDepth > referDepth \<and> length (ppath referPolicy) \<le> length (ppath searchPolicy)) then False
      else
        let pathMatch =
              (if searchDepth = referDepth then ppath searchPolicy = ppath referPolicy
               else let referPath = ppath referPolicy @ ''/''
                    in substr (ppath searchPolicy) 0 (length referPath) = referPath);
            searchMode = pmode searchPolicy AND READ_WRITE_FILTER;
            referMode = pmode referPolicy AND READ_WRITE_FILTER;
            modeMatch =
              (if referMode = searchMode then True
               else if referMode > searchMode then referMode AND searchMode \<noteq> 0 else False)
        in pathMatch \<and> modeMatch)"

section \<open>Media paths, modes and validity\<close>

definition MEDIA_PATH_1 :: string where
  "MEDIA_PATH_1 = ''/data/storage/el2/media''"

definition IsMediaPolicy :: "string \<Rightarrow> bool" where
  "IsMediaPolicy path \<longleftrightarrow>
     length path \<ge> length MEDIA_PATH_1 \<and> substr path 0 (length MEDIA_PATH_1) = MEDIA_PATH_1"

definition IsModeMatchPolicyType :: "u64 \<Rightarrow> SetPolicyType \<Rightarrow> bool" where
  "IsModeMatchPolicyType mode ty =
     (let lowerBound = (if ty = DENY_POLICY then MAX_MODE else READ_MODE);
          upperBound = (if ty = DENY_POLICY then MAX_DENY_MODE else MAX_MODE)
      in mode \<ge> lowerBound \<and> mode < upperBound)"

definition CheckPolicyValidity :: "PolicyInfo \<Rightarrow> SetPolicyType \<Rightarrow> int" where
  "CheckPolicyValidity policy ty =
     (let len = u32_len (ppath policy)
      in if len = 0 \<or> len > of_nat POLICY_PATH_LIMIT then INVALID_PATH
         else if IsMediaPolicy (ppath policy) \<and>
                 (pmode policy < READ_MODE \<or> pmode policy > READ_MODE + WRITE_MODE) then INVALID_MODE
         else if \<not> IsModeMatchPolicyType (pmode policy) ty then INVALID_MODE
         else SANDBOX_MANAGER_OK)"

section \<open>The rules on components\<close>

definition ROOT_PATH :: string where "ROOT_PATH = ''/storage''"
definition ROOT_PATH_WITH_SLASH :: string where "ROOT_PATH_WITH_SLASH = ''/storage/''"
definition APPDATA_PATH_WITH_SLASH :: string where
  "APPDATA_PATH_WITH_SLASH = ''/storage/Users/currentUser/appdata/''"

definition IsAppDataPathPrefix :: "string list \<Rightarrow> bool" where
  "IsAppDataPathPrefix components =
     (if length components < 4 then False
      else components ! 0 = ''storage'' \<and> components ! 1 = ''Users'' \<and> components ! 2 = ''currentUser'' \<and>
           strcasecmp_eq (components ! 3) ''appdata'')"

definition CheckPathWithinBundleName :: "string \<Rightarrow> string \<Rightarrow> string list \<Rightarrow> bool" where
  "CheckPathWithinBundleName path bundleName components =
     (if bundleName = [] then False
      else if length components \<le> MAX_CHECK_COM_NUM then False
      else if components ! MAX_CHECK_COM_NUM \<noteq> bundleName then False
      else True)"

text \<open>\<open>"+clone-" index "+" name\<close>, reduced to the name.\<close>

definition RemoveClonePrefix :: "string \<Rightarrow> string" where
  "RemoveClonePrefix bundleName =
     (let pre = ''+clone-''
      in if starts_with bundleName pre then
           (case str_find_char bundleName (CHR ''+'') (length pre) of
              Some endPos \<Rightarrow> drop (endPos + 1) bundleName
            | None \<Rightarrow> bundleName)
         else bundleName)"

definition GenerateMaskedPath :: "string list \<Rightarrow> string" where
  "GenerateMaskedPath components =
     (if length components \<le> SUB_PATH_SEGMENT then ''invalid_path''
      else let subMask = substr (components ! SUB_PATH_SEGMENT) 0 3 @ ''*''
        in ''***'' @ components ! EL_LEVEL_SEGMENT @ ''/'' @ components ! BASE_SEGMENT @ ''/'' @
           components ! MAX_CHECK_COM_NUM @ ''/'' @ subMask)"

text \<open>The loop that rebuilds the path looked up in the share map.\<close>

fun share_path_loop :: "string list \<Rightarrow> string \<Rightarrow> nat \<Rightarrow> string \<Rightarrow> string" where
  "share_path_loop [] bundle i pathTmp = pathTmp"
| "share_path_loop (c # cs) bundle i pathTmp =
     share_path_loop cs bundle (Suc i)
       ((if i > EL_LEVEL_SEGMENT then pathTmp @ ''/'' else pathTmp) @
        (if i = MAX_CHECK_COM_NUM then bundle else c))"

definition share_path :: "string list \<Rightarrow> string" where
  "share_path components =
     share_path_loop (drop EL_LEVEL_SEGMENT components) (RemoveClonePrefix (components ! MAX_CHECK_COM_NUM))
       EL_LEVEL_SEGMENT APPDATA_PATH_WITH_SLASH"

definition SHARE_BUNDLE_UNSET :: u32 where "SHARE_BUNDLE_UNSET = - 3"
definition SHARE_PATH_UNSET :: u32 where "SHARE_PATH_UNSET = - 2"

text \<open>\<open>CheckShareMode\<close>: the decision and the text of the audit it writes.\<close>

definition CheckShareMode :: "u32 \<Rightarrow> u32 \<Rightarrow> bool \<times> string" where
  "CheckShareMode permission mode =
     (if permission = SHARE_BUNDLE_UNSET then (True, ''bundle_unset'')
      else if permission = SHARE_PATH_UNSET then (False, ''path_unset'')
      else if permission AND mode \<noteq> mode then (False, ''mode_mismatch'')
      else (True, ''successful''))"

definition ALLOWED_PREFIXES :: "string list" where
  "ALLOWED_PREFIXES =
     [''/storage/Users/currentUser/Music'', ''/storage/Users/currentUser/Images'',
      ''/storage/Users/currentUser/Videos'', ''/storage/External'', ''/storage/userExternal'']"

definition IsAllowedPath :: "string \<Rightarrow> bool" where
  "IsAllowedPath path =
     list_ex (\<lambda>pre. path = pre \<or>
       (length path > length pre \<and> substr path 0 (length pre) = pre \<and> path ! length pre = CHR ''/''))
     ALLOWED_PREFIXES"

text \<open>\<open>ValidateBasicPathRules\<close> of the validator: the rules before the bundle and share checks.\<close>

definition ValidateBasicPathRules :: "string \<Rightarrow> int" where
  "ValidateBasicPathRules path =
     (if path = ROOT_PATH then INVALID_PATH
      else if substr path 0 (length ROOT_PATH_WITH_SLASH) \<noteq> ROOT_PATH_WITH_SLASH then SANDBOX_MANAGER_OK
      else let components = splitPath path
        in if length components \<le> SECOND_PATH_SEGMENT then INVALID_PATH
           else if components ! 0 = ''storage'' \<and> components ! 1 = ''Users'' \<and>
                   components ! SECOND_PATH_SEGMENT \<noteq> ''currentUser'' then INVALID_PATH
           else if components ! 0 = ''storage'' \<and> components ! 1 = ''Users'' \<and>
                   length components \<le> MAX_CHECK_COM_NUM \<and> length components \<ge> 4 \<and>
                   strcasecmp_eq (components ! 3) ''appdata'' then INVALID_PATH
           else SANDBOX_MANAGER_OK)"

section \<open>Batches and masking\<close>

abbreviation (input) MAX_BATCH_COUNT_SHIFT :: nat where "MAX_BATCH_COUNT_SHIFT \<equiv> 5"
abbreviation (input) MAX_BATCH_COUNT :: u32 where "MAX_BATCH_COUNT \<equiv> 32"
abbreviation (input) NON_PERSIST_POLICY_BATCH_SIZE :: u32 where "NON_PERSIST_POLICY_BATCH_SIZE \<equiv> 200"
abbreviation (input) PERSIST_POLICY_BATCH_SIZE :: u32 where "PERSIST_POLICY_BATCH_SIZE \<equiv> 200000"

definition CalculateBatchSize :: "u32 \<Rightarrow> u32 \<Rightarrow> u32" where
  "CalculateBatchSize policyCount batchSize =
     (if batchSize = 0 then 1
      else if policyCount \<le> batchSize then policyCount
      else let dynamicBatchSize = drop_bit MAX_BATCH_COUNT_SHIFT policyCount;
               dynamicBatchSize' =
                 (if policyCount AND (MAX_BATCH_COUNT - 1) \<noteq> 0 then dynamicBatchSize + 1 else dynamicBatchSize)
        in max batchSize dynamicBatchSize')"

abbreviation (input) MAX_SANITIZE_KEEP :: nat where "MAX_SANITIZE_KEEP \<equiv> 6"

definition SanitizeName :: "string \<Rightarrow> nat \<Rightarrow> nat \<Rightarrow> string" where
  "SanitizeName str offset len =
     (let maskLength = (if len \<ge> MAX_SANITIZE_KEEP * 2 then len - MAX_SANITIZE_KEEP else (len + 1) div 2);
          keepLength = len - maskLength;
          maskStart = offset + (keepLength + 1) div 2
      in take maskStart str @ replicate maskLength (CHR ''*'') @ drop (maskStart + maskLength) str)"

function MaskRealPath_loop :: "string \<Rightarrow> nat \<Rightarrow> nat \<Rightarrow> nat \<Rightarrow> string \<times> nat" where
  "MaskRealPath_loop result len pos nameStart =
     (if pos < len then
        if result ! pos \<noteq> CHR ''/'' then MaskRealPath_loop result len (pos + 1) nameStart
        else MaskRealPath_loop
               (if pos > nameStart then SanitizeName result nameStart (pos - nameStart) else result)
               len (pos + 1) (pos + 1)
      else (result, nameStart))"
  by pat_completeness auto
termination by (relation "measure (\<lambda>(_, len, pos, _). len - pos)") auto

declare MaskRealPath_loop.simps [simp del]

definition MaskRealPath :: "string \<Rightarrow> string" where
  "MaskRealPath path =
     (let len = length path; (result, nameStart) = MaskRealPath_loop path len 0 0
      in if len > nameStart then SanitizeName result nameStart (len - nameStart) else result)"

end
