(* ===== verification/Checks_Spec.thy ===== *)
theory Checks_Spec
  imports Path_Checks
begin

text \<open>What the path and mode checks guarantee.\<close>

section \<open>Mode ranges\<close>

lemma u64_mask: "(31::u64) = mask 5" "(4095::u64) = mask 12" "(4064::u64) = mask 12 AND NOT (mask 5)"
  by (simp_all add: mask_eq_exp_minus_1)

lemma and_not_eq_0: "(m::u64) AND NOT a = 0 \<longleftrightarrow> m AND a = m"
  by (auto simp: bit_eq_iff bit_simps)

lemma and_mask_self: "(m::u64) AND mask n = m \<longleftrightarrow> unat m < 2 ^ n"
proof -
  have "m AND mask n = m \<longleftrightarrow> take_bit n (unat m) = unat m"
    by (metis take_bit_eq_mask unsigned_take_bit_eq word_unat_eq_iff)
  then show ?thesis by (simp add: take_bit_nat_eq_self_iff)
qed

lemma u64_pos: "(1 \<le> m) = (m \<noteq> (0::u64))"
  by (metis linorder_not_le word_less_1 word_neq_0_conv)

lemma low_bits_normal: "m AND 31 \<noteq> 0 \<and> m AND NOT 31 = 0 \<longleftrightarrow> 1 \<le> m \<and> m < (32::u64)"
proof -
  have "m AND 31 = m \<longleftrightarrow> m < 32"
    using and_mask_self [of m 5] by (simp add: u64_mask word_less_nat_alt)
  then show ?thesis unfolding and_not_eq_0 u64_pos by auto
qed

lemma deny_bits_range: "m AND 4064 \<noteq> 0 \<and> m AND NOT 4064 = 0 \<longleftrightarrow> 32 \<le> m \<and> m < (4096::u64) \<and> m AND 31 = 0"
proof -
  have small: "m AND 31 = m \<longleftrightarrow> m < 32" and big: "m AND 4095 = m \<longleftrightarrow> m < 4096"
    using and_mask_self [of m 5] and_mask_self [of m 12] by (simp_all add: u64_mask word_less_nat_alt)
  have "m AND 4064 = m \<longleftrightarrow> m AND 4095 = m \<and> m AND 31 = 0"
    unfolding u64_mask by (auto simp: bit_eq_iff bit_simps)
  moreover have "32 \<le> m \<longleftrightarrow> \<not> m AND 31 = m" by (simp add: small not_less)
  ultimately show ?thesis unfolding and_not_eq_0 big [symmetric] by auto
qed

text \<open>C14: The two mode checks of the validator against the range checks the operations enforce: for normal
  policies they accept the same modes; a deny mode is reported valid exactly when it is in the enforced deny
  range and has no normal bit, so that a mixed mode such as 33 is reported and still processed.\<close>

theorem mode_checks_agree:
  "(ValidateTempMode m = SANDBOX_MANAGER_OK \<longleftrightarrow> IsModeMatchPolicyType m NORMAL_POLICY) \<and>
   (ValidateDenyMode m = SANDBOX_MANAGER_OK \<longleftrightarrow> IsModeMatchPolicyType m DENY_POLICY \<and> m AND 31 = 0)"
  using low_bits_normal [of m] deny_bits_range [of m]
  by (auto simp: ValidateTempMode_def ValidateDenyMode_def IsModeMatchPolicyType_def Let_def)

section \<open>Batch sizes\<close>

lemma and_31_mod: "unat ((n::u32) AND 31) = unat n mod 32"
proof -
  have "n AND 31 = take_bit 5 n" by (simp add: take_bit_eq_mask mask_eq_exp_minus_1)
  then have "unat (n AND 31) = take_bit 5 (unat n)" by (simp only: unsigned_take_bit_eq)
  then show ?thesis by (simp add: take_bit_eq_mod)
qed

lemma drop_5_div: "unat (drop_bit 5 (n::u32)) = unat n div 32"
  by (simp only: unat_drop_bit_eq) (simp add: drop_bit_eq_div)

lemma ceil_batch: "unat (n::u32) \<le> 32 * unat (if n AND 31 \<noteq> 0 then drop_bit 5 n + 1 else drop_bit 5 n)"
proof (cases "n AND 31 = 0")
  case True
  then have "unat n mod 32 = 0" using and_31_mod [of n] by simp
  then have "unat n = 32 * (unat n div 32)" by presburger
  with True show ?thesis by (simp add: drop_5_div)
next
  case False
  have "unat n < 4294967296" using unsigned_less [of n, where ?'a = nat] by simp
  then have "unat (drop_bit 5 n) < 134217728" by (simp add: drop_5_div)
  then have "unat (drop_bit 5 n + 1) = unat n div 32 + 1"
    by (subst unat_add_lem [THEN iffD1]) (simp_all add: drop_5_div)
  with False show ?thesis by simp
qed

text \<open>The batch size is at least one and never cuts a request into more than 32 batches, for every policy
  count and every configured batch size other than zero: the loop of \<open>ProcessPolicyBatch\<close> advances and is
  short.\<close>

theorem CalculateBatchSize_bounds:
  assumes "policyCount \<noteq> 0" "batchSize \<noteq> 0"
  shows "0 < CalculateBatchSize policyCount batchSize \<and>
         unat policyCount \<le> 32 * unat (CalculateBatchSize policyCount batchSize)"
proof (cases "policyCount \<le> batchSize")
  case True
  with assms show ?thesis by (auto simp: CalculateBatchSize_def word_neq_0_conv)
next
  case False
  let ?d = "if policyCount AND 31 \<noteq> 0 then drop_bit 5 policyCount + 1 else drop_bit 5 policyCount"
  have eq: "CalculateBatchSize policyCount batchSize = max batchSize ?d"
    using False assms by (simp add: CalculateBatchSize_def Let_def)
  have "unat ?d \<le> unat (max batchSize ?d)" by (simp add: word_le_nat_alt [symmetric])
  with ceil_batch [of policyCount] have "unat policyCount \<le> 32 * unat (max batchSize ?d)" by linarith
  moreover have "0 < max batchSize ?d" using assms by (simp add: less_max_iff_disj word_neq_0_conv)
  ultimately show ?thesis by (simp only: eq)
qed

text \<open>Applied to 6700 policies with the non-persist batch size: 210 policies a batch.\<close>

theorem CalculateBatchSize_bounds_witness:
  "CalculateBatchSize 6700 200 = 210 \<and> 0 < CalculateBatchSize 6700 200 \<and> (6700::nat) \<le> 32 * unat (CalculateBatchSize 6700 200)"
proof -
  have "CalculateBatchSize 6700 200 = 210" by code_simp
  moreover have "0 < CalculateBatchSize 6700 200 \<and> unat (6700::u32) \<le> 32 * unat (CalculateBatchSize 6700 200)"
    by (rule CalculateBatchSize_bounds) simp_all
  ultimately show ?thesis by simp
qed

section \<open>Splitting at most eight lines\<close>

lemma takeWhile_segment:
  "segment_ok s \<Longrightarrow> takeWhile (\<lambda>c. c \<noteq> CHR ''/'') (s @ CHR ''/'' # t) = s"
  "segment_ok s \<Longrightarrow> takeWhile (\<lambda>c. c \<noteq> CHR ''/'') s = s"
  by (auto simp: segment_ok_def takeWhile_eq_all_conv intro: takeWhile_append2 [of s, THEN trans])

text \<open>The names after the leading separator, as the loop meets them.\<close>

definition tail_text :: "string list \<Rightarrow> string" where
  "tail_text segs = drop 1 (render segs)"

lemma tail_text_simps:
  "tail_text [] = []" "tail_text [s] = s" "tail_text (s # t # ts) = s @ CHR ''/'' # tail_text (t # ts)"
  by (simp_all add: tail_text_def render_def)

lemma tail_text_nonempty: "list_all segment_ok (s # ss) \<Longrightarrow> tail_text (s # ss) \<noteq> []"
  by (cases ss) (auto simp: tail_text_simps segment_ok_def)

lemma loop_stops: "splitPath_loop n [] cs = cs"
  by (simp add: splitPath_loop.simps)

lemma loop_name:
  assumes "list_all segment_ok (s # ss)" "n < 7"
  shows "splitPath_loop n (tail_text (s # ss)) cs = splitPath_loop (Suc n) (tail_text ss) (cs @ [s])"
proof (cases ss)
  case Nil
  have "s \<noteq> []" using assms(1) by (simp add: segment_ok_def)
  with assms Nil show ?thesis
    by (subst splitPath_loop.simps) (simp add: tail_text_simps takeWhile_segment loop_stops Let_def)
next
  case (Cons t ts)
  have "s \<noteq> []" using assms(1) by (simp add: segment_ok_def)
  with assms Cons show ?thesis
    by (subst splitPath_loop.simps) (simp add: tail_text_simps takeWhile_segment Let_def)
qed

lemma AddRemainingPath_empty: "AddRemainingPath [] cs = cs"
  by (simp add: AddRemainingPath_def)

lemma loop_last:
  assumes "list_all segment_ok (s # ss)"
  shows "splitPath_loop 7 (tail_text (s # ss)) cs = AddRemainingPath (tail_text ss) (cs @ [s])"
proof -
  have "s \<noteq> []" using assms(1) by (simp add: segment_ok_def)
  with assms show ?thesis
    by (cases ss) (subst splitPath_loop.simps, simp add: tail_text_simps takeWhile_segment Let_def)+
qed

lemma loop_names:
  assumes "list_all segment_ok segs" "n + length segs \<le> 7"
  shows "splitPath_loop n (tail_text segs) cs = cs @ segs"
  using assms
proof (induction segs arbitrary: n cs)
  case (Cons s ss)
  then show ?case using loop_name [of s ss n cs] by simp
qed (simp add: tail_text_simps loop_stops)

lemma splitPath_render_start:
  assumes "segs \<noteq> []" "list_all segment_ok segs"
  shows "splitPath (render segs) = splitPath_loop 1 (tail_text segs) []"
proof -
  obtain s ss where "segs = s # ss" using assms(1) by (cases segs) auto
  then have "render segs = CHR ''/'' # tail_text segs" by (simp add: tail_text_def render_def)
  then show ?thesis by (simp add: splitPath_def splitPath_loop.simps [of 0] Let_def)
qed

lemma loop_take:
  assumes "list_all segment_ok segs" "n + k \<le> 7" "k \<le> length segs"
  shows "splitPath_loop n (tail_text segs) cs = splitPath_loop (n + k) (tail_text (drop k segs)) (cs @ take k segs)"
  using assms
proof (induction k arbitrary: n segs cs)
  case (Suc k)
  then obtain s ss where segs: "segs = s # ss" by (cases segs) auto
  with Suc.prems have "splitPath_loop n (tail_text segs) cs = splitPath_loop (Suc n) (tail_text ss) (cs @ [s])"
    using loop_name [of s ss n cs] by simp
  also have "\<dots> = splitPath_loop (Suc n + k) (tail_text (drop k ss)) ((cs @ [s]) @ take k ss)"
    using Suc.prems segs by (intro Suc.IH) auto
  finally show ?case by (simp add: segs)
qed simp

lemma splitPath_canonical_lemma:
  assumes "segs \<noteq> []" "list_all canonical_name segs"
  shows "splitPath (render segs) =
    (if length segs \<le> 7 then segs
     else AddRemainingPath (drop 1 (render (drop 7 segs))) (take 7 segs))"
proof -
  note ok = canonical_segments [OF assms(2)]
  show ?thesis
  proof (cases "length segs \<le> 6")
    case True
    then show ?thesis using loop_names [OF ok, of 1 "[]"] splitPath_render_start [OF assms(1) ok] by simp
  next
    case False
    then obtain s ss where drop: "drop 6 segs = s # ss" by (cases "drop 6 segs") auto
    have "list_all segment_ok (drop 6 segs)" using ok by (auto simp: list_all_iff dest: in_set_dropD)
    then have okd: "list_all segment_ok (s # ss)" by (simp only: drop)
    have split: "splitPath (render segs) = AddRemainingPath (tail_text ss) (take 6 segs @ [s])"
      using loop_take [OF ok, of 1 6 "[]"] False loop_last [OF okd] splitPath_render_start [OF assms(1) ok]
      by (simp add: drop)
    have t7: "take 7 segs = take 6 segs @ [s]" using take_add [of 6 1 segs] by (simp add: drop)
    have d7: "drop 7 segs = ss" using drop_drop [of 1 6 segs] by (simp add: drop)
    have "length segs = 7 \<Longrightarrow> ss = [] \<and> segs = take 6 segs @ [s]" using t7 d7 by auto
    then have "length segs = 7 \<Longrightarrow> splitPath (render segs) = segs"
      using split by (metis AddRemainingPath_empty tail_text_simps(1))
    moreover have "length segs \<noteq> 7 \<Longrightarrow> \<not> length segs \<le> 7" using False by simp
    ultimately show ?thesis using split by (auto simp: t7 d7 tail_text_def)
  qed
qed

text \<open>On canonical paths the component splitter returns the names of the path up to the seventh, and, for
  longer paths, the text after the seventh name up to a newline as an eighth component.\<close>

theorem splitPath_canonical:
  assumes "segs \<noteq> []" "list_all canonical_name segs"
  shows "splitPath (render segs) =
    (if length segs \<le> 7 then segs
     else AddRemainingPath (drop 1 (render (drop 7 segs))) (take 7 segs))"
  by (rule splitPath_canonical_lemma [OF assms])

section \<open>The storage rules on canonical paths\<close>

lemma segment_prefix_iff:
  assumes "segment_ok s" "segment_ok k"
  shows "take (Suc (length k)) (s @ CHR ''/'' # r) = k @ ''/'' \<longleftrightarrow> s = k"
proof
  assume t: "take (Suc (length k)) (s @ CHR ''/'' # r) = k @ ''/''"
  define r' where "r' = drop (Suc (length k)) (s @ CHR ''/'' # r)"
  have "s @ CHR ''/'' # r = (k @ ''/'') @ r'" unfolding r'_def t [symmetric] by (simp only: append_take_drop_id)
  then have "takeWhile (\<lambda>c. c \<noteq> CHR ''/'') (s @ CHR ''/'' # r) = takeWhile (\<lambda>c. c \<noteq> CHR ''/'') (k @ CHR ''/'' # r')"
    by simp
  then show "s = k" by (simp add: takeWhile_segment assms)
qed simp

lemma single_no_prefix: "segment_ok s \<Longrightarrow> take n s \<noteq> k @ ''/''"
  by (metis in_set_conv_decomp in_set_takeD segment_ok_def)

lemma storage_segments: "segment_ok ''storage''" "length ROOT_PATH_WITH_SLASH = 9"
  "ROOT_PATH_WITH_SLASH = CHR ''/'' # ''storage'' @ ''/''" "ROOT_PATH = render [''storage'']"
  by (auto simp: segment_ok_def ROOT_PATH_WITH_SLASH_def ROOT_PATH_def render_def)

lemma storage_prefix:
  assumes "segs \<noteq> []" "list_all segment_ok segs"
  shows "substr (render segs) 0 (length ROOT_PATH_WITH_SLASH) = ROOT_PATH_WITH_SLASH \<longleftrightarrow>
    length segs \<ge> 2 \<and> hd segs = ''storage''"
proof -
  obtain s ss where segs: "segs = s # ss" using assms(1) by (cases segs) auto
  show ?thesis
  proof (cases ss)
    case Nil
    with segs assms single_no_prefix [of s 8 "''storage''"] show ?thesis
      by (simp add: substr_def storage_segments(2) render_def) (simp add: storage_segments(3))
  next
    case (Cons t ts)
    have "take 8 (s @ CHR ''/'' # t @ concat (map ((#) CHR ''/'') ts)) = ''storage/'' \<longleftrightarrow> s = ''storage''"
      using segs assms segment_prefix_iff [of s "''storage''"] storage_segments(1)
      by (simp add: eval_nat_numeral del: take_append)
    with segs Cons show ?thesis
      by (simp add: substr_def storage_segments(2) render_def) (simp add: storage_segments(3))
  qed
qed

lemma split_length_canonical:
  assumes "segs \<noteq> []" "list_all canonical_name segs"
  shows "length segs \<le> 7 \<longrightarrow> splitPath (render segs) = segs"
    and "length segs > 7 \<longrightarrow> length (splitPath (render segs)) > 6 \<and> take 7 (splitPath (render segs)) = take 7 segs"
proof -
  let ?sp = "splitPath (render segs)"
  have eq: "?sp = (if length segs \<le> 7 then segs
      else AddRemainingPath (drop 1 (render (drop 7 segs))) (take 7 segs))"
    using splitPath_canonical_lemma [OF assms] .
  then show "length segs \<le> 7 \<longrightarrow> ?sp = segs" by simp
  from eq show "length segs > 7 \<longrightarrow> length ?sp > 6 \<and> take 7 ?sp = take 7 segs"
    by (auto simp: AddRemainingPath_def Let_def)
qed

lemma split_nth_canonical:
  assumes "segs \<noteq> []" "list_all canonical_name segs"
  shows "length (splitPath (render segs)) \<le> 6 \<longleftrightarrow> length segs \<le> 6"
    and "k \<le> 7 \<Longrightarrow> length (splitPath (render segs)) \<ge> k \<longleftrightarrow> length segs \<ge> k"
    and "i < 7 \<Longrightarrow> i < length segs \<Longrightarrow> splitPath (render segs) ! i = segs ! i"
proof -
  note sl = split_length_canonical [OF assms]
  show "length (splitPath (render segs)) \<le> 6 \<longleftrightarrow> length segs \<le> 6" using sl by (cases "length segs \<le> 7") auto
  show "k \<le> 7 \<Longrightarrow> length (splitPath (render segs)) \<ge> k \<longleftrightarrow> length segs \<ge> k"
    using sl by (cases "length segs \<le> 7") auto
  show "i < 7 \<Longrightarrow> i < length segs \<Longrightarrow> splitPath (render segs) ! i = segs ! i"
    using sl by (cases "length segs \<le> 7") (auto, metis not_le nth_take)
qed

text \<open>Which canonical paths the rules before the bundle and share checks refuse.\<close>

definition storage_refused :: "string list \<Rightarrow> bool" where
  "storage_refused segs \<longleftrightarrow>
     hd segs = ''storage'' \<and>
     (length segs \<le> 2 \<or>
      segs ! 1 = ''Users'' \<and>
        (segs ! 2 \<noteq> ''currentUser'' \<or>
         4 \<le> length segs \<and> length segs \<le> 6 \<and> strcasecmp_eq (segs ! 3) ''appdata''))"

lemma root_path_iff:
  assumes "list_all segment_ok segs"
  shows "render segs = ROOT_PATH \<longleftrightarrow> segs = [''storage'']"
proof
  assume "render segs = ROOT_PATH"
  then have "segments_of [] (render segs) = segments_of [] (render [''storage''])"
    by (simp only: storage_segments(4))
  moreover have "segments_of [] (render segs) = segs" using segments_of_render [OF assms, of "[]"] by simp
  moreover have "segments_of [] (render [''storage'']) = [''storage'']"
    by code_simp
  ultimately show "segs = [''storage'']" by (simp only:)
qed (simp only: storage_segments(4))

text \<open>C9: On canonical paths the basic rules refuse exactly: the storage root and its direct children, user
  directories other than currentUser, and everything from the appdata directory (in any spelling) down to
  two levels below it.\<close>

theorem ValidateBasicPathRules_canonical:
  assumes "segs \<noteq> []" "list_all canonical_name segs"
  shows "ValidateBasicPathRules (render segs) =
    (if storage_refused segs then INVALID_PATH else SANDBOX_MANAGER_OK)"
proof -
  note ok = canonical_segments [OF assms(2)]
  note nth = split_nth_canonical [OF assms]
  show ?thesis
  proof (cases "length segs \<ge> 2 \<and> hd segs = ''storage''")
    case False
    have "hd segs = ''storage'' \<Longrightarrow> segs = [''storage'']"
      using False assms(1) by (cases segs) (auto simp: Suc_le_eq)
    then have "storage_refused segs \<longleftrightarrow> segs = [''storage'']" by (auto simp: storage_refused_def)
    with False show ?thesis
      by (simp add: ValidateBasicPathRules_def storage_prefix [OF assms(1) ok] root_path_iff [OF ok])
  next
    case True
    let ?sp = "splitPath (render segs)"
    have len: "length ?sp \<le> 2 \<longleftrightarrow> length segs \<le> 2"
      using nth(2) [of 3] by linarith
    have hd: "?sp ! 0 = ''storage''" using True nth(3) [of 0] assms(1) by (simp add: hd_conv_nth)
    have nths: "length segs > 2 \<Longrightarrow> ?sp ! 1 = segs ! 1 \<and> ?sp ! 2 = segs ! 2"
      "4 \<le> length segs \<Longrightarrow> ?sp ! 3 = segs ! 3"
      using nth(3) [of 1] nth(3) [of 2] nth(3) [of 3] by auto
    have "segs \<noteq> [''storage'']" using True by auto
    with True len hd nths nth(1) nth(2) [of 4] show ?thesis
      by (auto simp: ValidateBasicPathRules_def storage_prefix [OF assms(1) ok] root_path_iff [OF ok]
          storage_refused_def Let_def not_le)
  qed
qed

text \<open>At \<open>/storage/Users/currentUser/AppData/el2\<close>.\<close>

theorem ValidateBasicPathRules_canonical_witness:
  "ValidateBasicPathRules (render [''storage'', ''Users'', ''currentUser'', ''AppData'', ''el2'']) = INVALID_PATH"
proof -
  have c: "list_all canonical_name [''storage'', ''Users'', ''currentUser'', ''AppData'', ''el2'']"
    by code_simp
  have r: "storage_refused [''storage'', ''Users'', ''currentUser'', ''AppData'', ''el2'']" by code_simp
  from ValidateBasicPathRules_canonical [OF _ c] r show ?thesis by simp
qed

text \<open>The splitter on a path of nine names.\<close>

theorem splitPath_canonical_witness:
  "splitPath (render [''a'', ''b'', ''c'', ''d'', ''e'', ''f'', ''g'', ''h'', ''i'']) =
     [''a'', ''b'', ''c'', ''d'', ''e'', ''f'', ''g'', ''h/i'']"
proof -
  have c: "list_all canonical_name [''a'', ''b'', ''c'', ''d'', ''e'', ''f'', ''g'', ''h'', ''i'']" by code_simp
  from splitPath_canonical [OF _ c]
  have "splitPath (render [''a'', ''b'', ''c'', ''d'', ''e'', ''f'', ''g'', ''h'', ''i'']) =
      AddRemainingPath (drop 1 (render (drop 7 [''a'', ''b'', ''c'', ''d'', ''e'', ''f'', ''g'', ''h'', ''i''])))
        (take 7 [''a'', ''b'', ''c'', ''d'', ''e'', ''f'', ''g'', ''h'', ''i''])"
    by simp
  also have "\<dots> = [''a'', ''b'', ''c'', ''d'', ''e'', ''f'', ''g'', ''h/i'']" by code_simp
  finally show ?thesis .
qed

section \<open>Masked paths in the logs\<close>

definition mask_name :: "string \<Rightarrow> string" where
  "mask_name s = SanitizeName s 0 (length s)"

text \<open>Every name masked, the separators kept.\<close>

fun mask_text :: "string \<Rightarrow> string \<Rightarrow> string" where
  "mask_text cur [] = mask_name cur"
| "mask_text cur (c # cs) =
     (if c = CHR ''/'' then mask_name cur @ CHR ''/'' # mask_text [] cs else mask_text (cur @ [c]) cs)"

lemma mask_name_Nil [simp]: "mask_name [] = []"
  by (simp add: mask_name_def SanitizeName_def)

lemma mask_amount: "(if n \<ge> 12 then n - 6 else (n + 1) div 2) \<le> (n::nat)"
  by auto

lemma SanitizeName_middle: "SanitizeName (pre @ cur @ post) (length pre) (length cur) = pre @ mask_name cur @ post"
proof -
  define m where "m = (if length cur \<ge> MAX_SANITIZE_KEEP * 2 then length cur - MAX_SANITIZE_KEEP else (length cur + 1) div 2)"
  define k where "k = (length cur - m + 1) div 2"
  have "m \<le> length cur" using mask_amount [of "length cur"] by (simp add: m_def)
  then have "k + m \<le> length cur" unfolding k_def by linarith
  then show ?thesis
    by (simp add: SanitizeName_def mask_name_def Let_def flip: m_def k_def)
qed

lemma mask_name_shape:
  "\<exists>k m. mask_name s = take k s @ replicate m (CHR ''*'') @ drop (k + m) s \<and> k + m \<le> length s \<and>
      length s - m \<le> 6 \<and> 2 * (length s - m) \<le> length s"
proof -
  let ?m = "if length s \<ge> 12 then length s - 6 else (length s + 1) div 2"
  let ?k = "(length s - ?m + 1) div 2"
  have "mask_name s = take ?k s @ replicate ?m (CHR ''*'') @ drop (?k + ?m) s"
    by (simp add: mask_name_def SanitizeName_def Let_def)
  moreover have "?k + ?m \<le> length s \<and> length s - ?m \<le> 6 \<and> 2 * (length s - ?m) \<le> length s" by auto
  ultimately show ?thesis by blast
qed

lemma mask_name_length [simp]: "length (mask_name s) = length s"
  using mask_name_shape [of s] by auto

definition mask_last :: "nat \<Rightarrow> string \<times> nat \<Rightarrow> string" where
  "mask_last len rn = (if len > snd rn then SanitizeName (fst rn) (snd rn) (len - snd rn) else fst rn)"

lemma mask_loop:
  assumes "CHR ''/'' \<notin> set cur"
  shows "mask_last (length pre + length cur + length post)
     (MaskRealPath_loop (pre @ cur @ post) (length pre + length cur + length post) (length pre + length cur) (length pre)) =
     pre @ mask_text cur post"
  using assms
proof (induction post arbitrary: pre cur)
  case Nil
  then show ?case
    using SanitizeName_middle [of pre cur "[]"]
    by (subst MaskRealPath_loop.simps) (auto simp: mask_last_def)
next
  case (Cons c cs)
  show ?case
  proof (cases "c = CHR ''/''")
    case False
    with Cons.IH [of "cur @ [c]" pre] Cons.prems show ?thesis
      by (subst MaskRealPath_loop.simps) (simp add: nth_append)
  next
    case True
    have sn: "SanitizeName (pre @ cur @ CHR ''/'' # cs) (length pre) (length cur) = pre @ mask_name cur @ CHR ''/'' # cs"
      using SanitizeName_middle [of pre cur "CHR ''/'' # cs"] by simp
    from True Cons.IH [of "[]" "pre @ mask_name cur @ [c]"] sn show ?thesis
      by (subst MaskRealPath_loop.simps) (cases cur; simp add: nth_append)
  qed
qed

text \<open>C15: Logged paths are masked name by name: the loop of \<open>MaskRealPath\<close> keeps the separators, replaces the
  middle of every name by asterisks and never leaves more than six characters of a name, nor more than half.\<close>

theorem MaskRealPath_masks_names:
  "MaskRealPath path = mask_text [] path \<and>
   (\<exists>k m. mask_name s = take k s @ replicate m (CHR ''*'') @ drop (k + m) s \<and> k + m \<le> length s \<and>
      length s - m \<le> 6 \<and> 2 * (length s - m) \<le> length s)"
  using mask_loop [of "[]" "[]" path] mask_name_shape [of s]
  by (simp add: MaskRealPath_def mask_last_def Let_def case_prod_beta)

end
