(* ===== verification/Raw_Spec.thy ===== *)
theory Raw_Spec
  imports Raw_Vectors
begin

text \<open>Round trips, bounds and the agreement of the batch reader with the plain reader.\<close>

section \<open>Round trips\<close>

lemma raw_stream_of: "length s < 2 ^ 32 \<Longrightarrow> raw_stream (raw_of s) = s"
  by (simp add: raw_stream_def raw_of_def unat_of_nat_u32)

lemma get_count: "get_u32 (put_u32 n @ r) = Some (n, r)"
  using unsigned_less [of n, where ?'a = nat]
  by (simp add: get_u32_def put_u32_def get_bytes_exact le_value_bytes)

lemma count_small: "n \<le> k \<Longrightarrow> k < 4294967296 \<Longrightarrow> unat (of_nat n :: u32) = n \<and> \<not> (of_nat n :: u32) > of_nat k"
  by (simp add: unat_of_nat_u32 word_less_nat_alt)

text \<open>The vectors whose marshalled form fits a buffer.\<close>

definition fits_buffer :: "('a \<Rightarrow> string) \<Rightarrow> 'a list \<Rightarrow> bool" where
  "fits_buffer enc xs \<longleftrightarrow> 4 + length (concat (map enc xs)) < 2 ^ 32"

lemma fits_stream:
  assumes "fits_buffer enc xs"
  shows "raw_stream (raw_of (put_u32 n @ concat (map enc xs))) = put_u32 n @ concat (map enc xs)"
  using assms by (intro raw_stream_of) (simp add: fits_buffer_def)

lemma fits_payload: "fits_buffer enc xs \<Longrightarrow> length (concat (map enc xs) @ []) < 2 ^ 32"
  by (simp add: fits_buffer_def)

lemma put_text_length: "length s < 2 ^ 32 \<Longrightarrow> length (put_text s) = 4 + length s"
  by (simp add: put_text_small)

text \<open>C10: Marshalling a vector of policies and unmarshalling it gives the vector back, paths with null bytes
  included; the same for permission states and for shared directories, up to the limits of the readers.\<close>

theorem vectors_roundtrip:
  "(length ps \<le> POLICY_VEC_MAX_NUM \<and> fits_buffer put_policy ps \<and> list_all (\<lambda>p. length (ppath p) < 2 ^ 32) ps \<longrightarrow>
      PolicyVec_Unmarshalling (snd (PolicyVec_Marshalling ps)) [] = (SANDBOX_MANAGER_OK, ps)) \<and>
   (length ss \<le> 10000 \<and> fits_buffer WriteSingleInfo ss \<and> list_all (\<lambda>i. length (ppath (ps_policyInfo i)) < 2 ^ 32) ss \<longrightarrow>
      StatusVec_Unmarshalling (snd (StatusVec_Marshalling ss d)) [] = (SANDBOX_MANAGER_OK, ss)) \<and>
   (length ds \<le> 10000 \<and> fits_buffer put_shared ds \<and>
      list_all (shared_fits (of_nat (4 + length (concat (map put_shared ds))))) ds \<longrightarrow>
      SharedDirVec_Unmarshalling (snd (SharedDirVec_Marshalling ds d)) [] = (SANDBOX_MANAGER_OK, ds))"
proof (intro conjI impI; elim conjE)
  assume a: "length ps \<le> POLICY_VEC_MAX_NUM" "fits_buffer put_policy ps" "list_all (\<lambda>p. length (ppath p) < 2 ^ 32) ps"
  note n = count_small [OF a(1)]
  have "read_list get_policy (length ps) (concat (map put_policy ps)) [] = (SANDBOX_MANAGER_OK, ps)"
    using policyc.read_list_enc [OF a(3) fits_payload [OF a(2)], of "[]"] by simp
  with n show "PolicyVec_Unmarshalling (snd (PolicyVec_Marshalling ps)) [] = (SANDBOX_MANAGER_OK, ps)"
    by (simp add: PolicyVec_Unmarshalling_def PolicyVec_Marshalling_def Let_def fits_stream [OF a(2)] get_count)
next
  assume a: "length ss \<le> 10000" "fits_buffer WriteSingleInfo ss" "list_all (\<lambda>i. length (ppath (ps_policyInfo i)) < 2 ^ 32) ss"
  note n = count_small [OF a(1)]
  have "read_list ReadSingleInfo (length ss) (concat (map WriteSingleInfo ss)) [] = (SANDBOX_MANAGER_OK, ss)"
    using statusc.read_list_enc [OF a(3) fits_payload [OF a(2)], of "[]"] by simp
  with n show "StatusVec_Unmarshalling (snd (StatusVec_Marshalling ss d)) [] = (SANDBOX_MANAGER_OK, ss)"
    by (simp add: StatusVec_Unmarshalling_def StatusVec_Marshalling_def Let_def fits_stream [OF a(2)] get_count)
next
  let ?n = "of_nat (4 + length (concat (map put_shared ds))) :: u32"
  assume a: "length ds \<le> 10000" "fits_buffer put_shared ds" "list_all (shared_fits ?n) ds"
  note n = count_small [OF a(1)]
  have size: "rd_size (raw_of (put_u32 m @ concat (map put_shared ds))) = ?n" for m by (simp add: raw_of_def)
  have "read_list (get_shared ?n) (length ds) (concat (map put_shared ds)) [] = (SANDBOX_MANAGER_OK, ds)"
    using sharedc.read_list_enc [OF a(3) fits_payload [OF a(2)], of "[]"] by simp
  with n show "SharedDirVec_Unmarshalling (snd (SharedDirVec_Marshalling ds d)) [] = (SANDBOX_MANAGER_OK, ds)"
    by (simp add: SharedDirVec_Unmarshalling_def SharedDirVec_Marshalling_def Let_def fits_stream [OF a(2)]
        get_count size del: of_nat_add)
qed

theorem vectors_roundtrip_witness:
  "PolicyVec_Unmarshalling (snd (PolicyVec_Marshalling
      [\<lparr>ppath = ''/a'', pmode = 3, ptype = 2\<rparr>, \<lparr>ppath = ''/b/c'', pmode = 1, ptype = 0\<rparr>])) [] =
     (SANDBOX_MANAGER_OK, [\<lparr>ppath = ''/a'', pmode = 3, ptype = 2\<rparr>, \<lparr>ppath = ''/b/c'', pmode = 1, ptype = 0\<rparr>])"
proof -
  let ?ps = "[\<lparr>ppath = ''/a'', pmode = 3, ptype = 2\<rparr>, \<lparr>ppath = ''/b/c'', pmode = 1, ptype = 0\<rparr>]"
  have "length ?ps \<le> POLICY_VEC_MAX_NUM \<and> fits_buffer put_policy ?ps \<and> list_all (\<lambda>p. length (ppath p) < 2 ^ 32) ?ps"
    by (simp add: fits_buffer_def put_policy_def put_text_length)
  then show ?thesis using conjunct1 [OF vectors_roundtrip [of ?ps "[]" "raw_of []" "[]"]] by blast
qed

section \<open>Bounds\<close>

text \<open>C11: Unmarshalling never allocates more than the buffer pays for: whatever the bytes are, at most
  300000 policies and at most one per sixteen bytes of the buffer are appended, exactly the declared number on
  success, and what was in the vector before stays in front.\<close>

theorem PolicyVec_Unmarshalling_bounds:
  assumes "PolicyVec_Unmarshalling d out = (ret, out')"
  shows "\<exists>ys. out' = out @ ys \<and> length ys \<le> POLICY_VEC_MAX_NUM \<and> 16 * length ys \<le> unat (rd_size d) \<and>
    (ret = SANDBOX_MANAGER_OK \<longrightarrow> length ys = le_value (take 4 (raw_stream d)))"
proof (cases "get_u32 (raw_stream d)")
  case None
  with assms show ?thesis by (auto simp: PolicyVec_Unmarshalling_def)
next
  case (Some nr)
  obtain n r where nr: "nr = (n, r)" by fastforce
  have r: "raw_stream d = take 4 (raw_stream d) @ r" and n: "n = of_nat (le_value (take 4 (raw_stream d)))"
    using Some nr by (auto simp: get_u32_def get_bytes_def split: if_splits)
  have "length (raw_stream d) \<le> unat (rd_size d)" by (simp add: raw_stream_def)
  with arg_cong [OF r, of length] have len: "length r \<le> unat (rd_size d)" by simp
  show ?thesis
  proof (cases "n > of_nat POLICY_VEC_MAX_NUM")
    case True
    with assms Some nr show ?thesis by (auto simp: PolicyVec_Unmarshalling_def)
  next
    case False
    then have small: "unat n \<le> POLICY_VEC_MAX_NUM" by (simp add: not_less word_le_nat_alt)
    have "read_list get_policy (unat n) r out = (ret, out')"
      using assms Some nr False by (simp add: PolicyVec_Unmarshalling_def)
    from policyc.read_list_bound [OF this] obtain ys where ys: "out' = out @ ys" "length ys \<le> unat n"
      "16 * length ys \<le> length r" "ret = SANDBOX_MANAGER_OK \<longrightarrow> length ys = unat n" by blast
    have "(256::nat) ^ length (take 4 (raw_stream d)) \<le> 256 ^ 4" by (rule power_increasing) simp_all
    then have "le_value (take 4 (raw_stream d)) < 2 ^ 32"
      using le_value_less [of "take 4 (raw_stream d)"] by simp
    then have "unat n = le_value (take 4 (raw_stream d))" by (simp add: n unat_of_nat_u32)
    with ys small len show ?thesis by (intro exI [of _ ys]) auto
  qed
qed

text \<open>A declared count of five over no entries.\<close>

theorem PolicyVec_Unmarshalling_bounds_witness:
  "\<exists>ys :: PolicyInfo list. [] = [] @ ys \<and> length ys \<le> POLICY_VEC_MAX_NUM \<and> 16 * length ys \<le> unat (rd_size (raw_of (put_u32 5))) \<and>
    (SANDBOX_MANAGER_SERVICE_PARCEL_ERR = SANDBOX_MANAGER_OK \<longrightarrow>
       length ys = le_value (take 4 (raw_stream (raw_of (put_u32 5)))))"
proof -
  have none: "get_policy [] = None" by (simp add: get_policy_def get_text_def get_u32_def get_bytes_def)
  have "read_list get_policy (Suc 4) [] [] = (SANDBOX_MANAGER_SERVICE_PARCEL_ERR, [])"
    unfolding read_list.simps none by simp
  moreover have "unat (5::u32) = Suc 4" by simp
  ultimately have "read_list get_policy (unat (5::u32)) [] [] = (SANDBOX_MANAGER_SERVICE_PARCEL_ERR, [])"
    by (simp only:)
  then have "PolicyVec_Unmarshalling (raw_of (put_u32 5)) [] = (SANDBOX_MANAGER_SERVICE_PARCEL_ERR, [])"
    using get_count [of 5 "[]"] raw_stream_of [of "put_u32 5"]
    by (simp add: PolicyVec_Unmarshalling_def)
  then show ?thesis by (rule PolicyVec_Unmarshalling_bounds)
qed

text \<open>C13: The readers of integer and boolean vectors have no such bound: a buffer that holds nothing but a count
  is accepted, and as many values as it declares are appended, all of them the content of an uninitialised
  variable.\<close>

theorem Uint32Vec_Unmarshalling_trusts_count:
  "Uint32Vec_Unmarshalling junk (raw_of (put_u32 n)) out =
     (SANDBOX_MANAGER_OK, out @ map junk [0..<unat n]) \<and>
   BoolVec_Unmarshalling bjunk (raw_of (put_u32 n)) bout =
     (SANDBOX_MANAGER_OK, bout @ map (\<lambda>i. bjunk i = CHR ''1'') [0..<unat n])"
proof -
  have s: "raw_stream (raw_of (put_u32 n)) = put_u32 n" by (intro raw_stream_of) simp
  have "of_nat (le_value (put_u32 n)) = n"
    using get_count [of n "[]"] by (simp add: get_u32_def get_bytes_def)
  then show ?thesis
    by (simp add: Uint32Vec_Unmarshalling_def BoolVec_Unmarshalling_def s read_count_def)
qed

section \<open>The batch reader\<close>

text \<open>A reader standing in front of the entries \<open>ps\<close>.\<close>

definition reader_at :: "batch_reader \<Rightarrow> PolicyInfo list \<Rightarrow> bool" where
  "reader_at rd ps \<longleftrightarrow> dataPtr rd = concat (map put_policy ps) \<and>
     unat (remainingSize rd) = length (dataPtr rd) \<and> list_all (\<lambda>p. length (ppath p) < 2 ^ 32) ps"

definition cut_policy :: "PolicyInfo \<Rightarrow> PolicyInfo" where
  "cut_policy p = p\<lparr>ppath := c_str (ppath p)\<rparr>"

lemma ReadTo_bytes:
  assumes "dataPtr rd = le_bytes k v @ r" "unat (remainingSize rd) = length (dataPtr rd)" "k < 256"
  shows "\<exists>rd'. ReadTo k rd = Some (v mod 256 ^ k, rd') \<and> dataPtr rd' = r \<and>
     unat (remainingSize rd') = length r \<and> isValid rd' = isValid rd \<and> policyCount rd' = policyCount rd"
proof -
  have k: "unat (of_nat k :: u32) = k" using assms(3) by (simp add: unat_of_nat_u32)
  have le: "(of_nat k :: u32) \<le> remainingSize rd" using assms by (simp add: word_le_nat_alt k)
  then have "unat (remainingSize rd - of_nat k) = length r"
    using assms by (simp add: unat_sub k)
  with le assms show ?thesis by (simp add: ReadTo_def not_less le_value_bytes)
qed

lemma ReadPolicy_at:
  assumes "reader_at rd (p # ps)"
  shows "\<exists>rd'. ReadPolicy rd = (Some (cut_policy p), rd') \<and> reader_at rd' ps \<and> isValid rd' = isValid rd"
proof -
  let ?len = "of_nat (length (ppath p)) :: u32"
  have ok: "length (ppath p) < 2 ^ 32" and rest: "list_all (\<lambda>p. length (ppath p) < 2 ^ 32) ps"
    using assms by (auto simp: reader_at_def)
  have len: "unat ?len = length (ppath p)" by (rule unat_of_nat_u32 [OF ok])
  have data: "dataPtr rd = le_bytes 4 (unat ?len) @ ppath p @ le_bytes 8 (unat (pmode p)) @
      le_bytes 4 (unat (ptype p)) @ concat (map put_policy ps)"
    and size: "unat (remainingSize rd) = length (dataPtr rd)"
    using assms ok by (auto simp: reader_at_def put_policy_def put_text_small put_u32_def put_u64_def)
  have mods: "unat ?len mod 256 ^ 4 = unat ?len" "unat (pmode p) mod 256 ^ 8 = unat (pmode p)"
    "unat (ptype p) mod 256 ^ 4 = unat (ptype p)"
    using unsigned_less [of ?len, where ?'a = nat] unsigned_less [of "pmode p", where ?'a = nat]
      unsigned_less [of "ptype p", where ?'a = nat] by simp_all
  obtain rd1 where r1: "ReadTo 4 rd = Some (unat ?len, rd1)"
    "dataPtr rd1 = ppath p @ le_bytes 8 (unat (pmode p)) @ le_bytes 4 (unat (ptype p)) @ concat (map put_policy ps)"
    "unat (remainingSize rd1) = length (dataPtr rd1)" "isValid rd1 = isValid rd"
    using ReadTo_bytes [OF data size] mods by auto
  let ?rd2 = "rd1\<lparr>dataPtr := drop (unat ?len) (dataPtr rd1), remainingSize := remainingSize rd1 - ?len\<rparr>"
  have le: "?len \<le> remainingSize rd1" unfolding word_le_nat_alt r1(3) len by (simp add: r1(2))
  have "dataPtr ?rd2 = le_bytes 8 (unat (pmode p)) @ le_bytes 4 (unat (ptype p)) @ concat (map put_policy ps)"
    and "unat (remainingSize ?rd2) = length (dataPtr ?rd2)"
    using le r1 len by (simp_all add: unat_sub)
  from ReadTo_bytes [OF this] mods obtain rd3 where r3: "ReadTo 8 ?rd2 = Some (unat (pmode p), rd3)"
    "dataPtr rd3 = le_bytes 4 (unat (ptype p)) @ concat (map put_policy ps)"
    "unat (remainingSize rd3) = length (dataPtr rd3)" "isValid rd3 = isValid rd"
    using r1(4) by auto
  from ReadTo_bytes [OF r3(2,3)] mods r3(4) obtain rd4 where r4: "ReadTo 4 rd3 = Some (unat (ptype p), rd4)"
    "dataPtr rd4 = concat (map put_policy ps)" "unat (remainingSize rd4) = length (dataPtr rd4)" "isValid rd4 = isValid rd"
    by auto
  have "ReadPolicy rd = (Some (cut_policy p), rd4)"
    using r1 r3(1) r4(1) le len by (simp add: ReadPolicy_def Let_def not_less cut_policy_def)
  with r4 rest show ?thesis by (auto simp: reader_at_def)
qed

lemma ReadPolicies_at:
  "reader_at rd (ps @ qs) \<Longrightarrow>
   \<exists>rd'. ReadPolicies (length ps) rd out = (SANDBOX_MANAGER_OK, out @ map cut_policy ps, rd') \<and>
         reader_at rd' qs \<and> isValid rd' = isValid rd"
proof (induction ps arbitrary: rd out)
  case (Cons p ps)
  then obtain rd1 where "ReadPolicy rd = (Some (cut_policy p), rd1)" "reader_at rd1 (ps @ qs)" "isValid rd1 = isValid rd"
    using ReadPolicy_at [of rd p "ps @ qs"] by auto
  with Cons.IH [of rd1 "out @ [cut_policy p]"] show ?case by auto
qed auto

lemma reader_start:
  assumes "length ps \<le> POLICY_VEC_MAX_NUM" "fits_buffer put_policy ps" "list_all (\<lambda>p. length (ppath p) < 2 ^ 32) ps"
  defines "rd \<equiv> PolicyVecBatchReader (snd (PolicyVec_Marshalling ps))"
  shows "isValid rd" "policyCount rd = of_nat (length ps)" "reader_at rd ps"
proof -
  let ?n = "of_nat (length ps) :: u32"
  let ?rd0 = "\<lparr>dataPtr = put_u32 ?n @ concat (map put_policy ps), remainingSize = of_nat (4 + length (concat (map put_policy ps))),
      policyCount = 0, isValid = False\<rparr> :: batch_reader"
  note n = count_small [OF assms(1)]
  have eq: "snd (PolicyVec_Marshalling ps) = raw_of (put_u32 ?n @ concat (map put_policy ps))"
    using n by (simp add: PolicyVec_Marshalling_def Let_def)
  have "unat (remainingSize ?rd0) = length (dataPtr ?rd0)"
    using assms(2) unat_of_nat_u32 [of "4 + length (concat (map put_policy ps))"]
    by (simp add: fits_buffer_def del: of_nat_add)
  from ReadTo_bytes [of ?rd0 4 "unat ?n" "concat (map put_policy ps)", OF _ this] n obtain rd' where
    r: "ReadTo 4 ?rd0 = Some (length ps, rd')" "dataPtr rd' = concat (map put_policy ps)"
    "unat (remainingSize rd') = length (concat (map put_policy ps))"
    using assms(1) by (auto simp: put_u32_def)
  have "rd = rd'\<lparr>policyCount := ?n, isValid := True\<rparr>"
    using n r(1) by (simp add: rd_def eq PolicyVecBatchReader_def raw_of_def Let_def del: of_nat_add)
  with r assms(3) show "isValid rd" "policyCount rd = of_nat (length ps)" "reader_at rd ps"
    by (auto simp: reader_at_def)
qed

text \<open>Reading a whole buffer in batches of the given sizes.\<close>

fun read_batches :: "nat list \<Rightarrow> batch_reader \<Rightarrow> (int \<times> PolicyInfo list) list" where
  "read_batches [] rd = []"
| "read_batches (k # ks) rd =
     (let (ret, ps, rd') = ReadNextBatch (of_nat k) rd in (ret, ps) # read_batches ks rd')"

fun slices :: "nat list \<Rightarrow> 'a list \<Rightarrow> 'a list list" where
  "slices [] xs = []"
| "slices (k # ks) xs = take k xs # slices ks (drop k xs)"

lemma read_batches_at:
  "reader_at rd ps \<Longrightarrow> isValid rd \<Longrightarrow> sum_list ks \<le> length ps \<Longrightarrow> length ps \<le> POLICY_VEC_MAX_NUM \<Longrightarrow>
   read_batches ks rd = map (\<lambda>qs. (SANDBOX_MANAGER_OK, map cut_policy qs)) (slices ks ps)"
proof (induction ks arbitrary: rd ps)
  case (Cons k ks)
  have k: "unat (of_nat k :: u32) = k" using Cons.prems by (intro unat_of_nat_u32) simp
  have len: "length (take k ps) = k" using Cons.prems(3) by simp
  obtain rd' where "ReadPolicies (length (take k ps)) rd [] = (SANDBOX_MANAGER_OK, [] @ map cut_policy (take k ps), rd')"
    "reader_at rd' (drop k ps)" "isValid rd'"
    using ReadPolicies_at [of rd "take k ps" "drop k ps" "[]"] Cons.prems(1,2) by auto
  then have "ReadNextBatch (of_nat k) rd = (SANDBOX_MANAGER_OK, map cut_policy (take k ps), rd')" "reader_at rd' (drop k ps)"
    "isValid rd'"
    using Cons.prems(2) k len by (simp_all add: ReadNextBatch_def)
  with Cons.IH [of rd' "drop k ps"] Cons.prems show ?case by simp
qed simp

text \<open>C12: On a marshalled vector the batch reader delivers, for every division into batches, exactly the
  consecutive slices of the vector, each path cut at its first null byte.\<close>

theorem batch_reader_slices:
  assumes "length ps \<le> POLICY_VEC_MAX_NUM" "fits_buffer put_policy ps" "list_all (\<lambda>p. length (ppath p) < 2 ^ 32) ps"
    and "sum_list ks \<le> length ps"
  shows "read_batches ks (PolicyVecBatchReader (snd (PolicyVec_Marshalling ps))) =
    map (\<lambda>qs. (SANDBOX_MANAGER_OK, map cut_policy qs)) (slices ks ps)"
  using read_batches_at [OF reader_start(3,1) assms(4,1)] assms(1-3) by blast

theorem batch_reader_slices_witness:
  "read_batches [1, 1] (PolicyVecBatchReader (snd (PolicyVec_Marshalling
      [\<lparr>ppath = ''/a'' @ [CHR 0x00] @ ''b'', pmode = 3, ptype = 2\<rparr>, \<lparr>ppath = ''/b/c'', pmode = 1, ptype = 0\<rparr>]))) =
   [(SANDBOX_MANAGER_OK, [\<lparr>ppath = ''/a'', pmode = 3, ptype = 2\<rparr>]),
    (SANDBOX_MANAGER_OK, [\<lparr>ppath = ''/b/c'', pmode = 1, ptype = 0\<rparr>])]"
proof -
  let ?ps = "[\<lparr>ppath = ''/a'' @ [CHR 0x00] @ ''b'', pmode = 3, ptype = 2\<rparr>, \<lparr>ppath = ''/b/c'', pmode = 1, ptype = 0\<rparr>]"
  have "length ?ps \<le> POLICY_VEC_MAX_NUM" "fits_buffer put_policy ?ps" "list_all (\<lambda>p. length (ppath p) < 2 ^ 32) ?ps"
    "sum_list [1, 1] \<le> length ?ps"
    by (simp_all add: fits_buffer_def put_policy_def put_text_length)
  from batch_reader_slices [OF this] show ?thesis by (simp add: cut_policy_def c_str_def)
qed

end
