(* ===== verification/Generic_Values.thy ===== *)
theory Generic_Values
  imports Policy_Types "HOL-Library.List_Lexorder"
begin

text \<open>
  \<open>services/common/database\<close>: \<open>VariantValue\<close> and \<open>GenericValues\<close>, the row type between the policy manager
  and the database, and the column kinds of \<open>sandbox_manager_rdb_utils.cpp\<close>.
\<close>

section \<open>VariantValue\<close>

datatype VariantValue = TYPE_NULL | TYPE_INT int | TYPE_INT64 int | TYPE_STRING string

definition DEFAULT_VALUE :: int where "DEFAULT_VALUE = - 1"

fun Variant_GetInt :: "VariantValue \<Rightarrow> int" where
  "Variant_GetInt (TYPE_INT i) = i"
| "Variant_GetInt _ = DEFAULT_VALUE"

fun Variant_GetInt64 :: "VariantValue \<Rightarrow> int" where
  "Variant_GetInt64 (TYPE_INT64 i) = i"
| "Variant_GetInt64 _ = DEFAULT_VALUE"

fun Variant_GetString :: "VariantValue \<Rightarrow> string" where
  "Variant_GetString (TYPE_STRING s) = s"
| "Variant_GetString _ = []"

section \<open>GenericValues\<close>

text \<open>\<open>std::map<std::string, VariantValue>\<close>: the entries in key order.\<close>

type_synonym GenericValues = "(string \<times> VariantValue) list"

text \<open>\<open>Put\<close> is \<open>map_.insert\<close>: a key that is present keeps its value.\<close>

fun gv_Put :: "string \<Rightarrow> VariantValue \<Rightarrow> GenericValues \<Rightarrow> GenericValues" where
  "gv_Put k v [] = [(k, v)]"
| "gv_Put k v ((k', v') # m) =
     (if k = k' then (k', v') # m
      else if k < k' then (k, v) # (k', v') # m
      else (k', v') # gv_Put k v m)"

definition gv_Get :: "GenericValues \<Rightarrow> string \<Rightarrow> VariantValue" where
  "gv_Get m k = (case map_of m k of None \<Rightarrow> TYPE_NULL | Some v \<Rightarrow> v)"

definition gv_GetInt :: "GenericValues \<Rightarrow> string \<Rightarrow> int" where
  "gv_GetInt m k = (case map_of m k of None \<Rightarrow> DEFAULT_VALUE | Some v \<Rightarrow> Variant_GetInt v)"

definition gv_GetInt64 :: "GenericValues \<Rightarrow> string \<Rightarrow> int" where
  "gv_GetInt64 m k = (case map_of m k of None \<Rightarrow> DEFAULT_VALUE | Some v \<Rightarrow> Variant_GetInt64 v)"

definition gv_GetString :: "GenericValues \<Rightarrow> string \<Rightarrow> string" where
  "gv_GetString m k = (case map_of m k of None \<Rightarrow> [] | Some v \<Rightarrow> Variant_GetString v)"

definition gv_GetAllKeys :: "GenericValues \<Rightarrow> string list" where
  "gv_GetAllKeys m = map fst m"

definition gv_Remove :: "string \<Rightarrow> GenericValues \<Rightarrow> GenericValues" where
  "gv_Remove k m = filter (\<lambda>e. fst e \<noteq> k) m"

section \<open>The map invariant\<close>

definition gv_ok :: "GenericValues \<Rightarrow> bool" where
  "gv_ok m \<longleftrightarrow> sorted_wrt (<) (map fst m)"

lemma gv_Put_keys: "set (map fst (gv_Put k v m)) = insert k (set (map fst m))"
  by (induction m rule: gv_Put.induct) auto

lemma gv_ok_Put: "gv_ok m \<Longrightarrow> gv_ok (gv_Put k v m)"
proof (induction k v m rule: gv_Put.induct)
  case (2 k v k' v' m)
  then have ok: "gv_ok m" and lt: "\<forall>x \<in> set (map fst m). k' < x" by (auto simp: gv_ok_def)
  show ?case
  proof (cases "k = k' \<or> k < k'")
    case True
    with 2 lt show ?thesis by (auto simp: gv_ok_def dest: order.strict_trans)
  next
    case False
    with 2 ok have "gv_ok (gv_Put k v m)" and "k' < k" by auto
    with lt False show ?thesis using gv_Put_keys [of k v m] by (auto simp: gv_ok_def)
  qed
qed (simp add: gv_ok_def)

lemma map_of_Put:
  "gv_ok m \<Longrightarrow> map_of (gv_Put k v m) x = (if x = k then (case map_of m k of None \<Rightarrow> Some v | Some w \<Rightarrow> Some w) else map_of m x)"
proof (induction k v m rule: gv_Put.induct)
  case (2 k v k' v' m)
  then have "gv_ok m" and lt: "\<forall>x \<in> set (map fst m). k' < x" by (auto simp: gv_ok_def)
  then have fresh: "k < k' \<Longrightarrow> map_of m k = None"
    by (metis map_of_eq_None_iff order.asym image_set)
  with 2 \<open>gv_ok m\<close> show ?case by auto
qed simp

text \<open>A value is read back only with the type it was stored with; any other reading gives \<open>-1\<close> or the empty text.\<close>

lemma gv_typed_reads:
  "gv_ok m \<Longrightarrow> map_of m k = None \<Longrightarrow>
   gv_GetInt (gv_Put k (TYPE_INT i) m) k = i \<and> gv_GetInt (gv_Put k (TYPE_INT64 i) m) k = - 1 \<and>
   gv_GetInt64 (gv_Put k (TYPE_INT64 i) m) k = i \<and> gv_GetInt64 (gv_Put k (TYPE_INT i) m) k = - 1 \<and>
   gv_GetString (gv_Put k (TYPE_STRING s) m) k = s"
  by (simp add: gv_GetInt_def gv_GetInt64_def gv_GetString_def map_of_Put DEFAULT_VALUE_def)

text \<open>Rows are built by putting columns into an empty map; the result does not depend on the order.\<close>

definition gv_of :: "(string \<times> VariantValue) list \<Rightarrow> GenericValues" where
  "gv_of cols = fold (\<lambda>(k, v). gv_Put k v) cols []"

lemma gv_ok_fold: "gv_ok m \<Longrightarrow> gv_ok (fold (\<lambda>(k, v). gv_Put k v) cols m)"
  by (induction cols arbitrary: m) (auto simp: gv_ok_Put)

lemma gv_ok_of [simp]: "gv_ok (gv_of cols)"
  unfolding gv_of_def by (rule gv_ok_fold) (simp add: gv_ok_def)

lemma map_of_fold_Put:
  "gv_ok m \<Longrightarrow> distinct (map fst cols) \<Longrightarrow> (\<forall>k \<in> set (map fst cols). map_of m k = None) \<Longrightarrow>
   map_of (fold (\<lambda>(k, v). gv_Put k v) cols m) x = (case map_of m x of Some v \<Rightarrow> Some v | None \<Rightarrow> map_of cols x)"
proof (induction cols arbitrary: m)
  case (Cons kv cols)
  obtain k v where kv: "kv = (k, v)" by fastforce
  have "map_of (fold (\<lambda>(k, v). gv_Put k v) cols (gv_Put k v m)) x =
      (case map_of (gv_Put k v m) x of Some v \<Rightarrow> Some v | None \<Rightarrow> map_of cols x)"
    using Cons.prems by (intro Cons.IH) (auto simp: kv gv_ok_Put map_of_Put)
  with Cons.prems show ?case by (auto simp: kv map_of_Put split: option.splits)
qed (simp split: option.splits)

lemma map_of_gv_of: "distinct (map fst cols) \<Longrightarrow> map_of (gv_of cols) x = map_of cols x"
  unfolding gv_of_def by (subst map_of_fold_Put) (auto simp: gv_ok_def)

lemma gv_keys_of: "set (gv_GetAllKeys (gv_of cols)) = set (map fst cols)"
proof -
  have "set (map fst (fold (\<lambda>(k, v). gv_Put k v) cols m)) = set (map fst m) \<union> set (map fst cols)" for m
  proof (induction cols arbitrary: m)
    case (Cons kv cols)
    obtain k v where "kv = (k, v)" by fastforce
    with Cons gv_Put_keys [of k v m] show ?case by auto
  qed simp
  from this [of "[]"] show ?thesis by (simp add: gv_of_def gv_GetAllKeys_def)
qed

end
