(* ===== verification/Sandbox_State.thy ===== *)
theory Sandbox_State
  imports Generic_Values "HOL-Library.Monad_Syntax"
begin

text \<open>
  The state of the service: one record with the members of the singletons \<open>MacAdapter\<close>,
  \<open>SandboxManagerRdb\<close>, \<open>SandboxManagerShare\<close>, \<open>SandboxManagerMedia\<close> and \<open>PolicyInfoManager\<close>, the
  events reported through the DFX helper, and the outside world. Everything the code calls that is not
  in the repository (kernel, RDB store, media library, token kit, bundle manager, cJSON) is a function
  of the record \<open>ext\<close> on an abstract world type; no definition gives it a behaviour.
\<close>

section \<open>Values exchanged with the outside\<close>

text \<open>\<open>struct PathInfo\<close> and \<open>struct SandboxPolicyInfo\<close> of \<open>mac_adapter.cpp\<close>.\<close>

record PathInfo =
  pi_path :: string
  pi_pathLen :: u32
  pi_mode :: u32

record SandboxPolicyInfo =
  spi_tokenId :: u64
  spi_timestamp :: u64
  spi_pathInfos :: "PathInfo list"
  spi_pathNum :: u32
  spi_userId :: int
  spi_persist :: bool

text \<open>The fields the code reads back after an ioctl: \<open>pathInfos[i].result\<close> and \<open>failedReason[i]\<close>.\<close>

record ioctl_out =
  io_ret :: int
  io_result :: "nat \<Rightarrow> bool"
  io_failedReason :: "nat \<Rightarrow> int"

text \<open>Columns of a \<open>ValuesBucket\<close>, tokens of \<open>RdbPredicates\<close>, cells of a result row as the getters see them.\<close>

datatype bucket_value = PutString string | PutInt int | PutLong int
datatype pred_token =
    EqualToS string string | EqualTo string int | LessThanOrEqualTo string int | GreaterThan string int
  | GreaterThanOrEqualTo string int | LessThan string int | And
datatype cell =
    IntegerCell nat "int option" "int option"
  | StringCell "string option"
  | OtherCell
datatype bind_arg = BindS string | BindI int
datatype ConflictResolution = ON_CONFLICT_IGNORE | ON_CONFLICT_REPLACE

type_synonym bucket = "(string \<times> bucket_value) list"
type_synonym row = "(string \<times> cell) list option"

text \<open>\<open>Media::PhotoPermissionType\<close> and \<open>Media::OperationMode\<close>, the members the code names and the rest.\<close>

datatype PhotoPermissionType =
    PERSIST_READ_IMAGEVIDEO | PERSIST_WRITE_IMAGEVIDEO | GRANT_PERSIST_READWRITE_IMAGEVIDEO | OTHER_PHOTO_PERMISSION nat
datatype OperationMode = MEDIA_READ_MODE | MEDIA_WRITE_MODE | MEDIA_READ_WRITE_MODE

section \<open>Events\<close>

datatype OperateTypeEnum =
    SET_POLICY | UNSET_ALL_POLICY_BY_TOKEN | UNSET_POLICY | CLEAN_PERSIST_POLICY_BY_PATH | PERSIST_POLICY
  | REMOVE_BUNDLE_POLICY_BY_EVENT | START_ACCESSING_POLICY | START_ACCESSING_POLICY_BY_TOKEN
  | STOP_ACCESSING_POLICY | UNPERSIST_POLICY

datatype OperateDomainEnum = GENERIC | MEDIA

text \<open>\<open>PolicyOperateInfo\<close> without the caller's ids, which it takes from the IPC layer.\<close>

record PolicyOperateInfo =
  po_policyNum :: u32
  po_successNum :: u32
  po_failNum :: u32
  po_invalidNum :: u32
  po_rModeNum :: u32
  po_wModeNum :: u32
  po_rwModeNum :: u32
  po_domain :: OperateDomainEnum

definition mk_PolicyOperateInfo :: "nat \<Rightarrow> nat \<Rightarrow> nat \<Rightarrow> nat \<Rightarrow> PolicyOperateInfo" where
  "mk_PolicyOperateInfo totalNum succNum failNum invalidNum =
     \<lparr>po_policyNum = of_nat totalNum, po_successNum = of_nat succNum, po_failNum = of_nat failNum,
      po_invalidNum = of_nat invalidNum, po_rModeNum = 0, po_wModeNum = 0, po_rwModeNum = 0, po_domain = GENERIC\<rparr>"

definition OperateInfoSetByMode :: "PolicyOperateInfo \<Rightarrow> u32 \<Rightarrow> PolicyOperateInfo" where
  "OperateInfoSetByMode info mode =
     (if mode = READ_MODE then info\<lparr>po_rModeNum := po_rModeNum info + 1\<rparr>
      else if mode = WRITE_MODE then info\<lparr>po_wModeNum := po_wModeNum info + 1\<rparr>
      else if mode = READ_MODE + WRITE_MODE then info\<lparr>po_rwModeNum := po_rwModeNum info + 1\<rparr>
      else info)"

datatype report =
    ValidationFailure string u32 int string u64
  | ShareConfigAudit string u32 string string
  | PolicyViolate u32 string string string
  | PersistOperate OperateTypeEnum PolicyOperateInfo
  | TempOperate OperateTypeEnum PolicyOperateInfo
  | EmergencyReport u32

section \<open>The outside world\<close>

text \<open>\<open>x_NOT_RESIDENT\<close> is the build flag of that name.\<close>

record ('w, 'j) ext =
  x_access_dev :: "'w \<Rightarrow> int \<times> 'w"
  x_open_dev :: "'w \<Rightarrow> int \<times> 'w"
  x_ioctl :: "int \<Rightarrow> nat \<Rightarrow> SandboxPolicyInfo \<Rightarrow> 'w \<Rightarrow> ioctl_out \<times> 'w"
  x_ioctl_auth :: "int \<Rightarrow> 'w \<Rightarrow> (int \<times> u64 \<times> int) \<times> 'w"
  x_GetOneCfgFile :: "string \<Rightarrow> 'w \<Rightarrow> string option \<times> 'w"
  x_open :: "string \<Rightarrow> 'w \<Rightarrow> int \<times> 'w"
  x_fstat :: "int \<Rightarrow> 'w \<Rightarrow> int option \<times> 'w"
  x_reads :: "int \<Rightarrow> 'w \<Rightarrow> (string list \<times> int) \<times> 'w"
  x_GetRdbStore :: "'w \<Rightarrow> (int \<times> bool) \<times> 'w"
  x_GetRebuilt :: "'w \<Rightarrow> bool \<times> 'w"
  x_Restore :: "'w \<Rightarrow> int \<times> 'w"
  x_Begin :: "'w \<Rightarrow> int \<times> 'w"
  x_Commit :: "'w \<Rightarrow> int \<times> 'w"
  x_RollBack :: "'w \<Rightarrow> int \<times> 'w"
  x_Insert :: "string \<Rightarrow> bucket \<Rightarrow> ConflictResolution \<Rightarrow> 'w \<Rightarrow> int \<times> 'w"
  x_Delete :: "string \<Rightarrow> pred_token list \<Rightarrow> 'w \<Rightarrow> int \<times> 'w"
  x_Update :: "string \<Rightarrow> bucket \<Rightarrow> pred_token list \<Rightarrow> 'w \<Rightarrow> int \<times> 'w"
  x_Query :: "string \<Rightarrow> pred_token list \<Rightarrow> 'w \<Rightarrow> row list option \<times> 'w"
  x_QuerySql :: "string \<Rightarrow> bind_arg list \<Rightarrow> 'w \<Rightarrow> row list option \<times> 'w"
  x_ExecuteSql :: "string \<Rightarrow> 'w \<Rightarrow> int \<times> 'w"
  x_access :: "string \<Rightarrow> 'w \<Rightarrow> int \<times> 'w"
  x_PostCleanup :: "'w \<Rightarrow> bool \<times> 'w"
  x_CreateRunner :: "'w \<Rightarrow> bool \<times> 'w"
  x_SQLITE_CORRUPT :: int
  x_GetMediaHelper :: "'w \<Rightarrow> bool \<times> 'w"
  x_InitMediaHelper :: "'w \<Rightarrow> int \<times> 'w"
  x_GetUris :: "string list \<Rightarrow> 'w \<Rightarrow> (int \<times> string list) \<times> 'w"
  x_CheckUri :: "u32 \<Rightarrow> string list \<Rightarrow> u32 list \<Rightarrow> 'w \<Rightarrow> (int \<times> bool list) \<times> 'w"
  x_GrantUri :: "u32 \<Rightarrow> u32 \<Rightarrow> string list \<Rightarrow> PhotoPermissionType list \<Rightarrow> 'w \<Rightarrow> int \<times> 'w"
  x_GetUrisPermission :: "u32 \<Rightarrow> string list \<Rightarrow> PhotoPermissionType list \<Rightarrow> bool list \<Rightarrow> 'w \<Rightarrow> (int \<times> bool list) \<times> 'w"
  x_CancelUri :: "u32 \<Rightarrow> u32 \<Rightarrow> string list \<Rightarrow> OperationMode list \<Rightarrow> 'w \<Rightarrow> int \<times> 'w"
  x_ReserveUri :: "string \<Rightarrow> string \<Rightarrow> u32 \<Rightarrow> 'w \<Rightarrow> int \<times> 'w"
  x_ResumeUri :: "string \<Rightarrow> string \<Rightarrow> u32 \<Rightarrow> 'w \<Rightarrow> int \<times> 'w"
  x_GetPersist :: "u32 \<Rightarrow> 'w \<Rightarrow> (int \<times> PhotoPermissionType list) \<times> 'w"
  x_CancelPersist :: "u32 \<Rightarrow> 'w \<Rightarrow> int \<times> 'w"
  x_GetCallingTokenID :: "'w \<Rightarrow> u32"
  x_GetHapUserId :: "u32 \<Rightarrow> 'w \<Rightarrow> (int \<times> int) \<times> 'w"
  x_GetHapTokenID :: "int \<Rightarrow> string \<Rightarrow> int \<Rightarrow> 'w \<Rightarrow> u32 \<times> 'w"
  x_VerifyAccessToken :: "u32 \<Rightarrow> string \<Rightarrow> 'w \<Rightarrow> bool \<times> 'w"
  x_IsUserGrant :: "string \<Rightarrow> 'w \<Rightarrow> (int \<times> bool) \<times> 'w"
  x_GetDecPathMap :: "'w \<Rightarrow> (string \<times> string list) list \<times> 'w"
  x_GetIgnoreCaseDirs :: "'w \<Rightarrow> (string \<times> int) list \<times> 'w"
  x_GetBundleMgr :: "'w \<Rightarrow> bool \<times> 'w"
  x_GetAllJsonProfile :: "int \<Rightarrow> 'w \<Rightarrow> (int \<times> (string \<times> string) list) \<times> 'w"
  x_GetEntryModule :: "string \<Rightarrow> int \<Rightarrow> 'w \<Rightarrow> (int \<times> string) \<times> 'w"
  x_GetJsonProfile :: "string \<Rightarrow> string \<Rightarrow> int \<Rightarrow> 'w \<Rightarrow> (int \<times> string) \<times> 'w"
  x_GetCloneAppIndexes :: "string \<Rightarrow> int \<Rightarrow> 'w \<Rightarrow> (int \<times> int list) \<times> 'w"
  x_GetForegroundUser :: "'w \<Rightarrow> (int \<times> int) \<times> 'w"
  x_NOT_RESIDENT :: bool
  x_ReportUserDataSize :: "'w \<Rightarrow> 'w"
  x_jparse :: "string \<Rightarrow> 'j option"
  x_jitem :: "'j \<Rightarrow> string \<Rightarrow> 'j option"
  x_jchildren :: "'j \<Rightarrow> 'j list"
  x_jarraySize :: "'j \<Rightarrow> int"
  x_jarrayItem :: "'j \<Rightarrow> int \<Rightarrow> 'j option"
  x_jisObject :: "'j \<Rightarrow> bool"
  x_jisArray :: "'j \<Rightarrow> bool"
  x_jisString :: "'j \<Rightarrow> bool"
  x_jisNumber :: "'j \<Rightarrow> bool"
  x_jstring :: "'j \<Rightarrow> string option"
  x_jint :: "'j \<Rightarrow> int"

section \<open>The service state\<close>

record 'w svc =
  sv_db :: bool
  sv_eventHandler :: bool
  sv_fd :: int
  sv_isMacSupport :: bool
  sv_blockedInheritPaths :: "string list"
  sv_shareMap :: "(string \<times> (u32 \<times> (string \<times> u32) list) list) list"
  sv_media :: bool
  sv_userGrantMap :: "(string \<times> string) list"
  sv_caseInsensitivePaths :: "string list"
  sv_caseSensitivePaths :: "string list"
  sv_reports :: "report list"
  sv_world :: 'w

type_synonym ('w, 'a) op = "('w svc, 'a) state"

definition init_svc :: "'w \<Rightarrow> 'w svc" where
  "init_svc w = \<lparr>sv_db = False, sv_eventHandler = False, sv_fd = - 1, sv_isMacSupport = False,
     sv_blockedInheritPaths = [], sv_shareMap = [], sv_media = False, sv_userGrantMap = [],
     sv_caseInsensitivePaths = [], sv_caseSensitivePaths = [], sv_reports = [], sv_world = w\<rparr>"

text \<open>A call of external code, a member read, a member update, a reported event.\<close>

definition world :: "('w \<Rightarrow> 'a \<times> 'w) \<Rightarrow> ('w, 'a) op" where
  "world f = State (\<lambda>s. let (a, w) = f (sv_world s) in (a, s\<lparr>sv_world := w\<rparr>))"

definition gets :: "('w svc \<Rightarrow> 'a) \<Rightarrow> ('w, 'a) op" where
  "gets f = State (\<lambda>s. (f s, s))"

definition write_report :: "report \<Rightarrow> ('w, unit) op" where
  "write_report r = State_Monad.update (\<lambda>s. s\<lparr>sv_reports := sv_reports s @ [r]\<rparr>)"

lemma run_world [simp, run_simps]:
  "run_state (world f) s = (fst (f (sv_world s)), s\<lparr>sv_world := snd (f (sv_world s))\<rparr>)"
  by (simp add: world_def case_prod_beta)

lemma run_gets [simp, run_simps]: "run_state (gets f) s = (f s, s)"
  by (simp add: gets_def)

lemma run_write_report [simp, run_simps]:
  "run_state (write_report r) s = ((), s\<lparr>sv_reports := sv_reports s @ [r]\<rparr>)"
  by (simp add: write_report_def)

text \<open>\<open>vec.resize(n, d)\<close>.\<close>

definition resize :: "nat \<Rightarrow> 'a \<Rightarrow> 'a list \<Rightarrow> 'a list" where
  "resize n d xs = take n xs @ replicate (n - length xs) d"

lemma resize_length [simp]: "length (resize n d xs) = n"
  by (simp add: resize_def)

lemma resize_same [simp]: "length xs = n \<Longrightarrow> resize n d xs = xs"
  by (auto simp: resize_def)

lemma resize_empty [simp]: "resize n d [] = replicate n d"
  by (simp add: resize_def)

end
