(* ===== verification/Rdb.thy ===== *)
theory Rdb
  imports Sandbox_State
begin

text \<open>
  \<open>database/\<close>: conversion of rows and conditions (\<open>sandbox_manager_rdb_utils.cpp\<close>), the transactions of
  \<open>SandboxManagerRdb\<close> (\<open>sandbox_manager_rdb.cpp\<close>) and the schema (\<open>sandbox_manager_rdb_open_callback.cpp\<close>).
\<close>

section \<open>Names\<close>

definition FIELD_TOKENID :: string where "FIELD_TOKENID = ''tokenId''"
definition FIELD_PATH :: string where "FIELD_PATH = ''path''"
definition FIELD_MODE :: string where "FIELD_MODE = ''mode''"
definition FIELD_DEPTH :: string where "FIELD_DEPTH = ''depth''"
definition FIELD_FLAG :: string where "FIELD_FLAG = ''flag''"
definition FIELD_VOLUME_UNMOUNT_TS :: string where "FIELD_VOLUME_UNMOUNT_TS = ''volumeUnmountTs''"
definition FIELD_BUNDLENAME :: string where "FIELD_BUNDLENAME = ''bundleName''"
definition FIELD_USERID :: string where "FIELD_USERID = ''userId''"
definition FIELD_TIMESTAMP :: string where "FIELD_TIMESTAMP = ''timestamp''"
definition FIELD_APPIDENTIFIER :: string where "FIELD_APPIDENTIFIER = ''appIdentifier''"
definition FIELD_SHARED_OS_PATH :: string where "FIELD_SHARED_OS_PATH = ''sharedOsPath''"
definition FIELD_SHARED_MODE :: string where "FIELD_SHARED_MODE = ''sharedMode''"
definition FIELD_STATUS :: string where "FIELD_STATUS = ''status''"

lemmas field_names = FIELD_TOKENID_def FIELD_PATH_def FIELD_MODE_def FIELD_DEPTH_def FIELD_FLAG_def
  FIELD_VOLUME_UNMOUNT_TS_def FIELD_BUNDLENAME_def FIELD_USERID_def FIELD_TIMESTAMP_def
  FIELD_APPIDENTIFIER_def FIELD_SHARED_OS_PATH_def FIELD_SHARED_MODE_def FIELD_STATUS_def

datatype DataType =
    SANDBOX_MANAGER_PERSISTED_POLICY | SANDBOX_MANAGER_BUNDLE_PERSISTENT_POLICY
  | SANDBOX_MANAGER_SHARED_FILE_INFO | SANDBOX_MANAGER_UGC_PERMISSION

fun GetTableNameByType :: "DataType \<Rightarrow> string" where
  "GetTableNameByType SANDBOX_MANAGER_PERSISTED_POLICY = ''persisted_policy_table''"
| "GetTableNameByType SANDBOX_MANAGER_BUNDLE_PERSISTENT_POLICY = ''bundle_persistent_policy_table''"
| "GetTableNameByType SANDBOX_MANAGER_SHARED_FILE_INFO = ''shared_file_info_table''"
| "GetTableNameByType SANDBOX_MANAGER_UGC_PERMISSION = ''ugc_permission_table''"

abbreviation (input) SUCCESS :: int where "SUCCESS \<equiv> 0"
abbreviation (input) FAILURE :: int where "FAILURE \<equiv> - 1"
abbreviation (input) E_OK :: int where "E_OK \<equiv> 0"

section \<open>Rows and conditions\<close>

definition g_StringTypeColumns :: "string list" where
  "g_StringTypeColumns = [FIELD_PATH, FIELD_BUNDLENAME, FIELD_APPIDENTIFIER, FIELD_BUNDLENAME, FIELD_SHARED_OS_PATH]"

definition IsColumnStringType :: "string \<Rightarrow> bool" where
  "IsColumnStringType column \<longleftrightarrow> column \<in> set g_StringTypeColumns"

definition ToRdbValueBucket :: "GenericValues \<Rightarrow> bucket" where
  "ToRdbValueBucket v = map (\<lambda>column. (column,
      if IsColumnStringType column then PutString (gv_GetString v column)
      else case gv_Get v column of
             TYPE_INT _ \<Rightarrow> PutInt (gv_GetInt v column)
           | _ \<Rightarrow> PutLong (gv_GetInt64 v column)))
    (gv_GetAllKeys v)"

fun HandleValueToInt :: "VariantValue \<Rightarrow> int" where
  "HandleValueToInt (TYPE_INT i) = Variant_GetInt (TYPE_INT i)"
| "HandleValueToInt v = Variant_GetInt64 v"

text \<open>The comparison token for a symbol; \<open>None\<close> ends the building of the predicates.\<close>

definition symbol_token :: "string \<Rightarrow> string \<Rightarrow> int \<Rightarrow> pred_token option" where
  "symbol_token column symbol v =
     (if symbol = [] \<or> symbol = ''='' then Some (EqualTo column v)
      else if symbol = ''<='' then Some (LessThanOrEqualTo column v)
      else if symbol = ''>'' then Some (GreaterThan column v)
      else if symbol = ''>='' then Some (GreaterThanOrEqualTo column v)
      else if symbol = ''<'' then Some (LessThan column v)
      else None)"

fun ToRdbPredicates_loop :: "GenericValues \<Rightarrow> GenericValues \<Rightarrow> string list \<Rightarrow> pred_token list" where
  "ToRdbPredicates_loop conds symbols [] = []"
| "ToRdbPredicates_loop conds symbols (column # cols) =
     (let sep = (if cols \<noteq> [] then [And] else [])
      in if IsColumnStringType column then
           EqualToS column (gv_GetString conds column) # sep @ ToRdbPredicates_loop conds symbols cols
         else case symbol_token column (gv_GetString symbols column) (HandleValueToInt (gv_Get conds column)) of
                None \<Rightarrow> []
              | Some t \<Rightarrow> t # sep @ ToRdbPredicates_loop conds symbols cols)"

definition ToRdbPredicates_sym :: "GenericValues \<Rightarrow> GenericValues \<Rightarrow> pred_token list" where
  "ToRdbPredicates_sym conds symbols = ToRdbPredicates_loop conds symbols (gv_GetAllKeys conds)"

fun ToRdbPredicates_eq_loop :: "GenericValues \<Rightarrow> string list \<Rightarrow> pred_token list" where
  "ToRdbPredicates_eq_loop conds [] = []"
| "ToRdbPredicates_eq_loop conds (column # cols) =
     (if IsColumnStringType column then EqualToS column (gv_GetString conds column)
      else EqualTo column (HandleValueToInt (gv_Get conds column))) #
     (if cols \<noteq> [] then [And] else []) @ ToRdbPredicates_eq_loop conds cols"

definition ToRdbPredicates :: "GenericValues \<Rightarrow> pred_token list" where
  "ToRdbPredicates conds = ToRdbPredicates_eq_loop conds (gv_GetAllKeys conds)"

text \<open>A row read back: which integer type a column gets depends on the size the store reports for it.\<close>

definition PutIntegerColumn :: "string \<Rightarrow> nat \<Rightarrow> int option \<Rightarrow> int option \<Rightarrow> GenericValues \<Rightarrow> GenericValues" where
  "PutIntegerColumn columnName typeSize getLong getInt v =
     (if columnName = FIELD_TIMESTAMP \<or> columnName = FIELD_VOLUME_UNMOUNT_TS \<or> typeSize = 8 then
        (case getLong of None \<Rightarrow> v | Some d \<Rightarrow> gv_Put columnName (TYPE_INT64 d) v)
      else (case getInt of None \<Rightarrow> v | Some d \<Rightarrow> gv_Put columnName (TYPE_INT d) v))"

definition PutStringColumn :: "string \<Rightarrow> string option \<Rightarrow> GenericValues \<Rightarrow> GenericValues" where
  "PutStringColumn columnName getString v =
     (case getString of None \<Rightarrow> v | Some d \<Rightarrow> gv_Put columnName (TYPE_STRING d) v)"

definition ProcessColumn :: "(string \<times> cell) list \<Rightarrow> string \<Rightarrow> GenericValues \<Rightarrow> GenericValues" where
  "ProcessColumn cells columnName v = (case map_of cells columnName of
       Some (IntegerCell typeSize getLong getInt) \<Rightarrow> PutIntegerColumn columnName typeSize getLong getInt v
     | Some (StringCell getString) \<Rightarrow> PutStringColumn columnName getString v
     | _ \<Rightarrow> v)"

definition ResultToGenericValues :: "row \<Rightarrow> GenericValues" where
  "ResultToGenericValues r = (case r of
       None \<Rightarrow> []
     | Some cells \<Rightarrow> fold (ProcessColumn cells) (map fst cells) [])"

text \<open>The result loop: rows without a readable column are skipped.\<close>

definition collect_rows :: "row list \<Rightarrow> GenericValues list" where
  "collect_rows rows = filter (\<lambda>v. gv_GetAllKeys v \<noteq> []) (map ResultToGenericValues rows)"

definition EscapeLikeWildcards :: "string \<Rightarrow> string" where
  "EscapeLikeWildcards input =
     concat (map (\<lambda>c. if c = CHR ''%'' \<or> c = CHR ''_'' \<or> c = CHR 0x5C then [CHR 0x5C, c] else [c]) input)"

section \<open>Opening and scheduling\<close>

definition OpenDatabaseInternal :: "('w, 'j) ext \<Rightarrow> ('w, int) op" where
  "OpenDatabaseInternal x = do {
     db \<leftarrow> gets sv_db;
     if db then State_Monad.return SUCCESS
     else do {
       (res, nonnull) \<leftarrow> world (x_GetRdbStore x);
       State_Monad.update (\<lambda>s. s\<lparr>sv_db := nonnull\<rparr>);
       if res \<noteq> E_OK \<or> \<not> nonnull then State_Monad.return res
       else do {
         rebuilt \<leftarrow> world (x_GetRebuilt x);
         if rebuilt then do {
           restoreRet \<leftarrow> world (x_Restore x);
           State_Monad.return (if restoreRet \<noteq> E_OK then restoreRet else SUCCESS)
         } else State_Monad.return SUCCESS
       }
     }
   }"

definition InitEventHandlerInternal :: "('w, 'j) ext \<Rightarrow> ('w, unit) op" where
  "InitEventHandlerInternal x = do {
     h \<leftarrow> gets sv_eventHandler;
     if h then State_Monad.return ()
     else do {
       runner \<leftarrow> world (x_CreateRunner x);
       State_Monad.update (\<lambda>s. s\<lparr>sv_eventHandler := runner\<rparr>)
     }
   }"

definition Rdb_Init :: "('w, 'j) ext \<Rightarrow> ('w, int) op" where
  "Rdb_Init x = do {
     ret \<leftarrow> OpenDatabaseInternal x;
     if ret \<noteq> SUCCESS then State_Monad.return ret
     else do { InitEventHandlerInternal x; State_Monad.return SUCCESS }
   }"

definition CleanupDbInternal :: "('w, unit) op" where
  "CleanupDbInternal = State_Monad.update (\<lambda>s. s\<lparr>sv_db := False\<rparr>)"

definition ScheduleDbCleanup :: "('w, 'j) ext \<Rightarrow> ('w, unit) op" where
  "ScheduleDbCleanup x = do {
     h \<leftarrow> gets sv_eventHandler;
     if \<not> h then State_Monad.return ()
     else do { _ \<leftarrow> world (x_PostCleanup x); State_Monad.return () }
   }"

text \<open>\<open>GetRdb() != nullptr\<close>.\<close>

definition GetRdb :: "('w, 'j) ext \<Rightarrow> ('w, bool) op" where
  "GetRdb x = do {
     db \<leftarrow> gets sv_db;
     if db then State_Monad.return True
     else do {
       ret \<leftarrow> OpenDatabaseInternal x;
       (if ret \<noteq> SUCCESS then State_Monad.update (\<lambda>s. s\<lparr>sv_db := False\<rparr>) else State_Monad.return ());
       gets sv_db
     }
   }"

definition IGNORE :: string where "IGNORE = ''ignore''"
definition REPLACE :: string where "REPLACE = ''replace''"

definition GetConflictResolution :: "string \<Rightarrow> ConflictResolution option" where
  "GetConflictResolution duplicateMode =
     (if duplicateMode = IGNORE then Some ON_CONFLICT_IGNORE
      else if duplicateMode = REPLACE then Some ON_CONFLICT_REPLACE else None)"

definition DbOperateFailure :: "('w, 'j) ext \<Rightarrow> int \<Rightarrow> ('w, unit) op" where
  "DbOperateFailure x res = do {
     _ \<leftarrow> world (x_RollBack x);
     if res \<noteq> x_SQLITE_CORRUPT x then State_Monad.return ()
     else do { _ \<leftarrow> world (x_Restore x); State_Monad.return () }
   }"

section \<open>Operations\<close>

text \<open>The loops inside a transaction stop at the first error code and undo the transaction.\<close>

fun Add_loop :: "('w, 'j) ext \<Rightarrow> string \<Rightarrow> ConflictResolution \<Rightarrow> GenericValues list \<Rightarrow> ('w, bool) op" where
  "Add_loop x tableName solution [] = State_Monad.return True"
| "Add_loop x tableName solution (v # vs) =
     (let bucket = ToRdbValueBucket v
      in if bucket = [] then Add_loop x tableName solution vs
         else do {
           res \<leftarrow> world (x_Insert x tableName bucket solution);
           if res \<noteq> E_OK then do { DbOperateFailure x res; State_Monad.return False }
           else Add_loop x tableName solution vs
         })"

definition commit_transaction :: "('w, 'j) ext \<Rightarrow> ('w, int) op" where
  "commit_transaction x = do {
     res \<leftarrow> world (x_Commit x);
     if res \<noteq> E_OK then do { DbOperateFailure x res; State_Monad.return FAILURE }
     else do { ScheduleDbCleanup x; State_Monad.return SUCCESS }
   }"

definition Rdb_Add :: "('w, 'j) ext \<Rightarrow> DataType \<Rightarrow> GenericValues list \<Rightarrow> string \<Rightarrow> ('w, int) op" where
  "Rdb_Add x ty values duplicateMode =
     (case GetConflictResolution duplicateMode of
        None \<Rightarrow> State_Monad.return FAILURE
      | Some solution \<Rightarrow> do {
          db \<leftarrow> GetRdb x;
          if \<not> db then State_Monad.return FAILURE
          else do {
            transRes \<leftarrow> world (x_Begin x);
            if transRes \<noteq> E_OK then State_Monad.return FAILURE
            else do {
              ok \<leftarrow> Add_loop x (GetTableNameByType ty) solution values;
              if \<not> ok then State_Monad.return FAILURE else commit_transaction x
            }
          }
        })"

text \<open>A single statement outside a transaction: an error restores the store when it is corrupt.\<close>

definition statement_result :: "('w, 'j) ext \<Rightarrow> int \<Rightarrow> ('w, int) op" where
  "statement_result x res =
     (if res \<noteq> E_OK then
        (if res \<noteq> x_SQLITE_CORRUPT x then State_Monad.return FAILURE
         else do { _ \<leftarrow> world (x_Restore x); State_Monad.return FAILURE })
      else do { ScheduleDbCleanup x; State_Monad.return SUCCESS })"

definition Rdb_Remove :: "('w, 'j) ext \<Rightarrow> DataType \<Rightarrow> GenericValues \<Rightarrow> ('w, int) op" where
  "Rdb_Remove x ty conds = do {
     db \<leftarrow> GetRdb x;
     if \<not> db then State_Monad.return FAILURE
     else do {
       res \<leftarrow> world (x_Delete x (GetTableNameByType ty) (ToRdbPredicates conds));
       statement_result x res
     }
   }"

fun Remove_loop :: "('w, 'j) ext \<Rightarrow> string \<Rightarrow> GenericValues list \<Rightarrow> ('w, bool) op" where
  "Remove_loop x tableName [] = State_Monad.return True"
| "Remove_loop x tableName (c # cs) = do {
     res \<leftarrow> world (x_Delete x tableName (ToRdbPredicates c));
     if res \<noteq> E_OK then do { DbOperateFailure x res; State_Monad.return False }
     else Remove_loop x tableName cs
   }"

definition Rdb_RemoveAll :: "('w, 'j) ext \<Rightarrow> DataType \<Rightarrow> GenericValues list \<Rightarrow> ('w, int) op" where
  "Rdb_RemoveAll x ty conds = do {
     db \<leftarrow> GetRdb x;
     if \<not> db then State_Monad.return FAILURE
     else do {
       transRes \<leftarrow> world (x_Begin x);
       if transRes \<noteq> E_OK then State_Monad.return FAILURE
       else do {
         ok \<leftarrow> Remove_loop x (GetTableNameByType ty) conds;
         if \<not> ok then State_Monad.return FAILURE else commit_transaction x
       }
     }
   }"

definition Rdb_Modify :: "('w, 'j) ext \<Rightarrow> DataType \<Rightarrow> GenericValues \<Rightarrow> GenericValues \<Rightarrow> ('w, int) op" where
  "Rdb_Modify x ty modifyValues conds =
     (let bucket = ToRdbValueBucket modifyValues
      in if bucket = [] then State_Monad.return FAILURE
         else do {
           db \<leftarrow> GetRdb x;
           if \<not> db then State_Monad.return FAILURE
           else do {
             res \<leftarrow> world (x_Update x (GetTableNameByType ty) bucket (ToRdbPredicates conds));
             statement_result x res
           }
         })"

text \<open>The queries: \<open>(FAILURE, [])\<close> when the store is closed or returns no result set.\<close>

definition run_query :: "('w, 'j) ext \<Rightarrow> ('w \<Rightarrow> row list option \<times> 'w) \<Rightarrow> ('w, int \<times> GenericValues list) op" where
  "run_query x q = do {
     db \<leftarrow> GetRdb x;
     if \<not> db then State_Monad.return (FAILURE, [])
     else do {
       rs \<leftarrow> world q;
       (case rs of
          None \<Rightarrow> State_Monad.return (FAILURE, [])
        | Some rows \<Rightarrow> do { ScheduleDbCleanup x; State_Monad.return (SUCCESS, collect_rows rows) })
     }
   }"

definition Rdb_FindSubPathIgnoreCase :: "('w, 'j) ext \<Rightarrow> DataType \<Rightarrow> string \<Rightarrow> ('w, int \<times> GenericValues list) op" where
  "Rdb_FindSubPathIgnoreCase x ty filePath =
     (let like_arg_str = EscapeLikeWildcards filePath @ ''/%'';
          sql = ''select * from '' @ GetTableNameByType ty @ '' where '' @ FIELD_PATH @
                '' LIKE ? COLLATE NOCASE ESCAPE '' @ [CHR 0x27, CHR 0x5C, CHR 0x27] @ '' or '' @ FIELD_PATH @ '' = ? COLLATE NOCASE''
      in run_query x (x_QuerySql x sql [BindS like_arg_str, BindS filePath]))"

definition Rdb_FindExpiredVolumeRecords :: "('w, 'j) ext \<Rightarrow> int \<Rightarrow> ('w, int \<times> GenericValues list) op" where
  "Rdb_FindExpiredVolumeRecords x expiryThreshold =
     (let sql = ''select * from '' @ GetTableNameByType SANDBOX_MANAGER_PERSISTED_POLICY @ '' where '' @
                FIELD_VOLUME_UNMOUNT_TS @ '' > 0 and '' @ FIELD_VOLUME_UNMOUNT_TS @ '' < ?''
      in run_query x (x_QuerySql x sql [BindI expiryThreshold]))"

fun placeholders :: "'a list \<Rightarrow> string" where
  "placeholders [] = []"
| "placeholders [t] = ''?''"
| "placeholders (t # ts) = ''?,'' @ placeholders ts"

definition Rdb_FindByTokenIds :: "('w, 'j) ext \<Rightarrow> DataType \<Rightarrow> u32 list \<Rightarrow> ('w, int \<times> GenericValues list) op" where
  "Rdb_FindByTokenIds x ty tokenIds =
     (if tokenIds = [] then State_Monad.return (SUCCESS, [])
      else let sql = ''select * from '' @ GetTableNameByType ty @ '' where '' @ FIELD_TOKENID @ '' in ('' @
                     placeholders tokenIds @ '')''
        in run_query x (x_QuerySql x sql (map (\<lambda>t. BindI (sint t)) tokenIds)))"

definition Rdb_Find :: "('w, 'j) ext \<Rightarrow> DataType \<Rightarrow> GenericValues \<Rightarrow> GenericValues \<Rightarrow> ('w, int \<times> GenericValues list) op" where
  "Rdb_Find x ty conds symbols =
     run_query x (x_Query x (GetTableNameByType ty) (ToRdbPredicates_sym conds symbols))"

text \<open>The first row of a counting query: its columns by position.\<close>

definition row_int :: "(string \<times> cell) list \<Rightarrow> nat \<Rightarrow> int option" where
  "row_int r i = (if i < length r then (case snd (r ! i) of IntegerCell _ _ getInt \<Rightarrow> getInt | _ \<Rightarrow> None) else None)"

definition row_long :: "(string \<times> cell) list \<Rightarrow> nat \<Rightarrow> int option" where
  "row_long r i = (if i < length r then (case snd (r ! i) of IntegerCell _ getLong _ \<Rightarrow> getLong | _ \<Rightarrow> None) else None)"

definition Rdb_GetRecordCount :: "('w, 'j) ext \<Rightarrow> DataType \<Rightarrow> int \<Rightarrow> ('w, int \<times> int) op" where
  "Rdb_GetRecordCount x ty count = do {
     db \<leftarrow> GetRdb x;
     if \<not> db then State_Monad.return (FAILURE, count)
     else do {
       rs \<leftarrow> world (x_QuerySql x (''SELECT COUNT(*) FROM '' @ GetTableNameByType ty) []);
       (case rs of
          None \<Rightarrow> State_Monad.return (FAILURE, count)
        | Some rows \<Rightarrow> do {
            ScheduleDbCleanup x;
            State_Monad.return (SUCCESS, case rows of
               Some r # _ \<Rightarrow> (case row_int r 0 of Some c \<Rightarrow> c | None \<Rightarrow> 0)
             | _ \<Rightarrow> 0) })
     }
   }"

definition Rdb_GetTokenIdWithMostRecords :: "('w, 'j) ext \<Rightarrow> DataType \<Rightarrow> u32 \<Rightarrow> u32 \<Rightarrow> ('w, int \<times> u32 \<times> u32) op" where
  "Rdb_GetTokenIdWithMostRecords x ty tokenId count = do {
     db \<leftarrow> GetRdb x;
     if \<not> db then State_Monad.return (FAILURE, tokenId, count)
     else do {
       rs \<leftarrow> world (x_QuerySql x (''SELECT '' @ FIELD_TOKENID @ '', COUNT(*) as count FROM '' @ GetTableNameByType ty @
               '' GROUP BY '' @ FIELD_TOKENID @ '' ORDER BY count DESC LIMIT 1'') []);
       (case rs of
          None \<Rightarrow> State_Monad.return (FAILURE, tokenId, count)
        | Some rows \<Rightarrow> do {
            ScheduleDbCleanup x;
            State_Monad.return (case rows of
               Some r # _ \<Rightarrow> (case (row_long r 0, row_long r 1) of
                   (Some t, Some c) \<Rightarrow> (SUCCESS, word_of_int t, word_of_int c)
                 | _ \<Rightarrow> (SUCCESS, 0, 0))
             | _ \<Rightarrow> (SUCCESS, 0, 0)) })
     }
   }"

end
