(* ===== verification/Witness_World.thy ===== *)
theory Witness_World
  imports Rdb
begin

text \<open>
  Concrete external functions for the witnesses: a world in which every call answers "nothing there", to be
  updated where a witness needs more, and an in-memory transactional store.
\<close>

definition silent_ext :: "('w, 'j) ext" where
  "silent_ext = \<lparr>
     x_access_dev = (\<lambda>w. (- 1, w)), x_open_dev = (\<lambda>w. (- 1, w)),
     x_ioctl = (\<lambda>fd cmd info w. (\<lparr>io_ret = 0, io_result = (\<lambda>_. True), io_failedReason = (\<lambda>_. 0)\<rparr>, w)),
     x_ioctl_auth = (\<lambda>fd w. ((0, 0, 0), w)),
     x_GetOneCfgFile = (\<lambda>p w. (None, w)), x_open = (\<lambda>p w. (- 1, w)), x_fstat = (\<lambda>fd w. (None, w)),
     x_reads = (\<lambda>fd w. (([], 0), w)),
     x_GetRdbStore = (\<lambda>w. ((0, True), w)), x_GetRebuilt = (\<lambda>w. (False, w)), x_Restore = (\<lambda>w. (0, w)),
     x_Begin = (\<lambda>w. (0, w)), x_Commit = (\<lambda>w. (0, w)), x_RollBack = (\<lambda>w. (0, w)),
     x_Insert = (\<lambda>t b c w. (0, w)), x_Delete = (\<lambda>t p w. (0, w)), x_Update = (\<lambda>t b p w. (0, w)),
     x_Query = (\<lambda>t p w. (Some [], w)), x_QuerySql = (\<lambda>q a w. (Some [], w)), x_ExecuteSql = (\<lambda>q w. (0, w)),
     x_access = (\<lambda>p w. (- 1, w)), x_PostCleanup = (\<lambda>w. (True, w)), x_CreateRunner = (\<lambda>w. (True, w)),
     x_SQLITE_CORRUPT = 11,
     x_GetMediaHelper = (\<lambda>w. (True, w)), x_InitMediaHelper = (\<lambda>w. (0, w)),
     x_GetUris = (\<lambda>ps w. ((0, ps), w)), x_CheckUri = (\<lambda>t us ms w. ((0, map (\<lambda>_. True) us), w)),
     x_GrantUri = (\<lambda>c t us ps w. (0, w)), x_GetUrisPermission = (\<lambda>t us ps bs w. ((0, map (\<lambda>_. True) us), w)),
     x_CancelUri = (\<lambda>c t us ms w. (0, w)), x_ReserveUri = (\<lambda>a b t w. (0, w)), x_ResumeUri = (\<lambda>a b t w. (0, w)),
     x_GetPersist = (\<lambda>t w. ((0, []), w)), x_CancelPersist = (\<lambda>t w. (0, w)),
     x_GetCallingTokenID = (\<lambda>w. 0), x_GetHapUserId = (\<lambda>t w. ((0, 100), w)),
     x_GetHapTokenID = (\<lambda>u b i w. (0, w)), x_VerifyAccessToken = (\<lambda>t p w. (False, w)),
     x_IsUserGrant = (\<lambda>p w. ((0, False), w)), x_GetDecPathMap = (\<lambda>w. ([], w)), x_GetIgnoreCaseDirs = (\<lambda>w. ([], w)),
     x_GetBundleMgr = (\<lambda>w. (False, w)), x_GetAllJsonProfile = (\<lambda>u w. ((0, []), w)),
     x_GetEntryModule = (\<lambda>b u w. ((0, []), w)), x_GetJsonProfile = (\<lambda>b m u w. ((0, []), w)),
     x_GetCloneAppIndexes = (\<lambda>b u w. ((0, []), w)), x_GetForegroundUser = (\<lambda>w. ((0, 100), w)),
     x_NOT_RESIDENT = True, x_ReportUserDataSize = (\<lambda>w. w),
     x_jparse = (\<lambda>s. None), x_jitem = (\<lambda>j k. None), x_jchildren = (\<lambda>j. []), x_jarraySize = (\<lambda>j. 0),
     x_jarrayItem = (\<lambda>j i. None), x_jisObject = (\<lambda>j. False), x_jisArray = (\<lambda>j. False),
     x_jisString = (\<lambda>j. False), x_jisNumber = (\<lambda>j. False), x_jstring = (\<lambda>j. None), x_jint = (\<lambda>j. 0)\<rparr>"

text \<open>A store that keeps the rows of a transaction until they are rolled back; tables whose name is \<open>bad\<close> fail.\<close>

type_synonym mem = "(string \<times> bucket) list \<times> (string \<times> bucket) list"

definition mem_ext :: "string \<Rightarrow> (mem, unit) ext" where
  "mem_ext bad = silent_ext\<lparr>
     x_Begin := (\<lambda>(now, saved). (0, (now, now))),
     x_RollBack := (\<lambda>(now, saved). (0, (saved, saved))),
     x_Insert := (\<lambda>t b c (now, saved). (if (FIELD_PATH, PutString bad) \<in> set b then 1 else 0, ((t, b) # now, saved))),
     x_Delete := (\<lambda>t p (now, saved). (0, (filter (\<lambda>e. fst e \<noteq> t) now, saved)))\<rparr>"

text \<open>A JSON library for which every text is the one given document.\<close>

datatype json = Object "(string \<times> json) list" | Array "json list" | String string

fun json_item :: "json \<Rightarrow> string \<Rightarrow> json option" where
  "json_item (Object ms) k = map_of ms k"
| "json_item _ k = None"

fun json_children :: "json \<Rightarrow> json list" where
  "json_children (Object ms) = map snd ms"
| "json_children (Array js) = js"
| "json_children (String s) = []"

fun json_text :: "json \<Rightarrow> string option" where
  "json_text (String s) = Some s"
| "json_text _ = None"

definition json_ext :: "json \<Rightarrow> ('w, json) ext" where
  "json_ext doc = silent_ext\<lparr>
     x_jparse := (\<lambda>_. Some doc), x_jitem := json_item, x_jchildren := json_children,
     x_jisObject := (\<lambda>j. case j of Object _ \<Rightarrow> True | _ \<Rightarrow> False),
     x_jisArray := (\<lambda>j. case j of Array _ \<Rightarrow> True | _ \<Rightarrow> False),
     x_jisString := (\<lambda>j. json_text j \<noteq> None), x_jstring := json_text\<rparr>"

end
