(* ===== verification/Rdb_Spec.thy ===== *)
theory Rdb_Spec
  imports Witness_World
begin

text \<open>Transactions of the database layer: all or nothing, under the documented laws of a transactional store.\<close>

text \<open>
  The laws: \<open>cont\<close> reads the contents of the store, \<open>saved\<close> the contents at the start of the transaction.
  A transaction remembers the contents, a successful statement applies its effect, a rollback returns to
  what was remembered; nothing is said of the effect of a failing statement, nor of a restore.
\<close>

definition store_laws ::
  "('w, 'j) ext \<Rightarrow> ('w \<Rightarrow> 'c) \<Rightarrow> ('w \<Rightarrow> 'c) \<Rightarrow> (string \<Rightarrow> bucket \<Rightarrow> ConflictResolution \<Rightarrow> 'c \<Rightarrow> 'c) \<Rightarrow>
   (string \<Rightarrow> pred_token list \<Rightarrow> 'c \<Rightarrow> 'c) \<Rightarrow> bool" where
  "store_laws x cont saved ins del \<longleftrightarrow>
     (\<forall>w. cont (snd (x_PostCleanup x w)) = cont w) \<and>
     (\<forall>w. cont (snd (x_Begin x w)) = cont w \<and> (fst (x_Begin x w) = E_OK \<longrightarrow> saved (snd (x_Begin x w)) = cont w)) \<and>
     (\<forall>w. saved (snd (x_Commit x w)) = saved w \<and> (fst (x_Commit x w) = E_OK \<longrightarrow> cont (snd (x_Commit x w)) = cont w)) \<and>
     (\<forall>w. cont (snd (x_RollBack x w)) = saved w) \<and>
     (\<forall>t b c w. saved (snd (x_Insert x t b c w)) = saved w \<and>
        (fst (x_Insert x t b c w) = E_OK \<longrightarrow> cont (snd (x_Insert x t b c w)) = ins t b c (cont w))) \<and>
     (\<forall>t p w. saved (snd (x_Delete x t p w)) = saved w \<and>
        (fst (x_Delete x t p w) = E_OK \<longrightarrow> cont (snd (x_Delete x t p w)) = del t p (cont w)))"

text \<open>The store is never reported corrupt (a corrupt store is replaced by its replica).\<close>

definition not_corrupt :: "('w, 'j) ext \<Rightarrow> bool" where
  "not_corrupt x \<longleftrightarrow>
     (\<forall>w. fst (x_Commit x w) \<noteq> x_SQLITE_CORRUPT x) \<and>
     (\<forall>t b c w. fst (x_Insert x t b c w) \<noteq> x_SQLITE_CORRUPT x) \<and>
     (\<forall>t p w. fst (x_Delete x t p w) \<noteq> x_SQLITE_CORRUPT x)"

lemma run_DbOperateFailure:
  "res \<noteq> x_SQLITE_CORRUPT x \<Longrightarrow>
   run_state (DbOperateFailure x res) s = ((), s\<lparr>sv_world := snd (x_RollBack x (sv_world s))\<rparr>)"
  by (simp add: DbOperateFailure_def)

lemma run_ScheduleDbCleanup:
  "\<exists>w. run_state (ScheduleDbCleanup x) s = ((), s\<lparr>sv_world := w\<rparr>) \<and>
     (w = sv_world s \<or> w = snd (x_PostCleanup x (sv_world s)))"
  by (cases "sv_eventHandler s")
    (auto simp: ScheduleDbCleanup_def intro: exI [of _ "sv_world s"] exI [of _ "snd (x_PostCleanup x (sv_world s))"])

lemma run_GetRdb_open [simp]: "sv_db s \<Longrightarrow> run_state (GetRdb x) s = (True, s)"
  by (simp add: GetRdb_def)

definition row_effect :: "(string \<Rightarrow> bucket \<Rightarrow> ConflictResolution \<Rightarrow> 'c \<Rightarrow> 'c) \<Rightarrow> string \<Rightarrow> ConflictResolution \<Rightarrow>
    GenericValues \<Rightarrow> 'c \<Rightarrow> 'c" where
  "row_effect ins t sol v c = (if ToRdbValueBucket v = [] then c else ins t (ToRdbValueBucket v) sol c)"

lemma Add_loop_effect:
  assumes laws: "store_laws x cont saved ins del" and nc: "not_corrupt x"
    and "run_state (Add_loop x t sol vs) s = (ok, s')"
  shows "(ok \<and> saved (sv_world s') = saved (sv_world s) \<and>
           cont (sv_world s') = fold (row_effect ins t sol) vs (cont (sv_world s))) \<or>
         (\<not> ok \<and> cont (sv_world s') = saved (sv_world s))"
  using assms(3)
proof (induction vs arbitrary: s)
  case (Cons v vs)
  show ?case
  proof (cases "ToRdbValueBucket v = []")
    case True
    with Cons show ?thesis by (simp add: row_effect_def)
  next
    case False
    let ?b = "ToRdbValueBucket v"
    obtain res w where ins: "x_Insert x t ?b sol (sv_world s) = (res, w)" by fastforce
    have ins_laws: "saved w = saved (sv_world s)" "res = E_OK \<Longrightarrow> cont w = ins t ?b sol (cont (sv_world s))"
      "res \<noteq> x_SQLITE_CORRUPT x"
      using laws nc ins unfolding store_laws_def not_corrupt_def by (metis fst_conv snd_conv)+
    have roll: "cont (snd (x_RollBack x w)) = saved w" using laws by (simp add: store_laws_def)
    show ?thesis
    proof (cases "res = E_OK")
      case True
      with Cons.prems False ins have "run_state (Add_loop x t sol vs) (s\<lparr>sv_world := w\<rparr>) = (ok, s')"
        by (simp add: Let_def)
      from Cons.IH [OF this] ins_laws True False show ?thesis by (simp add: row_effect_def)
    next
      case res: False
      with Cons.prems False ins ins_laws(3)
      have "ok = False \<and> s' = s\<lparr>sv_world := snd (x_RollBack x w)\<rparr>"
        by (auto simp: Let_def run_DbOperateFailure)
      with roll ins_laws(1) show ?thesis by simp
    qed
  qed
qed auto

lemma commit_effect:
  assumes laws: "store_laws x cont saved ins del" and nc: "not_corrupt x"
    and "run_state (commit_transaction x) s = (ret, s')"
  shows "(ret = SUCCESS \<and> cont (sv_world s') = cont (sv_world s)) \<or>
         (ret = FAILURE \<and> cont (sv_world s') = saved (sv_world s))"
proof -
  obtain res w where com: "x_Commit x (sv_world s) = (res, w)" by fastforce
  have com_laws: "saved w = saved (sv_world s)" "res = E_OK \<Longrightarrow> cont w = cont (sv_world s)" "res \<noteq> x_SQLITE_CORRUPT x"
    using laws nc com unfolding store_laws_def not_corrupt_def by (metis fst_conv snd_conv)+
  have post: "cont (snd (x_PostCleanup x w)) = cont w" and roll: "cont (snd (x_RollBack x w)) = saved w"
    using laws by (simp_all add: store_laws_def)
  show ?thesis
  proof (cases "res = E_OK")
    case True
    obtain w' where "run_state (ScheduleDbCleanup x) (s\<lparr>sv_world := w\<rparr>) = ((), s\<lparr>sv_world := w'\<rparr>)"
      "w' = w \<or> w' = snd (x_PostCleanup x w)"
      using run_ScheduleDbCleanup [of x "s\<lparr>sv_world := w\<rparr>"] by auto
    with assms(3) com True post com_laws(2) show ?thesis by (auto simp: commit_transaction_def)
  next
    case False
    with assms(3) com com_laws roll show ?thesis by (auto simp: commit_transaction_def run_DbOperateFailure)
  qed
qed

lemma transaction_effect:
  assumes laws: "store_laws x cont saved ins del" and nc: "not_corrupt x" and db: "sv_db s"
    and body: "\<And>s ok s'. run_state body s = (ok, s') \<Longrightarrow>
      (ok \<and> saved (sv_world s') = saved (sv_world s) \<and> cont (sv_world s') = eff (cont (sv_world s))) \<or>
      (\<not> ok \<and> cont (sv_world s') = saved (sv_world s))"
    and run: "run_state (do {
          transRes \<leftarrow> world (x_Begin x);
          if transRes \<noteq> E_OK then State_Monad.return FAILURE
          else do { ok \<leftarrow> body; if \<not> ok then State_Monad.return FAILURE else commit_transaction x } }) s = (ret, s')"
  shows "(ret = SUCCESS \<and> cont (sv_world s') = eff (cont (sv_world s))) \<or>
         (ret = FAILURE \<and> cont (sv_world s') = cont (sv_world s))"
proof -
  obtain tr w where beg: "x_Begin x (sv_world s) = (tr, w)" by fastforce
  have beg_laws: "cont w = cont (sv_world s)" "tr = E_OK \<Longrightarrow> saved w = cont (sv_world s)"
    using laws beg unfolding store_laws_def by (metis fst_conv snd_conv)+
  show ?thesis
  proof (cases "tr = E_OK")
    case False
    with run beg beg_laws show ?thesis by auto
  next
    case True
    obtain ok s1 where b: "run_state body (s\<lparr>sv_world := w\<rparr>) = (ok, s1)" by fastforce
    note eff = body [OF b]
    show ?thesis
    proof (cases ok)
      case False
      with run beg True b eff beg_laws show ?thesis by auto
    next
      case ok: True
      with run beg True b have "run_state (commit_transaction x) s1 = (ret, s')" by simp
      from commit_effect [OF laws nc this] eff ok beg_laws True show ?thesis by auto
    qed
  qed
qed

text \<open>C7: \<open>SandboxManagerRdb::Add\<close> is atomic: it reports success exactly when every row was written under the
  requested conflict rule and the transaction committed, and on every failure the store is as it was.\<close>

theorem Rdb_Add_atomic:
  assumes "store_laws x cont saved ins del" "not_corrupt x" "sv_db s"
    and "GetConflictResolution duplicateMode = Some sol"
    and "run_state (Rdb_Add x ty values duplicateMode) s = (ret, s')"
  shows "(ret = SUCCESS \<and>
           cont (sv_world s') = fold (row_effect ins (GetTableNameByType ty) sol) values (cont (sv_world s))) \<or>
         (ret = FAILURE \<and> cont (sv_world s') = cont (sv_world s))"
  by (rule transaction_effect [OF assms(1-3) Add_loop_effect [OF assms(1,2)]])
     (use assms(3-5) in \<open>auto simp: Rdb_Add_def\<close>)

text \<open>Two rows of which the second is refused by the store: the first one is gone again.\<close>

definition path_row :: "string \<Rightarrow> GenericValues" where
  "path_row p = gv_of [(FIELD_PATH, TYPE_STRING p)]"

definition mem_ins :: "string \<Rightarrow> bucket \<Rightarrow> ConflictResolution \<Rightarrow> (string \<times> bucket) list \<Rightarrow> (string \<times> bucket) list" where
  "mem_ins t b c rows = (t, b) # rows"

definition mem_del :: "string \<Rightarrow> pred_token list \<Rightarrow> (string \<times> bucket) list \<Rightarrow> (string \<times> bucket) list" where
  "mem_del t p rows = filter (\<lambda>e. fst e \<noteq> t) rows"

lemma mem_store_laws: "store_laws (mem_ext bad) fst snd mem_ins mem_del" "not_corrupt (mem_ext bad)"
  by (auto simp: store_laws_def not_corrupt_def mem_ext_def silent_ext_def mem_ins_def mem_del_def split: prod.splits)

definition open_svc :: "'w \<Rightarrow> 'w svc" where
  "open_svc w = (init_svc w)\<lparr>sv_db := True, sv_fd := 3, sv_isMacSupport := True\<rparr>"

theorem Rdb_Add_atomic_witness:
  "fst (run_state (Rdb_Add (mem_ext ''/bad'') SANDBOX_MANAGER_PERSISTED_POLICY [path_row ''/a'', path_row ''/bad''] IGNORE)
     (open_svc ([], []))) = FAILURE \<and>
   fst (sv_world (snd (run_state (Rdb_Add (mem_ext ''/bad'') SANDBOX_MANAGER_PERSISTED_POLICY
     [path_row ''/a'', path_row ''/bad''] IGNORE) (open_svc ([], []))))) = []"
proof -
  let ?run = "run_state (Rdb_Add (mem_ext ''/bad'') SANDBOX_MANAGER_PERSISTED_POLICY
     [path_row ''/a'', path_row ''/bad''] IGNORE) (open_svc ([], []))"
  obtain ret s' where run: "?run = (ret, s')" by fastforce
  have fail: "ret = FAILURE"
  proof -
    have "fst ?run = FAILURE" by code_simp
    with run show ?thesis by simp
  qed
  have sol: "GetConflictResolution IGNORE = Some ON_CONFLICT_IGNORE" by code_simp
  have db: "sv_db (open_svc ([], []))" by (simp add: open_svc_def)
  from Rdb_Add_atomic [OF mem_store_laws db sol run] fail have "fst (sv_world s') = fst (sv_world (open_svc (([], []) :: mem)))"
    by simp
  then show ?thesis using run fail by (simp add: open_svc_def init_svc_def)
qed

lemma Remove_loop_effect:
  assumes laws: "store_laws x cont saved ins del" and nc: "not_corrupt x"
    and "run_state (Remove_loop x t cs) s = (ok, s')"
  shows "(ok \<and> saved (sv_world s') = saved (sv_world s) \<and>
           cont (sv_world s') = fold (\<lambda>c. del t (ToRdbPredicates c)) cs (cont (sv_world s))) \<or>
         (\<not> ok \<and> cont (sv_world s') = saved (sv_world s))"
  using assms(3)
proof (induction cs arbitrary: s)
  case (Cons c cs)
  obtain res w where del: "x_Delete x t (ToRdbPredicates c) (sv_world s) = (res, w)" by fastforce
  have del_laws: "saved w = saved (sv_world s)" "res = E_OK \<Longrightarrow> cont w = del t (ToRdbPredicates c) (cont (sv_world s))"
    "res \<noteq> x_SQLITE_CORRUPT x"
    using laws nc del unfolding store_laws_def not_corrupt_def by (metis fst_conv snd_conv)+
  have roll: "cont (snd (x_RollBack x w)) = saved w" using laws by (simp add: store_laws_def)
  show ?case
  proof (cases "res = E_OK")
    case True
    with Cons.prems del have "run_state (Remove_loop x t cs) (s\<lparr>sv_world := w\<rparr>) = (ok, s')" by simp
    from Cons.IH [OF this] del_laws True show ?thesis by simp
  next
    case False
    with Cons.prems del del_laws(3) have "ok = False \<and> s' = s\<lparr>sv_world := snd (x_RollBack x w)\<rparr>"
      by (auto simp: run_DbOperateFailure)
    with roll del_laws(1) show ?thesis by simp
  qed
qed auto

lemma Rdb_RemoveAll_atomic:
  assumes "store_laws x cont saved ins del" "not_corrupt x" "sv_db s"
    and "run_state (Rdb_RemoveAll x ty cs) s = (ret, s')"
  shows "(ret = SUCCESS \<and>
           cont (sv_world s') = fold (\<lambda>c. del (GetTableNameByType ty) (ToRdbPredicates c)) cs (cont (sv_world s))) \<or>
         (ret = FAILURE \<and> cont (sv_world s') = cont (sv_world s))"
  by (rule transaction_effect [OF assms(1-3) Remove_loop_effect [OF assms(1,2)]])
     (use assms(3,4) in \<open>auto simp: Rdb_RemoveAll_def\<close>)

end
