(* ===== verification/Rdb_Schema.thy ===== *)
theory Rdb_Schema
  imports Rdb
begin

text \<open>\<open>SandboxManagerRdbOpenCallback\<close>: the statements that create and upgrade the schema.\<close>

definition INTEGER_STR :: string where "INTEGER_STR = '' integer not null,''"
definition TEXT_STR :: string where "TEXT_STR = '' text not null,''"

type_synonym 'w schema_op = "'w \<Rightarrow> int \<times> 'w"

definition column_list :: "(string \<times> string) list \<Rightarrow> string" where
  "column_list cols = concat (map (\<lambda>(f, k). f @ k) cols)"

fun key_list :: "string list \<Rightarrow> string" where
  "key_list [] = []"
| "key_list [f] = f"
| "key_list (f # g # fs) = f @ '','' @ key_list (g # fs)"

definition create_table :: "string \<Rightarrow> (string \<times> string) list \<Rightarrow> string list \<Rightarrow> string" where
  "create_table tableName cols keys =
     ''create table if not exists '' @ tableName @ '' ('' @ column_list cols @ ''primary key('' @ key_list keys @ ''))''"

definition CreatePersistedPolicyTable_sql :: "string \<Rightarrow> string" where
  "CreatePersistedPolicyTable_sql tableName = create_table tableName
     [(FIELD_TOKENID, INTEGER_STR), (FIELD_PATH, TEXT_STR), (FIELD_MODE, INTEGER_STR), (FIELD_DEPTH, INTEGER_STR),
      (FIELD_FLAG, INTEGER_STR), (FIELD_VOLUME_UNMOUNT_TS, '' integer not null default 0,'')]
     [FIELD_TOKENID, FIELD_DEPTH, FIELD_PATH, FIELD_MODE]"

definition CreateBundlePersistentPolicyTable_sql :: "string \<Rightarrow> string" where
  "CreateBundlePersistentPolicyTable_sql tableName = create_table tableName
     [(FIELD_BUNDLENAME, TEXT_STR), (FIELD_USERID, INTEGER_STR), (FIELD_APPIDENTIFIER, TEXT_STR),
      (FIELD_TOKENID, INTEGER_STR), (FIELD_TIMESTAMP, INTEGER_STR)]
     [FIELD_BUNDLENAME, FIELD_USERID, FIELD_APPIDENTIFIER, FIELD_TOKENID, FIELD_TIMESTAMP]"

definition CreateSharedFileInfoTable_sql :: "string \<Rightarrow> string" where
  "CreateSharedFileInfoTable_sql tableName = create_table tableName
     [(FIELD_TOKENID, INTEGER_STR), (FIELD_BUNDLENAME, TEXT_STR), (FIELD_USERID, INTEGER_STR),
      (FIELD_SHARED_OS_PATH, TEXT_STR), (FIELD_SHARED_MODE, INTEGER_STR)]
     [FIELD_TOKENID]"

definition CreateUgcPermissionTable_sql :: "string \<Rightarrow> string" where
  "CreateUgcPermissionTable_sql tableName = create_table tableName
     [(FIELD_TOKENID, INTEGER_STR), (FIELD_PATH, TEXT_STR), (FIELD_MODE, INTEGER_STR), (FIELD_STATUS, INTEGER_STR)]
     [FIELD_TOKENID, FIELD_PATH, FIELD_MODE]"

definition PERSISTED_POLICY_TABLE :: string where "PERSISTED_POLICY_TABLE = ''persisted_policy_table''"
definition BUNDLE_PERSISTENT_POLICY_TABLE :: string where
  "BUNDLE_PERSISTENT_POLICY_TABLE = ''bundle_persistent_policy_table''"
definition SHARED_FILE_INFO_TABLE :: string where "SHARED_FILE_INFO_TABLE = ''shared_file_info_table''"
definition UGC_PERMISSION_TABLE :: string where "UGC_PERMISSION_TABLE = ''ugc_permission_table''"

text \<open>\<open>AddVolumeUnmountTsColumn\<close>: a failing \<open>ALTER TABLE\<close> is a success when the column is there already; the
  second column of a \<open>PRAGMA table_info\<close> row is the column's name.\<close>

definition row_text :: "row \<Rightarrow> nat \<Rightarrow> string" where
  "row_text r i = (case r of
       Some cells \<Rightarrow> (if i < length cells then (case snd (cells ! i) of StringCell (Some s) \<Rightarrow> s | _ \<Rightarrow> []) else [])
     | None \<Rightarrow> [])"

definition AddVolumeUnmountTsColumn :: "('w, 'j) ext \<Rightarrow> 'w schema_op" where
  "AddVolumeUnmountTsColumn x w =
     (let (res, w1) = x_ExecuteSql x (''ALTER TABLE '' @ PERSISTED_POLICY_TABLE @ '' ADD COLUMN '' @
                        FIELD_VOLUME_UNMOUNT_TS @ '' integer not null default 0'') w
      in if res = E_OK then (E_OK, w1)
         else let (rs, w2) = x_QuerySql x (''PRAGMA table_info('' @ PERSISTED_POLICY_TABLE @ '')'') [] w1;
                  columnExists = (case rs of None \<Rightarrow> False
                    | Some rows \<Rightarrow> list_ex (\<lambda>r. row_text r 1 = FIELD_VOLUME_UNMOUNT_TS) rows)
              in (if columnExists then E_OK else res, w2))"

text \<open>Statements executed in order until one fails.\<close>

fun run_until_error :: "'w schema_op list \<Rightarrow> 'w schema_op" where
  "run_until_error [] w = (E_OK, w)"
| "run_until_error (m # ms) w = (let (res, w') = m w in if res \<noteq> E_OK then (res, w') else run_until_error ms w')"

definition backupDbPath :: string where
  "backupDbPath = ''/data/service/el1/public/sandbox_manager/'' @ ''sandbox_manager_slave.db''"

definition OnCreate :: "('w, 'j) ext \<Rightarrow> 'w schema_op" where
  "OnCreate x w =
     (let (res, w1) = run_until_error
            [x_ExecuteSql x (CreatePersistedPolicyTable_sql PERSISTED_POLICY_TABLE),
             x_ExecuteSql x (CreateBundlePersistentPolicyTable_sql BUNDLE_PERSISTENT_POLICY_TABLE),
             x_ExecuteSql x (CreateSharedFileInfoTable_sql SHARED_FILE_INFO_TABLE),
             x_ExecuteSql x (CreateUgcPermissionTable_sql UGC_PERMISSION_TABLE)] w
      in if res \<noteq> E_OK then (res, w1)
         else let (acc, w2) = x_access x backupDbPath w1
              in if acc = 0 then (E_OK, snd (x_Restore x w2)) else (E_OK, w2))"

definition OnUpgrade :: "('w, 'j) ext \<Rightarrow> int \<Rightarrow> int \<Rightarrow> 'w schema_op" where
  "OnUpgrade x currentVersion targetVersion = run_until_error
     ((if currentVersion = 1 \<and> targetVersion \<ge> 2
       then [x_ExecuteSql x (CreateBundlePersistentPolicyTable_sql BUNDLE_PERSISTENT_POLICY_TABLE)] else []) @
      (if currentVersion < 3 \<and> targetVersion \<ge> 3
       then [x_ExecuteSql x (CreateSharedFileInfoTable_sql SHARED_FILE_INFO_TABLE)] else []) @
      (if currentVersion < 4 \<and> targetVersion \<ge> 4 then [AddVolumeUnmountTsColumn x] else []) @
      (if currentVersion < 5 \<and> targetVersion \<ge> 5
       then [x_ExecuteSql x (CreateUgcPermissionTable_sql UGC_PERMISSION_TABLE)] else []))"

section \<open>An upgrade supplies what the old version lacks\<close>

lemma run_until_error_append:
  "run_until_error (ms @ ns) w =
     (let (res, w') = run_until_error ms w in if res \<noteq> E_OK then (res, w') else run_until_error ns w')"
  by (induction ms arbitrary: w) (auto simp: Let_def split: prod.splits)


lemma OnUpgrade_from_1:
  assumes "\<And>q w. fst (x_ExecuteSql x q w) = E_OK" "1 \<le> v" "v \<le> 4"
  shows "OnUpgrade x v 5 w =
    (E_OK, fold (\<lambda>q w. snd (x_ExecuteSql x q w))
       ((if v = 1 then [CreateBundlePersistentPolicyTable_sql BUNDLE_PERSISTENT_POLICY_TABLE] else []) @
        (if v < 3 then [CreateSharedFileInfoTable_sql SHARED_FILE_INFO_TABLE] else []) @
        (if v < 4 then [''ALTER TABLE '' @ PERSISTED_POLICY_TABLE @ '' ADD COLUMN '' @
                        FIELD_VOLUME_UNMOUNT_TS @ '' integer not null default 0''] else []) @
        [CreateUgcPermissionTable_sql UGC_PERMISSION_TABLE]) w)"
proof -
  have ex: "x_ExecuteSql x q w = (E_OK, snd (x_ExecuteSql x q w))" for q w
    using assms(1) [of q w] by (metis prod.collapse)
  have alter: "AddVolumeUnmountTsColumn x w = (E_OK, snd (x_ExecuteSql x (''ALTER TABLE '' @ PERSISTED_POLICY_TABLE @
      '' ADD COLUMN '' @ FIELD_VOLUME_UNMOUNT_TS @ '' integer not null default 0'') w))" for w
    by (simp add: AddVolumeUnmountTsColumn_def Let_def case_prod_beta assms(1))
  show ?thesis using assms(2,3)
    by (auto simp: OnUpgrade_def run_until_error_append Let_def case_prod_beta assms(1) alter)
qed

end
