(* ===== verification/Mac_Adapter.thy ===== *)
theory Mac_Adapter
  imports Sandbox_State
begin

text \<open>
  \<open>mac/mac_adapter.cpp\<close>: the adapter to the kernel's access control device. Policies are submitted in
  structures of eight; the five batch operations are the same loop with a different command, header and
  reading of the answer.
\<close>

section \<open>Commands\<close>

abbreviation (input) MAX_POLICY_NUM :: nat where "MAX_POLICY_NUM \<equiv> 8"

definition SET_POLICY_CMD :: nat where "SET_POLICY_CMD = 1"
definition UN_SET_POLICY_CMD :: nat where "UN_SET_POLICY_CMD = 2"
definition QUERY_POLICY_CMD :: nat where "QUERY_POLICY_CMD = 3"
definition CHECK_POLICY_CMD :: nat where "CHECK_POLICY_CMD = 4"
definition DESTROY_POLICY_CMD :: nat where "DESTROY_POLICY_CMD = 5"
definition DEL_DEC_POLICY_BY_USER_CMD :: nat where "DEL_DEC_POLICY_BY_USER_CMD = 7"
definition DENY_DEC_RULE_CMD :: nat where "DENY_DEC_RULE_CMD = 9"
definition DEL_DENY_DEC_RULE_CMD :: nat where "DEL_DENY_DEC_RULE_CMD = 10"

text \<open>\<open>struct MacParams\<close>.\<close>

record MacParams =
  mp_tokenId :: u32
  mp_policyFlag :: u64
  mp_timestamp :: u64
  mp_userId :: int

definition empty_info :: SandboxPolicyInfo where
  "empty_info = \<lparr>spi_tokenId = 0, spi_timestamp = 0, spi_pathInfos = [], spi_pathNum = 0, spi_userId = 0, spi_persist = False\<rparr>"

text \<open>A path entry: the mode is cut to 32 bits.\<close>

definition path_info :: "PolicyInfo \<Rightarrow> PathInfo" where
  "path_info p = \<lparr>pi_path = ppath p, pi_pathLen = u32_len (ppath p), pi_mode = ucast (pmode p)\<rparr>"

definition fill_paths :: "SandboxPolicyInfo \<Rightarrow> PolicyInfo list \<Rightarrow> SandboxPolicyInfo" where
  "fill_paths info ps = info\<lparr>spi_pathInfos := map path_info ps, spi_pathNum := of_nat (length ps)\<rparr>"

text \<open>The answers of one batch, written at its offset.\<close>

definition write_answers :: "(ioctl_out \<Rightarrow> nat \<Rightarrow> 'r) \<Rightarrow> nat \<Rightarrow> nat \<Rightarrow> ioctl_out \<Rightarrow> 'r list \<Rightarrow> 'r list" where
  "write_answers f offset curBatchSize out result =
     fold (\<lambda>i r. r[offset + i := f out i]) [0..<curBatchSize] result"

function mac_batches ::
  "('w, 'j) ext \<Rightarrow> nat \<Rightarrow> SandboxPolicyInfo \<Rightarrow> (ioctl_out \<Rightarrow> nat \<Rightarrow> 'r) \<Rightarrow> PolicyInfo list \<Rightarrow> nat \<Rightarrow> 'r list \<Rightarrow>
   ('w, int \<times> 'r list) op" where
  "mac_batches x cmd hdr f policy offset result =
     (if policy = [] then State_Monad.return (SANDBOX_MANAGER_OK, result)
      else let cur = take MAX_POLICY_NUM policy
        in do {
          fd \<leftarrow> gets sv_fd;
          out \<leftarrow> world (x_ioctl x fd cmd (fill_paths hdr cur));
          if io_ret out < 0 then State_Monad.return (SANDBOX_MANAGER_MAC_IOCTL_ERR, result)
          else mac_batches x cmd hdr f (drop MAX_POLICY_NUM policy) (offset + MAX_POLICY_NUM)
                 (write_answers f offset (length cur) out result)
        })"
  by pat_completeness auto
termination by (relation "measure (\<lambda>(x, cmd, hdr, f, policy, offset, result). length policy)") auto

declare mac_batches.simps [simp del]

text \<open>The guard in front of every ioctl.\<close>

definition with_fd :: "'r \<Rightarrow> ('w, int \<times> 'r) op \<Rightarrow> ('w, int \<times> 'r) op" where
  "with_fd r m = do {
     fd \<leftarrow> gets sv_fd;
     if fd < 0 then State_Monad.return (SANDBOX_MANAGER_MAC_NOT_INIT, r) else m
   }"

section \<open>Batch operations\<close>

definition SetPolicyToMac ::
  "('w, 'j) ext \<Rightarrow> PolicyInfo list \<Rightarrow> u32 list \<Rightarrow> MacParams \<Rightarrow> nat \<Rightarrow> ('w, int \<times> u32 list) op" where
  "SetPolicyToMac x policy result mp cmd = with_fd result
     (mac_batches x cmd
        (empty_info\<lparr>spi_tokenId := ucast (mp_tokenId mp), spi_persist := mp_policyFlag mp = 1,
                    spi_timestamp := mp_timestamp mp, spi_userId := mp_userId mp\<rparr>)
        (\<lambda>out i. if io_result out i = False then POLICY_MAC_FAIL else 0) policy 0 result)"

definition Mac_SetSandboxPolicy ::
  "('w, 'j) ext \<Rightarrow> PolicyInfo list \<Rightarrow> u32 list \<Rightarrow> MacParams \<Rightarrow> ('w, int \<times> u32 list) op" where
  "Mac_SetSandboxPolicy x policy result mp = SetPolicyToMac x policy result mp SET_POLICY_CMD"

definition Mac_SetDenyPolicy ::
  "('w, 'j) ext \<Rightarrow> PolicyInfo list \<Rightarrow> u32 list \<Rightarrow> MacParams \<Rightarrow> ('w, int \<times> u32 list) op" where
  "Mac_SetDenyPolicy x policy result mp = SetPolicyToMac x policy result mp DENY_DEC_RULE_CMD"

definition SetQueryResult :: "ioctl_out \<Rightarrow> nat \<Rightarrow> u32" where
  "SetQueryResult out i =
     (if io_result out i = False then
        (if 2 = io_failedReason out i then FORBIDDEN_TO_BE_PERSISTED_BY_FLAG else FORBIDDEN_TO_BE_PERSISTED)
      else OPERATE_SUCCESSFULLY)"

definition QuerySandboxPolicy ::
  "('w, 'j) ext \<Rightarrow> u32 \<Rightarrow> PolicyInfo list \<Rightarrow> u32 list \<Rightarrow> ('w, int \<times> u32 list) op" where
  "QuerySandboxPolicy x tokenId policy result = with_fd result
     (mac_batches x QUERY_POLICY_CMD (empty_info\<lparr>spi_tokenId := ucast tokenId\<rparr>) SetQueryResult policy 0 result)"

definition CheckSandboxPolicy ::
  "('w, 'j) ext \<Rightarrow> u32 \<Rightarrow> PolicyInfo list \<Rightarrow> bool list \<Rightarrow> ('w, int \<times> bool list) op" where
  "CheckSandboxPolicy x tokenId policy result = with_fd result
     (mac_batches x CHECK_POLICY_CMD (empty_info\<lparr>spi_tokenId := ucast tokenId\<rparr>) io_result policy 0 result)"

definition UnSetSandboxPolicy_batch ::
  "('w, 'j) ext \<Rightarrow> u32 \<Rightarrow> PolicyInfo list \<Rightarrow> bool list \<Rightarrow> ('w, int \<times> bool list) op" where
  "UnSetSandboxPolicy_batch x tokenId policy result = with_fd result
     (mac_batches x UN_SET_POLICY_CMD (empty_info\<lparr>spi_tokenId := ucast tokenId\<rparr>) io_result policy 0 result)"

definition UnSetSandboxPolicyByUser ::
  "('w, 'j) ext \<Rightarrow> int \<Rightarrow> PolicyInfo list \<Rightarrow> bool list \<Rightarrow> ('w, int \<times> bool list) op" where
  "UnSetSandboxPolicyByUser x userId policy result = with_fd result
     (mac_batches x DEL_DEC_POLICY_BY_USER_CMD (empty_info\<lparr>spi_userId := userId\<rparr>) io_result policy 0 result)"

section \<open>Single operations\<close>

text \<open>The answer's \<open>result\<close> field is not looked at.\<close>

definition UnSetPolicyToMac :: "('w, 'j) ext \<Rightarrow> u32 \<Rightarrow> PolicyInfo \<Rightarrow> nat \<Rightarrow> ('w, int) op" where
  "UnSetPolicyToMac x tokenId policy cmd = do {
     fd \<leftarrow> gets sv_fd;
     if fd < 0 then State_Monad.return SANDBOX_MANAGER_MAC_NOT_INIT
     else do {
       out \<leftarrow> world (x_ioctl x fd cmd (fill_paths (empty_info\<lparr>spi_tokenId := ucast tokenId\<rparr>) [policy]));
       State_Monad.return (if io_ret out < 0 then SANDBOX_MANAGER_MAC_IOCTL_ERR else SANDBOX_MANAGER_OK)
     }
   }"

definition UnSetSandboxPolicy_one :: "('w, 'j) ext \<Rightarrow> u32 \<Rightarrow> PolicyInfo \<Rightarrow> ('w, int) op" where
  "UnSetSandboxPolicy_one x tokenId policy = UnSetPolicyToMac x tokenId policy UN_SET_POLICY_CMD"

definition Mac_UnSetDenyPolicy :: "('w, 'j) ext \<Rightarrow> u32 \<Rightarrow> PolicyInfo \<Rightarrow> ('w, int) op" where
  "Mac_UnSetDenyPolicy x tokenId policy = UnSetPolicyToMac x tokenId policy DEL_DENY_DEC_RULE_CMD"

definition DestroySandboxPolicy :: "('w, 'j) ext \<Rightarrow> u32 \<Rightarrow> u64 \<Rightarrow> ('w, int) op" where
  "DestroySandboxPolicy x tokenId timestamp = do {
     fd \<leftarrow> gets sv_fd;
     if fd < 0 then State_Monad.return SANDBOX_MANAGER_MAC_NOT_INIT
     else do {
       out \<leftarrow> world (x_ioctl x fd DESTROY_POLICY_CMD (empty_info\<lparr>spi_tokenId := ucast tokenId, spi_timestamp := timestamp\<rparr>));
       State_Monad.return (if io_ret out < 0 then SANDBOX_MANAGER_MAC_IOCTL_ERR else SANDBOX_MANAGER_OK)
     }
   }"

definition GetMaxAuthTokenId :: "('w, 'j) ext \<Rightarrow> u64 \<Rightarrow> int \<Rightarrow> ('w, int \<times> u64 \<times> int) op" where
  "GetMaxAuthTokenId x tokenId count = do {
     fd \<leftarrow> gets sv_fd;
     if fd < 0 then State_Monad.return (SANDBOX_MANAGER_MAC_NOT_INIT, tokenId, count)
     else do {
       (ret, tok, n) \<leftarrow> world (x_ioctl_auth x fd);
       State_Monad.return (if ret < 0 then (SANDBOX_MANAGER_MAC_IOCTL_ERR, tokenId, count)
                           else (SANDBOX_MANAGER_OK, tok, n))
     }
   }"

section \<open>Deny configuration\<close>

abbreviation (input) MAX_DENY_CONFIG_FILE_SIZE :: int where "MAX_DENY_CONFIG_FILE_SIZE \<equiv> 5 * 1024 * 1024"

text \<open>\<open>ReadDenyFile\<close>; \<open>x_reads\<close> is what successive calls of \<open>read\<close> return until one is not positive.\<close>

definition ReadDenyFile :: "('w, 'j) ext \<Rightarrow> string \<Rightarrow> ('w, int \<times> string) op" where
  "ReadDenyFile x jsonPath = do {
     path \<leftarrow> world (x_GetOneCfgFile x jsonPath);
     (case path of
        None \<Rightarrow> State_Monad.return (SANDBOX_MANAGER_DENY_ERR, [])
      | Some p \<Rightarrow> do {
          fd \<leftarrow> world (x_open x p);
          if fd < 0 then State_Monad.return (SANDBOX_MANAGER_DENY_ERR, [])
          else do {
            size \<leftarrow> world (x_fstat x fd);
            (case size of
               None \<Rightarrow> State_Monad.return (SANDBOX_MANAGER_DENY_ERR, [])
             | Some n \<Rightarrow>
                 if n = 0 \<or> n > MAX_DENY_CONFIG_FILE_SIZE then State_Monad.return (SANDBOX_MANAGER_DENY_ERR, [])
                 else do {
                   (chunks, readLen) \<leftarrow> world (x_reads x fd);
                   State_Monad.return (if readLen = 0 then SANDBOX_MANAGER_OK else SANDBOX_MANAGER_DENY_ERR,
                                       concat chunks)
                 })
          }
        })
   }"

text \<open>\<open>ParseJsonField\<close>: \<open>None\<close> is the error.\<close>

definition ParseJsonField :: "('w, 'j) ext \<Rightarrow> 'j \<Rightarrow> string \<Rightarrow> bool \<Rightarrow> int option" where
  "ParseJsonField x item key forced = (case x_jitem x item key of
       None \<Rightarrow> if forced then None else Some 0
     | Some json \<Rightarrow> if \<not> x_jisNumber x json then None else Some (x_jint x json))"

definition DENY_JSON_ITEMS :: "(string \<times> u32 \<times> bool) list" where
  "DENY_JSON_ITEMS =
     [(''rename'', 128, True), (''delete'', 256, True), (''inherit'', 512, True),
      (''set_policy'', 1024, False), (''set_policy_all'', 2048, False)]"

fun deny_mode :: "('w, 'j) ext \<Rightarrow> 'j \<Rightarrow> (string \<times> u32 \<times> bool) list \<Rightarrow> u32 \<Rightarrow> u32 option" where
  "deny_mode x item [] mode = Some mode"
| "deny_mode x item ((key, bits, forced) # its) mode =
     (case ParseJsonField x item key forced of
        None \<Rightarrow> None
      | Some v \<Rightarrow> deny_mode x item its (if v = 1 then mode OR bits else mode))"

text \<open>\<open>FillInfo\<close>: the entries for one ioctl (\<open>None\<close> on an error) and the blocked paths collected so far.\<close>

fun FillInfo :: "('w, 'j) ext \<Rightarrow> 'j \<Rightarrow> int list \<Rightarrow> PathInfo list \<Rightarrow> string list \<Rightarrow> PathInfo list option \<times> string list" where
  "FillInfo x root [] infos blocked = (Some infos, blocked)"
| "FillInfo x root (i # is) infos blocked =
     (case x_jarrayItem x root i of
        None \<Rightarrow> (None, blocked)
      | Some item \<Rightarrow>
          (case x_jitem x item ''path'' of
             None \<Rightarrow> (None, blocked)
           | Some pathJson \<Rightarrow>
               (case (x_jisString x pathJson, x_jstring x pathJson) of
                  (True, Some path) \<Rightarrow>
                    (case deny_mode x item DENY_JSON_ITEMS 0 of
                       None \<Rightarrow> (None, blocked)
                     | Some mode \<Rightarrow>
                         FillInfo x root is
                           (infos @ [\<lparr>pi_path = path, pi_pathLen = u32_len path, pi_mode = mode\<rparr>])
                           (if mode AND 512 \<noteq> 0 then blocked @ [path] else blocked))
                | _ \<Rightarrow> (None, blocked))))"

text \<open>The loop of \<open>SetDenyCfg\<close> from item \<open>i\<close> on, with the number of items set so far.\<close>

function SetDenyCfg_loop :: "('w, 'j) ext \<Rightarrow> 'j \<Rightarrow> int \<Rightarrow> int \<Rightarrow> int \<Rightarrow> ('w, int) op" where
  "SetDenyCfg_loop x root arraySize i succSet =
     (if i < arraySize then
        let cur = min 8 (arraySize - i)
        in do {
          blocked \<leftarrow> gets sv_blockedInheritPaths;
          let (infos, blocked') = FillInfo x root [i..i + cur - 1] [] blocked;
          State_Monad.update (\<lambda>s. s\<lparr>sv_blockedInheritPaths := blocked'\<rparr>);
          (case infos of
             None \<Rightarrow> State_Monad.return succSet
           | Some ps \<Rightarrow> do {
               fd \<leftarrow> gets sv_fd;
               out \<leftarrow> world (x_ioctl x fd DENY_DEC_RULE_CMD
                        (empty_info\<lparr>spi_pathInfos := ps, spi_pathNum := word_of_int cur\<rparr>));
               if io_ret out < 0 then State_Monad.return succSet
               else SetDenyCfg_loop x root arraySize (i + 8) (succSet + cur)
             })
        }
      else State_Monad.return succSet)"
  by pat_completeness auto
termination by (relation "measure (\<lambda>(x, root, arraySize, i, succSet). nat (arraySize - i))") auto

declare SetDenyCfg_loop.simps [simp del]

definition SetDenyCfg :: "('w, 'j) ext \<Rightarrow> string \<Rightarrow> ('w, int) op" where
  "SetDenyCfg x rawData = (case x_jparse x (c_str rawData) of
       None \<Rightarrow> State_Monad.return SANDBOX_MANAGER_DENY_ERR
     | Some root \<Rightarrow>
         let arraySize = x_jarraySize x root
         in if arraySize < 0 then State_Monad.return SANDBOX_MANAGER_DENY_ERR
            else do {
              State_Monad.update (\<lambda>s. s\<lparr>sv_blockedInheritPaths := []\<rparr>);
              succSet \<leftarrow> SetDenyCfg_loop x root arraySize 0 0;
              State_Monad.return (if arraySize \<noteq> succSet then SANDBOX_MANAGER_DENY_ERR else SANDBOX_MANAGER_OK)
            })"

definition DenyInit :: "('w, 'j) ext \<Rightarrow> ('w, unit) op" where
  "DenyInit x = do {
     (ret, inputString) \<leftarrow> ReadDenyFile x ''etc/sandbox_manager_service/file_deny_policy.json'';
     if ret \<noteq> SANDBOX_MANAGER_OK then State_Monad.return ()
     else do { _ \<leftarrow> SetDenyCfg x inputString; State_Monad.return () }
   }"

definition Mac_Init :: "('w, 'j) ext \<Rightarrow> bool \<Rightarrow> ('w, unit) op" where
  "Mac_Init x initDeny = do {
     acc \<leftarrow> world (x_access_dev x);
     if acc \<noteq> 0 then State_Monad.return ()
     else do {
       State_Monad.update (\<lambda>s. s\<lparr>sv_isMacSupport := True\<rparr>);
       fd \<leftarrow> gets sv_fd;
       if fd > 0 then State_Monad.return ()
       else do {
         fd' \<leftarrow> world (x_open_dev x);
         State_Monad.update (\<lambda>s. s\<lparr>sv_fd := fd'\<rparr>);
         if fd' < 0 then State_Monad.return ()
         else if initDeny then DenyInit x else State_Monad.return ()
       }
     }
   }"

end
