(* ===== verification/Mac_Spec.thy ===== *)
theory Mac_Spec
  imports Mac_Adapter Witness_World
begin

text \<open>
  The batch loop against a plain specification (the request cut into groups of eight, one ioctl a group, the
  answers in order), and the contract the policy manager relies on: the locale \<open>mac_command\<close>.
\<close>

section \<open>Specification of the loop\<close>

function groups_of_8 :: "'a list \<Rightarrow> 'a list list" where
  "groups_of_8 xs = (if xs = [] then [] else take 8 xs # groups_of_8 (drop 8 xs))"
  by pat_completeness auto
termination by (relation "measure length") auto

declare groups_of_8.simps [simp del]

lemma groups_of_8_Nil [simp]: "groups_of_8 [] = []"
  by (simp add: groups_of_8.simps)

lemma groups_of_8_concat [simp]: "concat (groups_of_8 xs) = xs"
proof (induction xs rule: groups_of_8.induct)
  case (1 xs)
  then show ?case by (cases "xs = []") (simp_all add: groups_of_8.simps [of xs])
qed

lemma groups_of_8_size: "g \<in> set (groups_of_8 xs) \<Longrightarrow> 0 < length g \<and> length g \<le> 8"
proof (induction xs rule: groups_of_8.induct)
  case (1 xs)
  then show ?case by (cases "xs = []") (auto simp: groups_of_8.simps [of xs])
qed

text \<open>The outputs of one ioctl per group, up to the first that fails.\<close>

fun submit_groups :: "('w, 'j) ext \<Rightarrow> int \<Rightarrow> nat \<Rightarrow> SandboxPolicyInfo \<Rightarrow> PolicyInfo list list \<Rightarrow> 'w \<Rightarrow> ioctl_out list \<times> 'w" where
  "submit_groups x fd cmd hdr [] w = ([], w)"
| "submit_groups x fd cmd hdr (g # gs) w =
     (let (out, w1) = x_ioctl x fd cmd (fill_paths hdr g) w
      in if io_ret out < 0 then ([out], w1)
         else let (outs, w2) = submit_groups x fd cmd hdr gs w1 in (out # outs, w2))"

text \<open>The answers, group by group.\<close>

fun answers :: "(ioctl_out \<Rightarrow> nat \<Rightarrow> 'r) \<Rightarrow> ioctl_out list \<Rightarrow> 'a list list \<Rightarrow> 'r list" where
  "answers f (out # outs) (g # gs) =
     (if io_ret out < 0 then [] else map (f out) [0..<length g] @ answers f outs gs)"
| "answers f _ _ = []"

lemma write_answers_length [simp]: "length (write_answers f off n out r) = length r"
proof -
  have "length (fold (\<lambda>i r. r[off + i := f out i]) is r) = length r" for "is" and r :: "'a list"
    by (induction "is" arbitrary: r) auto
  then show ?thesis by (simp add: write_answers_def)
qed

lemma write_answers_split:
  assumes "n \<le> length post"
  shows "write_answers f (length pre) n out (pre @ post) = pre @ map (f out) [0..<n] @ drop n post"
  using assms
proof (induction n)
  case (Suc n)
  then obtain p ps where "drop n post = p # ps" by (cases "drop n post") auto
  moreover have "drop (Suc n) post = ps" using calculation by (metis drop_Suc tl_drop list.sel(3))
  ultimately show ?case using Suc
    by (simp add: write_answers_def nth_append list_update_append)
qed (simp add: write_answers_def)

lemma mac_batches_spec:
  "run_state (mac_batches x cmd hdr f ps (length pre) (pre @ post)) s = (code, r) \<Longrightarrow>
   length post = length ps \<Longrightarrow>
   (let (outs, w) = submit_groups x (sv_fd s) cmd hdr (groups_of_8 ps) (sv_world s);
        ans = answers f outs (groups_of_8 ps)
    in r = s\<lparr>sv_world := w\<rparr> \<and> snd code = pre @ ans @ drop (length ans) post \<and>
       fst code = (if list_ex (\<lambda>out. io_ret out < 0) outs then SANDBOX_MANAGER_MAC_IOCTL_ERR else SANDBOX_MANAGER_OK) \<and>
       (fst code = SANDBOX_MANAGER_OK \<longrightarrow> length ans = length ps))"
proof (induction ps arbitrary: pre post s rule: groups_of_8.induct)
  case (1 ps)
  show ?case
  proof (cases "ps = []")
    case True
    with "1.prems" show ?thesis by (auto simp: mac_batches.simps groups_of_8.simps)
  next
    case False
    let ?g = "take 8 ps"
    have groups: "groups_of_8 ps = ?g # groups_of_8 (drop 8 ps)" using False by (simp add: groups_of_8.simps [of ps])
    obtain out w1 where out: "x_ioctl x (sv_fd s) cmd (fill_paths hdr ?g) (sv_world s) = (out, w1)" by fastforce
    show ?thesis
    proof (cases "io_ret out < 0")
      case True
      with "1.prems" False out show ?thesis by (auto simp: mac_batches.simps [of x cmd hdr f ps] groups Let_def)
    next
      case ok: False
      let ?a = "map (f out) [0..<length ?g]"
      have wr: "write_answers f (length pre) (length ?g) out (pre @ post) = (pre @ ?a) @ drop (length ?g) post"
        using "1.prems"(2) by (subst write_answers_split) auto
      have rec: "length (drop (length ?g) post) = length (drop 8 ps)" using "1.prems"(2) by simp
      have "length pre + 8 = length (pre @ ?a) \<or> drop 8 ps = []" by auto
      then have "run_state (mac_batches x cmd hdr f (drop 8 ps) (length (pre @ ?a)) ((pre @ ?a) @ drop (length ?g) post))
          (s\<lparr>sv_world := w1\<rparr>) = (code, r)"
        using "1.prems"(1) False out ok wr
        by (auto simp: mac_batches.simps [of x cmd hdr f ps] Let_def) (auto simp: mac_batches.simps)
      from "1.IH" [OF False this rec] show ?thesis
        using out ok by (auto simp: groups Let_def add.commute split: prod.splits)
    qed
  qed
qed

text \<open>The whole operation, from an output vector sized by the caller.\<close>

lemma batch_op_spec:
  assumes "run_state (with_fd result (mac_batches x cmd hdr f ps 0 result)) s = ((ret, result'), s')"
    and "length result = length ps"
  shows "(sv_fd s < 0 \<and> ret = SANDBOX_MANAGER_MAC_NOT_INIT \<and> result' = result \<and> s' = s) \<or>
    (sv_fd s \<ge> 0 \<and> (let (outs, w) = submit_groups x (sv_fd s) cmd hdr (groups_of_8 ps) (sv_world s);
          ans = answers f outs (groups_of_8 ps)
      in s' = s\<lparr>sv_world := w\<rparr> \<and> result' = ans @ drop (length ans) result \<and>
         ret = (if list_ex (\<lambda>out. io_ret out < 0) outs then SANDBOX_MANAGER_MAC_IOCTL_ERR else SANDBOX_MANAGER_OK) \<and>
         (ret = SANDBOX_MANAGER_OK \<longrightarrow> length ans = length ps)))"
proof (cases "sv_fd s < 0")
  case True
  with assms(1) show ?thesis by (auto simp: with_fd_def)
next
  case False
  with assms(1) have "run_state (mac_batches x cmd hdr f ps (length []) ([] @ result)) s = ((ret, result'), s')"
    by (simp add: with_fd_def)
  from mac_batches_spec [OF this assms(2)] False show ?thesis by (auto simp: Let_def split: prod.splits)
qed

section \<open>What the policy manager relies on\<close>

text \<open>The per-policy answer of a successful submission: the group of the policy and its place in it.\<close>

lemma answers_nth:
  assumes "list_all (\<lambda>out. \<not> io_ret out < 0) outs" "length outs = length (groups_of_8 ps)" "i < length ps"
  shows "answers f outs (groups_of_8 ps) ! i = f (outs ! (i div 8)) (i mod 8)"
  using assms
proof (induction ps arbitrary: outs i rule: groups_of_8.induct)
  case (1 ps)
  then have ne: "ps \<noteq> []" by auto
  have groups: "groups_of_8 ps = take 8 ps # groups_of_8 (drop 8 ps)" using ne by (simp add: groups_of_8.simps [of ps])
  with "1.prems" obtain out os where outs: "outs = out # os" by (cases outs) auto
  show ?case
  proof (cases "i < 8")
    case True
    with "1.prems" groups outs show ?thesis by (simp add: nth_append)
  next
    case False
    then have d: "i div 8 = Suc ((i - 8) div 8)" "i mod 8 = (i - 8) mod 8" by (auto simp: le_div_geq le_mod_geq)
    have g8: "length (take 8 ps) = 8" using "1.prems"(3) False by simp
    have lt: "i - 8 < length (drop 8 ps)" using "1.prems"(3) False by simp
    have rest: "list_all (\<lambda>out. \<not> io_ret out < 0) os" "length os = length (groups_of_8 (drop 8 ps))"
      and ok: "\<not> io_ret out < 0"
      using "1.prems"(1,2) outs groups by auto
    have "answers f outs (groups_of_8 ps) = map (f out) [0..<8] @ answers f os (groups_of_8 (drop 8 ps))"
      using ok outs groups g8 by simp
    then have "answers f outs (groups_of_8 ps) ! i = answers f os (groups_of_8 (drop 8 ps)) ! (i - 8)"
      using False by (simp add: nth_append)
    also have "\<dots> = f (os ! ((i - 8) div 8)) ((i - 8) mod 8)" by (rule "1.IH" [OF ne rest lt])
    finally show ?thesis by (simp add: d outs)
  qed
qed

lemma submit_all:
  "submit_groups x fd cmd hdr gs w = (outs, w') \<Longrightarrow> \<not> list_ex (\<lambda>out. io_ret out < 0) outs \<Longrightarrow>
   length outs = length gs \<and> list_all (\<lambda>out. \<not> io_ret out < 0) outs"
  by (induction gs arbitrary: w outs w') (auto simp: Let_def split: prod.splits if_splits)

text \<open>C8: Setting policies submits every policy exactly once, in order, in groups of at most eight; when it
  returns success the entry of the i-th policy is the kernel's answer at place i mod 8 of group i div 8, and
  nothing but the outside world changes.\<close>

theorem SetPolicyToMac_answers:
  assumes "run_state (SetPolicyToMac x ps result mp cmd) s = ((SANDBOX_MANAGER_OK, result'), s')"
    and "length result = length ps"
  shows "\<exists>hdr outs w. submit_groups x (sv_fd s) cmd hdr (groups_of_8 ps) (sv_world s) = (outs, w) \<and>
     s' = s\<lparr>sv_world := w\<rparr> \<and> length result' = length ps \<and>
     concat (groups_of_8 ps) = ps \<and> (\<forall>g \<in> set (groups_of_8 ps). length g \<le> 8) \<and>
     (\<forall>i < length ps. result' ! i = (if io_result (outs ! (i div 8)) (i mod 8) then 0 else POLICY_MAC_FAIL))"
proof -
  let ?hdr = "empty_info\<lparr>spi_tokenId := ucast (mp_tokenId mp), spi_persist := mp_policyFlag mp = 1,
      spi_timestamp := mp_timestamp mp, spi_userId := mp_userId mp\<rparr>"
  let ?f = "\<lambda>out i. if io_result out i = False then POLICY_MAC_FAIL else 0 :: u32"
  obtain outs w where sub: "submit_groups x (sv_fd s) cmd ?hdr (groups_of_8 ps) (sv_world s) = (outs, w)" by fastforce
  from batch_op_spec [OF assms(1) [unfolded SetPolicyToMac_def] assms(2)] sub
  have r: "s' = s\<lparr>sv_world := w\<rparr>" "result' = answers ?f outs (groups_of_8 ps)" "length result' = length ps"
    "\<not> list_ex (\<lambda>out. io_ret out < 0) outs"
    using assms(2) by (auto simp: Let_def split: if_splits)
  with submit_all [OF sub r(4)] have "\<forall>i < length ps. result' ! i = ?f (outs ! (i div 8)) (i mod 8)"
    by (simp add: answers_nth)
  with r sub show ?thesis by (auto simp: groups_of_8_size)
qed

text \<open>Ten policies on a kernel that refuses the second path of a group.\<close>

definition refuse_second :: "(nat, unit) ext" where
  "refuse_second = silent_ext\<lparr>x_ioctl := (\<lambda>fd cmd info w.
     (\<lparr>io_ret = 0, io_result = (\<lambda>i. i \<noteq> 1), io_failedReason = (\<lambda>_. 0)\<rparr>, w + 1))\<rparr>"

definition ten_policies :: "PolicyInfo list" where
  "ten_policies = replicate 10 \<lparr>ppath = ''/a'', pmode = 1, ptype = 0\<rparr>"

definition no_params :: MacParams where
  "no_params = \<lparr>mp_tokenId = 7, mp_policyFlag = 0, mp_timestamp = 0, mp_userId = 100\<rparr>"

definition ready_svc :: "'w \<Rightarrow> 'w svc" where
  "ready_svc w = (init_svc w)\<lparr>sv_db := True, sv_fd := 3, sv_isMacSupport := True\<rparr>"

theorem SetPolicyToMac_answers_witness:
  "\<exists>hdr outs w. submit_groups refuse_second 3 SET_POLICY_CMD hdr (groups_of_8 ten_policies) 0 = (outs, w) \<and>
     (\<forall>i < length ten_policies. [0, 5, 0, 0, 0, 0, 0, 0, 0, 5] ! i =
        (if io_result (outs ! (i div 8)) (i mod 8) then 0 else POLICY_MAC_FAIL :: u32))"
proof -
  have fst: "fst (run_state (SetPolicyToMac refuse_second ten_policies (replicate 10 9) no_params SET_POLICY_CMD) (ready_svc 0)) =
      (SANDBOX_MANAGER_OK, [0, 5, 0, 0, 0, 0, 0, 0, 0, 5])"
    by code_simp
  obtain s' where run: "run_state (SetPolicyToMac refuse_second ten_policies (replicate 10 9) no_params SET_POLICY_CMD) (ready_svc 0) =
      ((SANDBOX_MANAGER_OK, [0, 5, 0, 0, 0, 0, 0, 0, 0, 5]), s')"
    using fst by (metis prod.collapse)
  have len: "length (replicate 10 9 :: u32 list) = length ten_policies" by (simp add: ten_policies_def)
  from SetPolicyToMac_answers [OF run len] have "\<exists>hdr outs w. submit_groups refuse_second (sv_fd (ready_svc (0::nat))) SET_POLICY_CMD hdr
      (groups_of_8 ten_policies) (sv_world (ready_svc 0)) = (outs, w) \<and>
      (\<forall>i < length ten_policies. [0, 5, 0, 0, 0, 0, 0, 0, 0, 5] ! i =
        (if io_result (outs ! (i div 8)) (i mod 8) then 0 else POLICY_MAC_FAIL :: u32))"
    by (elim exE conjE) (intro exI conjI, assumption+)
  moreover have "sv_fd (ready_svc (0::nat)) = 3" "sv_world (ready_svc (0::nat)) = 0"
    by (simp_all add: ready_svc_def init_svc_def)
  ultimately show ?thesis by simp
qed

text \<open>
  The contract of a batch command for its callers: the vector keeps its size, only the outside world changes,
  and before the device is open the operation does nothing but say so.
\<close>

locale mac_command =
  fixes cmd :: "PolicyInfo list \<Rightarrow> 'r list \<Rightarrow> ('w, int \<times> 'r list) op"
  assumes keeps_size: "run_state (cmd ps r) s = ((ret, r'), s') \<Longrightarrow> length r = length ps \<Longrightarrow> length r' = length ps"
    and only_world: "run_state (cmd ps r) s = ((ret, r'), s') \<Longrightarrow> length r = length ps \<Longrightarrow> \<exists>w. s' = s\<lparr>sv_world := w\<rparr>"
    and needs_fd: "sv_fd s < 0 \<Longrightarrow> run_state (cmd ps r) s = ((SANDBOX_MANAGER_MAC_NOT_INIT, r), s)"
    and codes: "run_state (cmd ps r) s = ((ret, r'), s') \<Longrightarrow> length r = length ps \<Longrightarrow>
      ret \<in> {SANDBOX_MANAGER_OK, SANDBOX_MANAGER_MAC_NOT_INIT, SANDBOX_MANAGER_MAC_IOCTL_ERR}"

lemma answers_length_le: "length (answers f outs gs) \<le> length (concat gs)"
  by (induction f outs gs rule: answers.induct) auto

lemma batch_op_contract:
  assumes "run_state (with_fd r (mac_batches x c hdr f ps 0 r)) s = ((ret, r'), s')" "length r = length ps"
  shows "length r' = length ps" "\<exists>w. s' = s\<lparr>sv_world := w\<rparr>"
    "ret \<in> {SANDBOX_MANAGER_OK, SANDBOX_MANAGER_MAC_NOT_INIT, SANDBOX_MANAGER_MAC_IOCTL_ERR}"
proof -
  have same: "\<exists>w. s = s\<lparr>sv_world := w\<rparr>" by (rule exI [of _ "sv_world s"]) simp
  have len: "length (answers f outs (groups_of_8 ps)) \<le> length ps" for outs
    using answers_length_le [of f outs "groups_of_8 ps"] by simp
  from batch_op_spec [OF assms] assms(2) same len
  show "length r' = length ps" "\<exists>w. s' = s\<lparr>sv_world := w\<rparr>"
    "ret \<in> {SANDBOX_MANAGER_OK, SANDBOX_MANAGER_MAC_NOT_INIT, SANDBOX_MANAGER_MAC_IOCTL_ERR}"
    by (auto simp: Let_def split: prod.splits if_splits)
qed

lemma with_fd_closed: "sv_fd s < 0 \<Longrightarrow> run_state (with_fd r m) s = ((SANDBOX_MANAGER_MAC_NOT_INIT, r), s)"
  by (simp add: with_fd_def)

interpretation set_cmd: mac_command "\<lambda>ps r. SetPolicyToMac x ps r mp c" for x mp c
  by unfold_locales (unfold SetPolicyToMac_def, auto intro: batch_op_contract with_fd_closed dest: batch_op_contract(3))

interpretation query_cmd: mac_command "\<lambda>ps r. QuerySandboxPolicy x t ps r" for x t
  by unfold_locales (unfold QuerySandboxPolicy_def, auto intro: batch_op_contract with_fd_closed dest: batch_op_contract(3))

interpretation check_cmd: mac_command "\<lambda>ps r. CheckSandboxPolicy x t ps r" for x t
  by unfold_locales (unfold CheckSandboxPolicy_def, auto intro: batch_op_contract with_fd_closed dest: batch_op_contract(3))

interpretation unset_cmd: mac_command "\<lambda>ps r. UnSetSandboxPolicy_batch x t ps r" for x t
  by unfold_locales (unfold UnSetSandboxPolicy_batch_def, auto intro: batch_op_contract with_fd_closed dest: batch_op_contract(3))

interpretation unset_user_cmd: mac_command "\<lambda>ps r. UnSetSandboxPolicyByUser x u ps r" for x u
  by unfold_locales (unfold UnSetSandboxPolicyByUser_def, auto intro: batch_op_contract with_fd_closed dest: batch_op_contract(3))

end
