(* ===== verification/Share_Files.thy ===== *)
theory Share_Files
  imports Rdb Path_Checks
begin

text \<open>
  \<open>share/share_files.cpp\<close>: the configuration of paths an application shares (bundle, user, path, mode), read
  from the bundle manager's JSON profiles, and the shared file table.
\<close>

section \<open>Modes and paths\<close>

definition PermissionToMode :: "string \<Rightarrow> u32" where
  "PermissionToMode permission =
     (if permission = ''r'' then READ_MODE else if permission = ''r+w'' then READ_MODE OR WRITE_MODE else 0)"

definition VALID_EL_NUMBERS :: "string list" where
  "VALID_EL_NUMBERS = [''el1'', ''el2'', ''el3'', ''el4'', ''el5'']"

definition IsValidElNumber :: "string \<Rightarrow> bool" where
  "IsValidElNumber elStr \<longleftrightarrow> elStr \<in> set VALID_EL_NUMBERS"

definition IsPathSecure :: "string \<Rightarrow> bool" where
  "IsPathSecure path =
     (if path = [] \<or> path ! 0 \<noteq> CHR ''/'' \<or> last path = CHR ''/'' then False
      else if CHR 0x00 \<in> set path then False
      else if starts_with path ''//'' then False
      else if length (c_str path) \<noteq> length path then False
      else lexically_normal path = path)"

definition FULL_PATH_START :: string where "FULL_PATH_START = ''/storage/Users/currentUser/appdata/''"
definition DEFAULT_EL :: string where "DEFAULT_EL = ''el2''"
abbreviation (input) MIN_PARTS_FORMAT :: nat where "MIN_PARTS_FORMAT \<equiv> 2"
abbreviation (input) MAX_PARTS_FORMAT :: nat where "MAX_PARTS_FORMAT \<equiv> 10"

definition PathCompose :: "string \<Rightarrow> string \<Rightarrow> string" where
  "PathCompose path name =
     (if path = [] \<or> name = [] then []
      else if \<not> IsPathSecure path then []
      else let parts = filter (\<lambda>c. c \<noteq> []) (getlines [] path)
        in if parts = [] then []
           else if length parts < MIN_PARTS_FORMAT \<or> length parts > MAX_PARTS_FORMAT then []
           else let tail = concat (map (\<lambda>p. ''/'' @ p) (drop MIN_PARTS_FORMAT parts))
             in if IsValidElNumber (parts ! 0) then
                  FULL_PATH_START @ parts ! 0 @ ''/'' @ parts ! 1 @ ''/'' @ name @ tail
                else if parts ! 0 = ''base'' then
                  FULL_PATH_START @ DEFAULT_EL @ ''/'' @ parts ! 0 @ ''/'' @ name @ ''/'' @ parts ! 1 @ tail
                else [])"

definition NormalizeBasePath :: "string \<Rightarrow> string" where
  "NormalizeBasePath path = (if starts_with path ''/base/'' then ''/el2'' @ path else path)"

section \<open>The share map\<close>

text \<open>The three nested hash maps are association lists, in their iteration order.\<close>

type_synonym share_map = "(string \<times> (u32 \<times> (string \<times> u32) list) list) list"

definition share_paths :: "share_map \<Rightarrow> string \<Rightarrow> u32 \<Rightarrow> (string \<times> u32) list option" where
  "share_paths m bundleName userId = (case map_of m bundleName of
       None \<Rightarrow> None
     | Some users \<Rightarrow> map_of users userId)"

definition Exists :: "share_map \<Rightarrow> string \<Rightarrow> u32 \<Rightarrow> bool" where
  "Exists m bundleName userId \<longleftrightarrow> share_paths m bundleName userId \<noteq> None"

text \<open>The loop of \<open>FindPermission\<close>: the first configured path that is a prefix of the path up to a separator.\<close>

definition config_covers :: "string \<Rightarrow> string \<Rightarrow> bool" where
  "config_covers configPath path \<longleftrightarrow> starts_with path configPath \<and>
     (length path = length configPath \<or> length path > length configPath \<and> path ! length configPath = CHR ''/'')"

fun FindPermission_loop :: "(string \<times> u32) list \<Rightarrow> string \<Rightarrow> u32" where
  "FindPermission_loop [] path = SHARE_PATH_UNSET"
| "FindPermission_loop ((configPath, mode) # entries) path =
     (if config_covers configPath path then mode else FindPermission_loop entries path)"

definition FindPermission_in :: "share_map \<Rightarrow> string \<Rightarrow> u32 \<Rightarrow> string \<Rightarrow> u32" where
  "FindPermission_in m bundleName userId path = (case share_paths m bundleName userId of
       None \<Rightarrow> SHARE_BUNDLE_UNSET
     | Some entries \<Rightarrow> FindPermission_loop entries path)"

definition FindPermission :: "string \<Rightarrow> u32 \<Rightarrow> string \<Rightarrow> ('w, u32) op" where
  "FindPermission bundleName userId path = gets (\<lambda>s. FindPermission_in (sv_shareMap s) bundleName userId path)"

definition DeleteByBundleName_in :: "string \<Rightarrow> share_map \<Rightarrow> share_map" where
  "DeleteByBundleName_in bundleName m = filter (\<lambda>e. fst e \<noteq> bundleName) m"

definition DeleteByBundleName :: "string \<Rightarrow> ('w, unit) op" where
  "DeleteByBundleName bundleName =
     State_Monad.update (\<lambda>s. s\<lparr>sv_shareMap := DeleteByBundleName_in bundleName (sv_shareMap s)\<rparr>)"

text \<open>\<open>g_shareMap[bundleName][userId][path] = mode\<close>.\<close>

definition map_or_empty :: "('k \<times> 'v list) list \<Rightarrow> 'k \<Rightarrow> 'v list" where
  "map_or_empty m k = (case map_of m k of None \<Rightarrow> [] | Some v \<Rightarrow> v)"

definition share_set :: "string \<Rightarrow> u32 \<Rightarrow> string \<Rightarrow> u32 \<Rightarrow> share_map \<Rightarrow> share_map" where
  "share_set bundleName userId path mode m =
     (let users = map_or_empty m bundleName; paths = map_or_empty users userId
      in AList.update bundleName (AList.update userId (AList.update path mode paths) users) m)"

definition AddToMap :: "string \<Rightarrow> u32 \<Rightarrow> string \<Rightarrow> u32 \<Rightarrow> ('w, bool) op" where
  "AddToMap bundleName userId path mode =
     (if bundleName = [] then State_Monad.return False
      else if path = [] \<or> mode = 0 then do { DeleteByBundleName bundleName; State_Monad.return False }
      else do {
        State_Monad.update (\<lambda>s. s\<lparr>sv_shareMap := share_set bundleName userId path mode (sv_shareMap s)\<rparr>);
        State_Monad.return True
      })"

section \<open>Loading a profile\<close>

abbreviation (input) MAX_JSON_SIZE :: nat where "MAX_JSON_SIZE \<equiv> 5 * 1024 * 1024"
abbreviation (input) MAX_SHARE_CONFIG_COUNT :: nat where "MAX_SHARE_CONFIG_COUNT \<equiv> 20"

text \<open>
  A member that is a JSON string (the accessors answer "no" for a missing member); its text. cJSON sets
  the text of every item it types as a string, so \<open>x_jstring\<close> is present wherever \<open>x_jisString\<close> holds:
  \<open>TransAndSetToMapInner\<close>, which reads \<open>valuestring\<close> without the null test its sibling routines make,
  shares the accessor with them, and the case of a string item without text, where it would read
  through a null pointer, is outside the model.
\<close>

definition string_member :: "('w, 'j) ext \<Rightarrow> 'j \<Rightarrow> string \<Rightarrow> string option" where
  "string_member x item key = (case x_jitem x item key of
       None \<Rightarrow> None
     | Some j \<Rightarrow> if x_jisString x j then x_jstring x j else None)"

fun TransAndSetToMap_loop :: "('w, 'j) ext \<Rightarrow> 'j list \<Rightarrow> string \<Rightarrow> int \<Rightarrow> nat \<Rightarrow> ('w, int) op" where
  "TransAndSetToMap_loop x [] bundleName userId configCount = State_Monad.return SANDBOX_MANAGER_OK"
| "TransAndSetToMap_loop x (scope # scopes) bundleName userId configCount =
     (if \<not> x_jisObject x scope then TransAndSetToMap_loop x scopes bundleName userId configCount
      else case string_member x scope ''path'' of
        None \<Rightarrow> TransAndSetToMap_loop x scopes bundleName userId configCount
      | Some path \<Rightarrow> (case string_member x scope ''permission'' of
          None \<Rightarrow> TransAndSetToMap_loop x scopes bundleName userId configCount
        | Some permission \<Rightarrow> do {
            ok \<leftarrow> AddToMap bundleName (word_of_int userId) (PathCompose path bundleName) (PermissionToMode permission);
            if \<not> ok then State_Monad.return INVALID_PARAMTER
            else if configCount + 1 > MAX_SHARE_CONFIG_COUNT then do {
              DeleteByBundleName bundleName;
              State_Monad.return INVALID_PARAMTER
            }
            else TransAndSetToMap_loop x scopes bundleName userId (configCount + 1)
          }))"

text \<open>An object member, an array member.\<close>

definition member_that :: "('w, 'j) ext \<Rightarrow> ('j \<Rightarrow> bool) \<Rightarrow> 'j \<Rightarrow> string \<Rightarrow> 'j option" where
  "member_that x p item key = (case x_jitem x item key of None \<Rightarrow> None | Some j \<Rightarrow> if p j then Some j else None)"

definition TransAndSetToMapInner :: "('w, 'j) ext \<Rightarrow> 'j \<Rightarrow> string \<Rightarrow> int \<Rightarrow> ('w, int) op" where
  "TransAndSetToMapInner x root bundleName userId =
     (case member_that x (x_jisObject x) root ''share_files'' of
        None \<Rightarrow> State_Monad.return INVALID_PARAMTER
      | Some share_files \<Rightarrow> (case member_that x (x_jisArray x) share_files ''scopes'' of
          None \<Rightarrow> State_Monad.return INVALID_PARAMTER
        | Some scopes \<Rightarrow> TransAndSetToMap_loop x (x_jchildren x scopes) bundleName userId 0))"

definition TransAndSetToMap :: "('w, 'j) ext \<Rightarrow> string \<Rightarrow> string \<Rightarrow> int \<Rightarrow> ('w, int) op" where
  "TransAndSetToMap x profile bundleName userId =
     (if length profile > MAX_JSON_SIZE then State_Monad.return INVALID_PARAMTER
      else case x_jparse x (c_str profile) of
        None \<Rightarrow> State_Monad.return INVALID_PARAMTER
      | Some root \<Rightarrow> TransAndSetToMapInner x root bundleName userId)"

fun load_profiles :: "('w, 'j) ext \<Rightarrow> (string \<times> string) list \<Rightarrow> int \<Rightarrow> ('w, unit) op" where
  "load_profiles x [] userId = State_Monad.return ()"
| "load_profiles x ((profile, bundleName) # infos) userId = do {
     _ \<leftarrow> TransAndSetToMap x profile bundleName userId;
     load_profiles x infos userId
   }"

definition GetAllShareCfg :: "('w, 'j) ext \<Rightarrow> int \<Rightarrow> ('w, int) op" where
  "GetAllShareCfg x userId = do {
     bundleMgr \<leftarrow> world (x_GetBundleMgr x);
     if \<not> bundleMgr then State_Monad.return PERMISSION_DENIED
     else do {
       (err, infos) \<leftarrow> world (x_GetAllJsonProfile x userId);
       if err \<noteq> 0 then State_Monad.return PERMISSION_DENIED
       else do { load_profiles x infos userId; State_Monad.return SANDBOX_MANAGER_OK }
     }
   }"

definition GetShareCfgByBundle :: "('w, 'j) ext \<Rightarrow> string \<Rightarrow> int \<Rightarrow> ('w, int) op" where
  "GetShareCfgByBundle x bundleName userId = do {
     bundleMgr \<leftarrow> world (x_GetBundleMgr x);
     if \<not> bundleMgr then State_Monad.return PERMISSION_DENIED
     else do {
       (err, module_name) \<leftarrow> world (x_GetEntryModule x bundleName userId);
       if err \<noteq> 0 then State_Monad.return PERMISSION_DENIED
       else do {
         (err', profile) \<leftarrow> world (x_GetJsonProfile x bundleName module_name userId);
         if err' \<noteq> 0 then State_Monad.return PERMISSION_DENIED
         else TransAndSetToMap x profile bundleName userId
       }
     }
   }"

abbreviation (input) MAIN_USER_ID :: int where "MAIN_USER_ID \<equiv> 100"

definition InitShareMap :: "('w, 'j) ext \<Rightarrow> ('w, int) op" where
  "InitShareMap x = do {
     (ret, userId) \<leftarrow> world (x_GetForegroundUser x);
     GetAllShareCfg x (if ret \<noteq> 0 then MAIN_USER_ID else userId)
   }"

definition Refresh :: "('w, 'j) ext \<Rightarrow> string \<Rightarrow> int \<Rightarrow> ('w, unit) op" where
  "Refresh x bundleName userId = do {
     DeleteByBundleName bundleName;
     _ \<leftarrow> GetShareCfgByBundle x bundleName userId;
     State_Monad.return ()
   }"

section \<open>The shared file table\<close>

definition CheckShareFileInfoParams :: "string \<Rightarrow> u32 \<Rightarrow> int" where
  "CheckShareFileInfoParams bundleName tokenId =
     (if bundleName = [] then INVALID_PARAMTER else if tokenId = 0 then INVALID_PARAMTER else SANDBOX_MANAGER_OK)"

definition CheckParamsAndCfginfo :: "string \<Rightarrow> u32 \<Rightarrow> string \<Rightarrow> int" where
  "CheckParamsAndCfginfo bundleName tokenId cfginfo =
     (let ret = CheckShareFileInfoParams bundleName tokenId
      in if ret \<noteq> SANDBOX_MANAGER_OK then ret
         else if length cfginfo > MAX_JSON_SIZE then INVALID_PARAMTER else SANDBOX_MANAGER_OK)"

text \<open>The loop over the scopes: the first scope with the path decides.\<close>

fun find_scope :: "('w, 'j) ext \<Rightarrow> 'j list \<Rightarrow> string \<Rightarrow> 'j option" where
  "find_scope x [] sharingOSPath = None"
| "find_scope x (scope # scopes) sharingOSPath =
     (if \<not> x_jisObject x scope then find_scope x scopes sharingOSPath
      else case string_member x scope ''path'' of
        None \<Rightarrow> find_scope x scopes sharingOSPath
      | Some scopePath \<Rightarrow>
          if NormalizeBasePath scopePath = NormalizeBasePath sharingOSPath then Some scope
          else find_scope x scopes sharingOSPath)"

definition ValidateSharingOSPathAndPermission :: "('w, 'j) ext \<Rightarrow> 'j \<Rightarrow> string \<Rightarrow> string \<Rightarrow> int" where
  "ValidateSharingOSPathAndPermission x scopes sharingOSPath sharingOSPermission =
     (case find_scope x (x_jchildren x scopes) sharingOSPath of
        None \<Rightarrow> INVALID_PARAMTER
      | Some scope \<Rightarrow> (case string_member x scope ''permission'' of
          None \<Rightarrow> INVALID_PARAMTER
        | Some scopePermission \<Rightarrow>
            if scopePermission = sharingOSPermission \<or> (scopePermission = ''r+w'' \<and> sharingOSPermission = ''r'')
            then SANDBOX_MANAGER_OK else INVALID_PARAMTER))"

definition ValidateSharingOSSubPath :: "string \<Rightarrow> int" where
  "ValidateSharingOSSubPath sharingOSSubPath =
     (if length sharingOSSubPath > 32 then INVALID_PARAMTER
      else if sharingOSSubPath = [] then SANDBOX_MANAGER_OK
      else if \<not> IsPathSecure sharingOSSubPath then INVALID_PARAMTER
      else SANDBOX_MANAGER_OK)"

definition WriteShareFileToDb :: "('w, 'j) ext \<Rightarrow> string \<Rightarrow> string \<Rightarrow> string \<Rightarrow> string \<Rightarrow> u32 \<Rightarrow> u32 \<Rightarrow> ('w, int) op" where
  "WriteShareFileToDb x sharingOSPath sharingOSPermission sharingOSSubPath bundleName userId tokenId =
     (let composedPath = PathCompose sharingOSPath bundleName
      in if composedPath = [] then State_Monad.return INVALID_PARAMTER
         else let sharedFilePath = composedPath @ sharingOSSubPath;
                  sharedFileMode = PermissionToMode sharingOSPermission;
                  values = gv_of [(FIELD_TOKENID, TYPE_INT (sint tokenId)), (FIELD_BUNDLENAME, TYPE_STRING bundleName),
                             (FIELD_USERID, TYPE_INT (sint userId)), (FIELD_SHARED_OS_PATH, TYPE_STRING sharedFilePath),
                             (FIELD_SHARED_MODE, TYPE_INT (sint sharedFileMode))]
           in do {
             ret \<leftarrow> Rdb_Add x SANDBOX_MANAGER_SHARED_FILE_INFO [values] REPLACE;
             State_Monad.return (if ret \<noteq> SUCCESS then SANDBOX_MANAGER_DB_ERR else SANDBOX_MANAGER_OK)
           })"

definition ProcessShareFileInfo :: "('w, 'j) ext \<Rightarrow> 'j \<Rightarrow> string \<Rightarrow> u32 \<Rightarrow> u32 \<Rightarrow> ('w, int) op" where
  "ProcessShareFileInfo x root bundleName userId tokenId =
     (case member_that x (x_jisObject x) root ''share_files'' of
        None \<Rightarrow> State_Monad.return SANDBOX_MANAGER_OK
      | Some shareFiles \<Rightarrow> (case member_that x (x_jisArray x) shareFiles ''scopes'' of
          None \<Rightarrow> State_Monad.return INVALID_PARAMTER
        | Some scopes \<Rightarrow> (case string_member x shareFiles ''sharingOSPath'' of
            None \<Rightarrow> State_Monad.return SANDBOX_MANAGER_OK
          | Some osPath \<Rightarrow> (case string_member x shareFiles ''sharingOSPermission'' of
              None \<Rightarrow> State_Monad.return INVALID_PARAMTER
            | Some osPermission \<Rightarrow> (case string_member x shareFiles ''sharingOSSubpath'' of
                None \<Rightarrow> State_Monad.return INVALID_PARAMTER
              | Some subPath \<Rightarrow>
                  let ret = ValidateSharingOSSubPath subPath
                  in if ret \<noteq> SANDBOX_MANAGER_OK then State_Monad.return ret
                     else let ret' = ValidateSharingOSPathAndPermission x scopes osPath osPermission
                       in if ret' \<noteq> SANDBOX_MANAGER_OK then State_Monad.return ret'
                          else WriteShareFileToDb x osPath osPermission subPath bundleName userId tokenId)))))"

definition UnsetShareFileInfo :: "('w, 'j) ext \<Rightarrow> u32 \<Rightarrow> string \<Rightarrow> u32 \<Rightarrow> ('w, int) op" where
  "UnsetShareFileInfo x tokenId bundleName userId =
     (let ret = CheckShareFileInfoParams bundleName tokenId
      in if ret \<noteq> SANDBOX_MANAGER_OK then State_Monad.return ret
         else do {
           ret' \<leftarrow> Rdb_Remove x SANDBOX_MANAGER_SHARED_FILE_INFO (gv_of [(FIELD_TOKENID, TYPE_INT (sint tokenId))]);
           State_Monad.return (if ret' \<noteq> SUCCESS then SANDBOX_MANAGER_DB_ERR else SANDBOX_MANAGER_OK)
         })"

definition SetShareFileInfo :: "('w, 'j) ext \<Rightarrow> string \<Rightarrow> string \<Rightarrow> u32 \<Rightarrow> u32 \<Rightarrow> ('w, int) op" where
  "SetShareFileInfo x cfginfo bundleName userId tokenId =
     (if cfginfo = [] then State_Monad.return SANDBOX_MANAGER_OK
      else let ret = CheckParamsAndCfginfo bundleName tokenId cfginfo
        in if ret \<noteq> SANDBOX_MANAGER_OK then State_Monad.return ret
           else case x_jparse x (c_str cfginfo) of
             None \<Rightarrow> State_Monad.return INVALID_PARAMTER
           | Some root \<Rightarrow> ProcessShareFileInfo x root bundleName userId tokenId)"

definition UpdateShareFileInfo :: "('w, 'j) ext \<Rightarrow> string \<Rightarrow> string \<Rightarrow> u32 \<Rightarrow> u32 \<Rightarrow> ('w, int) op" where
  "UpdateShareFileInfo x cfginfo bundleName userId tokenId =
     (if cfginfo = [] then UnsetShareFileInfo x tokenId bundleName userId
      else let ret = CheckParamsAndCfginfo bundleName tokenId cfginfo
        in if ret \<noteq> SANDBOX_MANAGER_OK then State_Monad.return ret
           else case x_jparse x (c_str cfginfo) of
             None \<Rightarrow> State_Monad.return INVALID_PARAMTER
           | Some root \<Rightarrow> do {
               ret' \<leftarrow> ProcessShareFileInfo x root bundleName userId tokenId;
               (if ret' \<noteq> SANDBOX_MANAGER_OK then do {
                  _ \<leftarrow> UnsetShareFileInfo x tokenId bundleName userId;
                  State_Monad.return ret'
                } else State_Monad.return ret')
             })"

end
