(* ===== verification/Share_Spec.thy ===== *)
theory Share_Spec
  imports Share_Files Checks_Spec Witness_World "HOL-Library.Multiset"
begin

text \<open>
  What the share component guarantees: where composed paths lie, that a profile is loaded as a whole or not at
  all, what a permission lookup answers, and that a shared directory never gets more than its scope allows.
\<close>

section \<open>Secure paths and composed paths\<close>

lemma IsPathSecure_iff: "IsPathSecure p \<longleftrightarrow> CHR 0x00 \<notin> set p \<and> canonical_path p"
proof
  assume s: "IsPathSecure p"
  then have f: "p \<noteq> []" "p ! 0 = CHR ''/''" "last p \<noteq> CHR ''/''" "CHR 0x00 \<notin> set p" "lexically_normal p = p"
    by (auto simp: IsPathSecure_def split: if_splits)
  then have "NormalizePath p = p" by (simp add: NormalizePath_def strip_trailing.simps)
  moreover have "hd p = CHR ''/''" using f(1,2) by (simp add: hd_conv_nth)
  ultimately have "p = ''/'' \<or> canonical_path p" using NormalizePath_absolute [OF f(1)] by simp
  then show "CHR 0x00 \<notin> set p \<and> canonical_path p" using f(3,4) by auto
next
  assume c: "CHR 0x00 \<notin> set p \<and> canonical_path p"
  then obtain segs where segs: "segs \<noteq> []" "list_all canonical_name segs" "p = render segs"
    by (auto simp: canonical_path_def)
  note ok = canonical_segments [OF segs(2)]
  note head = render_head [OF segs(1) ok] and last = last_render [OF ok segs(1)]
  have "\<not> starts_with p ''//''"
    using head unfolding segs(3) starts_with_def by (cases "render segs"; cases "tl (render segs)") auto
  moreover have "c_str p = p" using c by (simp add: c_str_id_iff)
  ultimately show "IsPathSecure p"
    using c head last lexically_normal_canonical [OF segs(2,1)] segs(1) unfolding segs(3) IsPathSecure_def by simp
qed

lemma getlines_segments: "filter (\<lambda>c. c \<noteq> []) (getlines acc s) = segments_of acc s"
  by (induction acc s rule: segments_of.induct) auto

lemma concat_render: "concat (map (\<lambda>p. ''/'' @ p) xs) = render xs"
  by (simp add: render_def)

lemma render_Cons: "render (s # ss) = CHR ''/'' # s @ render ss"
  by (simp add: render_def)

lemma render_Nil: "render [] = []"
  by (simp add: render_def)

text \<open>The composed path in terms of the names of the configured path.\<close>

lemma PathCompose_render:
  assumes "list_all canonical_name parts" "CHR 0x00 \<notin> set (render parts)" "parts \<noteq> []" "name \<noteq> []"
  shows "PathCompose (render parts) name =
     (if length parts < 2 \<or> length parts > 10 then []
      else if IsValidElNumber (parts ! 0) then
        render ([''storage'', ''Users'', ''currentUser'', ''appdata'', parts ! 0, parts ! 1, name] @ drop 2 parts)
      else if parts ! 0 = ''base'' then
        render ([''storage'', ''Users'', ''currentUser'', ''appdata'', ''el2'', ''base'', name] @ drop 1 parts)
      else [])"
proof -
  have "IsPathSecure (render parts)" using assms by (auto simp: IsPathSecure_iff canonical_path_def)
  moreover have "filter (\<lambda>c. c \<noteq> []) (getlines [] (render parts)) = parts"
    using assms(1) canonical_segments by (simp add: getlines_segments segments_of_render)
  moreover have "length parts \<ge> 2 \<Longrightarrow> drop 1 parts = parts ! 1 # drop 2 parts"
    using Cons_nth_drop_Suc [of 1 parts] by (simp add: numeral_2_eq_2)
  ultimately show ?thesis
    using assms by (simp add: PathCompose_def concat_render render_Cons render_append FULL_PATH_START_def DEFAULT_EL_def)
qed

lemma PathCompose_insecure: "\<not> IsPathSecure path \<Longrightarrow> PathCompose path name = []"
  by (simp add: PathCompose_def)

lemma PathCompose_cases:
  assumes "PathCompose path name \<noteq> []"
  obtains parts where "list_all canonical_name parts" "CHR 0x00 \<notin> set (render parts)" "path = render parts"
    "parts \<noteq> []" "name \<noteq> []" "2 \<le> length parts" "length parts \<le> 10"
proof -
  from assms have s: "IsPathSecure path" and "name \<noteq> []"
    by (auto simp: PathCompose_def split: if_splits)
  then obtain parts where p: "parts \<noteq> []" "list_all canonical_name parts" "path = render parts" "CHR 0x00 \<notin> set path"
    by (auto simp: IsPathSecure_iff canonical_path_def)
  with PathCompose_render [of parts name] assms \<open>name \<noteq> []\<close> have "2 \<le> length parts" "length parts \<le> 10"
    by (auto split: if_splits)
  with p \<open>name \<noteq> []\<close> that show thesis by blast
qed

text \<open>C16: A composed share path never leaves the application's own directory: for every configured path that is
  accepted, the result is a canonical path \<open>/storage/Users/currentUser/appdata/el/dir/name/rest\<close> with a valid
  encryption level, the bundle's name as its seventh component, and at most nine further names.\<close>

theorem PathCompose_own_directory:
  assumes "PathCompose path name \<noteq> []"
  shows "\<exists>el d rest. IsValidElNumber el \<and> list_all canonical_name (d # rest) \<and> length rest \<le> 9 \<and>
     PathCompose path name =
       render ([''storage'', ''Users'', ''currentUser'', ''appdata'', el, d, name] @ rest)"
proof -
  obtain parts where p: "list_all canonical_name parts" "CHR 0x00 \<notin> set (render parts)" "path = render parts"
    "parts \<noteq> []" "name \<noteq> []" "2 \<le> length parts" "length parts \<le> 10"
    using PathCompose_cases [OF assms] .
  note eq = PathCompose_render [OF p(1,2,4,5)]
  have names: "canonical_name (parts ! 1)" "list_all canonical_name (drop n parts)" for n
    using p(1,6) by (auto simp: list_all_length)
  show ?thesis
  proof (cases "IsValidElNumber (parts ! 0)")
    case True
    with p names eq show ?thesis
      by (intro exI [of _ "parts ! 0"] exI [of _ "parts ! 1"] exI [of _ "drop 2 parts"]) simp
  next
    case False
    with p names eq assms show ?thesis
      by (intro exI [of _ "''el2''"] exI [of _ "''base''"] exI [of _ "drop 1 parts"])
         (auto simp: IsValidElNumber_def VALID_EL_NUMBERS_def canonical_name_def segment_ok_def split: if_splits)
  qed
qed

text \<open>Applied to a configured directory of the base area.\<close>

theorem PathCompose_own_directory_witness:
  "PathCompose ''/base/files/docs'' ''com.a'' = ''/storage/Users/currentUser/appdata/el2/base/com.a/files/docs'' \<and>
   (\<exists>el d rest. IsValidElNumber el \<and> list_all canonical_name (d # rest) \<and> length rest \<le> 9 \<and>
     PathCompose ''/base/files/docs'' ''com.a'' =
       render ([''storage'', ''Users'', ''currentUser'', ''appdata'', el, d, ''com.a''] @ rest))"
proof -
  have v: "PathCompose ''/base/files/docs'' ''com.a'' = ''/storage/Users/currentUser/appdata/el2/base/com.a/files/docs''"
    by code_simp
  then have "PathCompose ''/base/files/docs'' ''com.a'' \<noteq> []" by simp
  from PathCompose_own_directory [OF this] v show ?thesis by simp
qed

section \<open>Equivalent spellings of the base area\<close>

lemma canonical_el2:
  assumes "starts_with p ''/base/''"
  shows "canonical_path (''/el2'' @ p) \<longleftrightarrow> canonical_path p"
proof -
  obtain t where p: "p = CHR ''/'' # t" using assms by (auto simp: starts_with_prefix prefix_def)
  have segs: "segments_of [] (''/el2'' @ p) = ''el2'' # segments_of [] p" unfolding p by simp
  have el2: "canonical_name ''el2''" by (simp add: canonical_name_def segment_ok_def)
  show ?thesis
  proof
    assume "canonical_path (''/el2'' @ p)"
    then obtain ss where ss: "ss \<noteq> []" "list_all canonical_name ss" "''/el2'' @ p = render ss"
      by (auto simp: canonical_path_def)
    then have "ss = segments_of [] (''/el2'' @ p)"
      using segments_of_render [OF canonical_segments, of ss "[]"] by simp
    with segs have tl: "ss = ''el2'' # segments_of [] p" by simp
    then have r: "p = render (segments_of [] p)" using ss(3) by (simp add: render_Cons)
    then have "segments_of [] p \<noteq> []" using p by (metis list.distinct(1) render_eq_Nil)
    then show "canonical_path p" using ss(2) tl r by (auto simp: canonical_path_def)
  next
    assume "canonical_path p"
    then obtain ss where ss: "ss \<noteq> []" "list_all canonical_name ss" "p = render ss"
      by (auto simp: canonical_path_def)
    then show "canonical_path (''/el2'' @ p)"
      using el2 by (auto simp: canonical_path_def render_Cons intro!: exI [of _ "''el2'' # ss"])
  qed
qed

text \<open>The two spellings of the base area that the comparison of sharing paths identifies compose to the same
  directory for every bundle, unless the short spelling has the maximal number of ten names, in which case the
  long spelling is one name too long and is refused.\<close>

theorem PathCompose_NormalizeBasePath:
  assumes "length (segments_of [] path) \<noteq> MAX_PARTS_FORMAT"
  shows "PathCompose (NormalizeBasePath path) name = PathCompose path name"
proof (cases "starts_with path ''/base/'' \<and> name \<noteq> []")
  case True
  let ?p = "''/el2'' @ path"
  have sec: "IsPathSecure ?p \<longleftrightarrow> IsPathSecure path"
    using canonical_el2 True by (simp add: IsPathSecure_iff)
  show ?thesis
  proof (cases "IsPathSecure path")
    case False
    with sec True show ?thesis by (simp add: NormalizeBasePath_def PathCompose_insecure)
  next
    case secure: True
    then obtain parts where p: "parts \<noteq> []" "list_all canonical_name parts" "path = render parts" "CHR 0x00 \<notin> set (render parts)"
      by (auto simp: IsPathSecure_iff canonical_path_def)
    have len: "segments_of [] path = parts"
      using segments_of_render [OF canonical_segments [OF p(2)], of "[]"] p(3) by simp
    obtain r where "path = ''/base/'' @ r" using True by (auto simp: starts_with_prefix prefix_def)
    then have "segments_of [] path = ''base'' # segments_of [] r" by simp
    then obtain tl where tl: "parts = ''base'' # tl" using len by simp
    have el2: "list_all canonical_name (''el2'' # parts)" using p(2) by (simp add: canonical_name_def segment_ok_def)
    have nul: "CHR 0x00 \<notin> set (render (''el2'' # parts))" using p(4) by (simp add: render_Cons)
    have eq: "?p = render (''el2'' # parts)" by (simp add: p(3) render_Cons)
    have "tl = [] \<Longrightarrow> False"
      using p(3) tl \<open>path = ''/base/'' @ r\<close> by (simp add: render_Cons render_Nil)
    then have "length parts \<ge> 2" using tl by (cases tl) auto
    moreover have "length parts \<noteq> 10" using assms len by simp
    moreover have "PathCompose ?p name = (if length parts > 9 then [] else render
        ([''storage'', ''Users'', ''currentUser'', ''appdata'', ''el2'', ''base'', name] @ tl))"
      using PathCompose_render [OF el2 nul, of name] True tl \<open>length parts \<ge> 2\<close>
      by (simp only: eq) (simp add: IsValidElNumber_def VALID_EL_NUMBERS_def numeral_2_eq_2)
    moreover have "PathCompose path name = (if length parts > 10 then [] else render
        ([''storage'', ''Users'', ''currentUser'', ''appdata'', ''el2'', ''base'', name] @ tl))"
      using PathCompose_render [OF p(2,4,1), of name] True tl \<open>length parts \<ge> 2\<close>
      by (simp only: p(3)) (auto simp: IsValidElNumber_def VALID_EL_NUMBERS_def)
    ultimately show ?thesis using True by (auto simp: NormalizeBasePath_def)
  qed
next
  case False
  then show ?thesis by (auto simp: NormalizeBasePath_def PathCompose_def)
qed

text \<open>Applied to the documents directory in its short spelling.\<close>

theorem PathCompose_NormalizeBasePath_witness:
  "PathCompose (NormalizeBasePath ''/base/files'') ''com.a'' = PathCompose ''/base/files'' ''com.a'' \<and>
   PathCompose ''/el2/base/files'' ''com.a'' = ''/storage/Users/currentUser/appdata/el2/base/com.a/files''"
proof -
  have "length (segments_of [] ''/base/files'') \<noteq> MAX_PARTS_FORMAT" by simp
  from PathCompose_NormalizeBasePath [OF this] show ?thesis by (intro conjI) (assumption | code_simp)+
qed

section \<open>Loading a profile\<close>

text \<open>What a scope contributes: the composed path and the mode, when it has both members.\<close>

definition scope_setting :: "('w, 'j) ext \<Rightarrow> string \<Rightarrow> 'j \<Rightarrow> (string \<times> u32) option" where
  "scope_setting x bundleName scope =
     (if \<not> x_jisObject x scope then None
      else case (string_member x scope ''path'', string_member x scope ''permission'') of
        (Some p, Some q) \<Rightarrow> Some (PathCompose p bundleName, PermissionToMode q)
      | _ \<Rightarrow> None)"

definition settings :: "('w, 'j) ext \<Rightarrow> string \<Rightarrow> 'j list \<Rightarrow> (string \<times> u32) list" where
  "settings x bundleName scopes = List.map_filter (scope_setting x bundleName) scopes"

definition acceptable :: "(string \<times> u32) list \<Rightarrow> bool" where
  "acceptable sets \<longleftrightarrow> list_all (\<lambda>(p, m). p \<noteq> [] \<and> m \<noteq> 0) sets \<and> length sets \<le> MAX_SHARE_CONFIG_COUNT"

definition add_all :: "string \<Rightarrow> u32 \<Rightarrow> (string \<times> u32) list \<Rightarrow> share_map \<Rightarrow> share_map" where
  "add_all b u sets m = fold (\<lambda>(p, md). share_set b u p md) sets m"

lemma settings_Nil: "settings x b [] = []"
  by (simp add: settings_def List.map_filter_def)

lemma settings_Cons: "settings x b (scope # scopes) =
    (case scope_setting x b scope of None \<Rightarrow> settings x b scopes | Some e \<Rightarrow> e # settings x b scopes)"
  by (simp add: settings_def List.map_filter_def split: option.split)

lemma delete_share_set: "DeleteByBundleName_in b (share_set b u p md m) = DeleteByBundleName_in b m"
proof -
  have "DeleteByBundleName_in b m' = AList.delete b m'" for m' :: share_map
    by (auto simp: DeleteByBundleName_in_def AList.delete_eq intro!: filter_cong)
  then show ?thesis by (simp add: share_set_def Let_def AList.delete_update_same)
qed

lemma TransAndSetToMap_loop_spec:
  assumes "b \<noteq> []" "n \<le> MAX_SHARE_CONFIG_COUNT"
  shows "run_state (TransAndSetToMap_loop x scopes b userId n) s =
    (let sets = settings x b scopes in
     if list_all (\<lambda>(p, m). p \<noteq> [] \<and> m \<noteq> 0) sets \<and> n + length sets \<le> MAX_SHARE_CONFIG_COUNT
     then (SANDBOX_MANAGER_OK, s\<lparr>sv_shareMap := add_all b (word_of_int userId) sets (sv_shareMap s)\<rparr>)
     else (INVALID_PARAMTER, s\<lparr>sv_shareMap := DeleteByBundleName_in b (sv_shareMap s)\<rparr>))"
  using assms
proof (induction scopes arbitrary: n s)
  case Nil
  then show ?case by (simp add: settings_Nil add_all_def)
next
  case (Cons scope scopes)
  consider (skip) "scope_setting x b scope = None"
    | (add) p q where "x_jisObject x scope" "string_member x scope ''path'' = Some p"
        "string_member x scope ''permission'' = Some q"
  proof (cases "x_jisObject x scope \<and> string_member x scope ''path'' \<noteq> None \<and> string_member x scope ''permission'' \<noteq> None")
    case True
    then obtain p q where "string_member x scope ''path'' = Some p" "string_member x scope ''permission'' = Some q"
      by blast
    with True add show thesis by blast
  next
    case False
    then show thesis by (intro skip) (auto simp: scope_setting_def split: option.split)
  qed
  then show ?case
  proof cases
    case skip
    then have "run_state (TransAndSetToMap_loop x (scope # scopes) b userId n) s =
        run_state (TransAndSetToMap_loop x scopes b userId n) s"
      by (auto simp: scope_setting_def split: if_splits option.splits)
    with skip Cons show ?thesis by (simp add: settings_Cons)
  next
    case add
    let ?p = "PathCompose p b" and ?m = "PermissionToMode q"
    have set: "scope_setting x b scope = Some (?p, ?m)" using add by (simp add: scope_setting_def)
    show ?thesis
    proof (cases "?p = [] \<or> ?m = 0")
      case True
      then show ?thesis using add set Cons.prems
        by (auto simp: settings_Cons AddToMap_def DeleteByBundleName_def)
    next
      case valid: False
      show ?thesis
      proof (cases "n < MAX_SHARE_CONFIG_COUNT")
        case True
        then show ?thesis
          using add set valid Cons.prems
          by (simp add: settings_Cons AddToMap_def Cons.IH Let_def add_all_def delete_share_set)
      next
        case False
        then show ?thesis
          using add set valid Cons.prems
          by (simp add: settings_Cons AddToMap_def DeleteByBundleName_def delete_share_set)
      qed
    qed
  qed
qed

text \<open>C17: A bundle's configuration is loaded as a whole or not at all: when every scope with a path and a permission
  composes to a path and a mode and there are at most twenty of them, the map gets exactly these settings for the
  user; otherwise the load answers an error and the bundle has no configuration left, not even the one loaded for
  another user before. Other bundles keep theirs.\<close>

theorem TransAndSetToMap_all_or_nothing:
  assumes "b \<noteq> []" "length profile \<le> MAX_JSON_SIZE" "x_jparse x (c_str profile) = Some root"
    and "member_that x (x_jisObject x) root ''share_files'' = Some files"
    and "member_that x (x_jisArray x) files ''scopes'' = Some scopes"
  shows "run_state (TransAndSetToMap x profile b userId) s =
    (let sets = settings x b (x_jchildren x scopes) in
     if acceptable sets
     then (SANDBOX_MANAGER_OK, s\<lparr>sv_shareMap := add_all b (word_of_int userId) sets (sv_shareMap s)\<rparr>)
     else (INVALID_PARAMTER, s\<lparr>sv_shareMap := filter (\<lambda>e. fst e \<noteq> b) (sv_shareMap s)\<rparr>))"
  using assms
  by (simp add: TransAndSetToMap_def TransAndSetToMapInner_def TransAndSetToMap_loop_spec acceptable_def
      DeleteByBundleName_in_def Let_def)

text \<open>Applied to a profile with one read-only directory, over a document of the example JSON library.\<close>

definition example_scope :: "string \<Rightarrow> string \<Rightarrow> json" where
  "example_scope path permission = Object [(''path'', String path), (''permission'', String permission)]"

definition example_profile :: "json list \<Rightarrow> json" where
  "example_profile scopes = Object [(''share_files'', Object [(''scopes'', Array scopes)])]"

theorem TransAndSetToMap_all_or_nothing_witness:
  "run_state (TransAndSetToMap (json_ext (example_profile [example_scope ''/el2/base'' ''r'', example_scope ''/etc'' ''r'']))
      ''{}'' ''com.a'' 100) ((init_svc (0::nat))\<lparr>sv_shareMap := [(''com.a'', []), (''com.b'', [])]\<rparr>) =
    (INVALID_PARAMTER, (init_svc 0)\<lparr>sv_shareMap := [(''com.b'', [])]\<rparr>)"
proof -
  let ?scopes = "[example_scope ''/el2/base'' ''r'', example_scope ''/etc'' ''r'']"
  let ?x = "json_ext (example_profile ?scopes) :: (nat, json) ext"
  let ?s = "(init_svc (0::nat))\<lparr>sv_shareMap := [(''com.a'', []), (''com.b'', [])]\<rparr>"
  have bad: "\<not> acceptable (settings ?x ''com.a'' ?scopes)" by code_simp
  have "run_state (TransAndSetToMap ?x ''{}'' ''com.a'' 100) ?s =
    (let sets = settings ?x ''com.a'' (x_jchildren ?x (Array ?scopes)) in
     if acceptable sets
     then (SANDBOX_MANAGER_OK, ?s\<lparr>sv_shareMap := add_all ''com.a'' (word_of_int 100) sets (sv_shareMap ?s)\<rparr>)
     else (INVALID_PARAMTER, ?s\<lparr>sv_shareMap := filter (\<lambda>e. fst e \<noteq> ''com.a'') (sv_shareMap ?s)\<rparr>))"
    by (rule TransAndSetToMap_all_or_nothing [where root = "example_profile ?scopes" and files = "Object [(''scopes'', Array ?scopes)]"])
      (simp_all add: json_ext_def member_that_def example_profile_def c_str_def)
  with bad show ?thesis by (simp add: json_ext_def)
qed

section \<open>Looking a permission up\<close>

text \<open>
  A configured directory contains a path when the path is the directory or lies below it, by
  components. The share map is a nest of hash maps, so the order in which the lookup meets an
  application's entries is not fixed: \<open>possible_answers\<close> collects what the lookup answers over every
  map that holds the same entries for that application and user, in any order.
\<close>

definition contains :: "string \<Rightarrow> string \<Rightarrow> bool" where
  "contains dir path \<longleftrightarrow> path = dir \<or> (\<exists>rest. path = dir @ CHR ''/'' # rest)"

definition same_entries :: "string \<Rightarrow> u32 \<Rightarrow> share_map \<Rightarrow> share_map \<Rightarrow> bool" where
  "same_entries b u m m' \<longleftrightarrow>
     rel_option (\<lambda>es es'. mset es' = mset es) (share_paths m b u) (share_paths m' b u)"

definition possible_answers :: "share_map \<Rightarrow> string \<Rightarrow> u32 \<Rightarrow> string \<Rightarrow> u32 set" where
  "possible_answers m b u path = {FindPermission_in m' b u path | m'. same_entries b u m m'}"

definition containing_modes :: "(string \<times> u32) list \<Rightarrow> string \<Rightarrow> u32 set" where
  "containing_modes es path = {mode. \<exists>dir. (dir, mode) \<in> set es \<and> contains dir path}"

lemma config_covers_contains: "config_covers dir path \<longleftrightarrow> contains dir path"
proof
  assume covers: "config_covers dir path"
  then obtain r where r: "path = dir @ r"
    by (metis config_covers_def starts_with_def append_take_drop_id)
  with covers have "r = [] \<or> hd r = CHR ''/''"
    by (cases r) (auto simp: config_covers_def)
  with r show "contains dir path" by (cases r) (auto simp: contains_def)
qed (auto simp: contains_def config_covers_def starts_with_def)

lemma FindPermission_loop_cases:
  "if containing_modes es path = {} then FindPermission_loop es path = SHARE_PATH_UNSET
   else FindPermission_loop es path \<in> containing_modes es path"
proof (induction es path rule: FindPermission_loop.induct)
  case (2 dir mode es path)
  have "containing_modes ((dir, mode) # es) path =
      (if contains dir path then {mode} else {}) \<union> containing_modes es path"
    by (auto simp: containing_modes_def)
  with 2 show ?case by (auto simp: config_covers_contains split: if_splits)
qed (simp add: containing_modes_def)

lemma containing_modes_mset: "mset es' = mset es \<Longrightarrow> containing_modes es' path = containing_modes es path"
  unfolding containing_modes_def by (metis set_mset_mset)

lemma FindPermission_in_one: "FindPermission_in [(b, [(u, es)])] b u path = FindPermission_loop es path"
  by (simp add: FindPermission_in_def share_paths_def)

lemma possible_answers_None:
  "share_paths m b u = None \<Longrightarrow> possible_answers m b u path = {SHARE_BUNDLE_UNSET}"
  by (auto simp: possible_answers_def same_entries_def FindPermission_in_def option_rel_Some1 intro!: exI [of _ m])

lemma possible_answers_Some:
  assumes "share_paths m b u = Some es"
  shows "possible_answers m b u path = {FindPermission_loop es' path | es'. mset es' = mset es}"
proof -
  have "\<exists>m'. FindPermission_in m' b u path = FindPermission_loop es' path \<and> same_entries b u m m'"
    if "mset es' = mset es" for es'
    using assms that FindPermission_in_one [of b u es' path]
    by (intro exI [of _ "[(b, [(u, es')])]"]) (simp add: same_entries_def share_paths_def)
  moreover have "\<exists>es'. FindPermission_in m' b u path = FindPermission_loop es' path \<and> mset es' = mset es"
    if "same_entries b u m m'" for m'
    using assms that by (auto simp: same_entries_def FindPermission_in_def option_rel_Some1)
  ultimately show ?thesis unfolding possible_answers_def by (metis (lifting))
qed

lemma each_containing_mode_possible:
  assumes "mode \<in> containing_modes es path"
  shows "\<exists>es'. FindPermission_loop es' path = mode \<and> mset es' = mset es"
proof -
  from assms obtain dir where dir: "(dir, mode) \<in> set es" "contains dir path"
    by (auto simp: containing_modes_def)
  then have "FindPermission_loop ((dir, mode) # remove1 (dir, mode) es) path = mode"
    and "mset ((dir, mode) # remove1 (dir, mode) es) = mset es"
    by (simp_all add: config_covers_contains)
  then show ?thesis by blast
qed

text \<open>C18: what a lookup of a path can answer, over every order of the hash map: the bundle mark when
  the application and user have no entry, the path mark when none of their configured directories
  contains the path (by components: /base/a does not contain /base/ab), and otherwise the mode of a
  containing directory, where each of them is the answer under some order. The answer is therefore
  fixed exactly when all containing directories carry the same mode; nested directories with
  different modes leave it to the hash map.\<close>

theorem FindPermission_possible_answers:
  "possible_answers m b u path =
     (case share_paths m b u of
        None \<Rightarrow> {SHARE_BUNDLE_UNSET}
      | Some es \<Rightarrow> if containing_modes es path = {} then {SHARE_PATH_UNSET}
                  else containing_modes es path)"
proof (cases "share_paths m b u")
  case (Some es)
  have orders: "FindPermission_loop es' path \<in> (if containing_modes es path = {} then {SHARE_PATH_UNSET}
      else containing_modes es path)" if "mset es' = mset es" for es'
    using FindPermission_loop_cases [of es' path] containing_modes_mset [OF that, of path]
    by (simp split: if_splits)
  show ?thesis
  proof (cases "containing_modes es path = {}")
    case True
    then have "FindPermission_loop es' path = SHARE_PATH_UNSET" if "mset es' = mset es" for es'
      using orders [OF that] by simp
    then have "{FindPermission_loop es' path | es'. mset es' = mset es} = {SHARE_PATH_UNSET}"
      by (auto intro!: exI [of _ es])
    with True show ?thesis by (simp add: Some possible_answers_Some)
  next
    case False
    have "{FindPermission_loop es' path | es'. mset es' = mset es} = containing_modes es path"
    proof (intro equalityI subsetI)
      fix mode assume "mode \<in> {FindPermission_loop es' path | es'. mset es' = mset es}"
      then obtain es' where "mode = FindPermission_loop es' path" "mset es' = mset es" by blast
      then show "mode \<in> containing_modes es path" using orders [of es'] False by simp
    next
      fix mode assume "mode \<in> containing_modes es path"
      then show "mode \<in> {FindPermission_loop es' path | es'. mset es' = mset es}"
        using each_containing_mode_possible by blast
    qed
    with False show ?thesis by (simp add: Some possible_answers_Some)
  qed
qed (simp add: possible_answers_None)

text \<open>Two nested directories of different modes: both answers are possible.\<close>

lemma nested_directories_two_answers:
  "{1, 3} \<subseteq> containing_modes [(''/base/a'', 1), (''/base/a/b'', 3)] ''/base/a/b/c''"
  by (auto simp: containing_modes_def contains_def)

section \<open>Sharing within the scope\<close>

lemma find_scope_Some:
  "find_scope x scopes path = Some scope \<Longrightarrow>
   scope \<in> set scopes \<and> x_jisObject x scope \<and>
   (\<exists>p. string_member x scope ''path'' = Some p \<and> NormalizeBasePath p = NormalizeBasePath path)"
  by (induction x scopes path rule: find_scope.induct) (auto split: if_splits option.splits)

text \<open>C19: A directory is only shared with the system within a scope of the profile: when the check succeeds, some
  scope names the same directory and every mode bit of the sharing permission is a bit of the scope's.\<close>

theorem sharing_within_scope:
  assumes "ValidateSharingOSPathAndPermission x scopes path permission = SANDBOX_MANAGER_OK"
  shows "\<exists>scope p q. scope \<in> set (x_jchildren x scopes) \<and>
     string_member x scope ''path'' = Some p \<and> NormalizeBasePath p = NormalizeBasePath path \<and>
     string_member x scope ''permission'' = Some q \<and>
     PermissionToMode permission AND NOT (PermissionToMode q) = 0"
proof -
  obtain scope where scope: "find_scope x (x_jchildren x scopes) path = Some scope"
    using assms by (auto simp: ValidateSharingOSPathAndPermission_def split: option.splits)
  with assms obtain q where q: "string_member x scope ''permission'' = Some q"
    and perm: "q = permission \<or> q = ''r+w'' \<and> permission = ''r''"
    by (auto simp: ValidateSharingOSPathAndPermission_def split: option.splits if_splits)
  have "PermissionToMode permission AND NOT (PermissionToMode q) = 0"
    using perm by (elim disjE) (auto simp: PermissionToMode_def)
  with q find_scope_Some [OF scope] show ?thesis by blast
qed

text \<open>Applied to a writable scope shared for reading.\<close>

theorem sharing_within_scope_witness:
  "\<exists>scope p q. scope \<in> set (x_jchildren (json_ext (Array []) :: (nat, json) ext) (Array [example_scope ''/base/a'' ''r+w''])) \<and>
     string_member (json_ext (Array []) :: (nat, json) ext) scope ''path'' = Some p \<and>
     NormalizeBasePath p = NormalizeBasePath ''/el2/base/a'' \<and>
     string_member (json_ext (Array []) :: (nat, json) ext) scope ''permission'' = Some q \<and>
     PermissionToMode ''r'' AND NOT (PermissionToMode q) = 0"
  by (rule sharing_within_scope) code_simp

end
