(* ===== verification/Path_Guard.thy ===== *)
theory Path_Guard
  imports Share_Files
begin

text \<open>
  The rules on the path of a temporary policy: \<open>CheckPathWithinShareMap\<close>, \<open>CheckPathWithinRule\<close> and
  \<open>CheckPathIsBlocked\<close> of \<open>policy_info_manager.cpp\<close>, and the stateful half of \<open>sandbox_param_validator.cpp\<close>,
  whose verdicts the operations only report. The rate limit of the share audit (ten per five seconds) is not
  modelled: every audit is recorded.
\<close>

section \<open>Share map\<close>

definition CheckShareMode_audit :: "u32 \<Rightarrow> u32 \<Rightarrow> string \<Rightarrow> string \<Rightarrow> ('w, bool) op" where
  "CheckShareMode_audit permission mode path bundleName =
     (let (result, info) = CheckShareMode permission mode
      in do {
        write_report (ShareConfigAudit path mode info bundleName);
        State_Monad.return result
      })"

definition CheckPathWithinShareMap ::
    "('w, 'j) ext \<Rightarrow> int \<Rightarrow> PolicyInfo \<Rightarrow> string list \<Rightarrow> nat \<Rightarrow> ('w, bool) op" where
  "CheckPathWithinShareMap x userID policy components index =
     (if \<not> IsAppDataPathPrefix components then State_Monad.return True
      else
        let bundleNameTmp = components ! MAX_CHECK_COM_NUM;
            pathTmp = share_path components;
            maskedPath = GenerateMaskedPath components;
            mode = ucast (pmode policy)
        in do {
          permission \<leftarrow> FindPermission bundleNameTmp (word_of_int userID) pathTmp;
          if permission = SHARE_BUNDLE_UNSET \<or> permission = SHARE_PATH_UNSET then
            (if index \<noteq> 0 then CheckShareMode_audit permission mode maskedPath bundleNameTmp
             else do {
               ret \<leftarrow> GetAllShareCfg x userID;
               if ret \<noteq> SANDBOX_MANAGER_OK then State_Monad.return False
               else do {
                 permission' \<leftarrow> FindPermission bundleNameTmp (word_of_int userID) pathTmp;
                 CheckShareMode_audit permission' mode maskedPath bundleNameTmp
               }
             })
          else CheckShareMode_audit permission mode maskedPath bundleNameTmp
        })"

section \<open>The path rule\<close>

definition CheckPathWithinRule ::
    "('w, 'j) ext \<Rightarrow> int \<Rightarrow> string \<Rightarrow> PolicyInfo \<Rightarrow> string \<Rightarrow> nat \<Rightarrow> ('w, bool) op" where
  "CheckPathWithinRule x userID path policy bundleName index =
     (if path = ROOT_PATH then State_Monad.return False
      else if substr path 0 (length ROOT_PATH_WITH_SLASH) \<noteq> ROOT_PATH_WITH_SLASH then State_Monad.return True
      else let components = splitPath path
        in if length components \<le> SECOND_PATH_SEGMENT then State_Monad.return False
           else if components ! 0 = ''storage'' \<and> components ! 1 = ''Users'' \<and>
                   components ! SECOND_PATH_SEGMENT \<noteq> ''currentUser'' then State_Monad.return False
           else if components ! 0 = ''storage'' \<and> components ! 1 = ''Users'' \<and>
                   length components \<le> MAX_CHECK_COM_NUM \<and> length components \<ge> 4 \<and>
                   strcasecmp_eq (components ! 3) ''appdata'' then State_Monad.return False
           else if ptype policy = SELF_PATH \<and> \<not> CheckPathWithinBundleName path bundleName components
             then State_Monad.return False
           else if length components > MAX_CHECK_COM_NUM then
             (if x_NOT_RESIDENT x \<and> ptype policy \<noteq> AUTHORIZATION_PATH
              then CheckPathWithinShareMap x userID policy components index
              else State_Monad.return True)
           else State_Monad.return True)"

definition CheckPathIsBlocked ::
    "('w, 'j) ext \<Rightarrow> int \<Rightarrow> PolicyInfo \<Rightarrow> string \<Rightarrow> nat \<Rightarrow> ('w, int) op" where
  "CheckPathIsBlocked x userID policy bundleName index =
     (let maskedPath = MaskRealPath (ppath policy)
      in if u32_len (ppath policy) \<noteq> u32_len (c_str (ppath policy)) then do {
           write_report (PolicyViolate 0 ''path have a terminator'' maskedPath bundleName);
           State_Monad.return INVALID_PATH
         }
         else do {
           ret \<leftarrow> CheckPathWithinRule x userID (AdjustPath (ppath policy)) policy bundleName index;
           if \<not> ret then do {
             write_report (PolicyViolate 0 ''path not allowed to set'' maskedPath bundleName);
             State_Monad.return INVALID_PATH
           }
           else State_Monad.return SANDBOX_MANAGER_OK
         })"

section \<open>The validator\<close>

definition Validator_CheckPathWithinBundleName :: "string list \<Rightarrow> string \<Rightarrow> bool" where
  "Validator_CheckPathWithinBundleName components bundleName =
     (if bundleName = [] then False
      else if length components \<le> MAX_CHECK_COM_NUM then False
      else if components ! MAX_CHECK_COM_NUM \<noteq> bundleName then False
      else True)"

definition Validator_CheckPathWithinShareMap :: "int \<Rightarrow> string \<Rightarrow> PolicyInfo \<Rightarrow> ('w, bool) op" where
  "Validator_CheckPathWithinShareMap userID path policy =
     (let components = splitPath path
      in if \<not> (length components \<ge> 4 \<and> components ! 0 = ''storage'' \<and> components ! 1 = ''Users'' \<and>
              components ! 2 = ''currentUser'' \<and> strcasecmp_eq (components ! 3) ''appdata'')
         then State_Monad.return True
         else do {
           permission \<leftarrow> FindPermission (components ! MAX_CHECK_COM_NUM) (word_of_int userID) (share_path components);
           CheckShareMode_audit permission (ucast (pmode policy)) (GenerateMaskedPath components)
             (components ! MAX_CHECK_COM_NUM)
         })"

definition ValidateExtendedPathRules ::
    "('w, 'j) ext \<Rightarrow> int \<Rightarrow> string \<Rightarrow> PolicyInfo \<Rightarrow> string \<Rightarrow> ('w, int) op" where
  "ValidateExtendedPathRules x userID path policy bundleName =
     (let components = splitPath path
      in if ptype policy = SELF_PATH \<and> bundleName \<noteq> [] \<and> length components > MAX_CHECK_COM_NUM \<and>
            \<not> Validator_CheckPathWithinBundleName components bundleName then State_Monad.return INVALID_PATH
         else if x_NOT_RESIDENT x \<and> length components > MAX_CHECK_COM_NUM \<and> ptype policy \<noteq> AUTHORIZATION_PATH then do {
           within \<leftarrow> Validator_CheckPathWithinShareMap userID path policy;
           State_Monad.return (if \<not> within then INVALID_PATH else SANDBOX_MANAGER_OK)
         }
         else State_Monad.return SANDBOX_MANAGER_OK)"

definition ValidateTempPolicy :: "('w, 'j) ext \<Rightarrow> PolicyInfo \<Rightarrow> SetInfo \<Rightarrow> ('w, int) op" where
  "ValidateTempPolicy x policy setInfo =
     (let r1 = ValidateGenericPath (ppath policy); r2 = ValidateTempMode (pmode policy);
          r3 = ValidateBasicPathRules (ppath policy)
      in if r1 \<noteq> SANDBOX_MANAGER_OK then State_Monad.return r1
         else if r2 \<noteq> SANDBOX_MANAGER_OK then State_Monad.return r2
         else if r3 \<noteq> SANDBOX_MANAGER_OK then State_Monad.return r3
         else ValidateExtendedPathRules x (si_userId setInfo) (ppath policy) policy (si_bundleName setInfo))"

definition ValidateActivationPolicy :: "PolicyInfo \<Rightarrow> int" where
  "ValidateActivationPolicy policy =
     (let r1 = ValidateGenericPath (ppath policy); r2 = ValidateTempMode (pmode policy);
          r3 = ValidateBasicPathRules (ppath policy)
      in if r1 \<noteq> SANDBOX_MANAGER_OK then r1
         else if r2 \<noteq> SANDBOX_MANAGER_OK then r2
         else if r3 \<noteq> SANDBOX_MANAGER_OK then r3
         else SANDBOX_MANAGER_OK)"

section \<open>Report-only validation\<close>

text \<open>One verdict, reported when it is an error.\<close>

definition report_failure :: "string \<Rightarrow> u32 \<Rightarrow> PolicyInfo \<Rightarrow> int \<Rightarrow> ('w, unit) op" where
  "report_failure opname tokenId p ret =
     (if ret \<noteq> SANDBOX_MANAGER_OK then write_report (ValidationFailure opname tokenId ret (ppath p) (pmode p))
      else State_Monad.return ())"

text \<open>The loop with a generic path check and a mode check.\<close>

fun report_path_mode :: "string \<Rightarrow> u32 \<Rightarrow> (u64 \<Rightarrow> int) \<Rightarrow> PolicyInfo list \<Rightarrow> ('w, unit) op" where
  "report_path_mode opname tokenId check [] = State_Monad.return ()"
| "report_path_mode opname tokenId check (p # ps) = do {
     report_failure opname tokenId p (ValidateGenericPath (ppath p));
     report_failure opname tokenId p (check (pmode p));
     report_path_mode opname tokenId check ps
   }"

text \<open>The loop with one verdict per policy.\<close>

fun report_each :: "string \<Rightarrow> u32 \<Rightarrow> (PolicyInfo \<Rightarrow> ('w, int) op) \<Rightarrow> PolicyInfo list \<Rightarrow> ('w, unit) op" where
  "report_each opname tokenId check [] = State_Monad.return ()"
| "report_each opname tokenId check (p # ps) = do {
     ret \<leftarrow> check p;
     report_failure opname tokenId p ret;
     report_each opname tokenId check ps
   }"

end
