(* ===== verification/Media.thy ===== *)
theory Media
  imports Sandbox_State Path_Checks
begin

text \<open>
  \<open>media/media_path_support.cpp\<close>: policies on media paths, delegated to the media library's permission
  helper. The helper (\<open>Media::MediaPermissionHelper\<close>) is external; the member \<open>media_\<close> is the flag \<open>sv_media\<close>.
\<close>

definition InitMedia :: "('w, 'j) ext \<Rightarrow> ('w, int) op" where
  "InitMedia x = do {
     media \<leftarrow> gets sv_media;
     if media then State_Monad.return SANDBOX_MANAGER_OK
     else do {
       helper \<leftarrow> world (x_GetMediaHelper x);
       if \<not> helper then State_Monad.return INVALID_PARAMTER
       else do {
         ret \<leftarrow> world (x_InitMediaHelper x);
         if ret \<noteq> SANDBOX_MANAGER_OK then State_Monad.return ret
         else do {
           State_Monad.update (\<lambda>s. s\<lparr>sv_media := True\<rparr>);
           State_Monad.return SANDBOX_MANAGER_OK
         }
       }
     }
   }"

text \<open>The guard at the head of the operations on policies: a missing helper is created.\<close>

definition media_ready :: "('w, 'j) ext \<Rightarrow> ('w, bool) op" where
  "media_ready x = do {
     media \<leftarrow> gets sv_media;
     if media then State_Monad.return True
     else do { ret \<leftarrow> InitMedia x; State_Monad.return (ret = SANDBOX_MANAGER_OK) }
   }"

section \<open>Modes\<close>

definition photo_permission :: "u32 \<Rightarrow> PhotoPermissionType option" where
  "photo_permission mode =
     (if mode = READ_MODE then Some PERSIST_READ_IMAGEVIDEO
      else if mode = WRITE_MODE then Some PERSIST_WRITE_IMAGEVIDEO
      else if mode = WRITE_MODE + READ_MODE then Some GRANT_PERSIST_READWRITE_IMAGEVIDEO
      else None)"

definition media_operation :: "u32 \<Rightarrow> OperationMode option" where
  "media_operation mode =
     (if mode = READ_MODE then Some MEDIA_READ_MODE
      else if mode = WRITE_MODE then Some MEDIA_WRITE_MODE
      else if mode = WRITE_MODE + READ_MODE then Some MEDIA_READ_WRITE_MODE
      else None)"

fun convert_modes :: "(u32 \<Rightarrow> 'a option) \<Rightarrow> u32 list \<Rightarrow> 'a list \<Rightarrow> int \<times> 'a list" where
  "convert_modes f [] out = (SANDBOX_MANAGER_OK, out)"
| "convert_modes f (m # ms) out =
     (case f m of None \<Rightarrow> (INVALID_PARAMTER, out) | Some t \<Rightarrow> convert_modes f ms (out @ [t]))"

definition OperateModeToPhotoPermissionType :: "u32 list \<Rightarrow> int \<times> PhotoPermissionType list" where
  "OperateModeToPhotoPermissionType mode = convert_modes photo_permission mode []"

definition OperateModeToMediaOperationMode :: "u32 list \<Rightarrow> int \<times> OperationMode list" where
  "OperateModeToMediaOperationMode mode = convert_modes media_operation mode []"

definition permission_bits :: "PhotoPermissionType \<Rightarrow> u32" where
  "permission_bits permission =
     (if permission = PERSIST_READ_IMAGEVIDEO then READ_MODE
      else if permission = PERSIST_WRITE_IMAGEVIDEO then WRITE_MODE
      else if permission = GRANT_PERSIST_READWRITE_IMAGEVIDEO then WRITE_MODE OR READ_MODE
      else 0)"

definition CalculateOperateMode :: "PhotoPermissionType list \<Rightarrow> int" where
  "CalculateOperateMode photoPermissionList =
     sint (foldl (\<lambda>mode permission. mode OR permission_bits permission) 0 photoPermissionList)"

section \<open>Granting and cancelling\<close>

text \<open>The indices of the policies the media library answered for with true.\<close>

definition selected :: "nat \<Rightarrow> bool list \<Rightarrow> nat list" where
  "selected n mediaBool = filter (\<lambda>i. mediaBool ! i) [0..<n]"

text \<open>Each check answers its return code, the URIs to act on, the library's booleans and the converted modes.\<close>

definition CheckPolicyBeforeGrant ::
    "('w, 'j) ext \<Rightarrow> u32 \<Rightarrow> string list \<Rightarrow> u32 list \<Rightarrow>
     ('w, int \<times> string list \<times> bool list \<times> PhotoPermissionType list) op" where
  "CheckPolicyBeforeGrant x tokenId mediaPaths mode = do {
     (ret, uris) \<leftarrow> world (x_GetUris x mediaPaths);
     if ret \<noteq> SANDBOX_MANAGER_OK then State_Monad.return (SANDBOX_MANAGER_MEDIA_CALL_ERR, [], [], [])
     else do {
       (ret', mediaBool) \<leftarrow> world (x_CheckUri x tokenId uris mode);
       if ret' \<noteq> SANDBOX_MANAGER_OK then State_Monad.return (SANDBOX_MANAGER_MEDIA_CALL_ERR, [], mediaBool, [])
       else
         let sel = selected (length mediaPaths) mediaBool;
             (ret'', types) = OperateModeToPhotoPermissionType (map (\<lambda>i. mode ! i) sel)
         in State_Monad.return (ret'', map (\<lambda>i. uris ! i) sel, mediaBool, types)
     }
   }"

definition CheckPolicyBeforeCancel ::
    "('w, 'j) ext \<Rightarrow> u32 \<Rightarrow> string list \<Rightarrow> u32 list \<Rightarrow>
     ('w, int \<times> string list \<times> bool list \<times> OperationMode list) op" where
  "CheckPolicyBeforeCancel x tokenId mediaPaths mode = do {
     (ret, uris) \<leftarrow> world (x_GetUris x mediaPaths);
     if ret \<noteq> SANDBOX_MANAGER_OK then State_Monad.return (SANDBOX_MANAGER_MEDIA_CALL_ERR, [], [], [])
     else
       let (ret', photoPermissionType) = OperateModeToPhotoPermissionType mode
       in if ret' \<noteq> SANDBOX_MANAGER_OK then State_Monad.return (ret', [], [], [])
          else do {
            (ret'', mediaBool) \<leftarrow> world (x_GetUrisPermission x tokenId uris photoPermissionType []);
            if ret'' \<noteq> SANDBOX_MANAGER_OK then State_Monad.return (SANDBOX_MANAGER_MEDIA_CALL_ERR, [], mediaBool, [])
            else
              let sel = selected (length mediaPaths) mediaBool;
                  (ret3, modes) = OperateModeToMediaOperationMode (map (\<lambda>i. mode ! i) sel)
              in State_Monad.return (ret3, map (\<lambda>i. uris ! i) sel, mediaBool, modes)
          }
   }"

text \<open>The results and the DFX record; \<open>results\<close> is overwritten on its first \<open>mediaPolicySize\<close> places.\<close>

definition media_results :: "nat \<Rightarrow> bool list \<Rightarrow> u32 \<Rightarrow> u32 list \<Rightarrow> u32 list" where
  "media_results n mediaBool retType results =
     fold (\<lambda>i r. r[i := (if mediaBool ! i then OPERATE_SUCCESSFULLY else retType)]) [0..<n] results"

definition SetAddResultAndWriteDfx ::
    "PolicyOperateInfo \<Rightarrow> u32 list \<Rightarrow> nat \<Rightarrow> bool list \<Rightarrow> OperateTypeEnum \<Rightarrow> ('w, u32 list) op" where
  "SetAddResultAndWriteDfx info results mediaPolicySize mediaBool operation =
     (let retType = (if operation = PERSIST_POLICY then FORBIDDEN_TO_BE_PERSISTED else POLICY_HAS_NOT_BEEN_PERSISTED);
          succ = of_nat (length (selected mediaPolicySize mediaBool)) :: u32
      in do {
        write_report (PersistOperate operation (info\<lparr>po_domain := MEDIA, po_policyNum := of_nat mediaPolicySize,
          po_successNum := succ, po_failNum := of_nat mediaPolicySize - succ, po_invalidNum := 0\<rparr>));
        State_Monad.return (media_results mediaPolicySize mediaBool retType results)
      })"

definition mode_info :: "u32 list \<Rightarrow> PolicyOperateInfo" where
  "mode_info modes = foldl OperateInfoSetByMode (mk_PolicyOperateInfo 0 0 0 0) modes"

definition AddMediaPolicy ::
    "('w, 'j) ext \<Rightarrow> u32 \<Rightarrow> PolicyInfo list \<Rightarrow> nat list \<Rightarrow> u32 list \<Rightarrow> ('w, int \<times> u32 list) op" where
  "AddMediaPolicy x tokenId policy PolicyIndex results = do {
     ready \<leftarrow> media_ready x;
     if \<not> ready then State_Monad.return (SANDBOX_MANAGER_MEDIA_CALL_ERR, results)
     else
       let mediaPaths = map (\<lambda>num. ppath (policy ! num)) PolicyIndex;
           mediaMode = map (\<lambda>num. ucast (pmode (policy ! num)) :: u32) PolicyIndex;
           info = mode_info mediaMode
       in do {
         (ret, needGrantUris, mediaBool, types) \<leftarrow> CheckPolicyBeforeGrant x tokenId mediaPaths mediaMode;
         if ret \<noteq> SANDBOX_MANAGER_OK then State_Monad.return (ret, results)
         else do {
           ret' \<leftarrow> (if needGrantUris \<noteq> [] then do {
                      callingTokenId \<leftarrow> gets (\<lambda>s. x_GetCallingTokenID x (sv_world s));
                      world (x_GrantUri x callingTokenId tokenId needGrantUris types)
                    } else State_Monad.return SANDBOX_MANAGER_OK);
           if ret' \<noteq> SANDBOX_MANAGER_OK then State_Monad.return (SANDBOX_MANAGER_MEDIA_CALL_ERR, results)
           else do {
             results' \<leftarrow> SetAddResultAndWriteDfx info results (length PolicyIndex) mediaBool PERSIST_POLICY;
             State_Monad.return (SANDBOX_MANAGER_OK, results')
           }
         }
       }
   }"

definition RemoveMediaPolicy ::
    "('w, 'j) ext \<Rightarrow> u32 \<Rightarrow> PolicyInfo list \<Rightarrow> u32 list \<Rightarrow> ('w, int \<times> u32 list) op" where
  "RemoveMediaPolicy x tokenId policy result = do {
     ready \<leftarrow> media_ready x;
     if \<not> ready then State_Monad.return (SANDBOX_MANAGER_MEDIA_CALL_ERR, result)
     else
       let mediaPaths = map ppath policy;
           mediaMode = map (\<lambda>p. ucast (pmode p) :: u32) policy;
           info = mode_info mediaMode
       in do {
         (ret, needCancelUris, mediaBool, operationMode) \<leftarrow> CheckPolicyBeforeCancel x tokenId mediaPaths mediaMode;
         if ret \<noteq> SANDBOX_MANAGER_OK then State_Monad.return (ret, result)
         else do {
           ret' \<leftarrow> (if needCancelUris \<noteq> [] then do {
                      callingTokenId \<leftarrow> gets (\<lambda>s. x_GetCallingTokenID x (sv_world s));
                      world (x_CancelUri x callingTokenId tokenId needCancelUris operationMode)
                    } else State_Monad.return SANDBOX_MANAGER_OK);
           if ret' \<noteq> SANDBOX_MANAGER_OK then State_Monad.return (SANDBOX_MANAGER_MEDIA_CALL_ERR, result)
           else do {
             result' \<leftarrow> SetAddResultAndWriteDfx info result (length policy) mediaBool UNPERSIST_POLICY;
             State_Monad.return (SANDBOX_MANAGER_OK, result')
           }
         }
       }
   }"

definition GetMediaPermission ::
    "('w, 'j) ext \<Rightarrow> u32 \<Rightarrow> PolicyInfo list \<Rightarrow> bool list \<Rightarrow> ('w, int \<times> bool list) op" where
  "GetMediaPermission x tokenId policy results = do {
     ready \<leftarrow> media_ready x;
     if \<not> ready then State_Monad.return (SANDBOX_MANAGER_MEDIA_CALL_ERR, results)
     else do {
       (ret, uris) \<leftarrow> world (x_GetUris x (map ppath policy));
       if ret \<noteq> SANDBOX_MANAGER_OK then State_Monad.return (SANDBOX_MANAGER_MEDIA_CALL_ERR, results)
       else
         let (ret', photoPermissionType) = OperateModeToPhotoPermissionType (map (\<lambda>p. ucast (pmode p)) policy)
         in if ret' \<noteq> SANDBOX_MANAGER_OK then State_Monad.return (ret', results)
            else do {
              (ret'', results') \<leftarrow> world (x_GetUrisPermission x tokenId uris photoPermissionType results);
              State_Monad.return (if ret'' \<noteq> SANDBOX_MANAGER_OK then SANDBOX_MANAGER_MEDIA_CALL_ERR
                                  else SANDBOX_MANAGER_OK, results')
            }
     }
   }"

section \<open>Life cycle of applications\<close>

definition EnsureMediaInitialized :: "('w, 'j) ext \<Rightarrow> ('w, int) op" where
  "EnsureMediaInitialized x = do {
     media \<leftarrow> gets sv_media;
     ret \<leftarrow> (if media then world (x_InitMediaHelper x) else InitMedia x);
     State_Monad.return (if ret \<noteq> SANDBOX_MANAGER_OK then SANDBOX_MANAGER_MEDIA_CALL_ERR else SANDBOX_MANAGER_OK)
   }"

text \<open>The four operations below share this frame: initialise, call the helper, map its error.\<close>

definition media_call :: "('w, 'j) ext \<Rightarrow> ('w \<Rightarrow> int \<times> 'w) \<Rightarrow> ('w, int) op" where
  "media_call x call = do {
     ret \<leftarrow> EnsureMediaInitialized x;
     if ret \<noteq> SANDBOX_MANAGER_OK then State_Monad.return SANDBOX_MANAGER_MEDIA_CALL_ERR
     else do {
       ret' \<leftarrow> world call;
       State_Monad.return (if ret' \<noteq> SANDBOX_MANAGER_OK then SANDBOX_MANAGER_MEDIA_CALL_ERR else SANDBOX_MANAGER_OK)
     }
   }"

definition ReserveMediaPoliciesOnRemove :: "('w, 'j) ext \<Rightarrow> string \<Rightarrow> string \<Rightarrow> u32 \<Rightarrow> ('w, int) op" where
  "ReserveMediaPoliciesOnRemove x appIdentifier bundleName tokenId =
     media_call x (x_ReserveUri x appIdentifier bundleName tokenId)"

definition ResumeMediaPoliciesOnAdd :: "('w, 'j) ext \<Rightarrow> string \<Rightarrow> string \<Rightarrow> u32 \<Rightarrow> ('w, int) op" where
  "ResumeMediaPoliciesOnAdd x appIdentifier bundleName tokenId =
     media_call x (x_ResumeUri x appIdentifier bundleName tokenId)"

definition CancelPhotoUriPersistPermission :: "('w, 'j) ext \<Rightarrow> u32 \<Rightarrow> ('w, int) op" where
  "CancelPhotoUriPersistPermission x tokenId = media_call x (x_CancelPersist x tokenId)"

definition GetPhotoUriPersistPermission ::
    "('w, 'j) ext \<Rightarrow> u32 \<Rightarrow> ('w, int \<times> PhotoPermissionType list) op" where
  "GetPhotoUriPersistPermission x tokenId = do {
     ret \<leftarrow> EnsureMediaInitialized x;
     if ret \<noteq> SANDBOX_MANAGER_OK then State_Monad.return (SANDBOX_MANAGER_MEDIA_CALL_ERR, [])
     else do {
       (ret', photoPermissionList) \<leftarrow> world (x_GetPersist x tokenId);
       State_Monad.return (if ret' \<noteq> SANDBOX_MANAGER_OK then SANDBOX_MANAGER_MEDIA_CALL_ERR else SANDBOX_MANAGER_OK,
         photoPermissionList)
     }
   }"

end
