(* ===== verification/Policy_Manager.thy ===== *)
theory Policy_Manager
  imports Path_Guard Mac_Adapter Media Raw_Vectors
begin

text \<open>
  \<open>service/policy_info_manager.cpp\<close>, temporary policies: set, deny, unset, check, and the batch processing of
  raw policy vectors. Result vectors are values: an operation takes the vector it is given and answers the
  vector it leaves.
\<close>

section \<open>Selecting and scattering\<close>

text \<open>
  The loop that checks every policy: a refused one gets its code in its place of the result, an accepted one is
  collected with its index. The counter of refused policies is the number of policies not collected.
\<close>

fun filter_loop ::
    "(nat \<Rightarrow> PolicyInfo \<Rightarrow> ('w, int) op) \<Rightarrow> PolicyInfo list \<Rightarrow> nat \<Rightarrow> u32 list \<Rightarrow> (nat \<times> PolicyInfo) list \<Rightarrow>
     ('w, u32 list \<times> (nat \<times> PolicyInfo) list) op" where
  "filter_loop check [] index result valid = State_Monad.return (result, valid)"
| "filter_loop check (p # ps) index result valid = do {
     res \<leftarrow> check index p;
     if res \<noteq> SANDBOX_MANAGER_OK then filter_loop check ps (Suc index) (result[index := word_of_int res]) valid
     else filter_loop check ps (Suc index) result (valid @ [(index, p)])
   }"

text \<open>\<open>for (index : validIndex) result[index] = setResult[resultIndex++]\<close>.\<close>

definition scatter :: "nat list \<Rightarrow> 'a list \<Rightarrow> 'a list \<Rightarrow> 'a list" where
  "scatter validIndex setResult result = fold (\<lambda>(i, v) r. r[i := v]) (zip validIndex setResult) result"

section \<open>Setting\<close>

definition SetPolicyByType ::
    "('w, 'j) ext \<Rightarrow> PolicyInfo list \<Rightarrow> u32 list \<Rightarrow> MacParams \<Rightarrow> SetPolicyType \<Rightarrow> ('w, int \<times> u32 list) op" where
  "SetPolicyByType x validPolicies setResult macParams ty =
     (if ty = DENY_POLICY then Mac_SetDenyPolicy x validPolicies setResult macParams
      else Mac_SetSandboxPolicy x validPolicies setResult macParams)"

text \<open>\<open>PolicyInfoInner\<close> is the triple of counts and type at the end.\<close>

definition SetPolicyInner ::
    "('w, 'j) ext \<Rightarrow> PolicyInfo list \<Rightarrow> nat list \<Rightarrow> MacParams \<Rightarrow> u32 list \<Rightarrow> nat \<Rightarrow> nat \<Rightarrow> SetPolicyType \<Rightarrow>
     ('w, int \<times> u32 list) op" where
  "SetPolicyInner x validPolicies validIndex macParams result invalidNum policySize ty =
     (if validPolicies = [] then State_Monad.return (SANDBOX_MANAGER_OK, result)
      else do {
        (ret, setResult) \<leftarrow> SetPolicyByType x validPolicies (replicate (length validPolicies) 0) macParams ty;
        if ret \<noteq> SANDBOX_MANAGER_OK then do {
          write_report (TempOperate SET_POLICY (mk_PolicyOperateInfo policySize 0 0 invalidNum));
          State_Monad.return (ret, [])
        }
        else
          let successNum = count_list setResult 0
          in do {
            write_report (TempOperate SET_POLICY
              (mk_PolicyOperateInfo policySize successNum (length validPolicies - successNum) invalidNum));
            State_Monad.return (SANDBOX_MANAGER_OK, scatter validIndex setResult result)
          }
      })"

definition set_check ::
    "('w, 'j) ext \<Rightarrow> SetPolicyType \<Rightarrow> int \<Rightarrow> string \<Rightarrow> nat \<Rightarrow> PolicyInfo \<Rightarrow> ('w, int) op" where
  "set_check x ty userId bundleName index p =
     (let res = CheckPolicyValidity p ty
      in if res \<noteq> SANDBOX_MANAGER_OK then State_Monad.return res
         else CheckPathIsBlocked x userId p bundleName index)"

text \<open>The common body of \<open>SetPolicy\<close> and \<open>SetDenyPolicy\<close> after the report-only validation.\<close>

definition set_checked ::
    "('w, 'j) ext \<Rightarrow> SetPolicyType \<Rightarrow> string \<Rightarrow> MacParams \<Rightarrow> PolicyInfo list \<Rightarrow> u32 list \<Rightarrow> ('w, int \<times> u32 list) op" where
  "set_checked x ty bundleName mp policy result = do {
     support \<leftarrow> gets sv_isMacSupport;
     if \<not> support then State_Monad.return (SANDBOX_MANAGER_OK, resize (length policy) OPERATE_SUCCESSFULLY result)
     else do {
       (result', valid) \<leftarrow> filter_loop (set_check x ty (mp_userId mp) bundleName) policy 0
                             (resize (length policy) INVALID_PATH result) [];
       SetPolicyInner x (map snd valid) (map fst valid) mp result' (length policy - length valid) (length policy) ty
     }
   }"

definition SetPolicy ::
    "('w, 'j) ext \<Rightarrow> u32 \<Rightarrow> PolicyInfo list \<Rightarrow> u64 \<Rightarrow> u32 list \<Rightarrow> SetInfo \<Rightarrow> ('w, int \<times> u32 list) op" where
  "SetPolicy x tokenId policy policyFlag result setInfo = do {
     report_each ''SetPolicy'' tokenId (\<lambda>p. ValidateTempPolicy x p setInfo) policy;
     set_checked x NORMAL_POLICY (si_bundleName setInfo)
       \<lparr>mp_tokenId = tokenId, mp_policyFlag = policyFlag, mp_timestamp = si_timestamp setInfo, mp_userId = si_userId setInfo\<rparr>
       policy result
   }"

definition SetDenyPolicy ::
    "('w, 'j) ext \<Rightarrow> u32 \<Rightarrow> PolicyInfo list \<Rightarrow> u32 list \<Rightarrow> int \<Rightarrow> ('w, int \<times> u32 list) op" where
  "SetDenyPolicy x tokenId policy result userId = do {
     report_path_mode ''SetDenyPolicy'' tokenId ValidateDenyMode policy;
     set_checked x DENY_POLICY (si_bundleName default_SetInfo)
       \<lparr>mp_tokenId = tokenId, mp_policyFlag = 0, mp_timestamp = 0, mp_userId = userId\<rparr> policy result
   }"

section \<open>Unsetting and checking\<close>

text \<open>The common body of the two single operations.\<close>

definition unset_one ::
    "('w, int) op \<Rightarrow> PolicyInfo \<Rightarrow> SetPolicyType \<Rightarrow> ('w, int) op" where
  "unset_one unset policy ty = do {
     support \<leftarrow> gets sv_isMacSupport;
     if \<not> support then State_Monad.return SANDBOX_MANAGER_OK
     else if \<not> IsModeMatchPolicyType (pmode policy) ty then State_Monad.return INVALID_PARAMTER
     else do {
       ret \<leftarrow> unset;
       write_report (TempOperate UNSET_POLICY
         (if ret \<noteq> SANDBOX_MANAGER_OK then mk_PolicyOperateInfo 1 0 1 0 else mk_PolicyOperateInfo 1 1 0 0));
       State_Monad.return ret
     }
   }"

definition UnSetPolicy_one :: "('w, 'j) ext \<Rightarrow> u32 \<Rightarrow> PolicyInfo \<Rightarrow> ('w, int) op" where
  "UnSetPolicy_one x tokenId policy = do {
     report_failure ''UnSetPolicy'' tokenId policy (ValidateTempMode (pmode policy));
     unset_one (UnSetSandboxPolicy_one x tokenId policy) policy NORMAL_POLICY
   }"

definition UnSetDenyPolicy :: "('w, 'j) ext \<Rightarrow> u32 \<Rightarrow> PolicyInfo \<Rightarrow> ('w, int) op" where
  "UnSetDenyPolicy x tokenId policy = do {
     report_failure ''UnSetDenyPolicy'' tokenId policy (ValidateDenyMode (pmode policy));
     unset_one (Mac_UnSetDenyPolicy x tokenId policy) policy DENY_POLICY
   }"

definition mode_check :: "nat \<Rightarrow> PolicyInfo \<Rightarrow> ('w, int) op" where
  "mode_check index p =
     State_Monad.return (if \<not> IsModeMatchPolicyType (pmode p) NORMAL_POLICY then INVALID_MODE else SANDBOX_MANAGER_OK)"

definition mac_code :: "bool \<Rightarrow> u32" where
  "mac_code ok = (if ok then OPERATE_SUCCESSFULLY else POLICY_MAC_FAIL)"

definition UnSetPolicy ::
    "('w, 'j) ext \<Rightarrow> u32 \<Rightarrow> PolicyInfo list \<Rightarrow> u32 list \<Rightarrow> ('w, int \<times> u32 list) op" where
  "UnSetPolicy x tokenId policies result = do {
     report_each ''UnSetPolicyBatch'' tokenId (\<lambda>p. State_Monad.return (ValidateTempMode (pmode p))) policies;
     support \<leftarrow> gets sv_isMacSupport;
     if \<not> support then State_Monad.return (SANDBOX_MANAGER_OK, resize (length policies) OPERATE_SUCCESSFULLY result)
     else do {
       (result', valid) \<leftarrow> filter_loop mode_check policies 0 (resize (length policies) 0 result) [];
       if valid = [] then State_Monad.return (SANDBOX_MANAGER_OK, result')
       else do {
         (ret, macResult) \<leftarrow> UnSetSandboxPolicy_batch x tokenId (map snd valid) (replicate (length valid) False);
         State_Monad.return (ret, scatter (map fst valid) (map mac_code macResult) result')
       }
     }
   }"

text \<open>\<open>CheckPolicy\<close> collects the valid policies only; the answer of a refused one stays false.\<close>

fun collect_valid :: "PolicyInfo list \<Rightarrow> nat \<Rightarrow> (nat \<times> PolicyInfo) list" where
  "collect_valid [] index = []"
| "collect_valid (p # ps) index =
     (if CheckPolicyValidity p NORMAL_POLICY = SANDBOX_MANAGER_OK then (index, p) # collect_valid ps (Suc index)
      else collect_valid ps (Suc index))"

definition CheckPolicy ::
    "('w, 'j) ext \<Rightarrow> u32 \<Rightarrow> PolicyInfo list \<Rightarrow> bool list \<Rightarrow> ('w, int \<times> bool list) op" where
  "CheckPolicy x tokenId policy result = do {
     report_path_mode ''CheckPolicy'' tokenId ValidateTempMode policy;
     support \<leftarrow> gets sv_isMacSupport;
     if \<not> support then State_Monad.return (SANDBOX_MANAGER_OK, resize (length policy) True result)
     else
       let result' = resize (length policy) False result; valid = collect_valid policy 0
       in if valid = [] then State_Monad.return (SANDBOX_MANAGER_OK, result')
          else do {
            (ret, checkResult) \<leftarrow> CheckSandboxPolicy x tokenId (map snd valid) (replicate (length valid) False);
            State_Monad.return (if ret \<noteq> SANDBOX_MANAGER_OK then (ret, [])
                                else (SANDBOX_MANAGER_OK, scatter (map fst valid) checkResult result'))
          }
   }"

definition UnSetAllPolicyByToken :: "('w, 'j) ext \<Rightarrow> u32 \<Rightarrow> u64 \<Rightarrow> ('w, int) op" where
  "UnSetAllPolicyByToken x tokenId timestamp = do {
     support \<leftarrow> gets sv_isMacSupport;
     if \<not> support then State_Monad.return SANDBOX_MANAGER_OK
     else do {
       ret \<leftarrow> DestroySandboxPolicy x tokenId timestamp;
       (if ret = SANDBOX_MANAGER_OK
        then write_report (PersistOperate UNSET_ALL_POLICY_BY_TOKEN (mk_PolicyOperateInfo 0 0 0 0))
        else State_Monad.return ());
       State_Monad.return ret
     }
   }"

section \<open>Batches\<close>

text \<open>The body of the loop of \<open>ProcessPolicyBatch\<close>; the result vector is written at the global index.\<close>

definition put_batch :: "nat \<Rightarrow> 'r list \<Rightarrow> 'r list \<Rightarrow> 'r list" where
  "put_batch globalIndex batchResult result =
     fold (\<lambda>i r. r[globalIndex + i := batchResult ! i]) [0..<length batchResult] result"

text \<open>
  The loop of \<open>ProcessPolicyBatch\<close> from a global index. Nothing in the loop itself makes it end: with a batch
  size of zero the index would never move. It is therefore a partial function from the state of the service,
  where \<open>None\<close> is a loop that does not return; that it returns is a fact about the batch size.
\<close>

type_synonym ('w, 'a) partial_op = "'w svc \<Rightarrow> ('a \<times> 'w svc) option"

partial_function (option) batch_loop ::
    "(PolicyInfo list \<Rightarrow> ('w, int \<times> 'r list) op) \<Rightarrow> u32 \<Rightarrow> u32 \<Rightarrow> batch_reader \<Rightarrow> u32 \<Rightarrow> 'r list \<Rightarrow>
     ('w, int \<times> 'r list) partial_op" where
  "batch_loop processFunc finalBatchSize num reader globalIndex result s =
     (if globalIndex < num then
        let currentBatchSize = min finalBatchSize (num - globalIndex)
        in case ReadNextBatch currentBatchSize reader of (ret, batchPolicies, reader') \<Rightarrow>
             if ret \<noteq> SANDBOX_MANAGER_OK then Some ((ret, result), s)
             else (case run_state (processFunc batchPolicies) s of ((ret', batchResult), s') \<Rightarrow>
               if ret' \<noteq> SANDBOX_MANAGER_OK then Some ((ret', result), s')
               else batch_loop processFunc finalBatchSize num reader' (globalIndex + currentBatchSize)
                      (put_batch (unat globalIndex) batchResult result) s')
      else Some ((SANDBOX_MANAGER_OK, result), s))"

definition ProcessPolicyBatch ::
    "raw_data \<Rightarrow> 'r list \<Rightarrow> (PolicyInfo list \<Rightarrow> ('w, int \<times> 'r list) op) \<Rightarrow> u32 \<Rightarrow> 'r \<Rightarrow>
     ('w, int \<times> 'r list) partial_op" where
  "ProcessPolicyBatch policyRawData result processFunc batchSize defaultValue s =
     (let reader = PolicyVecBatchReader policyRawData
      in if \<not> isValid reader then Some ((SANDBOX_MANAGER_SERVICE_PARCEL_ERR, result), s)
         else if policyCount reader = 0 then Some ((INVALID_PARAMTER, result), s)
         else batch_loop processFunc (CalculateBatchSize (policyCount reader) batchSize) (policyCount reader) reader 0
                (resize (unat (policyCount reader)) defaultValue result) s)"

text \<open>The overloads on raw vectors; every batch starts with an empty result vector.\<close>

definition SetPolicy_raw ::
    "('w, 'j) ext \<Rightarrow> u32 \<Rightarrow> raw_data \<Rightarrow> u64 \<Rightarrow> u32 list \<Rightarrow> SetInfo \<Rightarrow> ('w, int \<times> u32 list) partial_op" where
  "SetPolicy_raw x tokenId policyRawData policyFlag result setInfo =
     ProcessPolicyBatch policyRawData result (\<lambda>policies. SetPolicy x tokenId policies policyFlag [] setInfo)
       NON_PERSIST_POLICY_BATCH_SIZE INVALID_PATH"

definition SetDenyPolicy_raw ::
    "('w, 'j) ext \<Rightarrow> u32 \<Rightarrow> raw_data \<Rightarrow> u32 list \<Rightarrow> int \<Rightarrow> ('w, int \<times> u32 list) partial_op" where
  "SetDenyPolicy_raw x tokenId policyRawData result userId =
     ProcessPolicyBatch policyRawData result (\<lambda>policies. SetDenyPolicy x tokenId policies [] userId)
       NON_PERSIST_POLICY_BATCH_SIZE INVALID_PATH"

definition CheckPolicy_raw :: "('w, 'j) ext \<Rightarrow> u32 \<Rightarrow> raw_data \<Rightarrow> bool list \<Rightarrow> ('w, int \<times> bool list) partial_op" where
  "CheckPolicy_raw x tokenId policyRawData result =
     ProcessPolicyBatch policyRawData result (\<lambda>policies. CheckPolicy x tokenId policies [])
       NON_PERSIST_POLICY_BATCH_SIZE False"

end
