(* ===== verification/Policy_Persist.thy ===== *)
theory Policy_Persist
  imports Policy_Manager
begin

text \<open>
  \<open>service/policy_info_manager.cpp\<close>, persisted policies: the conversion to rows, the tries built from the rows,
  adding, removing, matching, and starting and stopping access to persisted policies.
\<close>

section \<open>Rows\<close>

definition TransferPolicyToGeneric :: "u32 \<Rightarrow> PolicyInfo \<Rightarrow> GenericValues \<Rightarrow> GenericValues" where
  "TransferPolicyToGeneric tokenId policy generic =
     (let path = AdjustPath (ppath policy)
      in gv_Put FIELD_MODE (TYPE_INT64 (sint (pmode policy)))
           (gv_Put FIELD_DEPTH (TYPE_INT64 (GetDepth path))
             (gv_Put FIELD_PATH (TYPE_STRING path)
               (gv_Put FIELD_TOKENID (TYPE_INT (sint tokenId)) generic))))"

definition TransferGenericToPolicy :: "GenericValues \<Rightarrow> u32 \<times> PolicyInfo" where
  "TransferGenericToPolicy generic =
     (word_of_int (gv_GetInt generic FIELD_TOKENID),
      \<lparr>ppath = gv_GetString generic FIELD_PATH, pmode = word_of_int (gv_GetInt generic FIELD_MODE), ptype = UNKNOWN\<rparr>)"

definition RangeFind ::
    "('w, 'j) ext \<Rightarrow> GenericValues \<Rightarrow> GenericValues \<Rightarrow> ('w, int \<times> GenericValues list) op" where
  "RangeFind x conditions symbols = do {
     (ret, results) \<leftarrow> Rdb_Find x SANDBOX_MANAGER_PERSISTED_POLICY conditions symbols;
     State_Monad.return (if ret \<noteq> SUCCESS then SANDBOX_MANAGER_DB_ERR else SANDBOX_MANAGER_OK, results)
   }"

definition ExactFind :: "('w, 'j) ext \<Rightarrow> u32 \<Rightarrow> PolicyInfo \<Rightarrow> ('w, int) op" where
  "ExactFind x tokenId policy = do {
     (ret, searchResults) \<leftarrow> Rdb_Find x SANDBOX_MANAGER_PERSISTED_POLICY (TransferPolicyToGeneric tokenId policy []) [];
     State_Monad.return (if ret \<noteq> SUCCESS then SANDBOX_MANAGER_DB_ERR
                         else if searchResults = [] then SANDBOX_MANAGER_DB_RETURN_EMPTY else SANDBOX_MANAGER_OK)
   }"

section \<open>Granted permissions\<close>

text \<open>\<open>g_userGrantMap\<close>: a \<open>std::map\<close> from path to permission, its entries in key order.\<close>

fun map_assign :: "string \<Rightarrow> 'v \<Rightarrow> (string \<times> 'v) list \<Rightarrow> (string \<times> 'v) list" where
  "map_assign k v [] = [(k, v)]"
| "map_assign k v ((k', v') # m) =
     (if k = k' then (k', v) # m
      else if k < k' then (k, v) # (k', v') # m
      else (k', v') # map_assign k v m)"

definition AddToUserGrantMap :: "string \<Rightarrow> string list \<Rightarrow> ('w, unit) op" where
  "AddToUserGrantMap permission pathList =
     State_Monad.update (\<lambda>s. s\<lparr>sv_userGrantMap := fold (\<lambda>path. map_assign path permission) pathList (sv_userGrantMap s)\<rparr>)"

fun InitUserGrantMap_loop :: "('w, 'j) ext \<Rightarrow> (string \<times> string list) list \<Rightarrow> ('w, unit) op" where
  "InitUserGrantMap_loop x [] = State_Monad.return ()"
| "InitUserGrantMap_loop x ((permission, pathList) # entries) = do {
     (ret, userGrant) \<leftarrow> world (x_IsUserGrant x permission);
     (if ret = 0 \<and> userGrant then AddToUserGrantMap permission pathList else State_Monad.return ());
     InitUserGrantMap_loop x entries
   }"

definition InitUserGrantMap :: "('w, 'j) ext \<Rightarrow> ('w, unit) op" where
  "InitUserGrantMap x = do {
     decPathMap \<leftarrow> world (x_GetDecPathMap x);
     InitUserGrantMap_loop x decPathMap
   }"

fun FindInGrantMap_in :: "(string \<times> string) list \<Rightarrow> PolicyInfo \<Rightarrow> string option" where
  "FindInGrantMap_in [] policy = None"
| "FindInGrantMap_in ((path, perm) # m) policy =
     (if substr (ppath policy) 0 (length path) \<noteq> path then FindInGrantMap_in m policy
      else if length (ppath policy) = length path \<or> ppath policy ! length path = CHR ''/'' then Some perm
      else FindInGrantMap_in m policy)"

definition IsVerifyPermissionPass :: "('w, 'j) ext \<Rightarrow> u32 \<Rightarrow> PolicyInfo \<Rightarrow> ('w, bool) op" where
  "IsVerifyPermissionPass x tokenId policy = do {
     m \<leftarrow> gets sv_userGrantMap;
     (case FindInGrantMap_in m policy of
        None \<Rightarrow> State_Monad.return False
      | Some permission \<Rightarrow> world (x_VerifyAccessToken x tokenId permission))
   }"

section \<open>Adding\<close>

text \<open>\<open>WriteDfxInner\<close>.\<close>

definition WriteDfxInner :: "OperateTypeEnum \<Rightarrow> PolicyOperateInfo \<Rightarrow> nat \<Rightarrow> nat \<Rightarrow> nat \<Rightarrow> ('w, unit) op" where
  "WriteDfxInner operateType info succNum failNum invalidNum =
     write_report (PersistOperate operateType
       (info\<lparr>po_successNum := of_nat succNum, po_failNum := of_nat failNum, po_invalidNum := of_nat invalidNum\<rparr>))"

definition policies_info :: "PolicyInfo list \<Rightarrow> PolicyOperateInfo \<Rightarrow> PolicyOperateInfo" where
  "policies_info ps info = foldl (\<lambda>i p. OperateInfoSetByMode i (ucast (pmode p))) info ps"

definition AddToDatabaseIfNotDuplicate ::
    "('w, 'j) ext \<Rightarrow> u32 \<Rightarrow> PolicyInfo list \<Rightarrow> nat list \<Rightarrow> u32 \<Rightarrow> u32 list \<Rightarrow> ('w, int \<times> u32 list) op" where
  "AddToDatabaseIfNotDuplicate x tokenId policies passIndexes flag results =
     (if passIndexes = [] then State_Monad.return (SANDBOX_MANAGER_OK, results)
      else
        let addPolicyGeneric = map (\<lambda>each. gv_Put FIELD_FLAG (TYPE_INT64 (uint flag))
              (TransferPolicyToGeneric tokenId (policies ! each) [])) passIndexes;
            duplicateMode = (if flag = 1 then REPLACE else IGNORE)
        in do {
          ret \<leftarrow> Rdb_Add x SANDBOX_MANAGER_PERSISTED_POLICY addPolicyGeneric duplicateMode;
          State_Monad.return (if ret \<noteq> SUCCESS then (SANDBOX_MANAGER_DB_ERR, []) else (SANDBOX_MANAGER_OK, results))
        })"

text \<open>The loop over the kernel's answers: the indices to persist, and the results of the others.\<close>

fun AddNormal_loop ::
    "('w, 'j) ext \<Rightarrow> u32 \<Rightarrow> PolicyInfo list \<Rightarrow> (nat \<times> u32) list \<Rightarrow> nat \<Rightarrow> nat list \<Rightarrow> u32 list \<Rightarrow>
     ('w, nat list \<times> u32 list) op" where
  "AddNormal_loop x tokenId policy [] i addPolicyIndex result = State_Monad.return (addPolicyIndex, result)"
| "AddNormal_loop x tokenId policy ((index, answer) # rest) i addPolicyIndex result =
     (if answer = OPERATE_SUCCESSFULLY then AddNormal_loop x tokenId policy rest (Suc i) (addPolicyIndex @ [index]) result
      else do {
        pass \<leftarrow> (if answer = FORBIDDEN_TO_BE_PERSISTED_BY_FLAG then IsVerifyPermissionPass x tokenId (policy ! index)
                 else State_Monad.return False);
        if pass then AddNormal_loop x tokenId policy rest (Suc i) (addPolicyIndex @ [index]) result
        else AddNormal_loop x tokenId policy rest (Suc i) addPolicyIndex (result[i := FORBIDDEN_TO_BE_PERSISTED])
      })"

definition AddNormalPolicy ::
    "('w, 'j) ext \<Rightarrow> u32 \<Rightarrow> PolicyInfo list \<Rightarrow> u32 list \<Rightarrow> u32 \<Rightarrow> nat list \<Rightarrow> nat \<Rightarrow> ('w, int \<times> u32 list) op" where
  "AddNormalPolicy x tokenId policy result flag queryPolicyIndex invalidNum = do {
     support \<leftarrow> gets sv_isMacSupport;
     if \<not> support then State_Monad.return (SANDBOX_MANAGER_OK, result)
     else
       let queryPolicys = map (\<lambda>index. policy ! index) queryPolicyIndex;
           info = policies_info queryPolicys (mk_PolicyOperateInfo (length queryPolicyIndex) 0 0 0)
       in do {
         (ret, queryResults) \<leftarrow> QuerySandboxPolicy x tokenId queryPolicys (replicate (length queryPolicyIndex) 0);
         if ret \<noteq> SANDBOX_MANAGER_OK then do {
           WriteDfxInner PERSIST_POLICY info 0 (length policy - invalidNum) invalidNum;
           State_Monad.return (ret, [])
         }
         else do {
           (addPolicyIndex, result') \<leftarrow> AddNormal_loop x tokenId policy (zip queryPolicyIndex queryResults) 0 [] result;
           (ret', result'') \<leftarrow> AddToDatabaseIfNotDuplicate x tokenId policy addPolicyIndex flag result';
           if ret' \<noteq> SANDBOX_MANAGER_OK then State_Monad.return (ret', result'')
           else do {
             WriteDfxInner PERSIST_POLICY info (length addPolicyIndex)
               (length queryPolicyIndex - length addPolicyIndex) invalidNum;
             State_Monad.return (SANDBOX_MANAGER_OK, result'')
           }
         }
       }
   }"

text \<open>The pass that sorts the policies into refused, media and normal ones.\<close>

fun FilterValidPolicyInBatch ::
    "PolicyInfo list \<Rightarrow> nat \<Rightarrow> u32 list \<Rightarrow> u32 list \<times> nat list \<times> nat list" where
  "FilterValidPolicyInBatch [] i results = (results, [], [])"
| "FilterValidPolicyInBatch (p # ps) i results =
     (let ret = CheckPolicyValidity p NORMAL_POLICY
      in if ret \<noteq> SANDBOX_MANAGER_OK then FilterValidPolicyInBatch ps (Suc i) (results[i := word_of_int ret])
         else
           let (results', pass, media) = FilterValidPolicyInBatch ps (Suc i) results
           in if IsMediaPolicy (ppath p) then (results', pass, i # media) else (results', i # pass, media))"

text \<open>The two conditional calls of \<open>AddPolicy\<close>, each with its own result vector.\<close>

definition add_media ::
    "('w, 'j) ext \<Rightarrow> u32 \<Rightarrow> PolicyInfo list \<Rightarrow> nat list \<Rightarrow> u32 list \<Rightarrow> ('w, int \<times> u32 list) op" where
  "add_media x tokenId policy mediaPolicyIndex results =
     (if mediaPolicyIndex = [] then State_Monad.return (SANDBOX_MANAGER_OK, results)
      else do {
        (ret, mediaResults) \<leftarrow> AddMediaPolicy x tokenId policy mediaPolicyIndex (replicate (length mediaPolicyIndex) 0);
        State_Monad.return (if ret \<noteq> SANDBOX_MANAGER_OK then (ret, [])
                            else (SANDBOX_MANAGER_OK, scatter mediaPolicyIndex mediaResults results))
      })"

definition add_normal ::
    "('w, 'j) ext \<Rightarrow> u32 \<Rightarrow> PolicyInfo list \<Rightarrow> u32 \<Rightarrow> nat list \<Rightarrow> nat \<Rightarrow> u32 list \<Rightarrow> ('w, int \<times> u32 list) op" where
  "add_normal x tokenId policy flag queryPolicyIndex invalidNum results =
     (if queryPolicyIndex = [] then State_Monad.return (SANDBOX_MANAGER_OK, results)
      else do {
        (ret, queryResults) \<leftarrow> AddNormalPolicy x tokenId policy
           (replicate (length queryPolicyIndex) OPERATE_SUCCESSFULLY) flag queryPolicyIndex invalidNum;
        State_Monad.return (if ret \<noteq> SANDBOX_MANAGER_OK then (ret, [])
                            else (SANDBOX_MANAGER_OK, scatter queryPolicyIndex queryResults results))
      })"

definition ReportUserDataSize :: "('w, 'j) ext \<Rightarrow> ('w, unit) op" where
  "ReportUserDataSize x = State_Monad.update (\<lambda>s. s\<lparr>sv_world := x_ReportUserDataSize x (sv_world s)\<rparr>)"

definition AddPolicy ::
    "('w, 'j) ext \<Rightarrow> u32 \<Rightarrow> PolicyInfo list \<Rightarrow> u32 list \<Rightarrow> u32 \<Rightarrow> ('w, int \<times> u32 list) op" where
  "AddPolicy x tokenId policy results flag =
     (let (results1, queryPolicyIndex, mediaPolicyIndex) =
            FilterValidPolicyInBatch policy 0 (resize (length policy) 0 results);
          invalidNum = length policy - length queryPolicyIndex - length mediaPolicyIndex
      in do {
        report_path_mode ''AddPolicy'' tokenId ValidateTempMode policy;
        (ret, results2) \<leftarrow> add_media x tokenId policy mediaPolicyIndex results1;
        if ret \<noteq> SANDBOX_MANAGER_OK then State_Monad.return (ret, results2)
        else do {
          (ret', results3) \<leftarrow> add_normal x tokenId policy flag queryPolicyIndex invalidNum results2;
          if ret' \<noteq> SANDBOX_MANAGER_OK then State_Monad.return (ret', results3)
          else do {
            ReportUserDataSize x;
            State_Monad.return (SANDBOX_MANAGER_OK, results3)
          }
        }
      })"

section \<open>Tries of the persisted policies\<close>

text \<open>The two fields of a row the tries are built from; the mode is read as \<open>int32_t\<close> and cast to \<open>uint32_t\<close>.\<close>

definition row_policy :: "GenericValues \<Rightarrow> string \<times> u64" where
  "row_policy row = (gv_GetString row FIELD_PATH, ucast (word_of_int (gv_GetInt row FIELD_MODE) :: u32))"

definition InitTrieWithCaseSensitivity :: "ptrie \<Rightarrow> ('w, ptrie) op" where
  "InitTrieWithCaseSensitivity trieTree = gets (\<lambda>s.
     fold SetSensitive (sv_caseSensitivePaths s) (fold SetInsensitive (sv_caseInsensitivePaths s) trieTree))"

definition token_conditions :: "u32 \<Rightarrow> GenericValues \<times> GenericValues" where
  "token_conditions tokenId =
     (gv_of [(FIELD_TOKENID, TYPE_INT (sint tokenId))], gv_of [(FIELD_TOKENID, TYPE_STRING ''='')])"

definition BuildTrieForPolicyOperations :: "('w, 'j) ext \<Rightarrow> u32 \<Rightarrow> ptrie \<Rightarrow> bool \<Rightarrow> ('w, int \<times> ptrie) op" where
  "BuildTrieForPolicyOperations x tokenId trieTree preserveCase = do {
     (ret, dbResults) \<leftarrow> RangeFind x (fst (token_conditions tokenId)) (snd (token_conditions tokenId));
     State_Monad.return
       (if ret \<noteq> SANDBOX_MANAGER_OK then (ret, trieTree)
        else (SANDBOX_MANAGER_OK, fold (\<lambda>row t. let (currPath, currMode) = row_policy row
                in if preserveCase then InsertPreservingCase currPath currMode t
                   else InsertPath currPath currMode False t) dbResults trieTree))
   }"

definition insert_rows :: "GenericValues list \<Rightarrow> ptrie \<Rightarrow> ptrie" where
  "insert_rows dbResults t =
     fold (\<lambda>row t. let (currPath, currMode) = row_policy row in InsertPath currPath currMode False t) dbResults t"

definition BuildTrieForPolicyOperationsNew ::
    "('w, 'j) ext \<Rightarrow> u32 \<Rightarrow> ptrie \<Rightarrow> ptrie \<Rightarrow> ('w, int \<times> ptrie \<times> ptrie) op" where
  "BuildTrieForPolicyOperationsNew x tokenId trieTree trieTreeNew = do {
     (ret, dbResults) \<leftarrow> RangeFind x (fst (token_conditions tokenId)) (snd (token_conditions tokenId));
     State_Monad.return (if ret \<noteq> SANDBOX_MANAGER_OK then (ret, trieTree, trieTreeNew)
       else (SANDBOX_MANAGER_OK, insert_rows dbResults trieTree, insert_rows dbResults trieTreeNew))
   }"

definition BuildTrieWithAllRecords :: "('w, 'j) ext \<Rightarrow> ptrie \<Rightarrow> ('w, int \<times> ptrie) op" where
  "BuildTrieWithAllRecords x trieTree = do {
     (ret, dbResults) \<leftarrow> Rdb_Find x SANDBOX_MANAGER_PERSISTED_POLICY [] [];
     State_Monad.return (if ret \<noteq> SUCCESS then (SANDBOX_MANAGER_DB_ERR, trieTree)
       else (SANDBOX_MANAGER_OK, fold (\<lambda>row t. let (currPath, currMode) = row_policy row
               in InsertPreservingCase currPath currMode t) dbResults trieTree))
   }"

section \<open>Matching\<close>

fun ProcessPolicyMatches ::
    "PolicyInfo list \<Rightarrow> nat \<Rightarrow> u32 \<Rightarrow> ptrie \<Rightarrow> ptrie \<Rightarrow> u32 list \<Rightarrow> ('w, u32 list) op" where
  "ProcessPolicyMatches [] i tokenId trieTree trieTreeNew result = State_Monad.return result"
| "ProcessPolicyMatches (p # ps) i tokenId trieTree trieTreeNew result =
     (let ret = CheckPolicyValidity p NORMAL_POLICY
      in if ret \<noteq> SANDBOX_MANAGER_OK
         then ProcessPolicyMatches ps (Suc i) tokenId trieTree trieTreeNew (result[i := word_of_int ret])
         else
           let retFlag = CheckPathMode (ppath p) (pmode p) trieTree;
               retFlagNew = CheckPathNew (ppath p) (pmode p) trieTreeNew
           in do {
             (if retFlag \<noteq> retFlagNew then write_report (EmergencyReport tokenId) else State_Monad.return ());
             ProcessPolicyMatches ps (Suc i) tokenId trieTree trieTreeNew
               (result[i := (if retFlagNew then OPERATE_SUCCESSFULLY else POLICY_HAS_NOT_BEEN_PERSISTED)])
           })"

text \<open>The trie against which policies are matched, before the rows are inserted.\<close>

definition case_trie :: ptrie where
  "case_trie = SetSensitive ''/storage/Users/currentUser/appdata'' (SetInsensitive ''/storage/Users/currentUser'' PolicyTrie)"

definition MatchNormalPolicy ::
    "('w, 'j) ext \<Rightarrow> u32 \<Rightarrow> PolicyInfo list \<Rightarrow> u32 list \<Rightarrow> ('w, int \<times> u32 list) op" where
  "MatchNormalPolicy x tokenId policy result =
     (let result0 = (if length result \<noteq> length policy then resize (length policy) 0 result else result)
      in do {
        trieTree \<leftarrow> InitTrieWithCaseSensitivity PolicyTrie;
        blocked \<leftarrow> gets sv_blockedInheritPaths;
        let (boolen, trieTreeNew) = AddDeniedPaths blocked case_trie;
        if \<not> boolen then State_Monad.return (SANDBOX_MANAGER_SERVICE_REMOTE_ERR, result0)
        else do {
          (ret, trieTree', trieTreeNew') \<leftarrow> BuildTrieForPolicyOperationsNew x tokenId trieTree trieTreeNew;
          if ret \<noteq> SANDBOX_MANAGER_OK then State_Monad.return (ret, result0)
          else if IsEmpty trieTree' then
            State_Monad.return (SANDBOX_MANAGER_OK, map (\<lambda>_. POLICY_HAS_NOT_BEEN_PERSISTED) result0)
          else do {
            result' \<leftarrow> ProcessPolicyMatches policy 0 tokenId trieTree' trieTreeNew' result0;
            State_Monad.return (SANDBOX_MANAGER_OK, result')
          }
        }
      })"

end
