(* ===== verification/Policy_Access.thy ===== *)
theory Policy_Access
  imports Policy_Persist
begin

text \<open>
  \<open>service/policy_info_manager.cpp\<close>: the operations on persisted policies that combine the database, the
  kernel and the media library: match, start and stop access, remove, and the queries by token.
\<close>

section \<open>Matching\<close>

text \<open>The indices of the media policies and of the others.\<close>

definition media_index :: "PolicyInfo list \<Rightarrow> nat list" where
  "media_index policy = filter (\<lambda>i. IsMediaPolicy (ppath (policy ! i))) [0..<length policy]"

definition normal_index :: "PolicyInfo list \<Rightarrow> nat list" where
  "normal_index policy = filter (\<lambda>i. \<not> IsMediaPolicy (ppath (policy ! i))) [0..<length policy]"

text \<open>Answers the code, the results, the indices of the normal policies and these policies.\<close>

definition GetMediaPolicyCommonWork ::
    "('w, 'j) ext \<Rightarrow> u32 \<Rightarrow> PolicyInfo list \<Rightarrow> u32 list \<Rightarrow> ('w, int \<times> u32 list \<times> nat list \<times> PolicyInfo list) op" where
  "GetMediaPolicyCommonWork x tokenId policy results =
     (let validMediaIndex = media_index policy; validIndex = normal_index policy;
          mediaPolicy = map (\<lambda>i. policy ! i) validMediaIndex;
          normalPolicy = map (\<lambda>i. policy ! i) validIndex
      in if mediaPolicy = [] then State_Monad.return (SANDBOX_MANAGER_OK, results, validIndex, normalPolicy)
         else do {
           (ret, checkMediaResult) \<leftarrow> GetMediaPermission x tokenId mediaPolicy (replicate (length validMediaIndex) False);
           State_Monad.return
             (if ret \<noteq> SANDBOX_MANAGER_OK then (ret, [], validIndex, normalPolicy)
              else (SANDBOX_MANAGER_OK,
                    scatter validMediaIndex
                      (map (\<lambda>b. if b then OPERATE_SUCCESSFULLY else POLICY_HAS_NOT_BEEN_PERSISTED) checkMediaResult) results,
                    validIndex, normalPolicy))
         })"

text \<open>The shape shared by \<open>MatchPolicy\<close>, \<open>StartAccessingPolicy\<close> and \<open>StopAccessingPolicy\<close>: media policies first,
  then the given operation on the others, its results scattered back.\<close>

definition split_media ::
    "('w, 'j) ext \<Rightarrow> u32 \<Rightarrow> PolicyInfo list \<Rightarrow> (PolicyInfo list \<Rightarrow> u32 list \<Rightarrow> ('w, int \<times> u32 list) op) \<Rightarrow> u32 list \<Rightarrow>
     ('w, int \<times> u32 list) op" where
  "split_media x tokenId policy normalFunc results = do {
     (ret, results', validIndex, normalPolicy) \<leftarrow> GetMediaPolicyCommonWork x tokenId policy results;
     if ret \<noteq> SANDBOX_MANAGER_OK then State_Monad.return (ret, results')
     else if normalPolicy = [] then State_Monad.return (SANDBOX_MANAGER_OK, results')
     else do {
       (ret', checkNormalResult) \<leftarrow> normalFunc normalPolicy (replicate (length validIndex) 0);
       State_Monad.return (if ret' \<noteq> SANDBOX_MANAGER_OK then (ret', [])
         else (SANDBOX_MANAGER_OK, scatter validIndex checkNormalResult results'))
     }
   }"

definition MatchPolicy ::
    "('w, 'j) ext \<Rightarrow> u32 \<Rightarrow> PolicyInfo list \<Rightarrow> u32 list \<Rightarrow> ('w, int \<times> u32 list) op" where
  "MatchPolicy x tokenId policy results = do {
     report_path_mode ''MatchPolicy'' tokenId ValidateTempMode policy;
     split_media x tokenId policy (MatchNormalPolicy x tokenId) (resize (length policy) 0 results)
   }"

section \<open>Starting and stopping access\<close>

text \<open>What both operations do before they call the kernel: match, and split by the match results.\<close>

definition accessing_index :: "u32 list \<Rightarrow> nat list" where
  "accessing_index matchResults = filter (\<lambda>i. matchResults ! i = OPERATE_SUCCESSFULLY) [0..<length matchResults]"

definition refuse_unmatched :: "u32 list \<Rightarrow> u32 list \<Rightarrow> u32 list" where
  "refuse_unmatched matchResults results =
     fold (\<lambda>i r. if matchResults ! i = OPERATE_SUCCESSFULLY then r else r[i := matchResults ! i])
       [0..<length matchResults] results"

definition StartAccessingNormalPolicy ::
    "('w, 'j) ext \<Rightarrow> u32 \<Rightarrow> u64 \<Rightarrow> int \<Rightarrow> PolicyInfo list \<Rightarrow> u32 list \<Rightarrow> ('w, int \<times> u32 list) op" where
  "StartAccessingNormalPolicy x tokenId timestamp userId policy results = do {
     support \<leftarrow> gets sv_isMacSupport;
     if \<not> support then State_Monad.return (SANDBOX_MANAGER_OK, resize (length policy) OPERATE_SUCCESSFULLY results)
     else do {
       (ret, matchResults) \<leftarrow> MatchPolicy x tokenId policy (replicate (length policy) 0);
       if ret \<noteq> SANDBOX_MANAGER_OK then State_Monad.return (ret, [])
       else
         let accessingIndex = accessing_index matchResults;
             accessingPolicy = map (\<lambda>i. policy ! i) accessingIndex;
             info = policies_info accessingPolicy (mk_PolicyOperateInfo (length policy) 0 0 0);
             results' = refuse_unmatched matchResults results
         in do {
           (ret', macResults) \<leftarrow> Mac_SetSandboxPolicy x accessingPolicy (replicate (length accessingIndex) 0)
             \<lparr>mp_tokenId = tokenId, mp_policyFlag = 0, mp_timestamp = timestamp, mp_userId = userId\<rparr>;
           if ret' \<noteq> SANDBOX_MANAGER_OK then State_Monad.return (ret', [])
           else
             let successNum = count_list macResults 0
             in do {
               WriteDfxInner START_ACCESSING_POLICY info successNum (length accessingIndex - successNum)
                 (length policy - length accessingIndex);
               State_Monad.return (SANDBOX_MANAGER_OK,
                 scatter accessingIndex (map (\<lambda>r. mac_code (r = 0)) macResults) results')
             }
         }
     }
   }"

definition StopAccessingNormalPolicy ::
    "('w, 'j) ext \<Rightarrow> u32 \<Rightarrow> PolicyInfo list \<Rightarrow> u32 list \<Rightarrow> ('w, int \<times> u32 list) op" where
  "StopAccessingNormalPolicy x tokenId policy results = do {
     support \<leftarrow> gets sv_isMacSupport;
     if \<not> support then State_Monad.return (SANDBOX_MANAGER_OK, resize (length policy) OPERATE_SUCCESSFULLY results)
     else do {
       (ret, matchResults) \<leftarrow> MatchPolicy x tokenId policy (replicate (length policy) 0);
       if ret \<noteq> SANDBOX_MANAGER_OK then State_Monad.return (ret, [])
       else
         let accessingIndex = accessing_index matchResults;
             accessingPolicy = map (\<lambda>i. policy ! i) accessingIndex;
             info = policies_info accessingPolicy (mk_PolicyOperateInfo (length policy) 0 0 0);
             results' = refuse_unmatched matchResults results
         in do {
           (ret', macResults) \<leftarrow> UnSetSandboxPolicy_batch x tokenId accessingPolicy (replicate (length accessingIndex) False);
           if ret' \<noteq> SANDBOX_MANAGER_OK then State_Monad.return (ret', [])
           else
             let successNum = count_list macResults True
             in do {
               WriteDfxInner STOP_ACCESSING_POLICY info successNum (length accessingIndex - successNum)
                 (length policy - length accessingIndex);
               State_Monad.return (SANDBOX_MANAGER_OK, scatter accessingIndex (map mac_code macResults) results')
             }
         }
     }
   }"

definition StartAccessingPolicy ::
    "('w, 'j) ext \<Rightarrow> u32 \<Rightarrow> PolicyInfo list \<Rightarrow> u32 list \<Rightarrow> int \<Rightarrow> u64 \<Rightarrow> ('w, int \<times> u32 list) op" where
  "StartAccessingPolicy x tokenId policy results userId timestamp = do {
     report_each ''StartAccessingPolicy'' tokenId (\<lambda>p. State_Monad.return (ValidateActivationPolicy p)) policy;
     split_media x tokenId policy (StartAccessingNormalPolicy x tokenId timestamp userId) (resize (length policy) 0 results)
   }"

definition StopAccessingPolicy ::
    "('w, 'j) ext \<Rightarrow> u32 \<Rightarrow> PolicyInfo list \<Rightarrow> u32 list \<Rightarrow> ('w, int \<times> u32 list) op" where
  "StopAccessingPolicy x tokenId policy results = do {
     report_each ''StopAccessingPolicy'' tokenId (\<lambda>p. State_Monad.return (ValidateActivationPolicy p)) policy;
     split_media x tokenId policy (StopAccessingNormalPolicy x tokenId) (resize (length policy) 0 results)
   }"

text \<open>The mode of a row, read as \<open>int32_t\<close> and cast to \<open>uint64_t\<close>.\<close>

definition row_info :: "GenericValues \<Rightarrow> PolicyInfo" where
  "row_info row = \<lparr>ppath = gv_GetString row FIELD_PATH, pmode = word_of_int (gv_GetInt row FIELD_MODE), ptype = UNKNOWN\<rparr>"

definition StartAccessingByTokenId :: "('w, 'j) ext \<Rightarrow> u32 \<Rightarrow> int \<Rightarrow> u64 \<Rightarrow> ('w, int) op" where
  "StartAccessingByTokenId x tokenId userId timestamp = do {
     support \<leftarrow> gets sv_isMacSupport;
     if \<not> support then State_Monad.return SANDBOX_MANAGER_OK
     else do {
       (ret, dbResults) \<leftarrow> RangeFind x
         (gv_of [(FIELD_TOKENID, TYPE_INT (sint tokenId)), (FIELD_FLAG, TYPE_INT 1)])
         (gv_of [(FIELD_TOKENID, TYPE_STRING ''=''), (FIELD_FLAG, TYPE_STRING ''='')]);
       if ret = SANDBOX_MANAGER_DB_ERR then State_Monad.return SANDBOX_MANAGER_DB_ERR
       else if dbResults = [] then do {
         write_report (PersistOperate START_ACCESSING_POLICY_BY_TOKEN (mk_PolicyOperateInfo 0 0 0 0));
         State_Monad.return SANDBOX_MANAGER_DB_RETURN_EMPTY
       }
       else do {
         (ret', macResults) \<leftarrow> Mac_SetSandboxPolicy x (map row_info dbResults) (replicate (length dbResults) 0)
           \<lparr>mp_tokenId = tokenId, mp_policyFlag = 1, mp_timestamp = timestamp, mp_userId = userId\<rparr>;
         if ret' \<noteq> SANDBOX_MANAGER_OK then State_Monad.return ret'
         else
           let successNum = count_list macResults 0
           in do {
             (if length dbResults \<ge> successNum then
                write_report (PersistOperate START_ACCESSING_POLICY_BY_TOKEN
                  (mk_PolicyOperateInfo (length dbResults) successNum (length dbResults - successNum) 0))
              else State_Monad.return ());
             State_Monad.return SANDBOX_MANAGER_OK
           }
       }
     }
   }"

section \<open>Removing\<close>

record remove_acc =
  ra_result :: "u32 list"
  ra_invalidNum :: nat
  ra_failNum :: nat
  ra_successNum :: nat
  ra_conditions :: "GenericValues list"
  ra_info :: PolicyOperateInfo
  ra_mediaPolicy :: "PolicyInfo list"
  ra_validMediaIndex :: "nat list"

definition ValidatePolicyAtIndex :: "nat \<Rightarrow> PolicyInfo \<Rightarrow> remove_acc \<Rightarrow> remove_acc" where
  "ValidatePolicyAtIndex i p acc =
     (let ret = CheckPolicyValidity p NORMAL_POLICY
      in if ret \<noteq> SANDBOX_MANAGER_OK then
           acc\<lparr>ra_result := (ra_result acc)[i := word_of_int ret], ra_invalidNum := ra_invalidNum acc + 1\<rparr>
         else if IsMediaPolicy (ppath p) then
           acc\<lparr>ra_mediaPolicy := ra_mediaPolicy acc @ [p], ra_validMediaIndex := ra_validMediaIndex acc @ [i],
               ra_invalidNum := ra_invalidNum acc + 1\<rparr>
         else acc)"

definition UnsetSandboxPolicyAndRecord ::
    "('w, 'j) ext \<Rightarrow> u32 \<Rightarrow> PolicyInfo \<Rightarrow> GenericValues list \<Rightarrow> ('w, int \<times> GenericValues list) op" where
  "UnsetSandboxPolicyAndRecord x tokenId policy conditions = do {
     ret \<leftarrow> UnSetSandboxPolicy_one x tokenId policy;
     State_Monad.return (if ret \<noteq> SANDBOX_MANAGER_OK then (ret, conditions)
       else (SANDBOX_MANAGER_OK, conditions @ [TransferPolicyToGeneric tokenId policy []]))
   }"

text \<open>The loop over the stored paths that match one policy; it stops at the first kernel error.\<close>

fun unset_matches ::
    "('w, 'j) ext \<Rightarrow> u32 \<Rightarrow> PolicyInfo \<Rightarrow> string list \<Rightarrow> GenericValues list \<Rightarrow> ('w, int \<times> GenericValues list) op" where
  "unset_matches x tokenId p [] conditions = State_Monad.return (SANDBOX_MANAGER_OK, conditions)"
| "unset_matches x tokenId p (matchedPath # paths) conditions = do {
     (ret, conditions') \<leftarrow> UnsetSandboxPolicyAndRecord x tokenId (p\<lparr>ppath := matchedPath\<rparr>) conditions;
     if ret \<noteq> SANDBOX_MANAGER_OK then State_Monad.return (ret, conditions')
     else unset_matches x tokenId p paths conditions'
   }"

definition WriteRemoveDfxInfo :: "nat \<Rightarrow> remove_acc \<Rightarrow> ('w, unit) op" where
  "WriteRemoveDfxInfo policySize acc =
     write_report (PersistOperate UNPERSIST_POLICY
       ((ra_info acc)\<lparr>po_policyNum := of_nat policySize, po_successNum := of_nat (ra_successNum acc),
                      po_failNum := of_nat (ra_failNum acc), po_invalidNum := of_nat (ra_invalidNum acc)\<rparr>))"

fun RemoveNormalPolicy_loop ::
    "('w, 'j) ext \<Rightarrow> u32 \<Rightarrow> ptrie \<Rightarrow> nat \<Rightarrow> PolicyInfo list \<Rightarrow> nat \<Rightarrow> remove_acc \<Rightarrow> ('w, int \<times> remove_acc) op" where
  "RemoveNormalPolicy_loop x tokenId trieTree policySize [] i acc = State_Monad.return (SANDBOX_MANAGER_OK, acc)"
| "RemoveNormalPolicy_loop x tokenId trieTree policySize (p # ps) i acc =
     (let acc1 = ValidatePolicyAtIndex i p acc
      in if ra_result acc1 ! i \<noteq> 0 then RemoveNormalPolicy_loop x tokenId trieTree policySize ps (Suc i) acc1
         else
           let matchingPaths = FindMatchingPaths (ppath p) (pmode p) trieTree
           in if matchingPaths = [] then
                RemoveNormalPolicy_loop x tokenId trieTree policySize ps (Suc i)
                  (acc1\<lparr>ra_result := (ra_result acc1)[i := POLICY_HAS_NOT_BEEN_PERSISTED],
                        ra_successNum := ra_successNum acc1 + 1\<rparr>)
              else do {
                (ret, conditions) \<leftarrow> unset_matches x tokenId p matchingPaths (ra_conditions acc1);
                let acc2 = acc1\<lparr>ra_conditions := conditions\<rparr>;
                if ret \<noteq> SANDBOX_MANAGER_OK then do {
                  WriteRemoveDfxInfo policySize (acc2\<lparr>ra_failNum := ra_failNum acc2 + 1\<rparr>);
                  State_Monad.return (ret, acc2\<lparr>ra_failNum := ra_failNum acc2 + 1\<rparr>)
                }
                else RemoveNormalPolicy_loop x tokenId trieTree policySize ps (Suc i)
                  (acc2\<lparr>ra_info := OperateInfoSetByMode (ra_info acc2) (ucast (pmode p)),
                        ra_successNum := ra_successNum acc2 + 1\<rparr>)
              })"

definition RemoveNormalPolicy ::
    "('w, 'j) ext \<Rightarrow> u32 \<Rightarrow> PolicyInfo list \<Rightarrow> u32 list \<Rightarrow> ('w, int \<times> remove_acc) op" where
  "RemoveNormalPolicy x tokenId policy result =
     (let acc0 = \<lparr>ra_result = result, ra_invalidNum = 0, ra_failNum = 0, ra_successNum = 0, ra_conditions = [],
                  ra_info = mk_PolicyOperateInfo 0 0 0 0, ra_mediaPolicy = [], ra_validMediaIndex = []\<rparr>
      in do {
        trieTree \<leftarrow> InitTrieWithCaseSensitivity PolicyTrie;
        (ret, trieTree') \<leftarrow> BuildTrieForPolicyOperations x tokenId trieTree True;
        if ret \<noteq> SANDBOX_MANAGER_OK then State_Monad.return (ret, acc0)
        else do {
          (ret', acc) \<leftarrow> RemoveNormalPolicy_loop x tokenId trieTree' (length policy) policy 0 acc0;
          if ret' \<noteq> SANDBOX_MANAGER_OK then State_Monad.return (ret', acc)
          else if ra_conditions acc = [] then State_Monad.return (SANDBOX_MANAGER_OK, acc)
          else do {
            dbRet \<leftarrow> Rdb_RemoveAll x SANDBOX_MANAGER_PERSISTED_POLICY (ra_conditions acc);
            if dbRet \<noteq> SUCCESS then State_Monad.return (SANDBOX_MANAGER_DB_ERR, acc)
            else do {
              WriteRemoveDfxInfo (length (ra_conditions acc)) acc;
              State_Monad.return (SANDBOX_MANAGER_OK, acc)
            }
          }
        }
      })"

definition RemovePolicy ::
    "('w, 'j) ext \<Rightarrow> u32 \<Rightarrow> PolicyInfo list \<Rightarrow> u32 list \<Rightarrow> ('w, int \<times> u32 list) op" where
  "RemovePolicy x tokenId policy result = do {
     report_path_mode ''RemovePolicy'' tokenId ValidateTempMode policy;
     support \<leftarrow> gets sv_isMacSupport;
     if \<not> support then State_Monad.return (SANDBOX_MANAGER_OK, resize (length policy) OPERATE_SUCCESSFULLY result)
     else do {
       (ret, acc) \<leftarrow> RemoveNormalPolicy x tokenId policy (resize (length policy) 0 result);
       if ret \<noteq> SANDBOX_MANAGER_OK then State_Monad.return (ret, ra_result acc)
       else if ra_mediaPolicy acc = [] then State_Monad.return (SANDBOX_MANAGER_OK, ra_result acc)
       else do {
         (ret', checkMediaResult) \<leftarrow> RemoveMediaPolicy x tokenId (ra_mediaPolicy acc)
            (replicate (length (ra_validMediaIndex acc)) 0);
         State_Monad.return (if ret' \<noteq> SUCCESS then (ret', ra_result acc)
           else (SANDBOX_MANAGER_OK, scatter (ra_validMediaIndex acc) checkMediaResult (ra_result acc)))
       }
     }
   }"

definition RemoveBundlePolicy :: "('w, 'j) ext \<Rightarrow> u32 \<Rightarrow> ('w, bool) op" where
  "RemoveBundlePolicy x tokenId = do {
     ret \<leftarrow> Rdb_Remove x SANDBOX_MANAGER_PERSISTED_POLICY (gv_of [(FIELD_TOKENID, TYPE_INT (sint tokenId))]);
     if ret \<noteq> SUCCESS then State_Monad.return False
     else do {
       write_report (PersistOperate REMOVE_BUNDLE_POLICY_BY_EVENT (mk_PolicyOperateInfo 0 0 0 0));
       State_Monad.return True
     }
   }"

section \<open>Queries\<close>

definition GetMediaPolicies ::
    "('w, 'j) ext \<Rightarrow> u32 \<Rightarrow> PolicyInfo list \<Rightarrow> ('w, int \<times> PolicyInfo list) op" where
  "GetMediaPolicies x tokenId policies = do {
     (ret, photoPermissionList) \<leftarrow> GetPhotoUriPersistPermission x tokenId;
     State_Monad.return
       (if ret \<noteq> SANDBOX_MANAGER_OK then (ret, policies)
        else (SANDBOX_MANAGER_OK,
              if photoPermissionList = [] then policies
              else policies @ [\<lparr>ppath = ''/data/storage/el2/media'',
                                pmode = word_of_int (CalculateOperateMode photoPermissionList), ptype = UNKNOWN\<rparr>]))
   }"

definition GetPersistPolicy :: "('w, 'j) ext \<Rightarrow> u32 \<Rightarrow> raw_data \<Rightarrow> ('w, int \<times> raw_data) op" where
  "GetPersistPolicy x tokenId policyRawData =
     (if tokenId = 0 then State_Monad.return (INVALID_PARAMTER, policyRawData)
      else do {
        (ret, results) \<leftarrow> RangeFind x (gv_of [(FIELD_TOKENID, TYPE_INT (sint tokenId))]) [];
        if ret \<noteq> SANDBOX_MANAGER_OK then State_Monad.return (ret, policyRawData)
        else do {
          (_, policies) \<leftarrow> GetMediaPolicies x tokenId (map (\<lambda>g. snd (TransferGenericToPolicy g)) results);
          State_Monad.return (SANDBOX_MANAGER_OK, snd (PolicyVec_Marshalling policies))
        }
      })"

section \<open>Raw vectors\<close>

definition AddPolicy_raw ::
    "('w, 'j) ext \<Rightarrow> u32 \<Rightarrow> raw_data \<Rightarrow> u32 list \<Rightarrow> u32 \<Rightarrow> ('w, int \<times> u32 list) partial_op" where
  "AddPolicy_raw x tokenId policyRawData result flag =
     ProcessPolicyBatch policyRawData result (\<lambda>policies. AddPolicy x tokenId policies [] flag)
       PERSIST_POLICY_BATCH_SIZE INVALID_PATH"

definition RemovePolicy_raw :: "('w, 'j) ext \<Rightarrow> u32 \<Rightarrow> raw_data \<Rightarrow> u32 list \<Rightarrow> ('w, int \<times> u32 list) partial_op" where
  "RemovePolicy_raw x tokenId policyRawData result =
     ProcessPolicyBatch policyRawData result (\<lambda>policies. RemovePolicy x tokenId policies [])
       PERSIST_POLICY_BATCH_SIZE INVALID_PATH"

definition MatchPolicy_raw :: "('w, 'j) ext \<Rightarrow> u32 \<Rightarrow> raw_data \<Rightarrow> u32 list \<Rightarrow> ('w, int \<times> u32 list) partial_op" where
  "MatchPolicy_raw x tokenId policyRawData result =
     ProcessPolicyBatch policyRawData result (\<lambda>policies. MatchPolicy x tokenId policies [])
       PERSIST_POLICY_BATCH_SIZE INVALID_PATH"

definition StartAccessingPolicy_raw ::
    "('w, 'j) ext \<Rightarrow> u32 \<Rightarrow> raw_data \<Rightarrow> u32 list \<Rightarrow> int \<Rightarrow> u64 \<Rightarrow> ('w, int \<times> u32 list) partial_op" where
  "StartAccessingPolicy_raw x tokenId policyRawData results userId timestamp =
     ProcessPolicyBatch policyRawData results (\<lambda>policies. StartAccessingPolicy x tokenId policies [] userId timestamp)
       PERSIST_POLICY_BATCH_SIZE INVALID_PATH"

definition StopAccessingPolicy_raw ::
    "('w, 'j) ext \<Rightarrow> u32 \<Rightarrow> raw_data \<Rightarrow> u32 list \<Rightarrow> ('w, int \<times> u32 list) partial_op" where
  "StopAccessingPolicy_raw x tokenId policyRawData results =
     ProcessPolicyBatch policyRawData results (\<lambda>policies. StopAccessingPolicy x tokenId policies [])
       PERSIST_POLICY_BATCH_SIZE INVALID_PATH"

end
