(* ===== verification/Policy_User.thy ===== *)
theory Policy_User
  imports Policy_Access
begin

text \<open>
  \<open>service/policy_info_manager.cpp\<close>: permissions granted by the user, shared directories, cleaning by user and by
  package, and the initialisation of the manager.
\<close>

section \<open>Permissions granted by the user\<close>

fun FilterValidPolicy_loop ::
    "PolicyInfo list \<Rightarrow> nat \<Rightarrow> u32 list \<Rightarrow> PolicyInfo list \<Rightarrow> nat \<Rightarrow> u32 list \<times> PolicyInfo list \<times> nat" where
  "FilterValidPolicy_loop [] i results validPolicies invalidNum = (results, validPolicies, invalidNum)"
| "FilterValidPolicy_loop (p # ps) i results validPolicies invalidNum =
     (let normalizedPath = AdjustPath (ppath p);
          pathRet = ValidateGenericPath normalizedPath; modeRet = ValidateTempMode (pmode p)
      in if \<not> IsAllowedPath normalizedPath then
           FilterValidPolicy_loop ps (Suc i) (results[i := INVALID_PATH]) validPolicies (invalidNum + 1)
         else if pathRet \<noteq> SANDBOX_MANAGER_OK then
           FilterValidPolicy_loop ps (Suc i) (results[i := word_of_int pathRet]) validPolicies (invalidNum + 1)
         else if modeRet \<noteq> SANDBOX_MANAGER_OK then
           FilterValidPolicy_loop ps (Suc i) (results[i := word_of_int modeRet]) validPolicies (invalidNum + 1)
         else if IsAppDataPathPrefix (splitPath normalizedPath) then
           FilterValidPolicy_loop ps (Suc i) (results[i := INVALID_PATH]) validPolicies (invalidNum + 1)
         else
           FilterValidPolicy_loop ps (Suc i) (results[i := OPERATE_SUCCESSFULLY])
             (validPolicies @ [p\<lparr>ppath := normalizedPath\<rparr>]) invalidNum)"

definition FilterValidPolicy :: "PolicyInfo list \<Rightarrow> u32 list \<Rightarrow> u32 list \<times> PolicyInfo list \<times> nat" where
  "FilterValidPolicy policies results = FilterValidPolicy_loop policies 0 (resize (length policies) 0 results) [] 0"

abbreviation (input) UGC_PERMISSION_DENIED :: int where "UGC_PERMISSION_DENIED \<equiv> - 1"
abbreviation (input) UGC_PERMISSION_GRANTED :: int where "UGC_PERMISSION_GRANTED \<equiv> 0"

definition grant_row :: "u32 \<Rightarrow> PolicyInfo \<Rightarrow> GenericValues" where
  "grant_row tokenId policy =
     gv_of [(FIELD_TOKENID, TYPE_INT (sint tokenId)), (FIELD_PATH, TYPE_STRING (ppath policy)),
            (FIELD_MODE, TYPE_INT64 (sint (pmode policy))), (FIELD_STATUS, TYPE_INT64 UGC_PERMISSION_GRANTED)]"

definition GrantPermissionByUser :: "('w, 'j) ext \<Rightarrow> u32 \<Rightarrow> PolicyInfo list \<Rightarrow> ('w, int) op" where
  "GrantPermissionByUser x tokenId policies =
     (let (results, validPolicies, invalidNum) = FilterValidPolicy policies []
      in if validPolicies = [] then State_Monad.return SANDBOX_MANAGER_OK
         else do {
           ret \<leftarrow> Rdb_Add x SANDBOX_MANAGER_UGC_PERMISSION (map (grant_row tokenId) validPolicies) REPLACE;
           if ret \<noteq> SUCCESS then State_Monad.return SANDBOX_MANAGER_DB_ERR
           else do {
             (ret', setResult) \<leftarrow> SetPolicyInner x validPolicies [0..<length validPolicies]
               \<lparr>mp_tokenId = tokenId, mp_policyFlag = 0, mp_timestamp = 0, mp_userId = 0\<rparr>
               (replicate (length validPolicies) 0) 0 (length validPolicies) NORMAL_POLICY;
             State_Monad.return (if ret' \<noteq> SANDBOX_MANAGER_OK then ret' else SANDBOX_MANAGER_OK)
           }
         })"

definition revoke_conditions :: "u32 \<Rightarrow> PolicyInfo \<Rightarrow> GenericValues" where
  "revoke_conditions tokenId policy =
     gv_of [(FIELD_TOKENID, TYPE_INT (sint tokenId)), (FIELD_PATH, TYPE_STRING (ppath policy)),
            (FIELD_MODE, TYPE_INT64 (sint (pmode policy)))]"

fun RevokePermissionByUser_loop :: "('w, 'j) ext \<Rightarrow> u32 \<Rightarrow> PolicyInfo list \<Rightarrow> int \<Rightarrow> ('w, int) op" where
  "RevokePermissionByUser_loop x tokenId [] ret = State_Monad.return ret"
| "RevokePermissionByUser_loop x tokenId (policy # ps) ret = do {
     dbRet \<leftarrow> Rdb_Modify x SANDBOX_MANAGER_UGC_PERMISSION
       (gv_of [(FIELD_STATUS, TYPE_INT64 UGC_PERMISSION_DENIED)]) (revoke_conditions tokenId policy);
     if dbRet \<noteq> SUCCESS then RevokePermissionByUser_loop x tokenId ps SANDBOX_MANAGER_DB_ERR
     else do {
       (macRet, _) \<leftarrow> UnSetPolicy x tokenId [policy] [];
       RevokePermissionByUser_loop x tokenId ps (if macRet \<noteq> SANDBOX_MANAGER_OK then macRet else ret)
     }
   }"

definition RevokePermissionByUser :: "('w, 'j) ext \<Rightarrow> u32 \<Rightarrow> PolicyInfo list \<Rightarrow> ('w, int) op" where
  "RevokePermissionByUser x tokenId policies =
     (let (results, validPolicies, invalidNum) = FilterValidPolicy policies []
      in if validPolicies = [] then State_Monad.return SANDBOX_MANAGER_OK
         else RevokePermissionByUser_loop x tokenId validPolicies SANDBOX_MANAGER_OK)"

definition status_info :: "GenericValues \<Rightarrow> PermissionStatusInfo" where
  "status_info row =
     \<lparr>ps_tokenId = word_of_int (gv_GetInt row FIELD_TOKENID), ps_policyInfo = row_info row,
      ps_grantStatus = word_of_int (gv_GetInt row FIELD_STATUS)\<rparr>"

definition GetStatusByPermission ::
    "('w, 'j) ext \<Rightarrow> u32 list \<Rightarrow> ('w, int \<times> PermissionStatusInfo list) op" where
  "GetStatusByPermission x tokenIdList = do {
     (ret, dbResults) \<leftarrow> Rdb_FindByTokenIds x SANDBOX_MANAGER_UGC_PERMISSION tokenIdList;
     State_Monad.return (if ret \<noteq> SUCCESS then (SANDBOX_MANAGER_DB_ERR, [])
                         else (SANDBOX_MANAGER_OK, map status_info dbResults))
   }"

definition RemoveUgcPermissionByTokenId :: "('w, 'j) ext \<Rightarrow> u32 \<Rightarrow> ('w, unit) op" where
  "RemoveUgcPermissionByTokenId x tokenId = do {
     _ \<leftarrow> Rdb_Remove x SANDBOX_MANAGER_UGC_PERMISSION (gv_of [(FIELD_TOKENID, TYPE_INT (sint tokenId))]);
     State_Monad.return ()
   }"

section \<open>Shared directories\<close>

definition QuerySharedFileInfoByUserId :: "('w, 'j) ext \<Rightarrow> int \<Rightarrow> ('w, int \<times> GenericValues list) op" where
  "QuerySharedFileInfoByUserId x userId = do {
     (ret, results) \<leftarrow> Rdb_Find x SANDBOX_MANAGER_SHARED_FILE_INFO (gv_of [(FIELD_USERID, TYPE_INT userId)]) [];
     State_Monad.return (if ret \<noteq> SUCCESS then SANDBOX_MANAGER_DB_ERR else SANDBOX_MANAGER_OK, results)
   }"

definition shared_info :: "GenericValues \<Rightarrow> SharedDirectoryInfo" where
  "shared_info row =
     \<lparr>sd_bundleName = gv_GetString row FIELD_BUNDLENAME, sd_path = gv_GetString row FIELD_SHARED_OS_PATH,
      sd_permissionMode = word_of_int (gv_GetInt row FIELD_SHARED_MODE)\<rparr>"

definition GetSharedDirectoryInfo ::
    "('w, 'j) ext \<Rightarrow> SharedDirectoryInfo list \<Rightarrow> int \<Rightarrow> ('w, int \<times> SharedDirectoryInfo list) op" where
  "GetSharedDirectoryInfo x result userId = do {
     (ret, queryResults) \<leftarrow> QuerySharedFileInfoByUserId x userId;
     State_Monad.return (if ret \<noteq> SANDBOX_MANAGER_OK then (ret, result)
                         else (SANDBOX_MANAGER_OK, map shared_info queryResults))
   }"

text \<open>The policy of a shared directory: its mode is cast through \<open>uint32_t\<close>.\<close>

definition shared_policy :: "GenericValues \<Rightarrow> PolicyInfo" where
  "shared_policy row =
     \<lparr>ppath = gv_GetString row FIELD_SHARED_OS_PATH,
      pmode = ucast (word_of_int (gv_GetInt row FIELD_SHARED_MODE) :: u32), ptype = UNKNOWN\<rparr>"

text \<open>The frame of granting and revoking: query, then the given operation on all policies.\<close>

definition on_shared ::
    "('w, 'j) ext \<Rightarrow> int \<Rightarrow> (PolicyInfo list \<Rightarrow> ('w, int \<times> u32 list) op) \<Rightarrow> ('w, int) op" where
  "on_shared x userId f = do {
     (ret, queryResults) \<leftarrow> QuerySharedFileInfoByUserId x userId;
     if ret \<noteq> SANDBOX_MANAGER_OK then State_Monad.return ret
     else if queryResults = [] then State_Monad.return SANDBOX_MANAGER_OK
     else do {
       (ret', _) \<leftarrow> f (map shared_policy queryResults);
       State_Monad.return (if ret' \<noteq> SANDBOX_MANAGER_OK then ret' else SANDBOX_MANAGER_OK)
     }
   }"

definition GrantSharedDirectoryPermission :: "('w, 'j) ext \<Rightarrow> u32 \<Rightarrow> int \<Rightarrow> ('w, int) op" where
  "GrantSharedDirectoryPermission x tokenId userId =
     on_shared x userId (\<lambda>policies.
       SetPolicy x tokenId policies 0 [] (default_SetInfo\<lparr>si_timestamp := 0, si_userId := userId\<rparr>))"

definition RevokeSharedDirectoryPermission :: "('w, 'j) ext \<Rightarrow> u32 \<Rightarrow> int \<Rightarrow> ('w, int) op" where
  "RevokeSharedDirectoryPermission x tokenId userId =
     on_shared x userId (\<lambda>policies. UnSetPolicy x tokenId policies [])"

section \<open>Cleaning\<close>

text \<open>\<open>PolicyInfo policy; policy.path = path\<close> leaves the mode uninitialised: the value the kernel is given is the
  parameter \<open>junk\<close> of the entry.\<close>

definition CleanPolicyOnMac ::
    "('w, 'j) ext \<Rightarrow> (nat \<Rightarrow> u64) \<Rightarrow> string list \<Rightarrow> int \<Rightarrow> ('w, unit) op" where
  "CleanPolicyOnMac x junk filePathList userId = do {
     support \<leftarrow> gets sv_isMacSupport;
     if \<not> support then State_Monad.return ()
     else
       let policies = map (\<lambda>(i, path). \<lparr>ppath = path, pmode = junk i, ptype = UNKNOWN\<rparr>) (enumerate 0 filePathList)
       in do {
         (_, result) \<leftarrow> UnSetSandboxPolicyByUser x userId policies (replicate (length policies) False);
         let failed = count_list result False;
         write_report (PersistOperate CLEAN_PERSIST_POLICY_BY_PATH
           (mk_PolicyOperateInfo (length result) (length result - failed) failed 0))
       }
   }"

fun RemoveResultByUserIdAndPrefix ::
    "('w, 'j) ext \<Rightarrow> int \<Rightarrow> ptrie \<Rightarrow> GenericValues list \<Rightarrow> ('w, GenericValues list) op" where
  "RemoveResultByUserIdAndPrefix x userId trieTree [] = State_Monad.return []"
| "RemoveResultByUserIdAndPrefix x userId trieTree (row # rows) =
     (if \<not> CheckPath (gv_GetString row FIELD_PATH) trieTree then RemoveResultByUserIdAndPrefix x userId trieTree rows
      else do {
        (ret, hapUserId) \<leftarrow> world (x_GetHapUserId x (word_of_int (gv_GetInt row FIELD_TOKENID)));
        kept \<leftarrow> RemoveResultByUserIdAndPrefix x userId trieTree rows;
        State_Monad.return (if ret = 0 \<and> hapUserId \<noteq> userId then kept else row # kept)
      })"

text \<open>The loop over the paths: the adjusted paths, the trie and the rows below the paths.\<close>

fun clean_loop ::
    "('w, 'j) ext \<Rightarrow> string list \<Rightarrow> string list \<Rightarrow> ptrie \<Rightarrow> GenericValues list \<Rightarrow>
     ('w, string list \<times> ptrie \<times> GenericValues list) op" where
  "clean_loop x [] filePathListTmp trieTree dbResults = State_Monad.return (filePathListTmp, trieTree, dbResults)"
| "clean_loop x (path # paths) filePathListTmp trieTree dbResults =
     (let trimmedPath = c_str path; len = u32_len trimmedPath
      in if len = 0 \<or> len > of_nat POLICY_PATH_LIMIT then clean_loop x paths filePathListTmp trieTree dbResults
         else
           let pathTmp = AdjustPath trimmedPath
           in do {
             (_, found) \<leftarrow> Rdb_FindSubPathIgnoreCase x SANDBOX_MANAGER_PERSISTED_POLICY pathTmp;
             clean_loop x paths (filePathListTmp @ [pathTmp]) (InsertPath pathTmp 0 False trieTree) (dbResults @ found)
           })"

definition report_cleaned_nothing :: "('w, int) op" where
  "report_cleaned_nothing = do {
     write_report (PersistOperate CLEAN_PERSIST_POLICY_BY_PATH (mk_PolicyOperateInfo 0 0 0 0));
     State_Monad.return SANDBOX_MANAGER_OK
   }"

fun report_paths :: "string list \<Rightarrow> ('w, unit) op" where
  "report_paths [] = State_Monad.return ()"
| "report_paths (path # paths) = do {
     report_failure ''CleanPolicyByUserId'' 0 \<lparr>ppath = path, pmode = 0, ptype = UNKNOWN\<rparr> (ValidateGenericPath path);
     report_paths paths
   }"

text \<open>The user id is a \<open>uint32_t\<close> that is passed on as an \<open>int32_t\<close>.\<close>

definition CleanPolicyByUserId ::
    "('w, 'j) ext \<Rightarrow> (nat \<Rightarrow> u64) \<Rightarrow> u32 \<Rightarrow> string list \<Rightarrow> ('w, int) op" where
  "CleanPolicyByUserId x junk userId filePathList = do {
     report_paths filePathList;
     trieTree \<leftarrow> InitTrieWithCaseSensitivity PolicyTrie;
     (filePathListTmp, trieTree', dbResults) \<leftarrow> clean_loop x filePathList [] trieTree [];
     CleanPolicyOnMac x junk filePathListTmp (sint userId);
     if dbResults = [] then report_cleaned_nothing
     else do {
       dbResults' \<leftarrow> RemoveResultByUserIdAndPrefix x (sint userId) trieTree' dbResults;
       if dbResults' = [] then report_cleaned_nothing
       else do {
         _ \<leftarrow> Rdb_RemoveAll x SANDBOX_MANAGER_PERSISTED_POLICY dbResults';
         State_Monad.return SANDBOX_MANAGER_OK
       }
     }
   }"

fun clean_indexes :: "('w, 'j) ext \<Rightarrow> string \<Rightarrow> int \<Rightarrow> int list \<Rightarrow> ('w, unit) op" where
  "clean_indexes x bundleName userID [] = State_Monad.return ()"
| "clean_indexes x bundleName userID (appIndex # appIndexes) = do {
     tokenId \<leftarrow> world (x_GetHapTokenID x userID bundleName appIndex);
     (if tokenId = 0 then State_Monad.return ()
      else do { _ \<leftarrow> UnSetAllPolicyByToken x tokenId 0; State_Monad.return () });
     clean_indexes x bundleName userID appIndexes
   }"

definition CleanPolicyByPackageChanged :: "('w, 'j) ext \<Rightarrow> string \<Rightarrow> int \<Rightarrow> ('w, int) op" where
  "CleanPolicyByPackageChanged x bundleName userID = do {
     bundleMgr \<leftarrow> world (x_GetBundleMgr x);
     if \<not> bundleMgr then State_Monad.return PERMISSION_DENIED
     else do {
       (err, appIndexes) \<leftarrow> world (x_GetCloneAppIndexes x bundleName userID);
       if err \<noteq> 0 then State_Monad.return PERMISSION_DENIED
       else do {
         clean_indexes x bundleName userID (appIndexes @ [0]);
         State_Monad.return SANDBOX_MANAGER_OK
       }
     }
   }"

section \<open>Initialisation\<close>

abbreviation (input) CASE_INSENSITIVE :: int where "CASE_INSENSITIVE \<equiv> 0"
abbreviation (input) CASE_SENSITIVE :: int where "CASE_SENSITIVE \<equiv> 1"

definition InitCaseSensitivity :: "('w, 'j) ext \<Rightarrow> ('w, unit) op" where
  "InitCaseSensitivity x = do {
     dirs \<leftarrow> world (x_GetIgnoreCaseDirs x);
     let caseDirs = fold (\<lambda>(dir, mode). map_assign dir mode) dirs
           [(''/storage/Users/currentUser'', CASE_INSENSITIVE),
            (''/storage/Users/currentUser/appdata'', CASE_SENSITIVE)];
     State_Monad.update (\<lambda>s. s\<lparr>
       sv_caseInsensitivePaths := map fst (filter (\<lambda>(dir, mode). mode = CASE_INSENSITIVE) caseDirs),
       sv_caseSensitivePaths := map fst (filter (\<lambda>(dir, mode). mode = CASE_SENSITIVE) caseDirs)\<rparr>)
   }"

definition Init :: "('w, 'j) ext \<Rightarrow> ('w, unit) op" where
  "Init x = do {
     _ \<leftarrow> Rdb_Init x;
     Mac_Init x True;
     InitUserGrantMap x;
     InitCaseSensitivity x;
     (if x_NOT_RESIDENT x then do { _ \<leftarrow> InitShareMap x; State_Monad.return () } else State_Monad.return ())
   }"

end
