(* ===== verification/World_Invariant.thy ===== *)
theory World_Invariant
  imports Sandbox_State
begin

text \<open>
  Reasoning about operations without knowing the outside world: on a service with (or without) kernel support,
  and with a given share map where one is named, an operation keeps an invariant of the world, leaves the
  support and that share map as they are and answers a result that satisfies a condition. The rules follow the
  constructs of the monad.
\<close>

named_theorems inv_rules \<open>rules of \<open>inv_op\<close> for the constructs of the monad\<close>

type_synonym frame = "bool \<times> (string \<times> (u32 \<times> (string \<times> u32) list) list) list option"

definition in_frame :: "frame \<Rightarrow> 'w svc \<Rightarrow> bool" where
  "in_frame fr s \<longleftrightarrow> sv_isMacSupport s = fst fr \<and> (snd fr = None \<or> snd fr = Some (sv_shareMap s))"

definition inv_op :: "frame \<Rightarrow> ('w \<Rightarrow> bool) \<Rightarrow> ('w, 'a) op \<Rightarrow> ('a \<Rightarrow> bool) \<Rightarrow> bool" where
  "inv_op fr Q m R \<longleftrightarrow>
     (\<forall>s. in_frame fr s \<and> Q (sv_world s) \<longrightarrow>
        in_frame fr (snd (run_state m s)) \<and> Q (sv_world (snd (run_state m s))) \<and> R (fst (run_state m s)))"

abbreviation keeps :: "frame \<Rightarrow> ('w \<Rightarrow> bool) \<Rightarrow> ('w, 'a) op \<Rightarrow> bool" where
  "keeps fr Q m \<equiv> inv_op fr Q m (\<lambda>_. True)"

lemma inv_opD:
  assumes "inv_op fr Q m R" "in_frame fr s" "Q (sv_world s)" "run_state m s = (a, s')"
  shows "Q (sv_world s')" "R a" "in_frame fr s'"
  using assms(1) [unfolded inv_op_def, rule_format, of s] assms(2-4) by simp_all

text \<open>In a frame that names the share map, what holds of a result and of the map left behind holds of that map.\<close>

lemma inv_op_at_map:
  assumes "inv_op (mac, Some sm) Q m R" "\<And>s a s'. run_state m s = (a, s') \<Longrightarrow> T a (sv_shareMap s')"
  shows "inv_op (mac, Some sm) Q m (\<lambda>a. R a \<and> T a sm)"
  unfolding inv_op_def
proof (intro allI impI conjI)
  fix s assume s: "in_frame (mac, Some sm) s \<and> Q (sv_world s)"
  obtain a s' where run: "run_state m s = (a, s')" by fastforce
  have "in_frame (mac, Some sm) s'" "Q (sv_world s')" "R a"
    using inv_opD [OF assms(1) conjunct1 [OF s] conjunct2 [OF s] run] by simp_all
  moreover have "T a (sv_shareMap s')" by (rule assms(2) [OF run])
  ultimately show "in_frame (mac, Some sm) (snd (run_state m s))" "Q (sv_world (snd (run_state m s)))"
      "R (fst (run_state m s))" "T (fst (run_state m s)) sm"
    by (simp_all add: run in_frame_def)
qed

lemma inv_op_mono: "inv_op fr Q m R \<Longrightarrow> (\<And>a. R a \<Longrightarrow> S a) \<Longrightarrow> inv_op fr Q m S"
  by (auto simp: inv_op_def)

lemma inv_return [inv_rules]: "R a \<Longrightarrow> inv_op fr Q (State_Monad.return a) R"
  by (simp add: inv_op_def)

lemma inv_bind:
  assumes "inv_op fr Q m R" "\<And>a. R a \<Longrightarrow> inv_op fr Q (f a) S"
  shows "inv_op fr Q (State_Monad.bind m f) S"
  using assms by (auto simp: inv_op_def case_prod_beta)

lemma inv_bind_any [inv_rules]:
  assumes "keeps fr Q m" "\<And>a. inv_op fr Q (f a) S"
  shows "inv_op fr Q (State_Monad.bind m f) S"
  using assms by (intro inv_bind [of fr Q m "\<lambda>_. True"])

lemma inv_if [inv_rules]: "(b \<Longrightarrow> inv_op fr Q m R) \<Longrightarrow> (\<not> b \<Longrightarrow> inv_op fr Q n R) \<Longrightarrow> inv_op fr Q (if b then m else n) R"
  by simp

lemma inv_gets [inv_rules]: "keeps fr Q (gets f)"
  by (simp add: inv_op_def)

lemma inv_world: "(\<And>w. Q w \<Longrightarrow> Q (snd (f w))) \<Longrightarrow> keeps fr Q (world f)"
  by (simp add: inv_op_def in_frame_def)

lemma inv_report [inv_rules]: "keeps fr Q (write_report r)"
  by (simp add: inv_op_def in_frame_def)

lemma inv_bind_support [inv_rules]:
  "inv_op fr Q (f (fst fr)) R \<Longrightarrow> inv_op fr Q (State_Monad.bind (gets sv_isMacSupport) f) R"
  by (simp add: inv_op_def in_frame_def)

lemma inv_update [inv_rules]:
  "(\<And>s. sv_world (f s) = sv_world s \<and> sv_isMacSupport (f s) = sv_isMacSupport s \<and>
      (snd fr = None \<or> sv_shareMap (f s) = sv_shareMap s)) \<Longrightarrow> keeps fr Q (State_Monad.update f)"
  by (simp add: inv_op_def in_frame_def) metis

lemma inv_prod [inv_rules]: "(\<And>a b. p = (a, b) \<Longrightarrow> inv_op fr Q (f a b) R) \<Longrightarrow> inv_op fr Q (case p of (a, b) \<Rightarrow> f a b) R"
  by (cases p) simp

lemma inv_option [inv_rules]:
  "(o' = None \<Longrightarrow> inv_op fr Q m R) \<Longrightarrow> (\<And>a. o' = Some a \<Longrightarrow> inv_op fr Q (f a) R) \<Longrightarrow>
   inv_op fr Q (case o' of None \<Rightarrow> m | Some a \<Rightarrow> f a) R"
  by (cases o') simp_all

lemma inv_keeps: "inv_op fr Q m R \<Longrightarrow> keeps fr Q m"
  by (simp add: inv_op_def)

end
