(* ===== verification/Manager_Spec.thy ===== *)
theory Manager_Spec
  imports Policy_Manager World_Invariant Mac_Spec Share_Spec
begin

text \<open>What the operations on temporary policies guarantee.\<close>

section \<open>Scattering\<close>

lemma scatter_Nil [simp]: "scatter [] vs r = r"
  by (simp add: scatter_def)

lemma scatter_Cons: "scatter (i # is) (v # vs) r = scatter is vs (r[i := v])"
  by (simp add: scatter_def)

lemma scatter_length [simp]: "length (scatter is vs r) = length r"
proof (induction "is" arbitrary: vs r)
  case (Cons i "is")
  then show ?case by (cases vs) (simp_all add: scatter_Cons, simp add: scatter_def)
qed simp

lemma scatter_other: "j \<notin> set is \<Longrightarrow> scatter is vs r ! j = r ! j"
proof (induction "is" arbitrary: vs r)
  case (Cons i "is")
  then show ?case by (cases vs) (simp_all add: scatter_Cons, simp add: scatter_def)
qed simp

lemma scatter_at:
  assumes "distinct is" "length vs = length is" "k < length is" "\<forall>i \<in> set is. i < length r"
  shows "scatter is vs r ! (is ! k) = vs ! k"
  using assms
proof (induction "is" arbitrary: vs r k)
  case (Cons i "is")
  then obtain v vs' where vs: "vs = v # vs'" by (cases vs) auto
  show ?case
  proof (cases k)
    case 0
    with Cons.prems vs show ?thesis by (simp add: scatter_Cons scatter_other)
  next
    case (Suc k')
    with Cons.IH [of vs' k' "r[i := v]"] Cons.prems vs show ?thesis by (simp add: scatter_Cons)
  qed
qed simp

section \<open>The loop over the policies\<close>

text \<open>What the loop leaves: the accepted policies with increasing indices, codes at the places of the others.\<close>

definition filtered ::
    "PolicyInfo list \<Rightarrow> nat \<Rightarrow> u32 list \<Rightarrow> (PolicyInfo \<Rightarrow> bool) \<Rightarrow> (PolicyInfo \<Rightarrow> int \<Rightarrow> bool) \<Rightarrow> u32 list \<Rightarrow> (nat \<times> PolicyInfo) list \<Rightarrow> bool" where
  "filtered ps index result C D result' new \<longleftrightarrow>
     length result' = length result \<and> sorted_wrt (<) (map fst new) \<and>
     (\<forall>(i, p) \<in> set new. index \<le> i \<and> i < index + length ps \<and> p = ps ! (i - index) \<and> C p) \<and>
     (\<forall>i. index \<le> i \<and> i < index + length ps \<and> i < length result \<and> i \<notin> fst ` set new \<longrightarrow>
        (\<exists>c. c \<noteq> SANDBOX_MANAGER_OK \<and> D (ps ! (i - index)) c \<and> result' ! i = word_of_int c)) \<and>
     (\<forall>i. i < index \<or> index + length ps \<le> i \<or> i \<in> fst ` set new \<longrightarrow> result' ! i = result ! i)"

lemma filtered_Nil: "filtered [] index result C D result []"
  by (auto simp: filtered_def)

lemma filtered_refuse:
  assumes "filtered ps (Suc index) (result[index := word_of_int c]) C D result' new" "c \<noteq> SANDBOX_MANAGER_OK" "D p c"
  shows "filtered (p # ps) index result C D result' new"
proof -
  have new: "\<forall>(i, q) \<in> set new. Suc index \<le> i \<and> i < Suc index + length ps \<and> q = ps ! (i - Suc index) \<and> C q"
    using assms(1) by (simp add: filtered_def)
  then have fresh: "index \<notin> fst ` set new" by fastforce
  have "\<exists>c. c \<noteq> SANDBOX_MANAGER_OK \<and> D ((p # ps) ! (i - index)) c \<and> result' ! i = word_of_int c"
    if i: "index \<le> i" "i < index + length (p # ps)" "i < length result" "i \<notin> fst ` set new" for i
  proof (cases "i = index")
    case True
    have "result' ! index = (result[index := word_of_int c]) ! index"
      using assms(1) by (simp add: filtered_def)
    with True i assms(2,3) show ?thesis by auto
  next
    case False
    with i have "(p # ps) ! (i - index) = ps ! (i - Suc index)" by (simp add: nth_Cons')
    with assms(1) i False show ?thesis by (auto simp: filtered_def)
  qed
  moreover have "\<forall>(i, q) \<in> set new. index \<le> i \<and> i < index + length (p # ps) \<and> q = (p # ps) ! (i - index) \<and> C q"
    using new by (auto simp: nth_Cons')
  moreover have "result' ! i = result ! i" if "i < index \<or> index + length (p # ps) \<le> i \<or> i \<in> fst ` set new" for i
  proof -
    have "i \<noteq> index" using that fresh by auto
    moreover have "result' ! i = (result[index := word_of_int c]) ! i"
      using assms(1) that by (auto simp: filtered_def)
    ultimately show ?thesis by simp
  qed
  ultimately show ?thesis using assms(1) by (simp add: filtered_def)
qed

lemma filtered_accept:
  assumes "filtered ps (Suc index) result C D result' new" "C p"
  shows "filtered (p # ps) index result C D result' ((index, p) # new)"
proof -
  have new: "\<forall>(i, q) \<in> set new. Suc index \<le> i \<and> i < Suc index + length ps \<and> q = ps ! (i - Suc index) \<and> C q"
    using assms(1) by (simp add: filtered_def)
  then have "\<forall>i \<in> fst ` set new. index < i" by auto
  moreover have "\<exists>c. c \<noteq> SANDBOX_MANAGER_OK \<and> D ((p # ps) ! (i - index)) c \<and> result' ! i = word_of_int c"
    if i: "index \<le> i" "i < index + length (p # ps)" "i < length result" "i \<noteq> index" "i \<notin> fst ` set new" for i
  proof -
    have "(p # ps) ! (i - index) = ps ! (i - Suc index)" using i by (simp add: nth_Cons')
    with assms(1) i show ?thesis by (auto simp: filtered_def)
  qed
  ultimately show ?thesis using assms new by (auto simp: filtered_def nth_Cons')
qed

lemma filter_loop_spec:
  assumes "\<And>i p. index \<le> i \<Longrightarrow> p \<in> set ps \<Longrightarrow> inv_op fr Q (check i p) (\<lambda>c. if c = SANDBOX_MANAGER_OK then C p else D p c)"
  shows "inv_op fr Q (filter_loop check ps index result valid)
    (\<lambda>(result', valid'). \<exists>new. valid' = valid @ new \<and> filtered ps index result C D result' new)"
  using assms
proof (induction ps arbitrary: index result valid)
  case Nil
  then show ?case by (auto intro: inv_rules filtered_Nil)
next
  case (Cons p ps)
  show ?case
  proof (simp, rule inv_bind, rule Cons.prems [OF le_refl])
    fix c assume c: "if c = SANDBOX_MANAGER_OK then C p else D p c"
    have IH: "inv_op fr Q (filter_loop check ps (Suc index) result'' valid'')
        (\<lambda>(result', valid'). \<exists>new. valid' = valid'' @ new \<and> filtered ps (Suc index) result'' C D result' new)" for result'' valid''
      using Cons.prems by (intro Cons.IH) (simp add: Suc_le_eq)
    have refuse: "c \<noteq> SANDBOX_MANAGER_OK \<Longrightarrow> inv_op fr Q (filter_loop check ps (Suc index) (result[index := word_of_int c]) valid)
        (\<lambda>(result', valid'). \<exists>new. valid' = valid @ new \<and> filtered (p # ps) index result C D result' new)"
      using c by (intro inv_op_mono [OF IH]) (auto intro: filtered_refuse)
    have accept: "c = SANDBOX_MANAGER_OK \<Longrightarrow> inv_op fr Q (filter_loop check ps (Suc index) result (valid @ [(index, p)]))
        (\<lambda>(result', valid'). \<exists>new. valid' = valid @ new \<and> filtered (p # ps) index result C D result' new)"
      using c by (intro inv_op_mono [OF IH]) (auto intro: filtered_accept)
    show "inv_op fr Q (if c \<noteq> SANDBOX_MANAGER_OK then filter_loop check ps (Suc index) (result[index := word_of_int c]) valid
          else filter_loop check ps (Suc index) result (valid @ [(index, p)]))
        (\<lambda>(result', valid'). \<exists>new. valid' = valid @ new \<and> filtered (p # ps) index result C D result' new)"
      using refuse accept by simp
  qed simp
qed

section \<open>What a policy has passed when it is set\<close>

text \<open>
  The share check of a policy, written out: it concerns, for an application that is not resident, a policy of
  another type than an authorisation whose path lies below the application data of the current user and names
  an application there. The configuration of that application is looked up for the path with the clone prefix
  of the application taken off; an application without a configuration is not controlled, a path outside the
  configured directories is refused, and the configured mode has to contain the requested one.
\<close>

definition app_of :: "string \<Rightarrow> string" where
  "app_of name =
     (if take 7 name = ''+clone-'' \<and> CHR ''+'' \<in> set (drop 7 name)
      then tl (dropWhile (\<lambda>c. c \<noteq> CHR ''+'') (drop 7 name)) else name)"

definition shared_path :: "string list \<Rightarrow> string" where
  "shared_path cs = ''/storage/Users/currentUser/appdata'' @
     concat (map (\<lambda>c. CHR ''/'' # c) (drop 4 (cs[6 := app_of (cs ! 6)])))"

definition share_controlled :: "('w, 'j) ext \<Rightarrow> PolicyInfo \<Rightarrow> bool" where
  "share_controlled x p =
     (let path = AdjustPath (ppath p); cs = splitPath path
      in x_NOT_RESIDENT x \<and> ptype p \<noteq> AUTHORIZATION_PATH \<and> take 9 path = ''/storage/'' \<and> length cs > 6 \<and>
         take 3 cs = [''storage'', ''Users'', ''currentUser''] \<and> strcasecmp_eq (cs ! 3) ''appdata'')"

definition share_allows :: "('w, 'j) ext \<Rightarrow> int \<Rightarrow> share_map \<Rightarrow> PolicyInfo \<Rightarrow> bool" where
  "share_allows x userId m p =
     (let cs = splitPath (AdjustPath (ppath p));
          permission = FindPermission_in m (cs ! 6) (word_of_int userId) (shared_path cs);
          mode = ucast (pmode p)
      in share_controlled x p \<longrightarrow>
           permission = SHARE_BUNDLE_UNSET \<or> permission \<noteq> SHARE_PATH_UNSET \<and> permission AND mode = mode)"

text \<open>The checks on the length, the mode, the spelling, the directories and the application of a path.\<close>

definition mode_allowed :: "SetPolicyType \<Rightarrow> u64 \<Rightarrow> bool" where
  "mode_allowed ty mode = (if ty = DENY_POLICY then 32 \<le> mode \<and> mode < MAX_DENY_MODE else 1 \<le> mode \<and> mode < 32)"

definition well_placed :: "SetPolicyType \<Rightarrow> string \<Rightarrow> PolicyInfo \<Rightarrow> bool" where
  "well_placed ty bundleName p \<longleftrightarrow>
     0 < u32_len (ppath p) \<and> u32_len (ppath p) \<le> 4095 \<and>
     mode_allowed ty (pmode p) \<and>
     (take 23 (ppath p) = ''/data/storage/el2/media'' \<longrightarrow> pmode p \<le> 3) \<and>
     u32_len (ppath p) = u32_len (c_str (ppath p)) \<and>
     ValidateBasicPathRules (AdjustPath (ppath p)) = SANDBOX_MANAGER_OK \<and>
     (ptype p = SELF_PATH \<and> take 9 (AdjustPath (ppath p)) = ''/storage/'' \<longrightarrow>
        bundleName \<noteq> [] \<and> length (splitPath (AdjustPath (ppath p))) > 6 \<and>
        splitPath (AdjustPath (ppath p)) ! 6 = bundleName)"

text \<open>All checks of a policy, with the share map the service holds.\<close>

definition allowed_policy :: "('w, 'j) ext \<Rightarrow> SetPolicyType \<Rightarrow> string \<Rightarrow> int \<Rightarrow> share_map \<Rightarrow> PolicyInfo \<Rightarrow> bool" where
  "allowed_policy x ty bundleName userId m p \<longleftrightarrow> well_placed ty bundleName p \<and> share_allows x userId m p"

lemma CheckPolicyValidity_OK:
  "CheckPolicyValidity p ty = SANDBOX_MANAGER_OK \<longleftrightarrow>
     0 < u32_len (ppath p) \<and> u32_len (ppath p) \<le> 4095 \<and> mode_allowed ty (pmode p) \<and>
     (take 23 (ppath p) = ''/data/storage/el2/media'' \<longrightarrow> pmode p \<le> 3)"
proof -
  have media: "IsMediaPolicy (ppath p) \<longleftrightarrow> take 23 (ppath p) = ''/data/storage/el2/media''"
  proof -
    have "take 23 (ppath p) = ''/data/storage/el2/media'' \<Longrightarrow> 23 \<le> length (ppath p)"
      by (drule arg_cong [of _ _ length]) simp
    then show ?thesis by (auto simp: IsMediaPolicy_def MEDIA_PATH_1_def substr_def numeral_eq_Suc)
  qed
  have small: "mode_allowed ty (pmode p) \<Longrightarrow> 1 \<le> pmode p"
    by (auto simp: mode_allowed_def word_le_nat_alt word_less_nat_alt split: if_splits)
  show ?thesis
    using small by (auto simp: CheckPolicyValidity_def Let_def media IsModeMatchPolicyType_def mode_allowed_def
        word_neq_0_conv not_less split: if_splits)
qed

lemma well_placed_checks:
  "well_placed ty b p \<longleftrightarrow>
     CheckPolicyValidity p ty = SANDBOX_MANAGER_OK \<and>
     u32_len (ppath p) = u32_len (c_str (ppath p)) \<and>
     ValidateBasicPathRules (AdjustPath (ppath p)) = SANDBOX_MANAGER_OK \<and>
     (ptype p = SELF_PATH \<and> substr (AdjustPath (ppath p)) 0 (length ROOT_PATH_WITH_SLASH) = ROOT_PATH_WITH_SLASH \<longrightarrow>
        CheckPathWithinBundleName (AdjustPath (ppath p)) b (splitPath (AdjustPath (ppath p))))"
proof -
  have root: "substr path 0 (length ROOT_PATH_WITH_SLASH) = ROOT_PATH_WITH_SLASH \<longleftrightarrow> take 9 path = ''/storage/''" for path
    by (simp add: substr_def ROOT_PATH_WITH_SLASH_def numeral_eq_Suc)
  show ?thesis
    unfolding well_placed_def CheckPolicyValidity_OK root CheckPathWithinBundleName_def by auto
qed

text \<open>The path that is looked up in the share map, and the clone prefix.\<close>

lemma RemoveClonePrefix_app_of: "RemoveClonePrefix name = app_of name"
proof (cases "take 7 name = ''+clone-'' \<and> CHR ''+'' \<in> set (drop 7 name)")
  case True
  then obtain j where j: "find_char_from (CHR ''+'') 7 (drop 7 name) = Some j"
    by (metis find_char_from_None option.exhaust)
  have "7 \<le> j" "drop (Suc j - 7) (drop 7 name) = tl (dropWhile (\<lambda>d. d \<noteq> CHR ''+'') (drop 7 name))"
    using find_char_from_Some [OF j] by blast+
  then have "drop (j + 1) name = tl (dropWhile (\<lambda>d. d \<noteq> CHR ''+'') (drop 7 name))" by simp
  moreover have "length ''+clone-'' = 7" by simp
  ultimately show ?thesis using True j
    by (simp only: RemoveClonePrefix_def app_of_def starts_with_def str_find_char_def Let_def if_True
        option.case simp_thms)
next
  case False
  then have "\<not> (starts_with name ''+clone-'' \<and> str_find_char name (CHR ''+'') (length ''+clone-'') \<noteq> None)"
    by (simp add: starts_with_def str_find_char_def find_char_from_None numeral_eq_Suc)
  with False show ?thesis
    by (auto simp: RemoveClonePrefix_def app_of_def Let_def split: option.split)
qed

lemma share_path_loop_tail:
  "6 < i \<Longrightarrow> share_path_loop cs b i acc = acc @ concat (map (\<lambda>c. CHR ''/'' # c) cs)"
  by (induction cs arbitrary: i acc) simp_all

lemma share_path_shared_path:
  assumes "6 < length cs"
  shows "share_path cs = shared_path cs"
proof -
  have d: "drop 4 cs = cs ! 4 # cs ! 5 # cs ! 6 # drop 7 cs"
    using assms by (simp add: Cons_nth_drop_Suc numeral_eq_Suc)
  have "drop 4 (cs[6 := a]) = cs ! 4 # cs ! 5 # a # drop 7 cs" for a
    using assms by (simp add: drop_update_swap d)
  then show ?thesis
    by (simp add: share_path_def shared_path_def d RemoveClonePrefix_app_of APPDATA_PATH_WITH_SLASH_def
        share_path_loop_tail)
qed

lemma CheckShareMode_verdict:
  "fst (CheckShareMode permission mode) \<longleftrightarrow>
     permission = SHARE_BUNDLE_UNSET \<or> permission \<noteq> SHARE_PATH_UNSET \<and> permission AND mode = mode"
  by (simp add: CheckShareMode_def SHARE_BUNDLE_UNSET_def SHARE_PATH_UNSET_def)

text \<open>The world calls that refresh the share configuration.\<close>

definition share_calls_keep :: "('w, 'j) ext \<Rightarrow> ('w \<Rightarrow> bool) \<Rightarrow> bool" where
  "share_calls_keep x Q \<longleftrightarrow>
     (\<forall>w. Q w \<longrightarrow> Q (snd (x_GetBundleMgr x w))) \<and> (\<forall>w u. Q w \<longrightarrow> Q (snd (x_GetAllJsonProfile x u w)))"

lemma inv_DeleteByBundleName [inv_rules]: "keeps (mac, None) Q (DeleteByBundleName b)"
  by (simp add: DeleteByBundleName_def inv_rules)

lemma inv_AddToMap [inv_rules]: "keeps (mac, None) Q (AddToMap b u p m)"
  by (auto simp: AddToMap_def intro!: inv_rules)

lemma inv_TransAndSetToMap_loop [inv_rules]: "keeps (mac, None) Q (TransAndSetToMap_loop x scopes b u n)"
  by (induction x scopes b u n rule: TransAndSetToMap_loop.induct) (auto intro!: inv_rules)

lemma inv_TransAndSetToMap [inv_rules]: "keeps (mac, None) Q (TransAndSetToMap x profile b u)"
  by (auto simp: TransAndSetToMap_def TransAndSetToMapInner_def intro!: inv_rules)

lemma inv_load_profiles [inv_rules]: "keeps (mac, None) Q (load_profiles x infos u)"
  by (induction x infos u rule: load_profiles.induct) (auto intro!: inv_rules)

lemma inv_GetAllShareCfg: "share_calls_keep x Q \<Longrightarrow> keeps (mac, None) Q (GetAllShareCfg x u)"
  by (auto simp: GetAllShareCfg_def share_calls_keep_def intro!: inv_rules inv_world)

lemma inv_CheckShareMode_audit [inv_rules]: "keeps fr Q (CheckShareMode_audit perm mode path b)"
  by (auto simp: CheckShareMode_audit_def intro!: inv_rules)

lemma inv_FindPermission [inv_rules]: "keeps fr Q (FindPermission b u path)"
  by (simp add: FindPermission_def inv_rules)

text \<open>
  Only the first policy of a request may refresh the share configuration, so only it needs a frame without a
  named share map.
\<close>

lemma inv_CheckPathWithinShareMap:
  assumes "share_calls_keep x Q" "i \<noteq> 0 \<or> snd fr = None"
  shows "keeps fr Q (CheckPathWithinShareMap x u p comps i)"
proof (cases "i = 0")
  case True
  with assms(2) obtain mac where fr: "fr = (mac, None)" by (cases fr) auto
  show ?thesis unfolding CheckPathWithinShareMap_def Let_def fr
    by (intro inv_rules inv_GetAllShareCfg assms(1)) simp_all
next
  case False
  then show ?thesis unfolding CheckPathWithinShareMap_def Let_def
    by (simp only: if_True not_False_eq_True simp_thms) (intro inv_rules; simp)
qed

text \<open>A policy that passes is allowed by the share map that the check leaves behind.\<close>

lemma run_audit: "run_state (CheckShareMode_audit permission mode path b) s = (ok, s') \<Longrightarrow>
    ok = fst (CheckShareMode permission mode) \<and> sv_shareMap s' = sv_shareMap s"
  by (auto simp: CheckShareMode_audit_def case_prod_beta)

lemma CheckPathWithinShareMap_allows:
  assumes "run_state (CheckPathWithinShareMap x u p comps i) s = (True, s')" "IsAppDataPathPrefix comps"
  shows "fst (CheckShareMode (FindPermission_in (sv_shareMap s') (comps ! 6) (word_of_int u) (share_path comps))
           (ucast (pmode p)))"
  using assms
  by (auto simp: CheckPathWithinShareMap_def Let_def FindPermission_def case_prod_beta split: if_splits
      dest!: run_audit)

lemma share_controlled_components:
  "share_controlled x p \<longleftrightarrow>
     x_NOT_RESIDENT x \<and> ptype p \<noteq> AUTHORIZATION_PATH \<and>
     substr (AdjustPath (ppath p)) 0 (length ROOT_PATH_WITH_SLASH) = ROOT_PATH_WITH_SLASH \<and>
     length (splitPath (AdjustPath (ppath p))) > 6 \<and> IsAppDataPathPrefix (splitPath (AdjustPath (ppath p)))"
proof -
  have "take 3 cs = [''storage'', ''Users'', ''currentUser''] \<longleftrightarrow>
      cs ! 0 = ''storage'' \<and> cs ! 1 = ''Users'' \<and> cs ! 2 = ''currentUser''" if "6 < length cs" for cs :: "string list"
    using that by (cases cs; cases "tl cs"; cases "tl (tl cs)") (auto simp: numeral_eq_Suc)
  moreover have "substr path 0 (length ROOT_PATH_WITH_SLASH) = ROOT_PATH_WITH_SLASH \<longleftrightarrow> take 9 path = ''/storage/''" for path
    by (simp add: substr_def ROOT_PATH_WITH_SLASH_def numeral_eq_Suc)
  ultimately show ?thesis
    by (auto simp: share_controlled_def IsAppDataPathPrefix_def Let_def)
qed

text \<open>The rule on the path, as the basic rules of the validator followed by the bundle and share checks.\<close>

lemma CheckPathWithinRule_shape:
  "CheckPathWithinRule x u path p b i =
     (if ValidateBasicPathRules path \<noteq> SANDBOX_MANAGER_OK then State_Monad.return False
      else if substr path 0 (length ROOT_PATH_WITH_SLASH) \<noteq> ROOT_PATH_WITH_SLASH then State_Monad.return True
      else if ptype p = SELF_PATH \<and> \<not> CheckPathWithinBundleName path b (splitPath path) then State_Monad.return False
      else if length (splitPath path) > MAX_CHECK_COM_NUM \<and> x_NOT_RESIDENT x \<and> ptype p \<noteq> AUTHORIZATION_PATH
        then CheckPathWithinShareMap x u p (splitPath path) i
      else State_Monad.return True)"
proof -
  define comps where "comps = splitPath path"
  define A where "A \<longleftrightarrow> path = ROOT_PATH"
  define B where "B \<longleftrightarrow> substr path 0 (length ROOT_PATH_WITH_SLASH) \<noteq> ROOT_PATH_WITH_SLASH"
  define C where "C \<longleftrightarrow> length comps \<le> SECOND_PATH_SEGMENT"
  define D where "D \<longleftrightarrow> comps ! 0 = ''storage'' \<and> comps ! 1 = ''Users'' \<and> comps ! SECOND_PATH_SEGMENT \<noteq> ''currentUser''"
  define E where "E \<longleftrightarrow> comps ! 0 = ''storage'' \<and> comps ! 1 = ''Users'' \<and> length comps \<le> MAX_CHECK_COM_NUM \<and>
          length comps \<ge> 4 \<and> strcasecmp_eq (comps ! 3) ''appdata''"
  have "ValidateBasicPathRules path = (if A then INVALID_PATH else if B then SANDBOX_MANAGER_OK else if C then INVALID_PATH
      else if D then INVALID_PATH else if E then INVALID_PATH else SANDBOX_MANAGER_OK)"
    unfolding ValidateBasicPathRules_def comps_def [symmetric] Let_def A_def B_def C_def D_def E_def by (rule refl)
  then show ?thesis
    unfolding CheckPathWithinRule_def comps_def [symmetric] Let_def
    unfolding A_def [symmetric] B_def [symmetric] C_def [symmetric] D_def [symmetric] E_def [symmetric]
    by simp
qed

lemma CheckPathWithinRule_inv:
  assumes "share_calls_keep x Q" "i \<noteq> 0 \<or> snd fr = None"
  shows "inv_op fr Q (CheckPathWithinRule x u path p b i) (\<lambda>ok. ok \<longrightarrow>
     ValidateBasicPathRules path = SANDBOX_MANAGER_OK \<and>
     (ptype p = SELF_PATH \<and> substr path 0 (length ROOT_PATH_WITH_SLASH) = ROOT_PATH_WITH_SLASH \<longrightarrow>
        CheckPathWithinBundleName path b (splitPath path)))"
proof -
  have share: "inv_op fr Q (CheckPathWithinShareMap x u p comps i) (\<lambda>ok. ok \<longrightarrow> R)" if R for R comps
    by (rule inv_op_mono [OF inv_CheckPathWithinShareMap [OF assms]]) (use that in simp)
  show ?thesis
    unfolding CheckPathWithinRule_shape
    by (intro inv_if inv_return share) simp_all
qed


lemma CheckPathIsBlocked_inv:
  assumes "share_calls_keep x Q" "i \<noteq> 0 \<or> snd fr = None"
  shows "inv_op fr Q (CheckPathIsBlocked x u p b i) (\<lambda>c. if c = SANDBOX_MANAGER_OK then
     u32_len (ppath p) = u32_len (c_str (ppath p)) \<and>
     ValidateBasicPathRules (AdjustPath (ppath p)) = SANDBOX_MANAGER_OK \<and>
     (ptype p = SELF_PATH \<and> substr (AdjustPath (ppath p)) 0 (length ROOT_PATH_WITH_SLASH) = ROOT_PATH_WITH_SLASH \<longrightarrow>
        CheckPathWithinBundleName (AdjustPath (ppath p)) b (splitPath (AdjustPath (ppath p))))
     else c = INVALID_PATH)"
  unfolding CheckPathIsBlocked_def Let_def
  by (intro inv_if inv_bind [OF CheckPathWithinRule_inv [OF assms]] inv_bind_any inv_report inv_return) simp_all

lemma CheckPolicyValidity_codes: "CheckPolicyValidity p ty \<in> {SANDBOX_MANAGER_OK, INVALID_PATH, INVALID_MODE}"
  by (simp add: CheckPolicyValidity_def Let_def)


lemma set_check_inv:
  assumes "share_calls_keep x Q" "i \<noteq> 0 \<or> snd fr = None"
  shows "inv_op fr Q (set_check x ty u b i p) (\<lambda>c. if c = SANDBOX_MANAGER_OK then well_placed ty b p
     else c \<in> {INVALID_PATH, INVALID_MODE})"
proof (cases "CheckPolicyValidity p ty = SANDBOX_MANAGER_OK")
  case True
  then have eq: "set_check x ty u b i p = CheckPathIsBlocked x u p b i"
    unfolding set_check_def Let_def by (simp only: if_False simp_thms)
  show ?thesis unfolding eq
  proof (rule inv_op_mono [OF CheckPathIsBlocked_inv [OF assms]])
    fix c :: int
    assume c: "if c = SANDBOX_MANAGER_OK then
       u32_len (ppath p) = u32_len (c_str (ppath p)) \<and>
       ValidateBasicPathRules (AdjustPath (ppath p)) = SANDBOX_MANAGER_OK \<and>
       (ptype p = SELF_PATH \<and> substr (AdjustPath (ppath p)) 0 (length ROOT_PATH_WITH_SLASH) = ROOT_PATH_WITH_SLASH \<longrightarrow>
          CheckPathWithinBundleName (AdjustPath (ppath p)) b (splitPath (AdjustPath (ppath p))))
       else c = INVALID_PATH"
    show "if c = SANDBOX_MANAGER_OK then well_placed ty b p else c \<in> {INVALID_PATH, INVALID_MODE}"
    proof (cases "c = SANDBOX_MANAGER_OK")
      case ok: True
      from c [unfolded if_P [OF ok]] True show ?thesis unfolding if_P [OF ok] well_placed_checks by blast
    next
      case False
      from c [unfolded if_not_P [OF False]] show ?thesis unfolding if_not_P [OF False] by blast
    qed
  qed
next
  case False
  then have eq: "set_check x ty u b i p = State_Monad.return (CheckPolicyValidity p ty)"
    unfolding set_check_def Let_def by (simp only: if_True simp_thms)
  have "CheckPolicyValidity p ty \<in> {INVALID_PATH, INVALID_MODE}"
    using False CheckPolicyValidity_codes [of p ty] by blast
  then show ?thesis unfolding eq by (intro inv_return) (simp only: if_not_P [OF False])
qed

text \<open>The share check of a run.\<close>

lemma set_check_shares:
  assumes "run_state (set_check x ty u b i p) s = (c, s')" "c = SANDBOX_MANAGER_OK"
  shows "share_allows x u (sv_shareMap s') p"
proof (cases "share_controlled x p")
  case True
  let ?path = "AdjustPath (ppath p)"
  let ?cs = "splitPath ?path"
  from True have c: "x_NOT_RESIDENT x" "ptype p \<noteq> AUTHORIZATION_PATH"
      "substr ?path 0 (length ROOT_PATH_WITH_SLASH) = ROOT_PATH_WITH_SLASH" "length ?cs > 6" "IsAppDataPathPrefix ?cs"
    unfolding share_controlled_components by blast+
  from assms have "run_state (CheckPathIsBlocked x u p b i) s = (SANDBOX_MANAGER_OK, s')"
    by (auto simp: set_check_def Let_def split: if_splits)
  then have "run_state (CheckPathWithinRule x u ?path p b i) s = (True, s')"
    by (auto simp: CheckPathIsBlocked_def Let_def case_prod_beta split: if_splits intro: prod_eqI)
  then have "run_state (CheckPathWithinShareMap x u p ?cs i) s = (True, s')"
    unfolding CheckPathWithinRule_shape using c by (simp split: if_splits)
  from CheckPathWithinShareMap_allows [OF this c(5)] show ?thesis
    unfolding share_allows_def Let_def CheckShareMode_verdict share_path_shared_path [OF c(4)] by blast
qed (simp add: share_allows_def Let_def)

lemma set_check_later:
  assumes "share_calls_keep x Q" "i \<noteq> 0"
  shows "inv_op (mac, Some sm) Q (set_check x ty u b i p)
    (\<lambda>c. if c = SANDBOX_MANAGER_OK then allowed_policy x ty b u sm p else c \<in> {INVALID_PATH, INVALID_MODE})"
proof -
  have "inv_op (mac, Some sm) Q (set_check x ty u b i p)
    (\<lambda>c. (if c = SANDBOX_MANAGER_OK then well_placed ty b p else c \<in> {INVALID_PATH, INVALID_MODE}) \<and>
         (c = SANDBOX_MANAGER_OK \<longrightarrow> share_allows x u sm p))"
    by (rule inv_op_at_map [OF set_check_inv [OF assms(1)], where T = "\<lambda>c sm. c = SANDBOX_MANAGER_OK \<longrightarrow> share_allows x u sm p"])
      (use assms(2) set_check_shares in blast)+
  then show ?thesis by (rule inv_op_mono) (simp add: allowed_policy_def split: if_splits)
qed

text \<open>
  The loop over the policies of a request, as a run: whatever the first policy did to the share map, all
  policies are judged with the map that is left.
\<close>

lemma filter_loop_set_check:
  assumes keep: "share_calls_keep x Q" and s: "sv_isMacSupport s" "Q (sv_world s)"
    and run: "run_state (filter_loop (set_check x ty u b) policy 0 result []) s = ((result', valid), s')"
  shows "in_frame (True, Some (sv_shareMap s')) s' \<and> Q (sv_world s') \<and>
    filtered policy 0 result (allowed_policy x ty b u (sv_shareMap s')) (\<lambda>p c. c \<in> {INVALID_PATH, INVALID_MODE}) result' valid"
proof (cases policy)
  case Nil
  with run s show ?thesis by (auto simp: in_frame_def filtered_Nil)
next
  case (Cons p ps)
  obtain c s1 where first: "run_state (set_check x ty u b 0 p) s = (c, s1)" by fastforce
  have fr0: "in_frame (True, None) s" using s(1) by (simp add: in_frame_def)
  have any: "0 \<noteq> (0 :: nat) \<or> snd (True, None :: share_map option) = None" by simp
  note d = inv_opD [OF set_check_inv [OF keep any] fr0 s(2) first]
  define sm where "sm = sv_shareMap s1"
  with d(3) have fr1: "in_frame (True, Some sm) s1" by (simp add: in_frame_def)
  let ?C = "allowed_policy x ty b u sm" and ?D = "\<lambda>(p :: PolicyInfo) c. c \<in> {INVALID_PATH, INVALID_MODE :: int}"
  have C: "c = SANDBOX_MANAGER_OK \<Longrightarrow> ?C p"
    using d(2) set_check_shares [OF first] by (simp add: allowed_policy_def sm_def)
  have loop: "inv_op (True, Some sm) Q (filter_loop (set_check x ty u b) ps (Suc 0) r valid0)
      (\<lambda>(r', valid'). \<exists>new. valid' = valid0 @ new \<and> filtered ps (Suc 0) r ?C ?D r' new)" for r valid0
    by (rule filter_loop_spec) (rule set_check_later [OF keep], simp)
  define rest where "rest = (if c \<noteq> SANDBOX_MANAGER_OK
      then filter_loop (set_check x ty u b) ps (Suc 0) (result[0 := word_of_int c]) []
      else filter_loop (set_check x ty u b) ps (Suc 0) result [(0, p)])"
  have run1: "run_state rest s1 = ((result', valid), s')"
    using run first by (simp add: Cons rest_def split: if_splits)
  have "inv_op (True, Some sm) Q rest (\<lambda>(r', valid'). filtered policy 0 result ?C ?D r' valid')"
  proof (cases "c = SANDBOX_MANAGER_OK")
    case True
    then have rest: "rest = filter_loop (set_check x ty u b) ps (Suc 0) result [(0, p)]" by (simp add: rest_def)
    show ?thesis unfolding rest Cons
      by (rule inv_op_mono [OF loop]) (use C [OF True] in \<open>auto intro: filtered_accept\<close>)
  next
    case False
    then have D: "?D p c" using d(2) by simp
    from False have rest: "rest = filter_loop (set_check x ty u b) ps (Suc 0) (result[0 := word_of_int c]) []"
      by (simp add: rest_def)
    show ?thesis unfolding rest Cons
      by (rule inv_op_mono [OF loop]) (use False D in \<open>auto intro: filtered_refuse\<close>)
  qed
  from inv_opD [OF this fr1 d(1) run1]
  have "Q (sv_world s')" "in_frame (True, Some sm) s'" "filtered policy 0 result ?C ?D result' valid" by simp_all
  then show ?thesis by (simp add: in_frame_def)
qed

section \<open>The kernel\<close>

text \<open>A kernel that keeps an invariant as long as it is only given path entries of a set.\<close>

definition kernel_keeps :: "('w, 'j) ext \<Rightarrow> nat \<Rightarrow> PathInfo set \<Rightarrow> ('w \<Rightarrow> bool) \<Rightarrow> bool" where
  "kernel_keeps x cmd A Q \<longleftrightarrow>
     (\<forall>fd info w. Q w \<and> set (spi_pathInfos info) \<subseteq> A \<longrightarrow> Q (snd (x_ioctl x fd cmd info w)))"

lemma inv_submit:
  assumes "kernel_keeps x cmd A Q" "path_info ` set ps \<subseteq> A"
  shows "keeps fr Q (world (x_ioctl x fd cmd (fill_paths hdr ps)))"
  using assms by (intro inv_world) (simp add: kernel_keeps_def fill_paths_def)

lemma inv_mac_step:
  assumes "\<And>fd. keeps fr Q (world (x_ioctl x fd cmd (fill_paths hdr (take 8 ps))))"
    and "\<And>out. keeps fr Q (mac_batches x cmd hdr f (drop 8 ps) (off + 8) (write_answers f off (length (take 8 ps)) out r))"
  shows "keeps fr Q (mac_batches x cmd hdr f ps off r)"
  by (subst mac_batches.simps, unfold Let_def)
    (rule inv_if inv_bind_any inv_gets assms | rule inv_return, rule TrueI)+

lemma inv_mac_batches:
  assumes "kernel_keeps x cmd A Q" "path_info ` set ps \<subseteq> A"
  shows "keeps fr Q (mac_batches x cmd hdr f ps off r)"
  using assms(2)
proof (induction ps arbitrary: off r rule: length_induct)
  case (1 ps)
  show ?case
  proof (cases "ps = []")
    case True
    then show ?thesis by (subst mac_batches.simps) (simp add: inv_return)
  next
    case False
    have sub: "path_info ` set (take 8 ps) \<subseteq> A" "path_info ` set (drop 8 ps) \<subseteq> A"
      using "1.prems" by (auto dest: in_set_takeD in_set_dropD)
    have "length (drop 8 ps) < length ps" using False by simp
    then have "keeps fr Q (mac_batches x cmd hdr f (drop 8 ps) off' r')" for off' r'
      using "1.IH" sub(2) by blast
    then show ?thesis by (rule inv_mac_step [OF inv_submit [OF assms(1) sub(1)]])
  qed
qed

lemma inv_SetPolicyToMac:
  assumes "kernel_keeps x cmd A Q" "path_info ` set ps \<subseteq> A"
  shows "keeps fr Q (SetPolicyToMac x ps r mp cmd)"
  unfolding SetPolicyToMac_def with_fd_def
  by (rule inv_bind_any, rule inv_gets, rule inv_if, rule inv_return, rule TrueI, rule inv_mac_batches [OF assms])

lemma inv_SetPolicyByType:
  assumes "kernel_keeps x (if ty = DENY_POLICY then DENY_DEC_RULE_CMD else SET_POLICY_CMD) A Q" "path_info ` set ps \<subseteq> A"
    and "length r = length ps"
  shows "inv_op fr Q (SetPolicyByType x ps r mp ty) (\<lambda>(ret, r'). length r' = length ps)"
proof -
  let ?c = "if ty = DENY_POLICY then DENY_DEC_RULE_CMD else SET_POLICY_CMD"
  have eq: "SetPolicyByType x ps r mp ty = SetPolicyToMac x ps r mp ?c"
    by (simp add: SetPolicyByType_def Mac_SetDenyPolicy_def Mac_SetSandboxPolicy_def)
  have "length (snd (fst (run_state (SetPolicyToMac x ps r mp ?c) s))) = length ps" for s
    using set_cmd.keeps_size [OF _ assms(3), of x mp ?c s] by (metis prod.collapse)
  then show ?thesis
    using inv_SetPolicyToMac [OF assms(1,2), of fr r mp] unfolding eq inv_op_def by (simp add: case_prod_beta)
qed

text \<open>The inner step: only the given policies reach the kernel, and the result vector is written at their places.\<close>

lemma inv_SetPolicyInner:
  assumes "kernel_keeps x (if ty = DENY_POLICY then DENY_DEC_RULE_CMD else SET_POLICY_CMD) A Q"
    and "path_info ` set (map snd valid) \<subseteq> A"
  shows "inv_op fr Q (SetPolicyInner x (map snd valid) (map fst valid) mp result n m ty)
    (\<lambda>(ret, r). if ret = SANDBOX_MANAGER_OK
       then length r = length result \<and> (\<forall>i. i \<notin> fst ` set valid \<longrightarrow> r ! i = result ! i) else r = [])"
  unfolding SetPolicyInner_def Let_def
proof (rule inv_if, rule inv_return)
  show "inv_op fr Q
     (State_Monad.bind (SetPolicyByType x (map snd valid) (replicate (length (map snd valid)) 0) mp ty)
       (\<lambda>(ret, setResult).
           if ret \<noteq> SANDBOX_MANAGER_OK
           then State_Monad.bind (write_report (TempOperate SET_POLICY (mk_PolicyOperateInfo m 0 0 n)))
                 (\<lambda>_. State_Monad.return (ret, []))
           else State_Monad.bind
                 (write_report (TempOperate SET_POLICY (mk_PolicyOperateInfo m (count_list setResult 0)
                    (length (map snd valid) - count_list setResult 0) n)))
                 (\<lambda>_. State_Monad.return (SANDBOX_MANAGER_OK, scatter (map fst valid) setResult result))))
     (\<lambda>(ret, r). if ret = SANDBOX_MANAGER_OK
        then length r = length result \<and> (\<forall>i. i \<notin> fst ` set valid \<longrightarrow> r ! i = result ! i) else r = [])"
    by (rule inv_bind, rule inv_SetPolicyByType [OF assms], simp, rule inv_prod, rule inv_if)
      (rule inv_bind_any, rule inv_report, rule inv_return, simp add: scatter_other)+
qed simp

lemma run_set_checked:
  assumes keep: "share_calls_keep x Q" and s: "sv_isMacSupport s" "Q (sv_world s)"
    and kernel: "kernel_keeps x (if ty = DENY_POLICY then DENY_DEC_RULE_CMD else SET_POLICY_CMD)
           (path_info ` {p \<in> set policy. allowed_policy x ty b (mp_userId mp) (sv_shareMap s') p}) Q"
    and run: "run_state (set_checked x ty b mp policy result) s = ((ret, r), s')"
  shows "Q (sv_world s') \<and> (ret = SANDBOX_MANAGER_OK \<longrightarrow> length r = length policy \<and>
       (\<forall>i < length policy. \<not> allowed_policy x ty b (mp_userId mp) (sv_shareMap s') (policy ! i) \<longrightarrow>
          r ! i \<in> {INVALID_PATH, INVALID_MODE}))"
proof -
  let ?r0 = "resize (length policy) INVALID_PATH result"
  obtain result' valid s1 where
    loop: "run_state (filter_loop (set_check x ty (mp_userId mp) b) policy 0 ?r0 []) s = ((result', valid), s1)"
    by (metis surj_pair)
  let ?inner = "SetPolicyInner x (map snd valid) (map fst valid) mp result' (length policy - length valid) (length policy) ty"
  have inner: "run_state ?inner s1 = ((ret, r), s')"
    using run s(1) loop by (simp add: set_checked_def)
  from filter_loop_set_check [OF keep s loop] have fr1: "in_frame (True, Some (sv_shareMap s1)) s1"
    and Q1: "Q (sv_world s1)"
    and f1: "filtered policy 0 ?r0 (allowed_policy x ty b (mp_userId mp) (sv_shareMap s1))
        (\<lambda>p c. c \<in> {INVALID_PATH, INVALID_MODE}) result' valid" by simp_all
  have "in_frame (True, Some (sv_shareMap s1)) s'"
    by (rule inv_opD(3) [OF inv_SetPolicyInner [where A = UNIV and Q = "\<lambda>_. True"] fr1 TrueI inner])
      (simp_all add: kernel_keeps_def)
  then have map: "sv_shareMap s1 = sv_shareMap s'" by (simp add: in_frame_def)
  define C where "C = allowed_policy x ty b (mp_userId mp) (sv_shareMap s')"
  have f: "filtered policy 0 ?r0 C (\<lambda>p c. c \<in> {INVALID_PATH, INVALID_MODE}) result' valid"
    using f1 by (simp only: map C_def)
  then have valid: "\<forall>(i, p) \<in> set valid. i < length policy \<and> p = policy ! i \<and> C p" by (simp add: filtered_def)
  then have sub: "path_info ` set (map snd valid) \<subseteq> path_info ` {p \<in> set policy. C p}" by fastforce
  note d = inv_opD [OF inv_SetPolicyInner [OF kernel [folded C_def] sub] fr1 Q1 inner]
  have r: "if ret = SANDBOX_MANAGER_OK
      then length r = length result' \<and> (\<forall>i. i \<notin> fst ` set valid \<longrightarrow> r ! i = result' ! i) else r = []"
    using d(2) by simp
  have "r ! i \<in> {INVALID_PATH, INVALID_MODE}" if ok: "ret = SANDBOX_MANAGER_OK" and i: "i < length policy" "\<not> C (policy ! i)" for i
  proof -
    have n: "i \<notin> fst ` set valid" using valid i by auto
    from f have "\<forall>i. i < length policy \<and> i \<notin> fst ` set valid \<longrightarrow>
        (\<exists>c. c \<in> {INVALID_PATH, INVALID_MODE :: int} \<and> result' ! i = word_of_int c)"
      unfolding filtered_def by simp blast
    with n i obtain c where "c \<in> {INVALID_PATH, INVALID_MODE :: int}" "result' ! i = word_of_int c" by blast
    then show ?thesis using r ok n by auto
  qed
  moreover have "length r = length policy" if "ret = SANDBOX_MANAGER_OK"
    using r that f by (simp add: filtered_def)
  ultimately show ?thesis using d(1) by (simp add: C_def [symmetric])
qed

text \<open>The size of the result, which does not depend on the share map.\<close>

lemma set_checked_size:
  assumes "run_state (set_checked x ty b mp policy result) s = ((SANDBOX_MANAGER_OK, r), s')"
  shows "length r = length policy"
proof (cases "sv_isMacSupport s")
  case True
  have "share_calls_keep x (\<lambda>_. True)" "kernel_keeps x c A (\<lambda>_. True)" for c A
    by (simp_all add: share_calls_keep_def kernel_keeps_def)
  from run_set_checked [OF this(1) True TrueI this(2) assms] show ?thesis by simp
next
  case False
  with assms show ?thesis by (auto simp: set_checked_def)
qed

end
