(* ===== verification/Set_Spec.thy ===== *)
theory Set_Spec
  imports Manager_Spec Mac_Spec
begin

text \<open>
  Setting policies end to end: only policies that pass every check reach the kernel, and the result vector
  tells which were refused. The invariant of the world is a parameter, so that any property of what the kernel
  has been given is covered, for instance a log of the submitted paths.
\<close>

section \<open>Report-only validation keeps the world\<close>

lemma inv_report_failure [inv_rules]: "keeps fr Q (report_failure opname tokenId p ret)"
  unfolding report_failure_def by (rule inv_if, rule inv_report, rule inv_return, rule TrueI)

lemma inv_Validator_share [inv_rules]: "keeps fr Q (Validator_CheckPathWithinShareMap u path p)"
  unfolding Validator_CheckPathWithinShareMap_def Let_def
  by (rule inv_if, rule inv_return, rule TrueI, rule inv_bind_any, rule inv_FindPermission, rule inv_CheckShareMode_audit)

lemma inv_ValidateTempPolicy [inv_rules]: "keeps fr Q (ValidateTempPolicy x p info)"
  unfolding ValidateTempPolicy_def ValidateExtendedPathRules_def Let_def
  by (rule inv_if inv_bind_any inv_Validator_share | rule inv_return, rule TrueI)+

lemma inv_report_each: "(\<And>p. keeps fr Q (check p)) \<Longrightarrow> keeps fr Q (report_each opname tokenId check ps)"
proof (induction ps)
  case Nil
  show ?case unfolding report_each.simps by (intro inv_return TrueI)
next
  case (Cons p ps)
  show ?case unfolding report_each.simps
    by (rule inv_bind_any, rule Cons.prems, rule inv_bind_any, rule inv_report_failure, rule Cons.IH, rule Cons.prems)
qed

lemma inv_report_path_mode: "keeps fr Q (report_path_mode opname tokenId check ps)"
proof (induction ps)
  case Nil
  show ?case unfolding report_path_mode.simps by (intro inv_return TrueI)
next
  case (Cons p ps)
  show ?case unfolding report_path_mode.simps
    by (rule inv_bind_any, rule inv_report_failure, rule inv_bind_any, rule inv_report_failure, rule Cons.IH)
qed

section \<open>Setting\<close>

text \<open>C20: Setting policies submits to the kernel only policies that are allowed: the length of the path, the mode
  for a normal policy, the narrower modes of the media directory, no null byte, the basic path rules, for a self
  path below the storage root the application it names, and for a controlled path below the application data
  the mode the share configuration gives it, in the share map the operation leaves (the first policy may have
  refreshed it; the others are judged with the refreshed map, and the map does not change after that). Every
  invariant of the outside world that such submissions and the refresh of the share configuration keep is kept
  by the whole operation. On success the result has one entry per policy, and every policy that is not allowed
  has an error code in its entry.\<close>

theorem SetPolicy_only_allowed:
  assumes "share_calls_keep x Q"
    and "kernel_keeps x SET_POLICY_CMD
           (path_info ` {p \<in> set policy.
              allowed_policy x NORMAL_POLICY (si_bundleName setInfo) (si_userId setInfo) (sv_shareMap s') p}) Q"
    and "sv_isMacSupport s" "Q (sv_world s)"
    and "run_state (SetPolicy x tokenId policy policyFlag result setInfo) s = ((ret, r), s')"
  shows "Q (sv_world s') \<and>
    (ret = SANDBOX_MANAGER_OK \<longrightarrow> length r = length policy \<and>
       (\<forall>i < length policy.
          \<not> allowed_policy x NORMAL_POLICY (si_bundleName setInfo) (si_userId setInfo) (sv_shareMap s') (policy ! i) \<longrightarrow>
          r ! i \<in> {INVALID_PATH, INVALID_MODE}))"
proof -
  let ?reports = "report_each ''SetPolicy'' tokenId (\<lambda>p. ValidateTempPolicy x p setInfo) policy"
  obtain s1 where reports: "run_state ?reports s = ((), s1)" by (metis surj_pair old.unit.exhaust)
  have "in_frame (True, None) s" using assms(3) by (simp add: in_frame_def)
  moreover have "keeps (True, None) Q ?reports" by (rule inv_report_each, rule inv_ValidateTempPolicy)
  ultimately have "in_frame (True, None) s1" "Q (sv_world s1)"
    using assms(4) reports by (auto dest: inv_opD)
  then have "sv_isMacSupport s1" "Q (sv_world s1)" by (simp_all add: in_frame_def)
  with assms(5) reports run_set_checked [OF assms(1) this, of NORMAL_POLICY policy "si_bundleName setInfo"
      "\<lparr>mp_tokenId = tokenId, mp_policyFlag = policyFlag, mp_timestamp = si_timestamp setInfo, mp_userId = si_userId setInfo\<rparr>"
      s' result ret r] assms(2) show ?thesis
    by (simp add: SetPolicy_def)
qed

text \<open>A world that is the log of the submitted entries, and a request with one good and two refused policies.\<close>

definition log_ext :: "(PathInfo list, unit) ext" where
  "log_ext = silent_ext\<lparr>x_ioctl := (\<lambda>fd cmd info w.
     (\<lparr>io_ret = 0, io_result = (\<lambda>_. True), io_failedReason = (\<lambda>_. 0)\<rparr>, w @ spi_pathInfos info))\<rparr>"

definition three_policies :: "PolicyInfo list" where
  "three_policies = [\<lparr>ppath = ''/data/a'', pmode = 1, ptype = AUTHORIZATION_PATH\<rparr>,
     \<lparr>ppath = ''/storage/Users/other/x'', pmode = 1, ptype = AUTHORIZATION_PATH\<rparr>,
     \<lparr>ppath = ''/data/b'', pmode = 0, ptype = AUTHORIZATION_PATH\<rparr>]"

theorem SetPolicy_only_allowed_witness:
  "set (sv_world (snd (run_state (SetPolicy log_ext 7 three_policies 0 [] default_SetInfo) (ready_svc [])))) \<subseteq>
     path_info ` {p \<in> set three_policies. well_placed NORMAL_POLICY (si_bundleName default_SetInfo) p} \<and>
   snd (fst (run_state (SetPolicy log_ext 7 three_policies 0 [] default_SetInfo) (ready_svc []))) ! 1 = INVALID_PATH"
proof -
  let ?m = "SetPolicy log_ext 7 three_policies 0 [] default_SetInfo"
  obtain ret r s' where run: "run_state ?m (ready_svc []) = ((ret, r), s')" by (metis prod.collapse)
  let ?A = "path_info ` {p \<in> set three_policies. allowed_policy log_ext NORMAL_POLICY
      (si_bundleName default_SetInfo) (si_userId default_SetInfo) (sv_shareMap s') p}"
  have share: "share_calls_keep log_ext (\<lambda>w. set w \<subseteq> ?A)"
    by (simp add: share_calls_keep_def log_ext_def silent_ext_def)
  have kernel: "kernel_keeps log_ext SET_POLICY_CMD ?A (\<lambda>w. set w \<subseteq> ?A)"
    by (simp add: kernel_keeps_def log_ext_def)
  have support: "sv_isMacSupport (ready_svc ([] :: PathInfo list))" "set (sv_world (ready_svc ([] :: PathInfo list))) \<subseteq> ?A"
    by (simp_all add: ready_svc_def init_svc_def)
  have "?A \<subseteq> path_info ` {p \<in> set three_policies. well_placed NORMAL_POLICY (si_bundleName default_SetInfo) p}"
    by (auto simp: allowed_policy_def)
  moreover have "snd (fst (run_state ?m (ready_svc []))) ! 1 = INVALID_PATH" by code_simp
  ultimately show ?thesis
    using SetPolicy_only_allowed [OF share kernel support run] run by auto
qed

section \<open>Spellings of a path\<close>

text \<open>
  The enforced rules look at the spelling of the path, not at the directory it names: extra slashes shift the
  application data directory out of the component in which the rules look for it.
\<close>

definition slashed :: PolicyInfo where
  "slashed = \<lparr>ppath = ''/storage/Users/currentUser//////appdata/el2/base'', pmode = 1, ptype = AUTHORIZATION_PATH\<rparr>"

lemma slashes_evade_the_path_rules:
  "well_placed NORMAL_POLICY b slashed \<and>
   ValidateBasicPathRules (NormalizePath (ppath slashed)) = INVALID_PATH"
  by (simp add: well_placed_checks slashed_def CheckPolicyValidity_def) code_simp

end
