(* ===== verification/Batch_Spec.thy ===== *)
theory Batch_Spec
  imports Set_Spec Raw_Spec Checks_Spec
begin

text \<open>
  Requests that arrive as raw vectors: the loop of \<open>ProcessPolicyBatch\<close> against a plain specification, the
  operation applied to the consecutive chunks of the vector one after the other. What the loop needs of the
  operation it applies is the locale \<open>batch_processor\<close>: on success it answers one result per policy.
\<close>

section \<open>Specification\<close>

function chunks :: "nat \<Rightarrow> 'a list \<Rightarrow> 'a list list" where
  "chunks n xs = (if xs = [] \<or> n = 0 then [] else take n xs # chunks n (drop n xs))"
  by pat_completeness auto
termination by (relation "measure (\<lambda>(n, xs). length xs)") auto

declare chunks.simps [simp del]

lemma chunks_Nil [simp]: "chunks n [] = []"
  by (simp add: chunks.simps)

lemma chunks_Cons: "xs \<noteq> [] \<Longrightarrow> 0 < n \<Longrightarrow> chunks n xs = take n xs # chunks n (drop n xs)"
  by (simp add: chunks.simps [of n xs])

lemma concat_chunks: "0 < n \<Longrightarrow> concat (chunks n xs) = xs"
proof (induction xs rule: length_induct)
  case (1 xs)
  then show ?case by (cases "xs = []") (simp_all add: chunks_Cons)
qed

text \<open>The operation on each chunk in turn: results are appended, the first error ends the run.\<close>

primrec run_slices ::
    "(PolicyInfo list \<Rightarrow> ('w, int \<times> 'r list) op) \<Rightarrow> PolicyInfo list list \<Rightarrow> 'r list \<Rightarrow> 'r list \<Rightarrow> ('w, int \<times> 'r list) op" where
  "run_slices f [] written rest = State_Monad.return (SANDBOX_MANAGER_OK, written @ rest)"
| "run_slices f (qs # qss) written rest = do {
     (ret, r) \<leftarrow> f qs;
     if ret \<noteq> SANDBOX_MANAGER_OK then State_Monad.return (ret, written @ rest)
     else run_slices f qss (written @ r) (drop (length qs) rest)
   }"

section \<open>The loop\<close>

lemma put_batch_split:
  assumes "length r \<le> length rest"
  shows "put_batch (length written) r (written @ rest) = written @ r @ drop (length r) rest"
proof -
  have "n \<le> length r \<Longrightarrow> fold (\<lambda>i xs. xs[length written + i := r ! i]) [0..<n] (written @ rest) =
      written @ take n r @ drop n rest" for n
  proof (induction n)
    case (Suc n)
    then have "n < length r" "n < length rest" using assms by auto
    moreover have "drop n rest = rest ! n # drop (Suc n) rest" using \<open>n < length rest\<close> by (rule Cons_nth_drop_Suc [symmetric])
    ultimately show ?case using Suc by (simp add: list_update_append take_Suc_conv_app_nth)
  qed simp
  from this [of "length r"] show ?thesis by (simp add: put_batch_def)
qed

text \<open>
  The chunk size. Requests of at most 200 policies are one chunk, which a chunk size of 200 says as well; longer
  ones are cut into at most 32 chunks.
\<close>

definition chunk_size :: "nat \<Rightarrow> nat" where
  "chunk_size n = max 200 ((n + 31) div 32)"

lemma batch_size_pos: "n \<noteq> 0 \<Longrightarrow> batchSize \<noteq> 0 \<Longrightarrow> 0 < CalculateBatchSize n batchSize"
  by (auto simp: CalculateBatchSize_def Let_def word_neq_0_conv less_max_iff_disj)

lemma chunks_one: "xs \<noteq> [] \<Longrightarrow> length xs \<le> n \<Longrightarrow> chunks n xs = [xs]"
  using chunks_Cons [of xs n] by (cases "n = 0") simp_all

lemma ceil_32: "((m::nat) + 31) div 32 = (if m mod 32 = 0 then m div 32 else m div 32 + 1)"
proof -
  have m: "m = m mod 32 + 32 * (m div 32)" by simp
  have "(m + 31) div 32 = (m mod 32 + 31 + 32 * (m div 32)) div 32" using m by (metis add.assoc add.commute)
  also have "\<dots> = (m mod 32 + 31) div 32 + m div 32" by (rule div_mult_self2 [THEN trans]) simp_all
  also have "(m mod 32 + 31) div 32 = (if m mod 32 = 0 then 0 else 1)"
  proof (cases "m mod 32 = 0")
    case False
    then have "32 \<le> m mod 32 + 31" "m mod 32 + 31 < 64" using mod_less_divisor [of 32 m] by linarith+
    then show ?thesis using False by (simp add: div_nat_eqI)
  qed simp
  finally show ?thesis by simp
qed

lemma CalculateBatchSize_chunks:
  assumes "xs \<noteq> []" "length xs \<le> POLICY_VEC_MAX_NUM"
  shows "chunks (unat (CalculateBatchSize (of_nat (length xs)) NON_PERSIST_POLICY_BATCH_SIZE)) xs =
         chunks (chunk_size (length xs)) xs"
proof -
  let ?n = "of_nat (length xs) :: u32"
  have n: "unat ?n = length xs" using assms(2) by (intro unat_of_nat_u32) simp
  show ?thesis
  proof (cases "?n \<le> 200")
    case True
    with n have "length xs \<le> 200" by (simp add: word_le_nat_alt)
    with assms(1) True n show ?thesis by (simp add: CalculateBatchSize_def chunk_size_def chunks_one)
  next
    case False
    let ?d = "if ?n AND 31 \<noteq> 0 then drop_bit 5 ?n + 1 else drop_bit 5 ?n"
    have d: "unat ?d = (length xs + 31) div 32"
    proof (cases "?n AND 31 = 0")
      case True
      then have "length xs mod 32 = 0" using and_31_mod [of ?n] n by simp
      with True n show ?thesis by (simp add: drop_5_div ceil_32)
    next
      case rem: False
      then have "length xs mod 32 \<noteq> 0" using and_31_mod [of ?n] n by (metis unat_eq_zero)
      moreover have "unat (drop_bit 5 ?n + 1) = length xs div 32 + 1"
      proof -
        have "unat (drop_bit 5 ?n) = length xs div 32" by (simp only: drop_5_div n)
        moreover have "length xs div 32 + 1 < 2 ^ 32" using assms(2) by simp
        ultimately show ?thesis by (subst unat_add_lem [THEN iffD1]) simp_all
      qed
      ultimately show ?thesis using rem by (simp add: ceil_32)
    qed
    have "unat (max 200 ?d) = chunk_size (length xs)"
      unfolding chunk_size_def d [symmetric] by (simp add: max_def word_le_nat_alt)
    with False show ?thesis by (simp add: CalculateBatchSize_def Let_def)
  qed
qed

locale batch_processor =
  fixes f :: "PolicyInfo list \<Rightarrow> ('w, int \<times> 'r list) op"
  assumes one_result_each: "run_state (f ps) s = ((SANDBOX_MANAGER_OK, r), s') \<Longrightarrow> length r = length ps"
begin

text \<open>
  The loop returns, and has run the chunks in order. That it returns rests on the batch size: each round moves
  the index by at least one, and the index cannot wrap around.
\<close>

lemma batch_loop_chunks:
  assumes "reader_at rd ps" "isValid rd" "0 < b" "unat n = length written + length ps"
    and "unat i = length written" "length rest = length ps"
  shows "batch_loop f b n rd i (written @ rest) s =
    Some (run_state (run_slices f (map (map cut_policy) (chunks (unat b) ps)) written rest) s)"
  using assms
proof (induction ps arbitrary: rd i written rest s rule: length_induct)
  case (1 ps)
  show ?case
  proof (cases "ps = []")
    case True
    then have "i = n" using "1.prems" by (simp add: word_unat_eq_iff)
    with True show ?thesis by (subst batch_loop.simps) simp
  next
    case False
    let ?c = "min b (n - i)" and ?k = "min (unat b) (length ps)"
    let ?qs = "take (unat b) ps"
    have b: "0 < unat b" using "1.prems"(3) by (simp add: word_less_nat_alt)
    have less: "i < n" using False "1.prems" by (simp add: word_less_nat_alt)
    have left: "unat (n - i) = length ps" using "1.prems" less by (simp add: unat_sub)
    then have c: "unat ?c = ?k" by (simp add: min_def word_le_nat_alt)
    have k: "length ?qs = ?k" by simp
    obtain rd' where rd': "ReadPolicies (length ?qs) rd [] = (SANDBOX_MANAGER_OK, [] @ map cut_policy ?qs, rd')"
      "reader_at rd' (drop (unat b) ps)" "isValid rd'"
      using ReadPolicies_at [of rd ?qs "drop (unat b) ps" "[]"] "1.prems"(1,2) by auto
    then have read: "ReadNextBatch ?c rd = (SANDBOX_MANAGER_OK, map cut_policy ?qs, rd')"
      using "1.prems"(2) c by (simp add: ReadNextBatch_def min.commute)
    obtain ret r s1 where step: "run_state (f (map cut_policy ?qs)) s = ((ret, r), s1)" by (metis prod.collapse)
    show ?thesis
    proof (cases "ret = SANDBOX_MANAGER_OK")
      case err: False
      with step read less False b show ?thesis
        by (subst batch_loop.simps) (simp add: chunks_Cons Let_def)
    next
      case True
      have r: "length r = ?k" using one_result_each [of "map cut_policy ?qs" s r s1] step True k by simp
      have put: "put_batch (unat i) r (written @ rest) = (written @ r) @ drop ?k rest"
        using put_batch_split [of r rest written] r "1.prems"(5,6) by simp
      have "?k \<le> unat (n - i)" using left by simp
      then have "unat i + ?k < 2 ^ 32"
        using "1.prems"(4,5) unsigned_less [of n, where ?'a = nat] by simp
      then have i': "unat (i + ?c) = unat i + ?k" using c by (simp add: unat_add_lem [THEN iffD1])
      have loop: "batch_loop f b n rd i (written @ rest) s =
          batch_loop f b n rd' (i + ?c) ((written @ r) @ drop ?k rest) s1"
        using step read less True put by (subst batch_loop.simps) (simp add: Let_def)
      have slices: "run_state (run_slices f (map (map cut_policy) (chunks (unat b) ps)) written rest) s =
          run_state (run_slices f (map (map cut_policy) (chunks (unat b) (drop (unat b) ps))) (written @ r) (drop ?k rest)) s1"
        using step True False b by (simp add: chunks_Cons min.commute)
      have "length (drop (unat b) ps) < length ps" using False b by simp
      from "1.IH" [rule_format, OF this rd'(2,3) "1.prems"(3), of "written @ r" "i + ?c" "drop ?k rest" s1]
        r i' "1.prems"(4,5,6) have "batch_loop f b n rd' (i + ?c) ((written @ r) @ drop ?k rest) s1 =
          Some (run_state (run_slices f (map (map cut_policy) (chunks (unat b) (drop (unat b) ps))) (written @ r) (drop ?k rest)) s1)"
        by simp
      with loop slices show ?thesis by simp
    qed
  qed
qed

text \<open>A marshalled, non-empty vector is processed chunk by chunk.\<close>

lemma ProcessPolicyBatch_chunks:
  assumes "ps \<noteq> []" "length ps \<le> POLICY_VEC_MAX_NUM" "fits_buffer put_policy ps"
    and "list_all (\<lambda>p. length (ppath p) < 2 ^ 32) ps" "batchSize \<noteq> 0"
  shows "ProcessPolicyBatch (snd (PolicyVec_Marshalling ps)) [] f batchSize d s =
    Some (run_state (run_slices f
      (map (map cut_policy) (chunks (unat (CalculateBatchSize (of_nat (length ps)) batchSize)) ps))
      [] (replicate (length ps) d)) s)"
proof -
  note rd = reader_start [OF assms(2-4)]
  have n: "unat (of_nat (length ps) :: u32) = length ps" using assms(2) by (intro unat_of_nat_u32) simp
  then have n0: "(of_nat (length ps) :: u32) \<noteq> 0" using assms(1) by (metis length_0_conv unat_0)
  have b: "0 < CalculateBatchSize (of_nat (length ps)) batchSize"
    using batch_size_pos [OF n0 assms(5)] .
  from batch_loop_chunks [OF rd(3,1) b, of "of_nat (length ps)" "[]" 0 "replicate (length ps) d" s] n
  show ?thesis using rd n0 n by (simp add: ProcessPolicyBatch_def Let_def)
qed

end

section \<open>The operations that are applied in batches\<close>

lemma SetPolicy_size:
  "run_state (SetPolicy x t ps flag r0 info) s = ((SANDBOX_MANAGER_OK, r), s') \<Longrightarrow> length r = length ps"
  unfolding SetPolicy_def by (auto split: prod.splits intro: set_checked_size)

lemma SetDenyPolicy_size:
  "run_state (SetDenyPolicy x t ps r0 u) s = ((SANDBOX_MANAGER_OK, r), s') \<Longrightarrow> length r = length ps"
  unfolding SetDenyPolicy_def by (auto split: prod.splits intro: set_checked_size)

lemma CheckPolicy_size:
  "run_state (CheckPolicy x t ps r0) s = ((SANDBOX_MANAGER_OK, r), s') \<Longrightarrow> length r = length ps"
  unfolding CheckPolicy_def Let_def by (auto split: prod.splits if_splits)

interpretation set_batch: batch_processor "\<lambda>ps. SetPolicy x t ps flag [] info" for x t flag info
  by unfold_locales (rule SetPolicy_size)

interpretation deny_batch: batch_processor "\<lambda>ps. SetDenyPolicy x t ps [] u" for x t u
  by unfold_locales (rule SetDenyPolicy_size)

interpretation check_batch: batch_processor "\<lambda>ps. CheckPolicy x t ps []" for x t
  by unfold_locales (rule CheckPolicy_size)

text \<open>C21: A request that arrives as a raw vector returns, and it is the request on its policies, cut at null bytes,
  in consecutive chunks one after the other: chunks of 200 policies, or of a 32nd of the request (rounded up)
  where that is more. The results of the chunks are appended in order, the first chunk that fails ends the
  request with its error, and the places of the chunks that were not run keep the default.\<close>

theorem SetPolicy_raw_is_chunked:
  assumes "ps \<noteq> []" "length ps \<le> POLICY_VEC_MAX_NUM" "fits_buffer put_policy ps"
    and "list_all (\<lambda>p. length (ppath p) < 2 ^ 32) ps"
  shows "SetPolicy_raw x t (snd (PolicyVec_Marshalling ps)) flag [] info s =
    Some (run_state (run_slices (\<lambda>qs. SetPolicy x t qs flag [] info)
      (map (map cut_policy) (chunks (chunk_size (length ps)) ps)) [] (replicate (length ps) INVALID_PATH)) s)"
  unfolding SetPolicy_raw_def CalculateBatchSize_chunks [OF assms(1,2), symmetric]
  by (rule set_batch.ProcessPolicyBatch_chunks [OF assms]) simp

text \<open>Three policies are one chunk: the raw request answers what the request on the vector answers.\<close>

theorem SetPolicy_raw_is_chunked_witness:
  "map_option fst (SetPolicy_raw log_ext 7 (snd (PolicyVec_Marshalling three_policies)) 0 [] default_SetInfo (ready_svc [])) =
     Some (SANDBOX_MANAGER_OK, [0, INVALID_PATH, INVALID_MODE])"
proof -
  have "three_policies \<noteq> []" "length three_policies \<le> POLICY_VEC_MAX_NUM" "fits_buffer put_policy three_policies"
    "list_all (\<lambda>p. length (ppath p) < 2 ^ 32) three_policies"
    by (simp_all add: three_policies_def fits_buffer_def put_policy_def put_text_length)
  note batches = SetPolicy_raw_is_chunked [OF this, of log_ext 7 0 default_SetInfo "ready_svc []"]
  have "chunks (chunk_size (length three_policies)) three_policies = [three_policies]" by code_simp
  moreover have "fst (run_state (run_slices (\<lambda>qs. SetPolicy log_ext 7 qs 0 [] default_SetInfo) [map cut_policy three_policies]
      [] [3, 3, 3]) (ready_svc [])) = (SANDBOX_MANAGER_OK, [0, INVALID_PATH, INVALID_MODE])"
    by code_simp
  ultimately show ?thesis unfolding batches by (simp add: three_policies_def)
qed

end
