(* ===== verification/Match_Spec.thy ===== *)
theory Match_Spec
  imports Policy_Persist Trie_Spec Witness_World
begin

text \<open>
  Matching against the persisted policies, end to end: from the rows of the database and the blocked paths of
  the configuration to the answer for every policy of a request.
\<close>

section \<open>Tries without policies\<close>

primrec blank :: "ptrie \<Rightarrow> bool" where
  "blank (PTrie d cs) = (\<not> isEndOfPath d \<and> tmode d = 0 \<and> \<not> denyInherit d \<and> list_all snd (map (map_prod (\<lambda>k. k) blank) cs))"

lemma blank_child: "blank t \<Longrightarrow> child t k = Some c \<Longrightarrow> blank c"
  by (cases t) (auto simp: child_def list_all_iff dest!: map_of_SomeD)

lemma blank_subtrie: "blank t \<Longrightarrow> subtrie t ks = Some n \<Longrightarrow> blank n"
  by (induction t ks rule: subtrie.induct) (auto split: option.splits dest: blank_child)

lemma blank_node: "blank n \<Longrightarrow> \<not> isEndOfPath (node n) \<and> tmode (node n) = 0 \<and> \<not> denyInherit (node n)"
  by (cases n) simp

lemma blank_at:
  assumes "blank t"
  shows "policy_at t ks = None" "mode_at t ks = 0" "\<not> deny_at t ks"
  using blank_subtrie [OF assms, of ks] blank_node
  by (auto simp: policy_at_def mode_at_def deny_at_def split: option.splits)

lemma blank_case_trie: "blank case_trie"
  by code_simp

section \<open>Rows\<close>

lemma insert_rows_InsertAll: "insert_rows rows t = InsertAll (map row_policy rows) t"
proof (induction rows arbitrary: t)
  case (Cons a rows)
  then show ?case by (cases "row_policy a") (simp add: insert_rows_def)
qed (simp add: insert_rows_def)

lemma children_InsertPath_walk: "children t \<noteq> [] \<Longrightarrow> children (InsertPath_walk m f p t) \<noteq> []"
  by (cases p; cases t; cases "children t") (auto simp: Let_def set_child_def index_add_def)

lemma children_insert_rows: "children t \<noteq> [] \<Longrightarrow> children (insert_rows rows t) \<noteq> []"
  by (induction rows arbitrary: t)
    (simp_all add: insert_rows_def case_prod_beta InsertPath_def children_InsertPath_walk)

section \<open>The decision on one policy\<close>

text \<open>
  The keys of a path follow the case rules of the user's directory. The policy of a prefix is the union of the
  modes of all rows whose path has the same keys.
\<close>

definition match_keys :: "string \<Rightarrow> string list" where
  "match_keys path = key_path case_trie (SplitPath path)"

definition rows_policy :: "GenericValues list \<Rightarrow> string list \<Rightarrow> u64 option" where
  "rows_policy rows ks =
     (let modes = map snd (filter (\<lambda>r. match_keys (fst r) = ks) (map row_policy rows))
      in if modes = [] then None else Some (or_modes modes))"

definition persisted :: "GenericValues list \<Rightarrow> string list \<Rightarrow> PolicyInfo \<Rightarrow> bool" where
  "persisted rows blocked p =
     (let ks = match_keys (ppath p)
      in grants (pmode p) (deciding_mode
           (map (\<lambda>j. (rows_policy rows (take j ks), \<exists>b \<in> set blocked. take j ks = match_keys b)) [1..<Suc (length ks)])))"

definition match_code :: "GenericValues list \<Rightarrow> string list \<Rightarrow> PolicyInfo \<Rightarrow> u32" where
  "match_code rows blocked p =
     (if CheckPolicyValidity p NORMAL_POLICY \<noteq> SANDBOX_MANAGER_OK then word_of_int (CheckPolicyValidity p NORMAL_POLICY)
      else if persisted rows blocked p then OPERATE_SUCCESSFULLY else POLICY_HAS_NOT_BEEN_PERSISTED)"

lemma CheckPathNew_rows:
  "CheckPathNew (ppath p) (pmode p) (insert_rows rows (snd (AddDeniedPaths blocked case_trie))) = persisted rows blocked p"
proof -
  let ?base = "snd (AddDeniedPaths blocked case_trie)"
  have keys: "key_path ?base (SplitPath q) = match_keys q" for q
    by (simp add: match_keys_def AddDeniedPaths_at)
  have "policy_at (insert_rows rows ?base) ks = rows_policy rows ks" for ks
    unfolding insert_rows_InsertAll policy_at_InsertAll
    by (simp add: rows_policy_def modes_for_def match_keys_def AddDeniedPaths_at blank_at [OF blank_case_trie] Let_def)
  moreover have "deny_at (insert_rows rows ?base) ks = (\<exists>b \<in> set blocked. ks = match_keys b)" for ks
    unfolding insert_rows_InsertAll
    by (simp add: AddDeniedPaths_at blank_at [OF blank_case_trie] match_keys_def)
  moreover have "key_path (insert_rows rows ?base) (SplitPath (ppath p)) = match_keys (ppath p)"
    unfolding insert_rows_InsertAll by (simp add: keys)
  ultimately show ?thesis by (simp add: CheckPathNew_reference marks_def persisted_def Let_def)
qed

section \<open>The whole request\<close>

lemma ProcessPolicyMatches_codes:
  assumes "\<And>p. CheckPathNew (ppath p) (pmode p) new = persisted rows blocked p" "length post = length ps"
  shows "\<exists>more. run_state (ProcessPolicyMatches ps (length pre) tokenId old new (pre @ post)) s =
    (pre @ map (match_code rows blocked) ps, s\<lparr>sv_reports := sv_reports s @ more\<rparr>)"
  using assms(2)
proof (induction ps arbitrary: pre post s)
  case Nil
  then show ?case by (intro exI [of _ "[]"]) simp
next
  case (Cons p ps)
  then obtain q qs where post: "post = q # qs" "length qs = length ps" by (cases post) auto
  note IH = Cons.IH [OF post(2), of "pre @ [match_code rows blocked p]"]
  obtain more0 where step: "run_state (ProcessPolicyMatches (p # ps) (length pre) tokenId old new (pre @ post)) s =
      run_state (ProcessPolicyMatches ps (length (pre @ [match_code rows blocked p])) tokenId old new
        ((pre @ [match_code rows blocked p]) @ qs)) (s\<lparr>sv_reports := sv_reports s @ more0\<rparr>)"
  proof (cases "CheckPolicyValidity p NORMAL_POLICY = SANDBOX_MANAGER_OK")
    case False
    then show ?thesis using post by (intro that [of "[]"]) (simp add: match_code_def list_update_append)
  next
    case True
    then have code: "match_code rows blocked p =
        (if persisted rows blocked p then OPERATE_SUCCESSFULLY else POLICY_HAS_NOT_BEEN_PERSISTED)"
      by (simp add: match_code_def)
    show ?thesis
      by (rule that [of "if CheckPathMode (ppath p) (pmode p) old \<noteq> persisted rows blocked p then [EmergencyReport tokenId] else []"])
        (simp add: True post assms(1) code list_update_append Let_def)
  qed
  obtain more1 where "run_state (ProcessPolicyMatches ps (length (pre @ [match_code rows blocked p])) tokenId old new
        ((pre @ [match_code rows blocked p]) @ qs)) (s\<lparr>sv_reports := sv_reports s @ more0\<rparr>) =
      ((pre @ [match_code rows blocked p]) @ map (match_code rows blocked) ps,
       s\<lparr>sv_reports := sv_reports s @ more0\<rparr>\<lparr>sv_reports := sv_reports (s\<lparr>sv_reports := sv_reports s @ more0\<rparr>) @ more1\<rparr>)"
    using IH by blast
  with step show ?case by (intro exI [of _ "more0 @ more1"]) simp
qed

text \<open>C22: Matching a request against the persisted policies answers, for every policy, the refusal code of the
  validity check or whether the policy is persisted: along the keys of its path, case folded as the user's directory
  says, everything above the last blocked path is cut off, and the union of the modes of the rows stored at the
  shallowest prefix that is left must contain the requested mode. It needs only the rows of the caller's token.\<close>

theorem MatchNormalPolicy_decides:
  assumes "run_state (RangeFind x (fst (token_conditions tokenId)) (snd (token_conditions tokenId))) s =
      ((SANDBOX_MANAGER_OK, rows), s1)"
    and "children (fold SetSensitive (sv_caseSensitivePaths s) (fold SetInsensitive (sv_caseInsensitivePaths s) PolicyTrie)) \<noteq> []"
    and "length result = length policy"
  shows "\<exists>more. run_state (MatchNormalPolicy x tokenId policy result) s =
    ((SANDBOX_MANAGER_OK, map (match_code rows (sv_blockedInheritPaths s)) policy), s1\<lparr>sv_reports := sv_reports s1 @ more\<rparr>)"
proof -
  let ?old = "fold SetSensitive (sv_caseSensitivePaths s) (fold SetInsensitive (sv_caseInsensitivePaths s) PolicyTrie)"
  let ?new = "snd (AddDeniedPaths (sv_blockedInheritPaths s) case_trie)"
  have "\<not> IsEmpty (insert_rows rows ?old)" using children_insert_rows [OF assms(2)] by (simp add: IsEmpty_def)
  moreover have "fst (AddDeniedPaths (sv_blockedInheritPaths s) case_trie)" by (simp add: AddDeniedPaths_def)
  ultimately have "run_state (MatchNormalPolicy x tokenId policy result) s =
      (let (r, s') = run_state (ProcessPolicyMatches policy 0 tokenId (insert_rows rows ?old) (insert_rows rows ?new) result) s1
       in ((SANDBOX_MANAGER_OK, r), s'))"
    using assms(1,3)
    by (simp add: MatchNormalPolicy_def InitTrieWithCaseSensitivity_def BuildTrieForPolicyOperationsNew_def case_prod_beta Let_def)
  moreover obtain more where "run_state (ProcessPolicyMatches policy 0 tokenId (insert_rows rows ?old) (insert_rows rows ?new) result) s1 =
      (map (match_code rows (sv_blockedInheritPaths s)) policy, s1\<lparr>sv_reports := sv_reports s1 @ more\<rparr>)"
    using ProcessPolicyMatches_codes [OF CheckPathNew_rows assms(3), where pre = "[]" and s = s1] by force
  ultimately show ?thesis by (intro exI [of _ more]) simp
qed

text \<open>A token with one persisted directory, a blocked directory in it, and a request above, below and in it.\<close>

definition rows_ext :: "GenericValues list \<Rightarrow> (nat, unit) ext" where
  "rows_ext rows = silent_ext\<lparr>x_Query := (\<lambda>t p w. (Some (map (\<lambda>r. Some
     [(FIELD_PATH, StringCell (Some (gv_GetString r FIELD_PATH))),
      (FIELD_MODE, IntegerCell 4 (Some (gv_GetInt r FIELD_MODE)) (Some (gv_GetInt r FIELD_MODE)))]) rows), w))\<rparr>"

definition matched_svc :: "nat svc" where
  "matched_svc = (init_svc 0)\<lparr>sv_db := True, sv_caseInsensitivePaths := [''/storage/Users/currentUser''],
     sv_blockedInheritPaths := [''/storage/Users/currentUser/Docs/private'']\<rparr>"

definition docs_row :: GenericValues where
  "docs_row = gv_of [(FIELD_PATH, TYPE_STRING ''/storage/Users/currentUser/Docs''), (FIELD_MODE, TYPE_INT 3)]"

definition docs_request :: "PolicyInfo list" where
  "docs_request = [\<lparr>ppath = ''/storage/Users/currentUser/docs/a'', pmode = 1, ptype = 0\<rparr>,
     \<lparr>ppath = ''/storage/Users/currentUser/docs/private/b'', pmode = 1, ptype = 0\<rparr>,
     \<lparr>ppath = ''/storage/Users/currentUser/docs'', pmode = 4, ptype = 0\<rparr>, \<lparr>ppath = ''/x'', pmode = 0, ptype = 0\<rparr>]"

theorem MatchNormalPolicy_decides_witness:
  "fst (run_state (MatchNormalPolicy (rows_ext [docs_row]) 7 docs_request [0, 0, 0, 0]) matched_svc) =
     (SANDBOX_MANAGER_OK, [0, POLICY_HAS_NOT_BEEN_PERSISTED, POLICY_HAS_NOT_BEEN_PERSISTED, INVALID_MODE])"
proof -
  let ?m = "RangeFind (rows_ext [docs_row]) (fst (token_conditions 7)) (snd (token_conditions 7))"
  have "fst (run_state ?m matched_svc) = (SANDBOX_MANAGER_OK, [docs_row])" by code_simp
  then obtain s1 where find: "run_state ?m matched_svc = ((SANDBOX_MANAGER_OK, [docs_row]), s1)" by (metis prod.collapse)
  have trie: "children (fold SetSensitive (sv_caseSensitivePaths matched_svc)
      (fold SetInsensitive (sv_caseInsensitivePaths matched_svc) PolicyTrie)) \<noteq> []" by code_simp
  have len: "length [0, 0, 0, 0 :: u32] = length docs_request" by (simp add: docs_request_def)
  have "map (match_code [docs_row] (sv_blockedInheritPaths matched_svc)) docs_request =
      [0, POLICY_HAS_NOT_BEEN_PERSISTED, POLICY_HAS_NOT_BEEN_PERSISTED, INVALID_MODE]" by code_simp
  with MatchNormalPolicy_decides [OF find trie len] show ?thesis by auto
qed

end
