(* ===== verification/User_Spec.thy ===== *)
theory User_Spec
  imports Policy_User Checks_Spec Rdb_Spec Mac_Spec
begin

text \<open>
  Permissions granted by the user: which policies survive the filter, and what a grant leaves behind when the
  kernel does not take part.
\<close>

section \<open>The filter\<close>

text \<open>The verdict on one policy, without the loop's bookkeeping.\<close>

definition user_code :: "PolicyInfo \<Rightarrow> u32" where
  "user_code p =
     (let path = AdjustPath (ppath p)
      in if \<not> IsAllowedPath path then INVALID_PATH
         else if ValidateGenericPath path \<noteq> SANDBOX_MANAGER_OK then INVALID_PATH
         else if ValidateTempMode (pmode p) \<noteq> SANDBOX_MANAGER_OK then INVALID_MODE
         else if IsAppDataPathPrefix (splitPath path) then INVALID_PATH
         else OPERATE_SUCCESSFULLY)"

lemma verdict_codes:
  "ValidateGenericPath path \<noteq> SANDBOX_MANAGER_OK \<Longrightarrow> ValidateGenericPath path = INVALID_PATH"
  "ValidateTempMode m \<noteq> SANDBOX_MANAGER_OK \<Longrightarrow> ValidateTempMode m = INVALID_MODE"
  by (auto simp: ValidateGenericPath_def ValidateTempMode_def Let_def split: if_splits)

lemma FilterValidPolicy_step:
  "FilterValidPolicy_loop (p # ps) i results valid n =
     (if user_code p = OPERATE_SUCCESSFULLY
      then FilterValidPolicy_loop ps (Suc i) (results[i := user_code p]) (valid @ [p\<lparr>ppath := AdjustPath (ppath p)\<rparr>]) n
      else FilterValidPolicy_loop ps (Suc i) (results[i := user_code p]) valid (n + 1))"
  using verdict_codes(1) [of "AdjustPath (ppath p)"] verdict_codes(2) [of "pmode p"]
  by (cases "ValidateGenericPath (AdjustPath (ppath p)) = SANDBOX_MANAGER_OK";
      cases "ValidateTempMode (pmode p) = SANDBOX_MANAGER_OK") (simp_all add: user_code_def Let_def)

lemma FilterValidPolicy_loop_spec:
  "length post = length ps \<Longrightarrow>
   FilterValidPolicy_loop ps (length pre) (pre @ post) valid n =
     (pre @ map user_code ps,
      valid @ map (\<lambda>p. p\<lparr>ppath := AdjustPath (ppath p)\<rparr>) (filter (\<lambda>p. user_code p = OPERATE_SUCCESSFULLY) ps),
      n + length (filter (\<lambda>p. user_code p \<noteq> OPERATE_SUCCESSFULLY) ps))"
proof (induction ps arbitrary: pre post valid n)
  case (Cons p ps)
  then obtain q qs where post: "post = q # qs" "length qs = length ps" by (cases post) auto
  from Cons.IH [of qs "pre @ [user_code p]"] post show ?case
    unfolding FilterValidPolicy_step by (cases "user_code p = OPERATE_SUCCESSFULLY") (simp_all add: list_update_append)
qed simp

lemma IsAllowedPath_segments:
  assumes "IsAllowedPath path"
  shows "\<exists>pre \<in> set ALLOWED_PREFIXES. \<exists>rest. segments_of [] path = segments_of [] pre @ rest"
proof -
  obtain pre where pre: "pre \<in> set ALLOWED_PREFIXES"
    "path = pre \<or> length path > length pre \<and> take (length pre) path = pre \<and> path ! length pre = CHR ''/''"
    using assms by (auto simp: IsAllowedPath_def list_ex_iff substr_def)
  then have "path = pre \<or> path = pre @ CHR ''/'' # drop (Suc (length pre)) path"
    by (metis append_take_drop_id Cons_nth_drop_Suc)
  then have "\<exists>rest. segments_of [] path = segments_of [] pre @ rest" by (metis append_Nil2 segments_of_slash)
  with pre(1) show ?thesis by blast
qed

lemma user_code_ok:
  assumes "user_code p = OPERATE_SUCCESSFULLY"
  shows "1 \<le> pmode p \<and> pmode p < 32 \<and> (\<exists>pre \<in> set ALLOWED_PREFIXES. \<exists>rest.
    list_all canonical_name (segments_of [] pre @ rest) \<and> AdjustPath (ppath p) = render (segments_of [] pre @ rest))"
proof -
  let ?path = "AdjustPath (ppath p)"
  have ok: "IsAllowedPath ?path" "ValidateGenericPath ?path = SANDBOX_MANAGER_OK" "ValidateTempMode (pmode p) = SANDBOX_MANAGER_OK"
    using assms by (auto simp: user_code_def Let_def split: if_splits)
  obtain pre rest where pre: "pre \<in> set ALLOWED_PREFIXES" "segments_of [] ?path = segments_of [] pre @ rest"
    using IsAllowedPath_segments [OF ok(1)] by blast
  have ne: "segments_of [] q \<noteq> []" if "q \<in> set ALLOWED_PREFIXES" for q
    using that by (auto simp: ALLOWED_PREFIXES_def)
  from ne [OF pre(1)] pre(2) have "?path \<noteq> ''/''" by auto
  then have "canonical_path ?path" using ok(2) ValidateGenericPath_iff by blast
  then obtain segs where segs: "list_all canonical_name segs" "?path = render segs" by (auto simp: canonical_path_def)
  then have "segments_of [] ?path = segs" using segments_of_render [OF canonical_segments [OF segs(1)], of "[]"] by simp
  with segs pre have "list_all canonical_name (segments_of [] pre @ rest) \<and> ?path = render (segments_of [] pre @ rest)" by simp
  moreover have "1 \<le> pmode p \<and> pmode p < 32"
    using ok(3) low_bits_normal [of "pmode p"] by (auto simp: ValidateTempMode_def Let_def split: if_splits)
  ultimately show ?thesis using pre(1) by blast
qed

text \<open>C23: A permission granted by the user only ever concerns a canonical path inside one of the five user
  directories: every policy that survives the filter is a policy of the request with its trailing separator removed,
  its path is, component by component, below an allowed directory and has no dot, dot-dot or empty component, and its
  mode has only normal bits. Every other policy is counted as invalid and has an error code in its place.\<close>

theorem FilterValidPolicy_within_prefixes:
  assumes "FilterValidPolicy policies results = (codes, valid, invalidNum)"
  shows "(\<forall>p \<in> set valid. 1 \<le> pmode p \<and> pmode p < 32 \<and>
      (\<exists>q \<in> set policies. p = q\<lparr>ppath := AdjustPath (ppath q)\<rparr>) \<and>
      (\<exists>pre \<in> set ALLOWED_PREFIXES. \<exists>rest. list_all canonical_name (segments_of [] pre @ rest) \<and>
         ppath p = render (segments_of [] pre @ rest))) \<and>
    length codes = length policies \<and> length valid + invalidNum = length policies \<and>
    length valid = count_list codes OPERATE_SUCCESSFULLY"
proof -
  have eq: "codes = map user_code policies"
    "valid = map (\<lambda>p. p\<lparr>ppath := AdjustPath (ppath p)\<rparr>) (filter (\<lambda>p. user_code p = OPERATE_SUCCESSFULLY) policies)"
    "invalidNum = length (filter (\<lambda>p. user_code p \<noteq> OPERATE_SUCCESSFULLY) policies)"
    using assms FilterValidPolicy_loop_spec [of "resize (length policies) 0 results" policies "[]" "[]" 0]
    by (simp_all add: FilterValidPolicy_def)
  have "length (filter (\<lambda>p. user_code p = c) policies) = count_list (map user_code policies) c" for c
    by (induction policies) simp_all
  moreover have "1 \<le> pmode p \<and> pmode p < 32 \<and> (\<exists>q \<in> set policies. p = q\<lparr>ppath := AdjustPath (ppath q)\<rparr>) \<and>
      (\<exists>pre \<in> set ALLOWED_PREFIXES. \<exists>rest. list_all canonical_name (segments_of [] pre @ rest) \<and>
         ppath p = render (segments_of [] pre @ rest))" if "p \<in> set valid" for p
  proof -
    obtain q where "q \<in> set policies" "user_code q = OPERATE_SUCCESSFULLY" "p = q\<lparr>ppath := AdjustPath (ppath q)\<rparr>"
      using \<open>p \<in> set valid\<close> eq(2) by auto
    with user_code_ok [of q] show ?thesis by auto
  qed
  moreover have "length codes = length policies" by (simp add: eq(1))
  moreover have "length valid + invalidNum = length policies"
    using sum_length_filter_compl [of "\<lambda>p. user_code p = OPERATE_SUCCESSFULLY" policies] by (simp add: eq(2,3))
  moreover have "length valid = count_list codes OPERATE_SUCCESSFULLY" by (simp add: eq(1,2) calculation(1))
  ultimately show ?thesis by blast
qed

text \<open>One directory below Music with a trailing separator, and one path that climbs out of it.\<close>

definition user_request :: "PolicyInfo list" where
  "user_request = [\<lparr>ppath = ''/storage/Users/currentUser/Music/a/'', pmode = 3, ptype = 0\<rparr>,
     \<lparr>ppath = ''/storage/Users/currentUser/Music/../appdata'', pmode = 3, ptype = 0\<rparr>]"

theorem FilterValidPolicy_within_prefixes_witness:
  "FilterValidPolicy user_request [] =
     ([0, INVALID_PATH], [\<lparr>ppath = ''/storage/Users/currentUser/Music/a'', pmode = 3, ptype = 0\<rparr>], 1) \<and>
   (\<exists>pre \<in> set ALLOWED_PREFIXES. \<exists>rest. list_all canonical_name (segments_of [] pre @ rest) \<and>
         ''/storage/Users/currentUser/Music/a'' = render (segments_of [] pre @ rest))"
proof -
  have run: "FilterValidPolicy user_request [] =
     ([0, INVALID_PATH], [\<lparr>ppath = ''/storage/Users/currentUser/Music/a'', pmode = 3, ptype = 0\<rparr>], 1)" by code_simp
  from FilterValidPolicy_within_prefixes [OF run] show ?thesis using run by simp
qed

text \<open>
  A grant writes its rows before it asks the kernel, and does not ask whether the kernel takes part at all: without
  the device the caller gets an error and the rows say granted.
\<close>

lemma grant_commits_before_the_kernel:
  "fst (run_state (GrantPermissionByUser (mem_ext ''bad'') 7 user_request) ((ready_svc ([], []))\<lparr>sv_fd := - 1\<rparr>)) =
     SANDBOX_MANAGER_MAC_NOT_INIT \<and>
   map fst (fst (sv_world (snd (run_state (GrantPermissionByUser (mem_ext ''bad'') 7 user_request)
     ((ready_svc ([], []))\<lparr>sv_fd := - 1\<rparr>))))) = [''ugc_permission_table'']"
  by code_simp

end
