(* ===== verification/Tlv_Spec.thy ===== *)
theory Tlv_Spec
  imports Claw_Tlv
begin

text \<open>
  The payload of a policy against the format its header describes: a reader that follows tags, lengths and counts
  the way the kernel does, and the theorem that it reads back exactly the model. The locale \<open>wire\<close> is the contract
  of a printer and a reader of one kind of block.
\<close>

section \<open>Words on the wire\<close>

lemma u32_byte: "unat (drop_bit k (v::u32) AND 0xFF) = unat v div 2 ^ k mod 256"
proof -
  have and_ff: "unat (w AND 0xFF) = unat w mod 256" for w :: u32
  proof -
    have "w AND 0xFF = take_bit 8 w" by (simp add: take_bit_eq_mask mask_eq_exp_minus_1)
    then have "unat (w AND 0xFF) = take_bit 8 (unat w)" by (simp only: unsigned_take_bit_eq)
    then show ?thesis by (simp add: take_bit_eq_mod)
  qed
  have "unat (drop_bit k v) = unat v div 2 ^ k" by (simp only: unat_drop_bit_eq) (simp add: drop_bit_eq_div)
  with and_ff show ?thesis by simp
qed

lemma le_bytes_4: "le_bytes 4 n = map (\<lambda>k. char_of (n div 2 ^ k mod 256)) [0, 8, 16, 24]"
proof -
  have "le_bytes 4 n = le_bytes (Suc (Suc (Suc (Suc 0)))) n" by (rule arg_cong [of _ _ "\<lambda>k. le_bytes k n"]) simp
  also have "\<dots> = [char_of (n mod 256), char_of (n div 256 mod 256), char_of (n div 256 div 256 mod 256),
      char_of (n div 256 div 256 div 256 mod 256)]"
    by (simp only: le_bytes.simps)
  also have "\<dots> = map (\<lambda>k. char_of (n div 2 ^ k mod 256)) [0, 8, 16, 24]"
    by (simp only: list.map div_mult2_eq [symmetric]) simp
  finally show ?thesis .
qed

lemma AppendU32LE_put: "AppendU32LE v = put_u32 v"
  unfolding AppendU32LE_def put_u32_def le_bytes_4 u32_byte ..

lemma get_u32_put [simp]: "get_u32 (put_u32 x @ r) = Some (x, r)"
  using unsigned_less [of x, where ?'a = nat]
  by (simp add: get_u32_def put_u32_def get_bytes_exact le_value_bytes)

lemma AppendU32LE_length [simp]: "length (AppendU32LE v) = 4"
  by (simp add: AppendU32LE_def)

section \<open>The reader\<close>

definition get_tlv :: "u32 \<Rightarrow> string \<Rightarrow> (string \<times> string) option" where
  "get_tlv tag s = (case get_u32 s of
       None \<Rightarrow> None
     | Some (t, r) \<Rightarrow> if t \<noteq> tag then None else (case get_u32 r of
           None \<Rightarrow> None | Some (len, r') \<Rightarrow> get_bytes (unat len) r'))"

definition get_tlv_u32 :: "u32 \<Rightarrow> string \<Rightarrow> (u32 \<times> string) option" where
  "get_tlv_u32 tag s = (case get_tlv tag s of
       None \<Rightarrow> None
     | Some (b, r) \<Rightarrow> if length b \<noteq> 4 then None else map_option (\<lambda>(v, _). (v, r)) (get_u32 b))"

lemma get_tlv_bytes_put: "length b < 2 ^ 32 \<Longrightarrow> get_tlv tag (AppendTlvBytes tag b @ r) = Some (b, r)"
  using unat_of_nat_u32 [of "length b"] get_bytes_exact [of b "length b" r]
  by (simp add: get_tlv_def AppendTlvBytes_def AppendU32LE_put)

lemma get_tlv_u32_put [simp]: "get_tlv_u32 tag (AppendTlvU32 tag v @ r) = Some (v, r)"
proof -
  have len: "length (put_u32 v) = 4" by (simp add: put_u32_def)
  have "AppendTlvU32 tag v = AppendTlvBytes tag (put_u32 v)"
    by (simp add: AppendTlvU32_def AppendTlvBytes_def AppendU32LE_put len)
  moreover have "get_tlv tag (AppendTlvBytes tag (put_u32 v) @ r) = Some (put_u32 v, r)"
    by (rule get_tlv_bytes_put) (simp add: len)
  ultimately show ?thesis using get_u32_put [of v "[]"] by (simp add: get_tlv_u32_def len)
qed

fun get_many :: "(string \<Rightarrow> ('v \<times> string) option) \<Rightarrow> nat \<Rightarrow> string \<Rightarrow> ('v list \<times> string) option" where
  "get_many g 0 s = Some ([], s)"
| "get_many g (Suc n) s = (case g s of
       None \<Rightarrow> None
     | Some (v, r) \<Rightarrow> (case get_many g n r of None \<Rightarrow> None | Some (vs, r') \<Rightarrow> Some (v # vs, r')))"

text \<open>A block: comparison, item type, item. A rule: action, events, subjects, objects.\<close>

definition get_block :: "string \<Rightarrow> ((u32 \<times> u32 \<times> string) \<times> string) option" where
  "get_block s = (case get_tlv_u32 DEC_POLICY_TLV_FILTER_RULE_CMP_TYPE s of None \<Rightarrow> None | Some (c, s1) \<Rightarrow>
     (case get_tlv_u32 DEC_POLICY_TLV_FILTER_RULE_ITEM_TYPE s1 of None \<Rightarrow> None | Some (t, s2) \<Rightarrow>
     (case get_tlv DEC_POLICY_TLV_FILTER_RULE_ITEM s2 of None \<Rightarrow> None | Some (b, s3) \<Rightarrow> Some ((c, t, b), s3))))"

definition get_section :: "u32 \<Rightarrow> string \<Rightarrow> ((u32 \<times> u32 \<times> string) list \<times> string) option" where
  "get_section tag s = (case get_tlv_u32 tag s of None \<Rightarrow> None | Some (n, r) \<Rightarrow> get_many get_block (unat n) r)"

type_synonym wire_rule = "u32 \<times> u32 \<times> (u32 \<times> u32 \<times> string) list \<times> (u32 \<times> u32 \<times> string) list"

definition get_rule :: "string \<Rightarrow> (wire_rule \<times> string) option" where
  "get_rule s = (case get_tlv_u32 DEC_POLICY_TLV_RULE_ACTION s of None \<Rightarrow> None | Some (a, s1) \<Rightarrow>
     (case get_tlv_u32 DEC_POLICY_TLV_RULE_EVENT_TYPE s1 of None \<Rightarrow> None | Some (e, s2) \<Rightarrow>
     (case get_section DEC_POLICY_TLV_FILTER_RULE_SUBJECT_CNT s2 of None \<Rightarrow> None | Some (su, s3) \<Rightarrow>
     (case get_section DEC_POLICY_TLV_FILTER_RULE_OBJECT_CNT s3 of None \<Rightarrow> None | Some (ob, s4) \<Rightarrow>
        Some ((a, e, su, ob), s4)))))"

type_synonym wire_policy = "u32 \<times> u32 \<times> u32 \<times> wire_rule list"

definition get_policy_body :: "string \<Rightarrow> (wire_policy \<times> string) option" where
  "get_policy_body s = (case get_tlv_u32 DEC_POLICY_TLV_OPERATION_TYPE s of None \<Rightarrow> None | Some (t, s1) \<Rightarrow>
     (case get_tlv_u32 DEC_POLICY_TLV_DEFAULT_ACTION s1 of None \<Rightarrow> None | Some (d, s2) \<Rightarrow>
     (case get_tlv_u32 DEC_POLICY_TLV_ASK_TIMEOUT_DEFAULT_ACTION s2 of None \<Rightarrow> None | Some (k, s3) \<Rightarrow>
     (case get_tlv_u32 DEC_POLICY_TLV_RULESLIST_CNT s3 of None \<Rightarrow> None | Some (n, s4) \<Rightarrow>
     (case get_many get_rule (unat n) s4 of None \<Rightarrow> None | Some (rs, s5) \<Rightarrow> Some ((t, d, k, rs), s5))))))"

text \<open>The declared size of a policy must be exactly what its rules use.\<close>

definition get_policy :: "string \<Rightarrow> (wire_policy \<times> string) option" where
  "get_policy s = (case get_tlv_u32 DEC_POLICY_TLV_OPERATION_SIZE s of None \<Rightarrow> None | Some (n, s1) \<Rightarrow>
     (case get_bytes (unat n) s1 of None \<Rightarrow> None | Some (b, s2) \<Rightarrow>
     (case get_policy_body b of None \<Rightarrow> None | Some (p, rest) \<Rightarrow> if rest = [] then Some (p, s2) else None)))"

definition kernel_read :: "string \<Rightarrow> (string \<times> wire_policy list) option" where
  "kernel_read s = (case get_tlv DEC_POLICY_TLV_SCOPE s of None \<Rightarrow> None | Some (scope, s1) \<Rightarrow>
     (case get_tlv_u32 DEC_POLICY_TLV_POLICY_CNT s1 of None \<Rightarrow> None | Some (n, s2) \<Rightarrow>
     (case get_many get_policy (unat n) s2 of None \<Rightarrow> None
      | Some (ps, rest) \<Rightarrow> if rest = [] then Some (scope, ps) else None)))"

section \<open>What the model stands for\<close>

text \<open>A path rule is its descriptor and one string: its path, or the tail of a pattern.\<close>

definition wire_blocks :: "FilterRule \<Rightarrow> (u32 \<times> u32 \<times> string) list" where
  "wire_blocks fr =
     (if fr_itemType fr = DEC_POLICY_ITEM_TYPE_PATH then
        [(DEC_POLICY_CMP_EQ, DEC_POLICY_ITEM_TYPE_FD, put_u32 (word_of_int (fr_fd fr))),
         (fr_cmpType fr, DEC_POLICY_ITEM_TYPE_PATH,
          (if fr_cmpType fr = DEC_POLICY_CMP_SUFFIX then fr_pathSuffix fr else fr_path fr) @ [CHR 0x00])]
      else [(fr_cmpType fr, fr_itemType fr, item_bytes fr)])"

definition wire_section :: "FilterRule list list \<Rightarrow> (u32 \<times> u32 \<times> string) list" where
  "wire_section entities = concat (map wire_blocks (concat entities))"

definition wire_rule_of :: "Rule \<Rightarrow> wire_rule" where
  "wire_rule_of r = (ru_action r, ru_eventType r, wire_section (ru_subjectRules r), wire_section (ru_objectRules r))"

definition wire_policy_of :: "TlvPolicy \<Rightarrow> wire_policy" where
  "wire_policy_of p = (tp_operationType p, tp_defaultAction p, tp_askTimeoutDefaultAction p, map wire_rule_of (tp_rules p))"

definition scope_bytes :: "ScopeBody \<Rightarrow> string" where
  "scope_bytes scope = put_u32 (sc_id scope) @ put_u32 (sc_userid scope) @ put_u64 (sc_appidentifier scope) @ put_u64 (sc_taskid scope)"

section \<open>Printers and readers\<close>

locale wire =
  fixes put :: "'a \<Rightarrow> string res" and get :: "string \<Rightarrow> ('v \<times> string) option" and view :: "'a \<Rightarrow> 'v"
  assumes reads: "put a = Inr b \<Longrightarrow> length b < 2 ^ 32 \<Longrightarrow> get (b @ r) = Some (view a, r)"
    and nonempty: "put a = Inr b \<Longrightarrow> b \<noteq> []"
begin

lemma many:
  "append_all put xs = Inr b \<Longrightarrow> length b < 2 ^ 32 \<Longrightarrow> get_many get (length xs) (b @ r) = Some (map view xs, r)"
proof (induction xs arbitrary: b)
  case (Cons x xs)
  then obtain c d where cd: "put x = Inr c" "append_all put xs = Inr d" "b = c @ d" by (auto simp: res_bind_Inr)
  then show ?case using reads [OF cd(1), of "d @ r"] Cons.IH [OF cd(2)] Cons.prems(2) by simp
qed simp

lemma few: "append_all put xs = Inr b \<Longrightarrow> length xs \<le> length b"
proof (induction xs arbitrary: b)
  case (Cons x xs)
  then obtain c d where "put x = Inr c" "append_all put xs = Inr d" "b = c @ d" by (auto simp: res_bind_Inr)
  then show ?case using nonempty [of x c] Cons.IH [of d] by (cases c) auto
qed simp

text \<open>A counted sequence: the count fits its word because every element takes at least one byte.\<close>

lemma counted:
  assumes "append_all put xs = Inr b" "length b < 2 ^ 32"
  shows "get_many get (unat (of_nat (length xs) :: u32)) (b @ r) = Some (map view xs, r)"
  using many [OF assms] few [OF assms(1)] assms(2) unat_of_nat_u32 [of "length xs"] by simp

end

lemma append_all_append:
  "append_all f (xs @ ys) = res_bind (append_all f xs) (\<lambda>a. res_bind (append_all f ys) (\<lambda>b. Inr (a @ b)))"
  by (induction xs) (auto simp: res_bind_def split: sum.splits)

lemma append_all_concat:
  assumes "\<And>x b. g x = Inr b \<Longrightarrow> append_all f (h x) = Inr b" "append_all g xs = Inr b"
  shows "append_all f (concat (map h xs)) = Inr b"
  using assms(2)
proof (induction xs arbitrary: b)
  case (Cons x xs)
  then obtain c d where cd: "g x = Inr c" "append_all g xs = Inr d" "b = c @ d" by (auto simp: res_bind_Inr)
  with assms(1) [OF cd(1)] Cons.IH [OF cd(2)] show ?case by (simp add: append_all_append)
qed simp

lemma AppendTlv_nonempty [simp]: "AppendTlvU32 t v \<noteq> []" "AppendTlvBytes t b \<noteq> []"
  by (auto simp: AppendTlvU32_def AppendTlvBytes_def AppendU32LE_def)

definition block_view :: "FilterRule \<Rightarrow> u32 \<times> u32 \<times> string" where
  "block_view r = (fr_cmpType r, fr_itemType r, item_bytes r)"

interpretation block_wire: wire AppendFilterRuleBlock get_block block_view
proof
  fix a b r
  assume "AppendFilterRuleBlock a = Inr b" and len: "length b < 2 ^ 32"
  then have b: "b = AppendTlvU32 11 (fr_cmpType a) @ AppendTlvU32 12 (fr_itemType a) @ AppendTlvBytes 13 (item_bytes a)"
    by (auto simp: AppendFilterRuleBlock_def split: if_splits)
  have "length (item_bytes a) \<le> length b" unfolding b by (simp add: AppendTlvBytes_def)
  with len have "length (item_bytes a) < 2 ^ 32" by linarith
  then show "get_block (b @ r) = Some (block_view a, r)"
    by (simp add: b get_block_def block_view_def get_tlv_bytes_put)
qed (auto simp: AppendFilterRuleBlock_def split: if_splits)

section \<open>Sections, rules, policies\<close>

text \<open>The filter rules that are written for one.\<close>

definition wire_rules :: "FilterRule \<Rightarrow> FilterRule list" where
  "wire_rules fr =
     (if fr_itemType fr = DEC_POLICY_ITEM_TYPE_PATH then
        [new_FilterRule\<lparr>fr_cmpType := DEC_POLICY_CMP_EQ, fr_itemType := DEC_POLICY_ITEM_TYPE_FD, fr_fd := fr_fd fr\<rparr>,
         if fr_cmpType fr = DEC_POLICY_CMP_SUFFIX
         then new_FilterRule\<lparr>fr_cmpType := DEC_POLICY_CMP_SUFFIX, fr_itemType := DEC_POLICY_ITEM_TYPE_PATH, fr_path := fr_pathSuffix fr\<rparr>
         else fr]
      else [fr])"

lemma wire_rules_view: "map block_view (wire_rules fr) = wire_blocks fr"
  by (simp add: wire_rules_def wire_blocks_def block_view_def item_bytes_def AppendU32LE_put)

lemma wire_rules_count: "of_nat (length (wire_rules fr)) = GetFilterRuleWireEntityCnt fr"
  by (simp add: wire_rules_def GetFilterRuleWireEntityCnt_def)

lemma AppendFilterRuleEntities_blocks:
  "AppendFilterRuleEntities fr = Inr b \<Longrightarrow> append_all AppendFilterRuleBlock (wire_rules fr) = Inr b"
  by (auto simp: AppendFilterRuleEntities_def wire_rules_def res_bind_Inr Let_def split: if_splits)

lemma section_blocks:
  assumes "append_all AppendEntityRules entities = Inr b"
  shows "append_all AppendFilterRuleBlock (concat (map wire_rules (concat entities))) = Inr b"
proof -
  have "append_all AppendFilterRuleBlock (concat (map wire_rules e)) = Inr c" if "AppendEntityRules e = Inr c" for e c
    using append_all_concat [OF AppendFilterRuleEntities_blocks, where xs = e and b = c] that by (simp add: AppendEntityRules_def)
  from append_all_concat [OF this assms]
  have "append_all AppendFilterRuleBlock (concat (map (\<lambda>e. concat (map wire_rules e)) entities)) = Inr b" .
  moreover have "concat (map (\<lambda>e. concat (map wire_rules e)) es) = concat (map wire_rules (concat es))" for es
    by (induction es) simp_all
  ultimately show ?thesis by simp
qed

lemma section_count: "CountSectionWireEntities entities = of_nat (length (concat (map wire_rules (concat entities))))"
proof -
  have "sum_list (map GetFilterRuleWireEntityCnt xs) = of_nat (length (concat (map wire_rules xs)))" for xs
    by (induction xs) (simp_all add: wire_rules_count [symmetric])
  then show ?thesis by (simp add: CountSectionWireEntities_def)
qed

lemma get_section_put:
  assumes "AppendRuleEntitySection tag entities = Inr b" "length b < 2 ^ 32"
  shows "get_section tag (b @ r) = Some (wire_section entities, r)"
proof -
  let ?rules = "concat (map wire_rules (concat entities))"
  obtain c where c: "append_all AppendEntityRules entities = Inr c" "b = AppendTlvU32 tag (CountSectionWireEntities entities) @ c"
    using assms(1) by (auto simp: AppendRuleEntitySection_def res_bind_Inr)
  have "map block_view ?rules = wire_section entities"
    by (simp add: wire_section_def map_concat wire_rules_view comp_def)
  moreover have "length c < 2 ^ 32" using assms(2) c(2) by simp
  ultimately show ?thesis
    using block_wire.counted [OF section_blocks [OF c(1)], of r] unfolding c(2) section_count by (simp add: get_section_def)
qed

interpretation rule_wire: wire AppendRuleBlock get_rule wire_rule_of
proof
  fix a b r
  assume "AppendRuleBlock a = Inr b" and len: "length b < 2 ^ 32"
  then obtain su ob where s: "AppendRuleEntitySection 10 (ru_subjectRules a) = Inr su" "AppendRuleEntitySection 14 (ru_objectRules a) = Inr ob"
    and b: "b = AppendTlvU32 8 (ru_action a) @ AppendTlvU32 9 (ru_eventType a) @ su @ ob"
    by (auto simp: AppendRuleBlock_def res_bind_Inr)
  have "length su < 2 ^ 32" "length ob < 2 ^ 32" using len b by simp_all
  with get_section_put [OF s(1), of "ob @ r"] get_section_put [OF s(2), of r]
  show "get_rule (b @ r) = Some (wire_rule_of a, r)" by (simp add: b get_rule_def wire_rule_of_def)
qed (auto simp: AppendRuleBlock_def res_bind_Inr)

lemma get_policy_body_put:
  assumes "policy_block p = Inr b" "length b < 2 ^ 32"
  shows "get_policy_body (b @ r) = Some (wire_policy_of p, r)"
proof -
  obtain rs where rs: "append_all AppendRuleBlock (tp_rules p) = Inr rs"
    and b: "b = AppendTlvU32 4 (tp_operationType p) @ AppendTlvU32 5 (tp_defaultAction p) @
      AppendTlvU32 6 (tp_askTimeoutDefaultAction p) @ AppendTlvU32 7 (of_nat (length (tp_rules p))) @ rs"
    using assms(1) by (auto simp: policy_block_def res_bind_Inr)
  have "length rs < 2 ^ 32" using assms(2) b by simp
  from rule_wire.counted [OF rs this, of r] show ?thesis
    by (simp add: b get_policy_body_def wire_policy_of_def)
qed

interpretation policy_wire: wire sized_block get_policy wire_policy_of
proof
  fix a b r
  assume "sized_block a = Inr b" and len: "length b < 2 ^ 32"
  then obtain c where c: "policy_block a = Inr c" and b: "b = AppendTlvU32 3 (of_nat (length c)) @ c"
    by (auto simp: sized_block_def res_bind_Inr)
  have l: "length c < 2 ^ 32" using len b by simp
  with get_policy_body_put [OF c l, of "[]"] unat_of_nat_u32 [OF l] get_bytes_exact [of c "length c" r]
  show "get_policy (b @ r) = Some (wire_policy_of a, r)" by (simp add: b get_policy_def)
qed (auto simp: sized_block_def res_bind_Inr)

section \<open>The payload\<close>

lemma le_bytes_append: "le_bytes (a + b) n = le_bytes a n @ le_bytes b (n div 256 ^ a)"
  by (induction a arbitrary: n) (simp_all add: div_mult2_eq)

lemma le_bytes_mod: "le_bytes k (n mod 256 ^ k) = le_bytes k n"
proof (induction k arbitrary: n)
  case (Suc k)
  have "n mod 256 ^ Suc k div 256 = n div 256 mod 256 ^ k" by (simp add: mod_mult2_eq)
  moreover have "n mod 256 ^ Suc k mod 256 = n mod 256" by (simp add: mod_mult2_eq)
  ultimately show ?case using Suc [of "n div 256"] by simp
qed simp

lemma AppendU64LE_put: "AppendU64LE v = put_u64 v"
proof -
  have "unat (drop_bit 32 v) = unat v div 2 ^ 32" by (simp only: unat_drop_bit_eq) (simp add: drop_bit_eq_div)
  then have "unat (ucast v :: u32) = unat v mod 256 ^ 4" "unat (ucast (drop_bit 32 v) :: u32) = unat v div 256 ^ 4 mod 256 ^ 4"
    by (simp_all add: unsigned_ucast_eq take_bit_eq_mod)
  moreover have "le_bytes 8 (unat v) = le_bytes 4 (unat v) @ le_bytes 4 (unat v div 256 ^ 4)"
    using le_bytes_append [of 4 4 "unat v"] by simp
  ultimately show ?thesis
    using le_bytes_mod [of 4 "unat v"] le_bytes_mod [of 4 "unat v div 256 ^ 4"]
    by (simp add: AppendU64LE_def AppendU32LE_put put_u32_def put_u64_def)
qed

text \<open>C26: A policy that is handed to the kernel can be read back: following the tags, lengths and counts of the
  payload gives exactly the scope, the policies and their rules in order, each path rule as its descriptor followed
  by its path or its pattern's tail, and nothing is left over. The size in the header is the size of the payload,
  which is within the kernel's limit; the counts and the size of each policy never wrap.\<close>

theorem BuildAlPolicyContext_kernel_reads:
  assumes "BuildAlPolicyContext tlv = Inr context"
  shows "kernel_read (pa_data context) = Some (scope_bytes (tlv_scope tlv), map wire_policy_of (tlv_policies tlv)) \<and>
    unat (pa_size context) = length (pa_data context) \<and> length (pa_data context) \<le> DEC_POLICY_TLV_MAX_SIZE"
proof -
  obtain bs where bs: "append_all sized_block (tlv_policies tlv) = Inr bs"
    and d: "pa_data context = AppendScopeBlock (tlv_scope tlv) @ AppendTlvU32 2 (of_nat (length (tlv_policies tlv))) @ bs"
    and n: "length (pa_data context) \<le> DEC_POLICY_TLV_MAX_SIZE" "pa_size context = of_nat (length (pa_data context))"
    using assms by (auto simp: BuildAlPolicyContext_def Serialize_def res_bind_Inr split: if_splits)
  have scope: "AppendScopeBlock (tlv_scope tlv) = AppendTlvBytes 1 (scope_bytes (tlv_scope tlv))"
    by (simp add: AppendScopeBlock_def scope_bytes_def AppendU32LE_put AppendU64LE_put)
  have sb: "length (scope_bytes (tlv_scope tlv)) < 2 ^ 32" by (simp add: scope_bytes_def put_u32_def put_u64_def)
  have "length bs \<le> length (pa_data context)" unfolding d by simp
  with n(1) have "length bs < 2 ^ 32" by simp
  with policy_wire.counted [OF bs, of "[]"]
  have many: "get_many get_policy (unat (of_nat (length (tlv_policies tlv)) :: u32)) bs = Some (map wire_policy_of (tlv_policies tlv), [])"
    by (simp only: append_Nil2)
  have "kernel_read (pa_data context) = Some (scope_bytes (tlv_scope tlv), map wire_policy_of (tlv_policies tlv))"
    unfolding kernel_read_def d scope get_tlv_bytes_put [OF sb] option.case prod.case get_tlv_u32_put many by simp
  moreover have "length (pa_data context) < 2 ^ 32" using n(1) by simp
  then have "unat (pa_size context) = length (pa_data context)" unfolding n(2) by (rule unat_of_nat_u32)
  ultimately show ?thesis using n(1) by blast
qed

text \<open>A file policy that denies reading one file and asks for a pattern.\<close>

definition two_rules :: SandboxPolicyTlv where
  "two_rules = new_Tlv\<lparr>tlv_policies := [\<lparr>tp_operationType = 1, tp_defaultAction = 0, tp_askTimeoutDefaultAction = 0,
     tp_rules =
       [\<lparr>ru_action = 1, ru_eventType = 5, ru_subjectRules = [], ru_objectRules =
           [[new_FilterRule\<lparr>fr_cmpType := DEC_POLICY_CMP_EQ, fr_itemType := DEC_POLICY_ITEM_TYPE_PATH, fr_path := ''/a''\<rparr>]]\<rparr>,
        \<lparr>ru_action = 2, ru_eventType = 5, ru_subjectRules = [], ru_objectRules =
           [[new_FilterRule\<lparr>fr_cmpType := DEC_POLICY_CMP_SUFFIX, fr_itemType := DEC_POLICY_ITEM_TYPE_PATH,
             fr_path := ''/b'', fr_pathSuffix := ''.c''\<rparr>]]\<rparr>]\<rparr>]\<rparr>"

lemma AppendTlv_length: "length (AppendTlvU32 t v) = 12" "length (AppendTlvBytes t b) = 8 + length b"
  by (simp_all add: AppendTlvU32_def AppendTlvBytes_def)

lemma two_rules_built: "\<exists>context. BuildAlPolicyContext two_rules = Inr context"
  by (simp add: two_rules_def new_Tlv_def new_FilterRule_def BuildAlPolicyContext_def Serialize_def sized_block_def
      policy_block_def AppendRuleBlock_def AppendRuleEntitySection_def AppendEntityRules_def AppendFilterRuleEntities_def
      AppendFilterRuleBlock_def IsCmpTypeAllowed_def item_bytes_def AppendScopeBlock_def AppendU64LE_def
      AppendTlv_length res_bind_def)

text \<open>What is read back of the first rule is its descriptor and its path, of the second its descriptor and its tail.\<close>

theorem BuildAlPolicyContext_kernel_reads_witness:
  "\<exists>context. BuildAlPolicyContext two_rules = Inr context \<and>
     map_option snd (kernel_read (pa_data context)) =
     Some [(1, 0, 0,
       [(1, 5, [], [(0, 3, put_u32 (- 1)), (0, 1, ''/a'' @ [CHR 0x00])]),
        (2, 5, [], [(0, 3, put_u32 (- 1)), (3, 1, ''.c'' @ [CHR 0x00])])])]"
proof -
  obtain arg where c: "BuildAlPolicyContext two_rules = Inr arg" using two_rules_built by blast
  moreover have "map wire_policy_of (tlv_policies two_rules) =
     [(1, 0, 0,
       [(1, 5, [], [(0, 3, put_u32 (- 1)), (0, 1, ''/a'' @ [CHR 0x00])]),
        (2, 5, [], [(0, 3, put_u32 (- 1)), (3, 1, ''.c'' @ [CHR 0x00])])])]"
    by (simp add: two_rules_def new_Tlv_def new_FilterRule_def wire_policy_of_def wire_rule_of_def wire_section_def wire_blocks_def)
  ultimately show ?thesis using BuildAlPolicyContext_kernel_reads [OF c] by simp
qed

end
