(* ===== verification/Convert_Spec.thy ===== *)
theory Convert_Spec
  imports Claw_Convert
begin

text \<open>
  Which file policies are accepted, and what an accepted one becomes: the conflict check against its definition on the
  set of entries, and the rules against a map over the entries in the order deny, allow, ask.
\<close>

section \<open>The conflict check\<close>

text \<open>The keys an operation's entries claim, each with its action.\<close>

definition claimed :: "lstat \<Rightarrow> string \<Rightarrow> u32 \<Rightarrow> (string \<times> u32) list \<Rightarrow> (string \<times> u32) set" where
  "claimed lstat opLabel itemType objs =
     {(opLabel @ '':'' @ ObjectIdentity lstat obj itemType, action) | obj action.
        (obj, action) \<in> set objs \<and> ObjectIdentity lstat obj itemType \<noteq> []}"

lemma claimed_Nil [simp]: "claimed lstat opLabel itemType [] = {}"
  by (simp add: claimed_def)

lemma claimed_Cons:
  "claimed lstat l t ((obj, action) # objs) =
     (if ObjectIdentity lstat obj t = [] then claimed lstat l t objs
      else insert (l @ '':'' @ ObjectIdentity lstat obj t, action) (claimed lstat l t objs))"
  by (auto simp: claimed_def)

definition consistent_with :: "(string \<rightharpoonup> u32) \<Rightarrow> (string \<times> u32) set \<Rightarrow> bool" where
  "consistent_with m S \<longleftrightarrow>
     (\<forall>k a. (k, a) \<in> S \<longrightarrow> (m k = None \<or> m k = Some a) \<and> (\<forall>b. (k, b) \<in> S \<longrightarrow> b = a))"

lemma consistent_with_insert:
  "consistent_with m (insert (k, a) S) \<longleftrightarrow> (m k = None \<or> m k = Some a) \<and> consistent_with (m(k \<mapsto> a)) S"
  (is "?l \<longleftrightarrow> ?m \<and> ?r")
proof
  assume l: ?l
  then have "c = k \<Longrightarrow> (c, b) \<in> S \<Longrightarrow> b = a" for c b by (simp add: consistent_with_def)
  with l show "?m \<and> ?r" by (simp add: consistent_with_def)
next
  assume r: "?m \<and> ?r"
  then have S: "((m(k \<mapsto> a)) c = None \<or> (m(k \<mapsto> a)) c = Some b) \<and> (\<forall>d. (c, d) \<in> S \<longrightarrow> d = b)" if "(c, b) \<in> S" for c b
    using that unfolding consistent_with_def by blast
  have k: "b = a" if "(k, b) \<in> S" for b using S [OF that] by simp
  have same: "b = a" if "(c, b) \<in> insert (k, a) S" "c = k" for c b
    using that(1) unfolding that(2) by (blast intro: k)
  show ?l
    unfolding consistent_with_def
  proof (intro allI impI conjI)
    fix c b assume cb: "(c, b) \<in> insert (k, a) S"
    show "m c = None \<or> m c = Some b"
    proof (cases "c = k")
      case True
      have "b = a" by (rule same [OF cb True])
      moreover from r have "m k = None \<or> m k = Some a" by (rule conjunct1)
      ultimately show ?thesis unfolding True by blast
    next
      case False
      with cb have "(c, b) \<in> S" by simp
      with False S [OF this, THEN conjunct1] show ?thesis by simp
    qed
    fix d assume cd: "(c, d) \<in> insert (k, a) S"
    show "d = b"
    proof (cases "c = k")
      case True
      have "b = a" "d = a" by (rule same [OF cb True], rule same [OF cd True])
      then show ?thesis by simp
    next
      case False
      with cb cd have "(c, b) \<in> S" "(c, d) \<in> S" by simp_all
      then show ?thesis using S by blast
    qed
  qed
qed

lemma conflict_loop_conflicted [simp]: "fst (conflict_loop lstat l t objs m errors True)"
  by (induction objs arbitrary: m errors) (auto simp: Let_def split: option.split)

lemma conflict_loop_iff:
  "\<not> fst (conflict_loop lstat l t objs m errors False) \<longleftrightarrow> consistent_with m (claimed lstat l t objs)"
proof (induction objs arbitrary: m errors)
  case Nil
  show ?case by (simp add: consistent_with_def)
next
  case (Cons x objs)
  obtain obj action where x: "x = (obj, action)" by (cases x)
  show ?case
    by (cases "m (l @ '':'' @ ObjectIdentity lstat obj t)") (simp_all add: x Cons.IH claimed_Cons consistent_with_insert Let_def fun_upd_def)
qed

lemma conflict_loop_errors:
  "\<not> fst (conflict_loop lstat l t objs m errors False) \<Longrightarrow> snd (snd (conflict_loop lstat l t objs m errors False)) = errors"
  by (induction objs arbitrary: m errors) (auto simp: Let_def split: option.splits if_splits)

text \<open>An operation touches the keys of its own label only.\<close>

lemma conflict_loop_other:
  "(\<And>y. k \<noteq> l @ '':'' @ y) \<Longrightarrow> fst (snd (conflict_loop lstat l t objs m errors c)) k = m k"
  by (induction lstat l t objs m errors c rule: conflict_loop.induct) (auto simp: Let_def split: option.split)

definition unclaimed :: "(string \<rightharpoonup> u32) \<Rightarrow> string \<Rightarrow> bool" where
  "unclaimed m opLabel \<longleftrightarrow> (\<forall>y. m (opLabel @ '':'' @ y) = None)"

lemma unclaimed_after:
  assumes "unclaimed m l'" "\<And>x y. l @ '':'' @ x \<noteq> l' @ '':'' @ y"
  shows "unclaimed (fst (snd (conflict_loop lstat l t objs m errors c))) l'"
  unfolding unclaimed_def
proof
  fix y
  have "fst (snd (conflict_loop lstat l t objs m errors c)) (l' @ '':'' @ y) = m (l' @ '':'' @ y)"
    by (rule conflict_loop_other) (rule assms(2) [symmetric])
  with assms(1) show "fst (snd (conflict_loop lstat l t objs m errors c)) (l' @ '':'' @ y) = None"
    by (simp add: unclaimed_def)
qed

text \<open>No object under two actions, said of the entries.\<close>

definition one_action_each :: "lstat \<Rightarrow> (string \<times> u32) list \<Rightarrow> bool" where
  "one_action_each lstat objs \<longleftrightarrow>
     (\<forall>(o1, a1) \<in> set objs. \<forall>(o2, a2) \<in> set objs.
        ObjectIdentity lstat o1 DEC_POLICY_ITEM_TYPE_PATH = ObjectIdentity lstat o2 DEC_POLICY_ITEM_TYPE_PATH \<and>
        ObjectIdentity lstat o1 DEC_POLICY_ITEM_TYPE_PATH \<noteq> [] \<longrightarrow> a1 = a2)"

lemma consistent_unclaimed:
  "unclaimed m l \<Longrightarrow> consistent_with m (claimed lstat l DEC_POLICY_ITEM_TYPE_PATH objs) \<longleftrightarrow> one_action_each lstat objs"
  unfolding consistent_with_def one_action_each_def claimed_def unclaimed_def by fastforce

section \<open>The rules\<close>

definition legal_entry :: "string \<Rightarrow> bool" where
  "legal_entry path \<longleftrightarrow> (IsWildcardPattern path \<longrightarrow> \<not> isl (ParseFilePattern path))"

text \<open>The rule of an entry: the path as it is, or the directory and the tail of its pattern.\<close>

definition entry_rule :: "u32 \<Rightarrow> string \<times> u32 \<Rightarrow> Rule" where
  "entry_rule eventType = (\<lambda>(path, action).
     new_Rule\<lparr>ru_action := action, ru_eventType := eventType, ru_objectRules := [[
       if IsWildcardPattern path
       then new_FilterRule\<lparr>fr_itemType := DEC_POLICY_ITEM_TYPE_PATH, fr_cmpType := DEC_POLICY_CMP_SUFFIX,
         fr_path := fp_prefix (projr (ParseFilePattern path)), fr_pathSuffix := fp_suffix (projr (ParseFilePattern path))\<rparr>
       else new_FilterRule\<lparr>fr_itemType := DEC_POLICY_ITEM_TYPE_PATH, fr_cmpType := DEC_POLICY_CMP_EQ, fr_path := path\<rparr>]]\<rparr>)"

lemma BuildFileRuleObject_legal:
  "(\<exists>r. BuildFileRuleObject path ev = Inr r) \<longleftrightarrow> legal_entry path"
  by (auto simp: BuildFileRuleObject_def legal_entry_def Let_def split: sum.splits)

lemma BuildFileRuleObject_entry:
  "BuildFileRuleObject path ev = Inr r \<Longrightarrow> add_rule a ev r p = p\<lparr>tp_rules := tp_rules p @ [entry_rule ev (path, a)]\<rparr>"
  by (auto simp: BuildFileRuleObject_def add_rule_def entry_rule_def Let_def split: sum.splits if_splits)

lemma ConvertFileRules_loop_failed [simp]: "fst (ConvertFileRules_loop paths a ev p errors True)"
  by (induction paths arbitrary: p errors) (auto split: sum.split)

lemma ConvertFileRules_loop_iff:
  "\<not> fst (ConvertFileRules_loop paths a ev p errors False) \<longleftrightarrow> (\<forall>path \<in> set paths. legal_entry path)"
proof (induction paths arbitrary: p errors)
  case (Cons path paths)
  then show ?case using BuildFileRuleObject_legal [of path ev] by (auto split: sum.split)
qed simp

lemma ConvertFileRules_loop_rules:
  "\<forall>path \<in> set paths. legal_entry path \<Longrightarrow>
   ConvertFileRules_loop paths a ev p errors False =
     (False, p\<lparr>tp_rules := tp_rules p @ map (\<lambda>path. entry_rule ev (path, a)) paths\<rparr>, errors)"
proof (induction paths arbitrary: p)
  case (Cons path paths)
  then obtain r where r: "BuildFileRuleObject path ev = Inr r" using BuildFileRuleObject_legal [of path ev] by auto
  with Cons show ?case by (simp add: BuildFileRuleObject_entry [OF r])
qed simp

lemma ConvertFileRulesToTlv_fails:
  "\<not> (\<forall>path \<in> set paths. legal_entry path) \<Longrightarrow> fst (ConvertFileRulesToTlv paths a ev p errors) = SANDBOX_ERR_CONFIG_INVALID"
  using ConvertFileRules_loop_iff [of paths a ev p errors]
  by (cases "ConvertFileRules_loop paths a ev p errors False") (simp add: ConvertFileRulesToTlv_def)

lemma ConvertFileRulesToTlv_succeeds:
  "\<forall>path \<in> set paths. legal_entry path \<Longrightarrow> ConvertFileRulesToTlv paths a ev p errors =
     (SANDBOX_SUCCESS, p\<lparr>tp_rules := tp_rules p @ map (\<lambda>path. entry_rule ev (path, a)) paths\<rparr>, errors)"
  by (simp add: ConvertFileRulesToTlv_def ConvertFileRules_loop_rules)

section \<open>One operation\<close>

definition operation_ok :: "lstat \<Rightarrow> (string \<times> u32) list \<Rightarrow> bool" where
  "operation_ok lstat objs \<longleftrightarrow> one_action_each lstat objs \<and> (\<forall>(path, _) \<in> set objs. legal_entry path)"

lemma ValidateOperationActionConflict_iff:
  assumes "unclaimed m l"
  shows "fst (ValidateOperationActionConflict lstat l DEC_POLICY_ITEM_TYPE_PATH d a k m errors) =
    (if one_action_each lstat (operation_objects d a k) then SANDBOX_SUCCESS else SANDBOX_ERR_CONFIG_INVALID)"
  using conflict_loop_iff [of lstat l DEC_POLICY_ITEM_TYPE_PATH "operation_objects d a k" m errors] consistent_unclaimed [OF assms]
  by (auto simp: ValidateOperationActionConflict_def split: prod.splits)


text \<open>The loop over the table: every operation's label is unclaimed when its turn comes.\<close>

lemma ConvertFileOperationToTlv_fails:
  assumes "unclaimed m (PolicyFileNameOfEvent ev)" "\<not> operation_ok lstat (operation_objects d a k)"
  shows "fst (ConvertFileOperationToTlv lstat ev d a k p m errors) \<noteq> SANDBOX_SUCCESS"
proof (cases "one_action_each lstat (operation_objects d a k)")
  case False
  with ValidateOperationActionConflict_iff [OF assms(1), of lstat d a k errors] show ?thesis
    by (auto simp: ConvertFileOperationToTlv_def split: prod.splits)
next
  case True
  with assms(2) have "\<not> (\<forall>path \<in> set d. legal_entry path) \<or> \<not> (\<forall>path \<in> set a. legal_entry path) \<or> \<not> (\<forall>path \<in> set k. legal_entry path)"
    by (auto simp: operation_ok_def operation_objects_def)
  then show ?thesis
    using ConvertFileRulesToTlv_fails [of d] ConvertFileRulesToTlv_fails [of a] ConvertFileRulesToTlv_fails [of k]
    by (auto simp: ConvertFileOperationToTlv_def Let_def split: prod.split) (metis fst_conv zero_neq_neg_numeral)+
qed

lemma ConvertFileOperationToTlv_succeeds:
  assumes "unclaimed m (PolicyFileNameOfEvent ev)" "operation_ok lstat (operation_objects d a k)"
  shows "\<exists>m'. ConvertFileOperationToTlv lstat ev d a k p m errors =
      (SANDBOX_SUCCESS, p\<lparr>tp_rules := tp_rules p @ map (entry_rule ev) (operation_objects d a k)\<rparr>, m', errors) \<and>
    m' = fst (snd (conflict_loop lstat (PolicyFileNameOfEvent ev) DEC_POLICY_ITEM_TYPE_PATH (operation_objects d a k) m errors False))"
proof -
  let ?loop = "conflict_loop lstat (PolicyFileNameOfEvent ev) DEC_POLICY_ITEM_TYPE_PATH (operation_objects d a k) m errors False"
  from assms(2) have one: "one_action_each lstat (operation_objects d a k)"
    and legal: "\<forall>path \<in> set d. legal_entry path" "\<forall>path \<in> set a. legal_entry path" "\<forall>path \<in> set k. legal_entry path"
    by (auto simp: operation_ok_def operation_objects_def)
  from one have "\<not> fst ?loop" using conflict_loop_iff consistent_unclaimed [OF assms(1)] by blast
  then obtain m' where loop: "?loop = (False, m', errors)" using conflict_loop_errors by (metis prod.collapse)
  then have "ValidateOperationActionConflict lstat (PolicyFileNameOfEvent ev) DEC_POLICY_ITEM_TYPE_PATH d a k m errors =
      (SANDBOX_SUCCESS, m', errors)"
    by (simp add: ValidateOperationActionConflict_def)
  then show ?thesis
    by (simp add: loop loop [unfolded operation_objects_def] ConvertFileOperationToTlv_def ConvertFileRulesToTlv_succeeds legal operation_objects_def comp_def)
qed

section \<open>All operations\<close>

type_synonym operation = "u32 \<times> string list \<times> string list \<times> string list"

definition objects_of :: "operation \<Rightarrow> (string \<times> u32) list" where
  "objects_of = (\<lambda>(ev, deny, allow, ask). operation_objects deny allow ask)"

definition rules_of :: "operation \<Rightarrow> Rule list" where
  "rules_of op = map (entry_rule (fst op)) (objects_of op)"

definition apart :: "u32 \<Rightarrow> u32 \<Rightarrow> bool" where
  "apart ev ev' \<longleftrightarrow> (\<forall>x y. PolicyFileNameOfEvent ev @ '':'' @ x \<noteq> PolicyFileNameOfEvent ev' @ '':'' @ y)"

lemma ConvertFileOperations_iff:
  assumes "\<forall>op \<in> set ops. unclaimed m (PolicyFileNameOfEvent (fst op))" "sorted_wrt (\<lambda>o1 o2. apart (fst o1) (fst o2)) ops"
  shows "fst (ConvertFileOperations lstat ops p m errors) = SANDBOX_SUCCESS \<longleftrightarrow> (\<forall>op \<in> set ops. operation_ok lstat (objects_of op))"
    and "(\<forall>op \<in> set ops. operation_ok lstat (objects_of op)) \<Longrightarrow> ConvertFileOperations lstat ops p m errors =
      (SANDBOX_SUCCESS, p\<lparr>tp_rules := tp_rules p @ concat (map rules_of ops)\<rparr>, errors)"
  using assms
proof (induction ops arbitrary: p m)
  case Nil
  { case 1 show ?case by simp }
  { case 2 show ?case by simp }
next
  case (Cons op ops)
  obtain ev d a k where op: "op = (ev, d, a, k)" by (cases op)
  have after: "\<forall>op \<in> set ops. unclaimed (fst (snd (conflict_loop lstat (PolicyFileNameOfEvent ev) 1 (operation_objects d a k) m errors False)))
      (PolicyFileNameOfEvent (fst op))"
    if "\<forall>op \<in> set (op # ops). unclaimed m (PolicyFileNameOfEvent (fst op))" "sorted_wrt (\<lambda>o1 o2. apart (fst o1) (fst o2)) (op # ops)"
    for m :: "string \<rightharpoonup> u32"
  proof
    fix op' assume "op' \<in> set ops"
    with that show "unclaimed (fst (snd (conflict_loop lstat (PolicyFileNameOfEvent ev) 1 (operation_objects d a k) m errors False)))
        (PolicyFileNameOfEvent (fst op'))"
      by (intro unclaimed_after) (auto simp: apart_def op)
  qed
  { case 1
    have m: "unclaimed m (PolicyFileNameOfEvent ev)" using 1 by (simp add: op)
    show ?case
    proof (cases "operation_ok lstat (operation_objects d a k)")
      case False
      with ConvertFileOperationToTlv_fails [OF m False, of p errors] show ?thesis
        by (auto simp: op objects_of_def split: prod.split)
    next
      case True
      from ConvertFileOperationToTlv_succeeds [OF m True, of p errors] Cons.IH(1) [OF after [OF 1]] 1(2) True
      show ?thesis by (auto simp: op objects_of_def)
    qed }
  { case 2
    have m: "unclaimed m (PolicyFileNameOfEvent ev)" using 2 by (simp add: op)
    have ok: "operation_ok lstat (operation_objects d a k)" "\<forall>op \<in> set ops. operation_ok lstat (objects_of op)"
      using 2(1) by (simp_all add: op objects_of_def)
    from ConvertFileOperationToTlv_succeeds [OF m ok(1), of p errors] Cons.IH(2) [OF ok(2) after [OF 2(2,3)]] 2(3)
    show ?case by (auto simp: op objects_of_def rules_of_def) }
qed

lemma file_operations_apart:
  "sorted_wrt (\<lambda>o1 o2. apart (fst o1) (fst o2)) (file_operations f)"
  by (simp add: file_operations_def apart_def PolicyFileNameOfEvent_def)

text \<open>C27: A file policy is accepted exactly when, in every operation, no object (judged by the inode its path leads to
  and the tail of its pattern) stands under two actions and every wildcard entry is a legal pattern. An accepted policy
  has one rule per entry, in the order read, write, delete and within each deny, allow, ask, and reports no error.\<close>

theorem ConvertFileRuleGroupToTlv_accepts:
  "(fst (ConvertFileRuleGroupToTlv lstat f policy errors) = SANDBOX_SUCCESS \<longleftrightarrow>
      (\<forall>op \<in> set (file_operations f). operation_ok lstat (objects_of op))) \<and>
   ((\<forall>op \<in> set (file_operations f). operation_ok lstat (objects_of op)) \<longrightarrow>
      ConvertFileRuleGroupToTlv lstat f policy errors =
        (SANDBOX_SUCCESS, policy\<lparr>tp_operationType := DEC_POLICY_OP_TYPE_FILE, tp_defaultAction := fc_defaultAction f,
           tp_rules := tp_rules policy @ concat (map rules_of (file_operations f))\<rparr>, errors))"
proof -
  have "\<forall>op \<in> set (file_operations f). unclaimed Map.empty (PolicyFileNameOfEvent (fst op))" by (simp add: unclaimed_def)
  from ConvertFileOperations_iff [OF this file_operations_apart] show ?thesis
    by (simp add: ConvertFileRuleGroupToTlv_def)
qed

text \<open>Two spellings of one file, denied and allowed; the world knows the inode.\<close>

definition two_spellings :: FileConfig where
  "two_spellings = \<lparr>fc_defaultAction = DEC_POLICY_ACTION_NONE, fc_denyReadData = [''/a/x'', ''/b/**/*.c''],
     fc_allowReadData = [], fc_askReadData = [], fc_denyWriteData = [], fc_allowWriteData = [''/a/./x''], fc_askWriteData = [],
     fc_denyDelete = [], fc_allowDelete = [], fc_askDelete = []\<rparr>"

definition one_inode :: lstat where
  "one_inode p = (if p = ''/a/x'' \<or> p = ''/a/./x'' then Some (1, 2) else None)"

theorem ConvertFileRuleGroupToTlv_accepts_witness:
  "map (\<lambda>r. (ru_action r, ru_eventType r, map (map (\<lambda>fr. (fr_cmpType fr, fr_path fr, fr_pathSuffix fr))) (ru_objectRules r)))
     (tp_rules (fst (snd (ConvertFileRuleGroupToTlv one_inode two_spellings new_TlvPolicy [])))) =
     [(1, 0x5, [[(0, ''/a/x'', [])]]), (1, 0x5, [[(3, ''/b/'', ''.c'')]]), (0, 0x7A, [[(0, ''/a/./x'', [])]])] \<and>
   fst (ConvertFileRuleGroupToTlv one_inode (two_spellings\<lparr>fc_askReadData := [''/a/./x'']\<rparr>) new_TlvPolicy []) \<noteq> SANDBOX_SUCCESS"
proof -
  have wild: "ParseFilePattern ''/b/**/*.c'' = Inr \<lparr>fp_prefix = ''/b/'', fp_suffix = ''.c''\<rparr>" "IsWildcardPattern ''/b/**/*.c''"
    "\<not> IsWildcardPattern ''/a/x''" "\<not> IsWildcardPattern ''/a/./x''" by code_simp+
  have ok: "\<forall>op \<in> set (file_operations two_spellings). operation_ok one_inode (objects_of op)"
    by code_simp
  have bad: "\<not> (\<forall>op \<in> set (file_operations (two_spellings\<lparr>fc_askReadData := [''/a/./x'']\<rparr>)). operation_ok one_inode (objects_of op))"
    by code_simp
  have "tp_rules (fst (snd (ConvertFileRuleGroupToTlv one_inode two_spellings new_TlvPolicy []))) =
      concat (map rules_of (file_operations two_spellings))"
    using ConvertFileRuleGroupToTlv_accepts [of one_inode two_spellings new_TlvPolicy "[]"] ok by (simp add: new_TlvPolicy_def)
  moreover have "fst (ConvertFileRuleGroupToTlv one_inode (two_spellings\<lparr>fc_askReadData := [''/a/./x'']\<rparr>) new_TlvPolicy []) \<noteq> SANDBOX_SUCCESS"
    using ConvertFileRuleGroupToTlv_accepts [of one_inode "two_spellings\<lparr>fc_askReadData := [''/a/./x'']\<rparr>" new_TlvPolicy "[]"] bad by blast
  ultimately show ?thesis
    by (simp add: rules_of_def objects_of_def file_operations_def two_spellings_def operation_objects_def entry_rule_def wild
        new_Rule_def new_FilterRule_def)
qed

end
