(* ===== verification/Socket_Spec.thy ===== *)
theory Socket_Spec
  imports Claw_Socket
begin

text \<open>
  The framed protocol: however the kernel cuts a stream, the same messages come out; what has been queued leaves in
  order and complete; so the receiver of a stream gets the messages its sender has queued.
\<close>

section \<open>One byte at a time\<close>

definition consume :: "sock \<Rightarrow> string \<Rightarrow> ReadStep \<times> sock \<times> ParsedMessage list" where
  "consume sk s = (case sk_readState sk of
       SOCKET_STATE_READING_HEADER \<Rightarrow> take_header s sk
     | SOCKET_STATE_READING_BODY \<Rightarrow> take_body s sk
     | SOCKET_STATE_DISCARDING_BODY \<Rightarrow> drop_body s sk)"

definition wanted :: "sock \<Rightarrow> nat" where
  "wanted sk = (case sk_readState sk of
       SOCKET_STATE_READING_HEADER \<Rightarrow> SOCKET_HEADER_LENGTH - length (sk_header sk)
     | SOCKET_STATE_READING_BODY \<Rightarrow> unat (mh_bodyLength (header_of (sk_header sk))) - length (sk_body sk)
     | SOCKET_STATE_DISCARDING_BODY \<Rightarrow> sk_discard sk)"

lemma consume_cut:
  assumes "0 < length a" "0 < length b" "length a + length b \<le> wanted sk"
  shows "\<exists>sk'. consume sk a = (PROGRESSED, sk', []) \<and> consume sk' b = consume sk (a @ b) \<and> wanted sk' = wanted sk - length a"
proof (cases "sk_readState sk")
  case SOCKET_STATE_READING_HEADER
  with assms have "length (sk_header sk) + length a < SOCKET_HEADER_LENGTH"
    by (simp add: wanted_def del: length_greater_0_conv)
  with SOCKET_STATE_READING_HEADER show ?thesis by (simp add: consume_def take_header_def wanted_def)
next
  case SOCKET_STATE_READING_BODY
  with assms have "length (sk_body sk) + length a < unat (mh_bodyLength (header_of (sk_header sk)))"
    by (simp add: wanted_def del: length_greater_0_conv)
  with SOCKET_STATE_READING_BODY show ?thesis by (simp add: consume_def take_body_def wanted_def Let_def)
next
  case SOCKET_STATE_DISCARDING_BODY
  with assms have "length a < sk_discard sk" by (simp add: wanted_def del: length_greater_0_conv)
  with SOCKET_STATE_DISCARDING_BODY show ?thesis by (simp add: consume_def drop_body_def wanted_def)
qed

lemma consume_ready:
  assumes "0 < length s" "length s \<le> wanted sk" "consume sk s = (step, sk', out)" "step \<noteq> FAILED"
  shows "step = PROGRESSED \<and> wanted sk' > 0"
proof (cases "sk_readState sk")
  case SOCKET_STATE_READING_HEADER
  with assms have "length (sk_header sk) + length s \<le> 40"
    by (simp add: wanted_def SOCKET_HEADER_LENGTH_def del: length_greater_0_conv)
  with SOCKET_STATE_READING_HEADER assms(3,4) show ?thesis
    by (auto simp: consume_def take_header_def wanted_def ResetReadState_def SOCKET_HEADER_LENGTH_def ValidateBodyLength_def
        unat_gt_0 Let_def simp del: length_greater_0_conv split: if_splits)
next
  case SOCKET_STATE_READING_BODY
  with assms have "length (sk_body sk) + length s \<le> unat (mh_bodyLength (header_of (sk_header sk)))"
    by (simp add: wanted_def del: length_greater_0_conv)
  with SOCKET_STATE_READING_BODY assms(3,4) show ?thesis
    by (auto simp: consume_def take_body_def wanted_def ResetReadState_def SOCKET_HEADER_LENGTH_def Let_def split: if_splits)
next
  case SOCKET_STATE_DISCARDING_BODY
  with assms show ?thesis
    by (auto simp: consume_def drop_body_def wanted_def ResetReadState_def SOCKET_HEADER_LENGTH_def Let_def split: if_splits)
qed

fun absorb :: "string \<Rightarrow> sock \<Rightarrow> ReadStep \<times> sock \<times> ParsedMessage list" where
  "absorb [] sk = (PROGRESSED, sk, [])"
| "absorb (c # cs) sk = (case consume sk [c] of (step, sk', out) \<Rightarrow>
     if step = FAILED then (FAILED, sk', out)
     else case absorb cs sk' of (step', sk'', outs) \<Rightarrow> (step', sk'', out @ outs))"

lemma absorb_append:
  "absorb (s @ t) sk = (case absorb s sk of (step, sk', out) \<Rightarrow>
     if step = FAILED then (FAILED, sk', out)
     else case absorb t sk' of (step', sk'', outs) \<Rightarrow> (step', sk'', out @ outs))"
  by (induction s arbitrary: sk) (auto split: prod.splits)

lemma absorb_failed: "absorb s sk = (FAILED, sk', out) \<Longrightarrow> sk_readError sk' \<noteq> SANDBOX_SUCCESS"
proof (induction s arbitrary: sk out)
  case (Cons c s)
  have "sk_readError sk1 \<noteq> SANDBOX_SUCCESS" if "consume sk [c] = (FAILED, sk1, out1)" for sk1 out1
    using that by (cases "sk_readState sk")
      (auto simp: consume_def take_header_def take_body_def drop_body_def Let_def split: if_splits)
  with Cons show ?case by (auto split: prod.splits if_splits)
qed simp

lemma absorb_consume: "0 < length s \<Longrightarrow> length s \<le> wanted sk \<Longrightarrow> absorb s sk = consume sk s"
proof (induction s arbitrary: sk)
  case (Cons c s)
  show ?case
  proof (cases "s = []")
    case True
    obtain step sk' out where "consume sk [c] = (step, sk', out)" by (cases "consume sk [c]")
    with True Cons.prems consume_ready [of "[c]" sk step sk' out] show ?thesis by (cases "step = FAILED") simp_all
  next
    case False
    with Cons.prems consume_cut [of "[c]" s sk] obtain sk' where
      "consume sk [c] = (PROGRESSED, sk', [])" "consume sk' s = consume sk (c # s)" "wanted sk' = wanted sk - 1"
      by auto
    with False Cons.prems Cons.IH [of sk'] show ?thesis by (simp split: prod.splits)
  qed
qed simp

text \<open>The steps of \<open>OnReadable\<close> in terms of what is wanted.\<close>

lemma reading_cong: "(\<And>s. f s sk = g s sk) \<Longrightarrow> reading n f sk script = reading n g sk script"
  by (cases "sock_read n script"; cases "fst (sock_read n script)") (simp_all add: reading_def)

lemma read_step_wanted:
  "read_step sk script = reading (if sk_readState sk = SOCKET_STATE_DISCARDING_BODY then min (wanted sk) DISCARD_CHUNK_SIZE else wanted sk)
     (\<lambda>s sk. consume sk s) sk script"
proof (cases "sk_readState sk")
  case SOCKET_STATE_READING_HEADER
  then show ?thesis
    unfolding read_step_def ProcessHeader_def wanted_def by (simp, intro reading_cong) (simp add: consume_def)
next
  case SOCKET_STATE_READING_BODY
  then show ?thesis
    unfolding read_step_def ProcessBody_def wanted_def by (simp, intro reading_cong) (simp add: consume_def)
next
  case SOCKET_STATE_DISCARDING_BODY
  then show ?thesis
    unfolding read_step_def DiscardBody_def wanted_def by (simp, intro reading_cong) (simp add: consume_def)
qed

section \<open>Segments\<close>

text \<open>A script of segments and interrupted reads, and the bytes it brings.\<close>

definition plain :: "rx list \<Rightarrow> bool" where
  "plain script \<longleftrightarrow> list_all (\<lambda>a. case a of Data _ \<Rightarrow> True | Eof \<Rightarrow> False | Errno e \<Rightarrow> e = EINTR) script"

definition arriving :: "rx list \<Rightarrow> string" where
  "arriving script = concat (map (\<lambda>a. case a of Data s \<Rightarrow> s | _ \<Rightarrow> []) script)"

lemma plain_Nil [simp]: "plain []" and arriving_Nil [simp]: "arriving [] = []"
  by (simp_all add: plain_def arriving_def)

lemma sock_read_plain:
  assumes "plain script" "n > 0"
  shows "(\<exists>s script'. sock_read n (script @ rest) = (Data s, script' @ rest) \<and> 0 < length s \<and> length s \<le> n \<and> plain script' \<and>
            arriving script = s @ arriving script') \<or>
         (\<exists>script'. sock_read n (script @ rest) = (Errno EINTR, script' @ rest) \<and> plain script' \<and> arriving script = arriving script') \<or>
         (sock_read n (script @ rest) = sock_read n rest \<and> arriving script = [])"
  using assms(1)
proof (induction script)
  case (Cons a script)
  show ?case
  proof (cases a)
    case (Data s)
    show ?thesis
    proof (cases "s = []")
      case True
      with Cons Data assms(2) show ?thesis by (simp add: plain_def arriving_def)
    next
      case False
      let ?left = "if length s \<le> n then script else Data (drop n s) # script"
      have "sock_read n ((a # script) @ rest) = (Data (take n s), ?left @ rest)" using Data False assms(2) by simp
      moreover have "plain ?left" "arriving (a # script) = take n s @ arriving ?left" "0 < length (take n s)" "length (take n s) \<le> n"
        using Cons.prems Data False assms(2) by (simp_all add: plain_def arriving_def)
      ultimately show ?thesis by blast
    qed
  next
    case Eof
    with Cons.prems show ?thesis by (simp add: plain_def)
  next
    case (Errno e)
    with Cons.prems show ?thesis by (auto simp: plain_def arriving_def)
  qed
qed simp

text \<open>Reading until the end of the segments is absorbing their bytes.\<close>

lemma OnReadable_absorbs:
  assumes "plain script" "wanted sk > 0" "absorb (arriving script) sk = (step, sk', out)"
  shows "(step = FAILED \<longrightarrow> (\<exists>rest. OnReadable sk (script @ Errno EAGAIN # later) = (sk_readError sk', sk', out, rest))) \<and>
    (step \<noteq> FAILED \<longrightarrow> OnReadable sk (script @ Errno EAGAIN # later) = (SANDBOX_SUCCESS, sk', out, later) \<and> wanted sk' > 0)"
  using assms
proof (induction "rx_weight script" arbitrary: script sk out rule: less_induct)
  case less
  let ?n = "if sk_readState sk = SOCKET_STATE_DISCARDING_BODY then min (wanted sk) DISCARD_CHUNK_SIZE else wanted sk"
  have n: "?n > 0" "?n \<le> wanted sk" using less.prems(2) by (auto simp: DISCARD_CHUNK_SIZE_def)
  note step = OnReadable.simps [of sk "script @ Errno EAGAIN # later"] read_step_wanted reading_def read_nothing_def
  consider (bytes) s script' where "sock_read ?n (script @ Errno EAGAIN # later) = (Data s, script' @ Errno EAGAIN # later)"
      "0 < length s" "length s \<le> ?n" "plain script'" "arriving script = s @ arriving script'"
    | (intr) script' where "sock_read ?n (script @ Errno EAGAIN # later) = (Errno EINTR, script' @ Errno EAGAIN # later)"
      "plain script'" "arriving script = arriving script'"
    | (empty) "sock_read ?n (script @ Errno EAGAIN # later) = (Errno EAGAIN, later)" "arriving script = []"
    using sock_read_plain [OF less.prems(1) n(1), of "Errno EAGAIN # later"] by fastforce
  then show ?case
  proof cases
    case bytes
    have weight: "rx_weight script' < rx_weight script"
      using sock_read_Data_weight [OF bytes(1)] by (simp add: rx_weight_def)
    obtain step1 sk1 out1 where c: "consume sk s = (step1, sk1, out1)" by (cases "consume sk s")
    have a: "absorb s sk = (step1, sk1, out1)" using absorb_consume [OF bytes(2)] bytes(3) n(2) c by simp
    show ?thesis
    proof (cases "step1 = FAILED")
      case True
      with less.prems(3) have "step = FAILED" "sk' = sk1" "out = out1" by (simp_all add: bytes(5) absorb_append a)
      with True c bytes(1) show ?thesis by (simp add: step)
    next
      case False
      with consume_ready [OF bytes(2) _ c] bytes(3) n(2) have p: "step1 = PROGRESSED" "wanted sk1 > 0" by auto
      obtain step2 sk2 out2 where a2: "absorb (arriving script') sk1 = (step2, sk2, out2)" by (cases "absorb (arriving script') sk1")
      with less.prems(3) p have eq: "step2 = step" "sk2 = sk'" "out = out1 @ out2" by (simp_all add: bytes(5) absorb_append a)
      from less.hyps [OF weight bytes(4) p(2) a2 [unfolded eq]] eq c bytes(1) p show ?thesis
        by (auto simp: step)
    qed
  next
    case intr
    have weight: "rx_weight script' < rx_weight script"
      using sock_read_Errno_weight [OF intr(1)] by (simp add: rx_weight_def)
    from less.hyps [OF weight intr(2) less.prems(2) less.prems(3) [unfolded intr(3)]] intr(1) show ?thesis
      by (auto simp: step)
  next
    case empty
    from less.prems(3) have "step = PROGRESSED" "sk' = sk" "out = []" by (simp_all add: empty(2))
    with empty(1) less.prems(2) show ?thesis by (simp add: step)
  qed
qed

section \<open>A frame\<close>

lemma put_u32_length4: "length (put_u32 w) = 4"
  by (simp add: put_u32_def)

lemma u32_at_put: "u32_at (length p) (p @ put_u32 w @ r) = w"
  using unsigned_less [of w, where ?'a = nat] by (simp add: u32_at_def put_u32_def le_value_bytes)

lemma header_of_bytes:
  "header_of (header_bytes h) = h\<lparr>mh_result := sint (word_of_int (mh_result h) :: u32)\<rparr>"
proof -
  let ?p = "\<lambda>ws. concat (map put_u32 ws)"
  let ?all = "[mh_magic h, mh_version h, mh_bodyLength h, mh_msgType h, mh_requestId h, word_of_int (mh_result h)]"
  have bytes: "header_bytes h = ?p ?all @ mh_reserved h" by (simp add: header_bytes_def)
  have len: "length (?p ws) = 4 * length ws" for ws by (induction ws) (simp_all add: put_u32_length4)
  have at: "u32_at (4 * length xs) (header_bytes h) = w" if "?all = xs @ w # ys" for xs w ys
    using u32_at_put [of "?p xs" w "?p ys @ mh_reserved h"] len [of xs] by (simp add: bytes that)
  from at [of "[]"] at [of "[_]"] at [of "[_, _]"] at [of "[_, _, _]"] at [of "[_, _, _, _]"] at [of "[_, _, _, _, _]"]
  have "u32_at 0 (header_bytes h) = mh_magic h" "u32_at 4 (header_bytes h) = mh_version h"
    "u32_at 8 (header_bytes h) = mh_bodyLength h" "u32_at 12 (header_bytes h) = mh_msgType h"
    "u32_at 16 (header_bytes h) = mh_requestId h" "u32_at 20 (header_bytes h) = word_of_int (mh_result h)"
    by simp_all
  moreover have "drop 24 (header_bytes h) = mh_reserved h" using len [of ?all] by (simp add: bytes)
  ultimately show ?thesis by (simp add: header_of_def)
qed

text \<open>A message, its frame, and what its receiver is told.\<close>

record message =
  me_type :: u32
  me_body :: string
  me_requestId :: u32
  me_result :: int

definition frame_of :: "message \<Rightarrow> string" where
  "frame_of m = frame (me_type m) (me_body m) (me_requestId m) (me_result m)"

definition received :: "message \<Rightarrow> ParsedMessage" where
  "received m =
     (let fits = length (me_body m) \<le> MaxBodyLengthForType (me_type m)
      in \<lparr>pm_header = \<lparr>mh_magic = SANDBOX_SOCKET_MAGIC, mh_version = SANDBOX_SOCKET_VERSION,
            mh_bodyLength = of_nat (length (me_body m)), mh_msgType = me_type m, mh_requestId = me_requestId m,
            mh_result = sint (word_of_int (me_result m) :: u32), mh_reserved = replicate 16 (CHR 0x00)\<rparr>,
          pm_body = (if fits then me_body m else []),
          pm_rejectReason = (if fits then SANDBOX_SUCCESS else SANDBOX_ERR_SOCKET_MSG_TOO_LARGE)\<rparr>)"

definition idle :: "sock \<Rightarrow> bool" where
  "idle sk \<longleftrightarrow> sk_readState sk = SOCKET_STATE_READING_HEADER \<and> sk_header sk = [] \<and> sk_body sk = [] \<and> sk_discard sk = 0"

lemma idle_wanted: "idle sk \<Longrightarrow> wanted sk > 0"
  by (simp add: idle_def wanted_def SOCKET_HEADER_LENGTH_def)

lemma idle_reset [simp]: "idle (ResetReadState sk)"
  by (simp add: idle_def ResetReadState_def)

lemma absorb_frame:
  assumes "idle sk" "length (me_body m) \<le> MAX_BODY_LENGTH"
  shows "\<exists>sk'. absorb (frame_of m) sk = (PROGRESSED, sk', [received m]) \<and> idle sk'"
proof -
  define h where "h = \<lparr>mh_magic = SANDBOX_SOCKET_MAGIC, mh_version = SANDBOX_SOCKET_VERSION,
    mh_bodyLength = of_nat (length (me_body m)), mh_msgType = me_type m, mh_requestId = me_requestId m,
    mh_result = me_result m, mh_reserved = replicate 16 (CHR 0x00)\<rparr>"
  define h' where "h' = h\<lparr>mh_result := sint (word_of_int (me_result m) :: u32)\<rparr>"
  define sk1 where "sk1 = sk\<lparr>sk_header := header_bytes h, sk_readError := SANDBOX_SUCCESS\<rparr>"
  have f: "frame_of m = header_bytes h @ me_body m" by (simp add: frame_of_def frame_def h_def)
  have len: "length (header_bytes h) = 40" by (simp add: header_bytes_def put_u32_length4 h_def)
  have h': "header_of (header_bytes h) = h'" using header_of_bytes [of h] by (simp add: h'_def h_def)
  have small: "unat (of_nat (length (me_body m)) :: u32) = length (me_body m)"
    using assms(2) by (intro unat_of_nat_u32) (simp add: MAX_BODY_LENGTH_def)
  have ok: "ValidateProtocol h' = SANDBOX_SUCCESS" by (simp add: ValidateProtocol_def h'_def h_def)
  have fits: "ValidateBodyLength h' = SANDBOX_SUCCESS \<longleftrightarrow> length (me_body m) \<le> MaxBodyLengthForType (me_type m)"
    by (simp add: ValidateBodyLength_def h'_def h_def small)
  have zero: "mh_bodyLength h' = 0 \<longleftrightarrow> me_body m = []"
    using small by (auto simp: h'_def h_def unat_eq_zero [symmetric] simp del: unat_eq_zero)
  have received: "received m = \<lparr>pm_header = h', pm_body = if ValidateBodyLength h' = SANDBOX_SUCCESS then me_body m else [],
      pm_rejectReason = if ValidateBodyLength h' = SANDBOX_SUCCESS then SANDBOX_SUCCESS else SANDBOX_ERR_SOCKET_MSG_TOO_LARGE\<rparr>"
    unfolding fits by (simp add: received_def h'_def h_def)
  have head: "absorb (header_bytes h) sk = take_header (header_bytes h) sk"
    using absorb_consume [of "header_bytes h" sk] assms(1) len by (simp add: consume_def wanted_def idle_def SOCKET_HEADER_LENGTH_def)
  show ?thesis
  proof (cases "me_body m = []")
    case True
    then have "ValidateBodyLength h' = SANDBOX_SUCCESS" using fits by simp
    with True assms(1) show ?thesis
      unfolding f received by (simp add: head take_header_def idle_def len SOCKET_HEADER_LENGTH_def h' ok zero Let_def ResetReadState_def)
  next
    case False
    let ?sk = "if ValidateBodyLength h' = SANDBOX_SUCCESS then sk1\<lparr>sk_body := [], sk_readState := SOCKET_STATE_READING_BODY\<rparr>
      else sk1\<lparr>sk_discard := length (me_body m), sk_readState := SOCKET_STATE_DISCARDING_BODY\<rparr>"
    have h1: "absorb (header_bytes h) sk = (PROGRESSED, ?sk, [])"
      using assms(1) False
      by (simp add: head take_header_def idle_def len SOCKET_HEADER_LENGTH_def h' ok zero sk1_def Let_def small h'_def [symmetric])
        (simp add: h'_def h_def small)
    have "absorb (me_body m) ?sk = consume ?sk (me_body m)"
      using False by (intro absorb_consume) (simp_all add: wanted_def sk1_def h', simp_all add: h'_def h_def small)
    also have "\<dots> = (PROGRESSED, ResetReadState (?sk\<lparr>sk_body := if ValidateBodyLength h' = SANDBOX_SUCCESS then me_body m else sk_body ?sk,
        sk_discard := if ValidateBodyLength h' = SANDBOX_SUCCESS then sk_discard ?sk else 0\<rparr>), [received m])"
      unfolding received
      by (simp add: consume_def take_body_def drop_body_def sk1_def h' Let_def) (simp add: h'_def h_def small)
    finally show ?thesis unfolding f absorb_append h1 by simp
  qed
qed

lemma absorb_frames:
  "idle sk \<Longrightarrow> list_all (\<lambda>m. length (me_body m) \<le> MAX_BODY_LENGTH) ms \<Longrightarrow>
   \<exists>sk'. absorb (concat (map frame_of ms)) sk = (PROGRESSED, sk', map received ms) \<and> idle sk'"
proof (induction ms arbitrary: sk)
  case (Cons m ms)
  with absorb_frame [of sk m] obtain sk1 where "absorb (frame_of m) sk = (PROGRESSED, sk1, [received m])" "idle sk1" by auto
  with Cons.IH [of sk1] Cons.prems(2) show ?case by (auto simp: absorb_append)
qed simp

section \<open>Sending\<close>

text \<open>The bytes that are queued and not yet sent.\<close>

definition unsent :: "sock \<Rightarrow> string" where
  "unsent sk = drop (sk_txOffset sk) (sk_tx sk)"

lemma HasPendingTxData_unsent: "HasPendingTxData sk \<longleftrightarrow> unsent sk \<noteq> []"
  by (auto simp: HasPendingTxData_def unsent_def)

definition tx_ok :: "sock \<Rightarrow> bool" where
  "tx_ok sk \<longleftrightarrow> sk_txOffset sk \<le> length (sk_tx sk) \<and> length (sk_tx sk) \<le> MAX_TX_BUFFER_SIZE"

text \<open>The receiving half of a socket, which sending does not touch.\<close>

definition rx_part :: "sock \<Rightarrow> SocketReadState \<times> string \<times> string \<times> nat \<times> int" where
  "rx_part sk = (sk_readState sk, sk_header sk, sk_body sk, sk_discard sk, sk_readError sk)"

lemma flush_loop_stream:
  assumes "tx_ok sk" "flush_loop sk script wire = (ret, sk', script', wire')"
  shows "wire' @ unsent sk' = wire @ unsent sk \<and> tx_ok sk' \<and> rx_part sk' = rx_part sk"
  using assms
proof (induction script arbitrary: sk wire)
  case Nil
  then show ?case by (auto simp: HasPendingTxData_unsent unsent_def tx_ok_def rx_part_def split: if_splits)
next
  case (Cons a script)
  show ?case
  proof (cases "HasPendingTxData sk")
    case False
    with Cons.prems show ?thesis by (auto simp: HasPendingTxData_unsent unsent_def tx_ok_def rx_part_def)
  next
    case True
    show ?thesis
    proof (cases a)
      case (Accept k)
      let ?n = "min k (length (sk_tx sk) - sk_txOffset sk)"
      let ?sk = "sk\<lparr>sk_txOffset := sk_txOffset sk + ?n\<rparr>"
      have "unsent ?sk = drop k (unsent sk)" by (simp add: unsent_def drop_drop add.commute min_def)
      then have stream: "(wire @ take k (unsent sk)) @ unsent ?sk = wire @ unsent sk" by simp
      have ok: "tx_ok ?sk" using Cons.prems(1) by (auto simp: tx_ok_def)
      have rx: "rx_part ?sk = rx_part sk" by (simp add: rx_part_def)
      show ?thesis
      proof (cases "?n > 0")
        case True': True
        with Cons.prems(2) True Accept have "flush_loop ?sk script (wire @ take k (unsent sk)) = (ret, sk', script', wire')"
          by (simp add: unsent_def Let_def)
        from Cons.IH [OF ok this] show ?thesis unfolding stream rx .
      next
        case False
        with Cons.prems True Accept show ?thesis by (auto simp: Let_def HasPendingTxData_def)
      qed
    next
      case (TxErrno e)
      with Cons True show ?thesis by (auto simp: Let_def split: if_splits)
    qed
  qed
qed

lemma FlushTxBuffer_stream:
  "tx_ok sk \<Longrightarrow> FlushTxBuffer sk ch = (ret, sk', ch') \<Longrightarrow>
   ch_wire ch' @ unsent sk' = ch_wire ch @ unsent sk \<and> tx_ok sk' \<and> rx_part sk' = rx_part sk"
  using flush_loop_stream [of sk "ch_tx ch" "ch_wire ch"] by (auto simp: FlushTxBuffer_def split: prod.splits)

lemma frame_length: "length (frame t b r res) = SOCKET_HEADER_LENGTH + length b"
  by (simp add: frame_def header_bytes_def put_u32_length4 SOCKET_HEADER_LENGTH_def)

definition accepted :: "int \<Rightarrow> bool" where
  "accepted ret \<longleftrightarrow> ret \<noteq> SANDBOX_ERR_SOCKET_MSG_TOO_LARGE \<and> ret \<noteq> SANDBOX_ERR_SOCKET_TX_FULL"

lemma FlushTxBuffer_accepted: "accepted (fst (FlushTxBuffer sk ch))"
proof -
  have "accepted (fst (flush_loop sk script wire))" for script wire
    by (induction sk script wire rule: flush_loop.induct) (auto simp: accepted_def Let_def split: tx.split)
  then show ?thesis by (simp add: FlushTxBuffer_def split: prod.split) (metis fst_conv)
qed

lemma CompactTxBuffer_stream:
  assumes "tx_ok sk" "length (unsent sk) + n \<le> MAX_TX_BUFFER_SIZE"
  shows "unsent (CompactTxBuffer n sk) = unsent sk \<and> length (sk_tx (CompactTxBuffer n sk)) + n \<le> MAX_TX_BUFFER_SIZE \<and>
    sk_txOffset (CompactTxBuffer n sk) \<le> length (sk_tx (CompactTxBuffer n sk)) \<and> rx_part (CompactTxBuffer n sk) = rx_part sk"
  using assms by (auto simp: CompactTxBuffer_def unsent_def tx_ok_def rx_part_def)

text \<open>A queued message is appended to the stream as a whole, or the socket is as it was.\<close>

lemma QueueMessage_stream:
  assumes ok: "tx_ok sk" and q: "QueueMessage t b r res sk ch = (ret, sk', ch')"
  shows "(if accepted ret then ch_wire ch' @ unsent sk' = ch_wire ch @ unsent sk @ frame t b r res \<and> length b \<le> MAX_BODY_LENGTH
      else sk' = sk \<and> ch' = ch) \<and> tx_ok sk' \<and> rx_part sk' = rx_part sk"
proof -
  let ?n = "SOCKET_HEADER_LENGTH + length b"
  consider "length b > MAX_BODY_LENGTH" | "length b \<le> MAX_BODY_LENGTH" "length (unsent sk) + ?n > MAX_TX_BUFFER_SIZE"
    | "length b \<le> MAX_BODY_LENGTH" "length (unsent sk) + ?n \<le> MAX_TX_BUFFER_SIZE"
    by linarith
  then show ?thesis
  proof cases
    case 1
    with q ok show ?thesis by (simp add: QueueMessage_def accepted_def)
  next
    case 2
    then have "?n > MAX_TX_BUFFER_SIZE \<or> length (sk_tx sk) - sk_txOffset sk > MAX_TX_BUFFER_SIZE - ?n"
      by (auto simp: unsent_def)
    with q ok 2 show ?thesis by (simp add: QueueMessage_def accepted_def)
  next
    case 3
    let ?sk = "CompactTxBuffer ?n sk"
    let ?sk' = "?sk\<lparr>sk_tx := sk_tx ?sk @ frame t b r res\<rparr>"
    note c = CompactTxBuffer_stream [OF ok 3(2)]
    from 3(2) have "\<not> (?n > MAX_TX_BUFFER_SIZE \<or> length (sk_tx sk) - sk_txOffset sk > MAX_TX_BUFFER_SIZE - ?n)"
      by (auto simp: unsent_def)
    with q 3(1) have f: "FlushTxBuffer ?sk' ch = (ret, sk', ch')" by (simp only: QueueMessage_def Let_def if_False not_less [symmetric])
    have "tx_ok ?sk'" using c by (simp add: tx_ok_def frame_length)
    moreover have "unsent ?sk' = unsent sk @ frame t b r res" using c by (simp add: unsent_def)
    moreover have "rx_part ?sk' = rx_part sk" using c by (simp add: rx_part_def)
    ultimately show ?thesis
      using FlushTxBuffer_stream [OF _ f] FlushTxBuffer_accepted [of ?sk' ch] f 3(1) by simp
  qed
qed

section \<open>From a sender to a receiver\<close>

text \<open>What a sender does: queue a message, or flush when the kernel has room. The messages that were accepted.\<close>

datatype send_op = Queue message | Writable

fun sends :: "send_op list \<Rightarrow> sock \<Rightarrow> chan \<Rightarrow> message list \<times> sock \<times> chan" where
  "sends [] sk ch = ([], sk, ch)"
| "sends (Queue m # ops) sk ch = (case QueueMessage (me_type m) (me_body m) (me_requestId m) (me_result m) sk ch of
     (ret, sk1, ch1) \<Rightarrow> (case sends ops sk1 ch1 of
       (ms, sk2, ch2) \<Rightarrow> (if accepted ret then m # ms else ms, sk2, ch2)))"
| "sends (Writable # ops) sk ch = (case OnWritable sk ch of (ret, sk1, ch1) \<Rightarrow> sends ops sk1 ch1)"

lemma sends_stream:
  "tx_ok sk \<Longrightarrow> sends ops sk ch = (ms, sk', ch') \<Longrightarrow>
   ch_wire ch' @ unsent sk' = ch_wire ch @ unsent sk @ concat (map frame_of ms) \<and> tx_ok sk' \<and>
   list_all (\<lambda>m. length (me_body m) \<le> MAX_BODY_LENGTH) ms"
proof (induction ops sk ch arbitrary: ms sk' ch' rule: sends.induct)
  case (1 sk ch)
  then show ?case by simp
next
  case (2 m ops sk ch)
  obtain ret sk1 ch1 where q: "QueueMessage (me_type m) (me_body m) (me_requestId m) (me_result m) sk ch = (ret, sk1, ch1)"
    by (cases "QueueMessage (me_type m) (me_body m) (me_requestId m) (me_result m) sk ch")
  obtain ms1 where s: "sends ops sk1 ch1 = (ms1, sk', ch')" "ms = (if accepted ret then m # ms1 else ms1)"
    using "2.prems"(2) by (auto simp: q split: prod.splits)
  from QueueMessage_stream [OF "2.prems"(1) q] "2.IH" [OF q [symmetric] refl _ s(1)] s(2) show ?case
    by (auto simp: frame_of_def)
next
  case (3 ops sk ch)
  obtain ret sk1 ch1 where w: "OnWritable sk ch = (ret, sk1, ch1)" by (cases "OnWritable sk ch")
  with 3 FlushTxBuffer_stream [of sk ch ret sk1 ch1] show ?case by (simp add: OnWritable_def)
qed

lemma new_sock_ok: "tx_ok new_sock" "idle new_sock" "unsent new_sock = []"
  by (simp_all add: new_sock_def tx_ok_def idle_def unsent_def)

text \<open>C31: However the kernel cuts the bytes of a stream into segments, and however often a read is interrupted, a socket
  parses the same messages out of them, ends in the same state and reports the same error; without an error it has
  consumed everything that had arrived and waits for the next wakeup.\<close>

theorem OnReadable_ignores_segments:
  assumes "plain script1" "plain script2" "arriving script1 = arriving script2" "wanted sk > 0"
  shows "case (OnReadable sk (script1 @ Errno EAGAIN # later), OnReadable sk (script2 @ Errno EAGAIN # later)) of
    ((ret1, sk1, out1, rest1), (ret2, sk2, out2, rest2)) \<Rightarrow>
      ret1 = ret2 \<and> sk1 = sk2 \<and> out1 = out2 \<and> (ret1 = SANDBOX_SUCCESS \<longrightarrow> rest1 = later \<and> rest2 = later)"
proof -
  obtain step sk' out where a: "absorb (arriving script1) sk = (step, sk', out)" by (cases "absorb (arriving script1) sk")
  note r1 = OnReadable_absorbs [OF assms(1,4) a, of later]
  note r2 = OnReadable_absorbs [OF assms(2,4) a [unfolded assms(3)], of later]
  from r1 r2 absorb_failed [of "arriving script1" sk sk' out] a show ?thesis by (cases "step = FAILED") auto
qed

text \<open>C32: End to end: of the messages a sender's socket has accepted, in whatever way the kernel took and cut their
  bytes, the receiver gets a prefix in order, and all of them once nothing is left unsent. Each arrives with its
  header, and with its body unless that is over its type's limit, when it arrives as refused and the stream goes on.\<close>

theorem messages_arrive_in_order:
  assumes "sends ops new_sock ch = (ms, sk, ch')" "ch_wire ch = []"
    and "plain script" "arriving script = ch_wire ch'"
  shows "\<exists>receiver out. OnReadable new_sock (script @ Errno EAGAIN # later) = (SANDBOX_SUCCESS, receiver, out, later) \<and>
    out = take (length out) (map received ms) \<and> (unsent sk = [] \<longrightarrow> out = map received ms)"
proof -
  have stream: "ch_wire ch' @ unsent sk = concat (map frame_of ms)" "list_all (\<lambda>m. length (me_body m) \<le> MAX_BODY_LENGTH) ms"
    using sends_stream [OF new_sock_ok(1) assms(1)] assms(2) new_sock_ok(3) by simp_all
  obtain last where all: "absorb (ch_wire ch' @ unsent sk) new_sock = (PROGRESSED, last, map received ms)"
    using absorb_frames [OF new_sock_ok(2) stream(2)] stream(1) by auto
  obtain step sk' out where a: "absorb (ch_wire ch') new_sock = (step, sk', out)" by (cases "absorb (ch_wire ch') new_sock")
  obtain step2 sk2 out2 where b: "absorb (unsent sk) sk' = (step2, sk2, out2)" by (cases "absorb (unsent sk) sk'")
  from all a b have ok: "step \<noteq> FAILED" "map received ms = out @ out2" by (simp_all add: absorb_append split: if_splits)
  have "OnReadable new_sock (script @ Errno EAGAIN # later) = (SANDBOX_SUCCESS, sk', out, later)"
    using OnReadable_absorbs [OF assms(3) idle_wanted [OF new_sock_ok(2)] a [folded assms(4)], of later] ok(1) by simp
  moreover have "out = take (length out) (map received ms)" using ok(2) by simp
  moreover have "out = map received ms" if "unsent sk = []" using b ok(2) that by simp
  ultimately show ?thesis by blast
qed

text \<open>C33: The transmit buffer never holds more than one maximal message, and a message that is refused leaves socket and
  kernel as they were; an accepted one is appended to what was unsent, whatever the kernel takes of it.\<close>

theorem QueueMessage_bounded:
  assumes "tx_ok sk"
  shows "case QueueMessage t b r res sk ch of (ret, sk', ch') \<Rightarrow>
    tx_ok sk' \<and> rx_part sk' = rx_part sk \<and>
    (if ret = SANDBOX_ERR_SOCKET_MSG_TOO_LARGE \<or> ret = SANDBOX_ERR_SOCKET_TX_FULL then sk' = sk \<and> ch' = ch
     else ch_wire ch' @ unsent sk' = ch_wire ch @ unsent sk @ frame t b r res)"
proof -
  obtain ret sk' ch' where q: "QueueMessage t b r res sk ch = (ret, sk', ch')" by (cases "QueueMessage t b r res sk ch")
  from QueueMessage_stream [OF assms q] show ?thesis by (simp add: q accepted_def split: if_splits)
qed

text \<open>Witnesses: an answer and a policy, sent in pieces and read in pieces.\<close>

definition two_messages :: "message list" where
  "two_messages =
     [\<lparr>me_type = SANDBOX_SOCKET_MSG_EVENT_ANSWER, me_body = ''ok'', me_requestId = 7, me_result = 0\<rparr>,
      \<lparr>me_type = SANDBOX_SOCKET_MSG_ADD_POLICY, me_body = [], me_requestId = 8, me_result = 0\<rparr>]"

definition slow_kernel :: chan where
  "slow_kernel = \<lparr>ch_rx = [], ch_tx = [Accept 10, TxErrno EAGAIN, TxErrno EINTR, Accept 100, Accept 100, Accept 100], ch_wire = []\<rparr>"

definition slow_ops :: "send_op list" where
  "slow_ops = Queue (hd two_messages) # Writable # map Queue (tl two_messages)"

definition slow_result :: "message list \<times> sock \<times> chan" where
  "slow_result = sends slow_ops new_sock slow_kernel"

lemma frame_nonempty: "frame t b r res \<noteq> []"
  using frame_length [of t b r res] by (auto simp: SOCKET_HEADER_LENGTH_def)

lemma slow_result_complete: "fst slow_result = two_messages" "unsent (fst (snd slow_result)) = []"
  by (simp_all add: slow_result_def slow_ops_def two_messages_def slow_kernel_def new_sock_def QueueMessage_def OnWritable_def
      CompactTxBuffer_def FlushTxBuffer_def HasPendingTxData_def unsent_def frame_length frame_nonempty accepted_def Let_def
      MAX_BODY_LENGTH_def MAX_TX_BUFFER_SIZE_def SOCKET_HEADER_LENGTH_def)

lemma cut_in_two: "plain [Data (take k s), Errno EINTR, Data (drop k s)]" "arriving [Data (take k s), Errno EINTR, Data (drop k s)] = s"
  by (simp_all add: plain_def arriving_def)

theorem messages_arrive_in_order_witness:
  "\<exists>receiver. OnReadable new_sock ([Data (take 11 (ch_wire (snd (snd slow_result)))), Errno EINTR,
      Data (drop 11 (ch_wire (snd (snd slow_result))))] @ [Errno EAGAIN]) =
    (SANDBOX_SUCCESS, receiver, map received two_messages, [])"
proof -
  have "sends slow_ops new_sock slow_kernel = (fst slow_result, fst (snd slow_result), snd (snd slow_result))"
    by (simp add: slow_result_def)
  moreover have "ch_wire slow_kernel = []" by (simp add: slow_kernel_def)
  ultimately show ?thesis
    using messages_arrive_in_order [OF _ _ cut_in_two [of 11 "ch_wire (snd (snd slow_result))"], of slow_ops slow_kernel
        "fst slow_result" "fst (snd slow_result)" "[]"] slow_result_complete
    by auto
qed

theorem OnReadable_ignores_segments_witness:
  "fst (snd (snd (OnReadable new_sock ([Data (frame_of (hd two_messages))] @ [Errno EAGAIN])))) =
   fst (snd (snd (OnReadable new_sock ([Data (take 41 (frame_of (hd two_messages))), Errno EINTR,
     Data (drop 41 (frame_of (hd two_messages)))] @ [Errno EAGAIN]))))"
proof -
  have "plain [Data (frame_of (hd two_messages))]" "arriving [Data (frame_of (hd two_messages))] =
      arriving [Data (take 41 (frame_of (hd two_messages))), Errno EINTR, Data (drop 41 (frame_of (hd two_messages)))]"
    by (simp add: plain_def) (simp add: arriving_def)
  from OnReadable_ignores_segments [OF this(1) cut_in_two(1) this(2) idle_wanted [OF new_sock_ok(2)], of "[]"]
  show ?thesis by (simp only: split_beta prod.sel split: prod.splits)
qed

theorem QueueMessage_bounded_witness:
  "tx_ok (fst (snd (QueueMessage SANDBOX_SOCKET_MSG_RESPONSE ''x'' 7 0 new_sock slow_kernel)))"
  using QueueMessage_bounded [OF new_sock_ok(1), where t = SANDBOX_SOCKET_MSG_RESPONSE and b = "''x''" and r = 7 and res = 0 and ch = slow_kernel]
  by (auto split: prod.splits)

end
