(* ===== verification/Claw_Seccomp.thy ===== *)
theory Claw_Seccomp
  imports Claw_Cmd
begin

text \<open>
  The seccomp filter of \<open>claw_sandbox/src/sandbox_manager.cpp\<close>: the instructions are written one after the other into a
  vector whose length was computed before, \<open>filter[idx++] = ...\<close>. The numbers of the system calls are those of the
  kernel's headers, the parameter \<open>nr\<close>: \<open>None\<close> is a call the architecture does not define.
\<close>

section \<open>Instructions\<close>

record sock_filter =
  sf_code :: "16 word"
  sf_jt :: u8
  sf_jf :: u8
  sf_k :: u32

definition BPF_STMT :: "16 word \<Rightarrow> u32 \<Rightarrow> sock_filter" where
  "BPF_STMT code k = \<lparr>sf_code = code, sf_jt = 0, sf_jf = 0, sf_k = k\<rparr>"

definition BPF_JUMP :: "16 word \<Rightarrow> u32 \<Rightarrow> u8 \<Rightarrow> u8 \<Rightarrow> sock_filter" where
  "BPF_JUMP code k jt jf = \<lparr>sf_code = code, sf_jt = jt, sf_jf = jf, sf_k = k\<rparr>"

abbreviation (input) BPF_LD_W_ABS :: "16 word" where "BPF_LD_W_ABS \<equiv> 0x20"
abbreviation (input) BPF_JMP_JEQ_K :: "16 word" where "BPF_JMP_JEQ_K \<equiv> 0x15"
abbreviation (input) BPF_JMP_JGE_K :: "16 word" where "BPF_JMP_JGE_K \<equiv> 0x35"
abbreviation (input) BPF_RET_K :: "16 word" where "BPF_RET_K \<equiv> 0x06"

abbreviation (input) SECCOMP_RET_KILL :: u32 where "SECCOMP_RET_KILL \<equiv> 0"
abbreviation (input) SECCOMP_RET_ALLOW :: u32 where "SECCOMP_RET_ALLOW \<equiv> 0x7fff0000"
abbreviation (input) AUDIT_ARCH_AARCH64 :: u32 where "AUDIT_ARCH_AARCH64 \<equiv> 0xC00000B7"

text \<open>Offsets in \<open>seccomp_data\<close>: the number, the architecture, and the arguments of eight bytes each.\<close>

abbreviation (input) offset_nr :: u32 where "offset_nr \<equiv> 0"
abbreviation (input) offset_arch :: u32 where "offset_arch \<equiv> 4"
abbreviation (input) offset_arg :: "nat \<Rightarrow> u32" where "offset_arg i \<equiv> of_nat (16 + 8 * i)"

definition UID_MIN_LIMIT :: u32 where "UID_MIN_LIMIT = 20000000"

definition ARCH_CHECK_BPF_CNT :: nat where "ARCH_CHECK_BPF_CNT = 4"
definition BPF_PER_SYSCALL :: nat where "BPF_PER_SYSCALL = 2"
definition BPF_PER_UID_SYSCALL_1ARG :: nat where "BPF_PER_UID_SYSCALL_1ARG = 4"
definition BPF_PER_UID_SYSCALL_2ARG :: nat where "BPF_PER_UID_SYSCALL_2ARG = 7"
definition BPF_PER_UID_SYSCALL_3ARG :: nat where "BPF_PER_UID_SYSCALL_3ARG = 10"
definition BPF_JEQ_SKIP_1ARG :: u8 where "BPF_JEQ_SKIP_1ARG = of_nat (BPF_PER_UID_SYSCALL_1ARG - 1)"
definition BPF_JEQ_SKIP_2ARG :: u8 where "BPF_JEQ_SKIP_2ARG = of_nat (BPF_PER_UID_SYSCALL_2ARG - 1)"
definition BPF_JEQ_SKIP_3ARG :: u8 where "BPF_JEQ_SKIP_3ARG = of_nat (BPF_PER_UID_SYSCALL_3ARG - 1)"

section \<open>The table of names\<close>

type_synonym syscalls = "string \<Rightarrow> int option"

definition SYSCALL_NAMES :: "string list" where
  "SYSCALL_NAMES =
     [''execve'', ''execveat'', ''clone'', ''clone3'', ''waitid'', ''kill'', ''socket'', ''connect'', ''bind'', ''listen'',
      ''accept4'', ''unlinkat'', ''renameat2'', ''mkdirat'', ''fchmodat'', ''fchownat'', ''utimensat'', ''fallocate'',
      ''prctl'', ''fork'', ''vfork'', ''tkill'', ''accept'', ''sendto'', ''recvfrom'', ''sendmsg'', ''recvmsg'',
      ''getsockopt'', ''setsockopt'', ''symlinkat'', ''linkat'', ''renameat'', ''mknodat'', ''chmod'', ''chown'',
      ''truncate'', ''ftruncate'', ''getcwd'', ''chdir'', ''fchdir'', ''open'', ''statfs'', ''fstatfs'', ''getcpu'',
      ''sched_yield'', ''mlock'', ''munlock'', ''personality'', ''arch_prctl'', ''wait4'', ''setuid'', ''setreuid'',
      ''setresuid'', ''setfsuid'']"

definition SYSCALL_MAP :: "syscalls \<Rightarrow> string \<Rightarrow> int option" where
  "SYSCALL_MAP nr name = (if name \<in> set SYSCALL_NAMES then nr name else None)"

definition ResolveSyscallName :: "syscalls \<Rightarrow> string \<Rightarrow> int" where
  "ResolveSyscallName nr name = (case SYSCALL_MAP nr name of Some n \<Rightarrow> n | None \<Rightarrow> - 1)"

section \<open>Writing the filter\<close>

text \<open>The vector and the index of the next instruction. A write beyond the end has no effect here; it does not happen.\<close>

type_synonym filter_buf = "sock_filter list \<times> nat"

definition put :: "sock_filter \<Rightarrow> filter_buf \<Rightarrow> filter_buf" where
  "put insn s = (case s of (flt, idx) \<Rightarrow> (flt[idx := insn], idx + 1))"

definition AppendAllowFilter :: "int \<Rightarrow> filter_buf \<Rightarrow> filter_buf" where
  "AppendAllowFilter n s =
     (let s = put (BPF_JUMP BPF_JMP_JEQ_K (of_int n) 0 1) s
      in put (BPF_STMT BPF_RET_K SECCOMP_RET_ALLOW) s)"

definition AppendKillFilter :: "int \<Rightarrow> filter_buf \<Rightarrow> filter_buf" where
  "AppendKillFilter n s =
     (let s = put (BPF_JUMP BPF_JMP_JEQ_K (of_int n) 0 1) s
      in put (BPF_STMT BPF_RET_K SECCOMP_RET_KILL) s)"

definition AppendUidRangeFilter :: "int \<Rightarrow> filter_buf \<Rightarrow> filter_buf" where
  "AppendUidRangeFilter n s =
     (let s = put (BPF_JUMP BPF_JMP_JEQ_K (of_int n) 0 BPF_JEQ_SKIP_1ARG) s;
          s = put (BPF_STMT BPF_LD_W_ABS (offset_arg 0)) s;
          s = put (BPF_JUMP BPF_JMP_JGE_K UID_MIN_LIMIT 1 0) s
      in put (BPF_STMT BPF_RET_K SECCOMP_RET_KILL) s)"

definition AppendSetreuidRangeFilter :: "int \<Rightarrow> filter_buf \<Rightarrow> filter_buf" where
  "AppendSetreuidRangeFilter n s =
     (let s = put (BPF_JUMP BPF_JMP_JEQ_K (of_int n) 0 BPF_JEQ_SKIP_2ARG) s;
          s = put (BPF_STMT BPF_LD_W_ABS (offset_arg 0)) s;
          s = put (BPF_JUMP BPF_JMP_JGE_K UID_MIN_LIMIT 1 0) s;
          s = put (BPF_STMT BPF_RET_K SECCOMP_RET_KILL) s;
          s = put (BPF_STMT BPF_LD_W_ABS (offset_arg 1)) s;
          s = put (BPF_JUMP BPF_JMP_JGE_K UID_MIN_LIMIT 1 0) s
      in put (BPF_STMT BPF_RET_K SECCOMP_RET_KILL) s)"

definition AppendSetresuidRangeFilter :: "int \<Rightarrow> filter_buf \<Rightarrow> filter_buf" where
  "AppendSetresuidRangeFilter n s =
     (let s = put (BPF_JUMP BPF_JMP_JEQ_K (of_int n) 0 BPF_JEQ_SKIP_3ARG) s;
          s = put (BPF_STMT BPF_LD_W_ABS (offset_arg 0)) s;
          s = put (BPF_JUMP BPF_JMP_JGE_K UID_MIN_LIMIT 1 0) s;
          s = put (BPF_STMT BPF_RET_K SECCOMP_RET_KILL) s;
          s = put (BPF_STMT BPF_LD_W_ABS (offset_arg 1)) s;
          s = put (BPF_JUMP BPF_JMP_JGE_K UID_MIN_LIMIT 1 0) s;
          s = put (BPF_STMT BPF_RET_K SECCOMP_RET_KILL) s;
          s = put (BPF_STMT BPF_LD_W_ABS (offset_arg 2)) s;
          s = put (BPF_JUMP BPF_JMP_JGE_K UID_MIN_LIMIT 1 0) s
      in put (BPF_STMT BPF_RET_K SECCOMP_RET_KILL) s)"

definition AppendArchCheck :: "filter_buf \<Rightarrow> filter_buf" where
  "AppendArchCheck s =
     (let s = put (BPF_STMT BPF_LD_W_ABS offset_arch) s;
          s = put (BPF_JUMP BPF_JMP_JEQ_K AUDIT_ARCH_AARCH64 1 0) s;
          s = put (BPF_STMT BPF_RET_K SECCOMP_RET_KILL) s
      in put (BPF_STMT BPF_LD_W_ABS offset_nr) s)"

fun AppendAllowList :: "syscalls \<Rightarrow> string list \<Rightarrow> filter_buf \<Rightarrow> filter_buf" where
  "AppendAllowList nr [] s = s"
| "AppendAllowList nr (name # allowList) s =
     (let n = ResolveSyscallName nr name
      in if n < 0 then AppendAllowList nr allowList s
         else AppendAllowList nr allowList (AppendAllowFilter n s))"

definition defined :: "'a option list \<Rightarrow> 'a list" where
  "defined xs = concat (map (\<lambda>x. case x of None \<Rightarrow> [] | Some a \<Rightarrow> [a]) xs)"

definition uidRangeSyscalls :: "syscalls \<Rightarrow> int list" where
  "uidRangeSyscalls nr = defined [nr ''setuid'', nr ''setreuid'', nr ''setresuid'', nr ''setfsuid'']"

fun append_uid_range :: "syscalls \<Rightarrow> int list \<Rightarrow> filter_buf \<Rightarrow> filter_buf" where
  "append_uid_range nr [] s = s"
| "append_uid_range nr (n # ns) s =
     (if nr ''setreuid'' = Some n then append_uid_range nr ns (AppendSetreuidRangeFilter n s)
      else if nr ''setresuid'' = Some n then append_uid_range nr ns (AppendSetresuidRangeFilter n s)
      else append_uid_range nr ns (AppendUidRangeFilter n s))"

definition AppendUidRangeSyscalls :: "syscalls \<Rightarrow> filter_buf \<Rightarrow> filter_buf" where
  "AppendUidRangeSyscalls nr s = append_uid_range nr (uidRangeSyscalls nr) s"

text \<open>\<open>sock_fprog\<close>: the number of instructions, an unsigned short, and the instructions. The result of the build is
  always success.\<close>

definition seccomp_total :: "string list \<Rightarrow> nat" where
  "seccomp_total allowList = ARCH_CHECK_BPF_CNT + length allowList * BPF_PER_SYSCALL + BPF_PER_UID_SYSCALL_1ARG
     + BPF_PER_UID_SYSCALL_2ARG + BPF_PER_UID_SYSCALL_3ARG + BPF_PER_UID_SYSCALL_1ARG + 1"

text \<open>\<open>resize\<close> keeps what is there and fills with zeros.\<close>

definition resize_filter :: "sock_filter list \<Rightarrow> nat \<Rightarrow> sock_filter list" where
  "resize_filter flt n = take n flt @ replicate (n - length flt) (BPF_STMT 0 0)"

definition fill_filter :: "syscalls \<Rightarrow> string list \<Rightarrow> sock_filter list \<Rightarrow> filter_buf" where
  "fill_filter nr allowList seccompFilter =
     (let defaultAction = (if allowList \<noteq> [] then SECCOMP_RET_KILL else SECCOMP_RET_ALLOW);
          s = (resize_filter seccompFilter (seccomp_total allowList), 0);
          s = AppendArchCheck s;
          s = AppendAllowList nr allowList s;
          s = AppendUidRangeSyscalls nr s
      in put (BPF_STMT BPF_RET_K defaultAction) s)"

definition BuildSeccompFilter :: "syscalls \<Rightarrow> string list \<Rightarrow> sock_filter list \<Rightarrow> 16 word \<times> sock_filter list" where
  "BuildSeccompFilter nr allowList seccompFilter =
     (let (flt, idx) = fill_filter nr allowList seccompFilter in (of_nat idx, flt))"

end
