(* ===== verification/Seccomp_Spec.thy ===== *)
theory Seccomp_Spec
  imports Claw_Seccomp
begin

text \<open>
  The seccomp filter against the decision it stands for. The reader is the kernel's classic BPF on the four instructions
  the filter uses: loads of a word of the call's data, comparisons with forward jumps, and returns; running off the end
  has no answer. The instructions are written in chunks that each jump only within themselves, so a program is read chunk
  by chunk.
\<close>

section \<open>The kernel's reading\<close>

record seccomp_data =
  sd_nr :: u32
  sd_arch :: u32
  sd_args :: "nat \<Rightarrow> u32"

definition seccomp_load :: "seccomp_data \<Rightarrow> u32 \<Rightarrow> u32" where
  "seccomp_load d k = (if k = 0 then sd_nr d else if k = 4 then sd_arch d
     else if k = 16 then sd_args d 0 else if k = 24 then sd_args d 1 else if k = 32 then sd_args d 2 else 0)"

function bpf_run :: "seccomp_data \<Rightarrow> u32 \<Rightarrow> sock_filter list \<Rightarrow> u32 option" where
  "bpf_run d a [] = None"
| "bpf_run d a (i # is) =
     (if sf_code i = BPF_RET_K then Some (sf_k i)
      else if sf_code i = BPF_LD_W_ABS then bpf_run d (seccomp_load d (sf_k i)) is
      else if sf_code i = BPF_JMP_JEQ_K then bpf_run d a (drop (unat (if a = sf_k i then sf_jt i else sf_jf i)) is)
      else if sf_code i = BPF_JMP_JGE_K then bpf_run d a (drop (unat (if a \<ge> sf_k i then sf_jt i else sf_jf i)) is)
      else None)"
  by pat_completeness auto
termination by (relation "measure (\<lambda>(d, a, is). length is)") auto

section \<open>The decision\<close>

text \<open>The arguments of a call that must not be below the limit.\<close>

definition uid_args :: "syscalls \<Rightarrow> int \<Rightarrow> nat list" where
  "uid_args nr n = (if nr ''setreuid'' = Some n then [0, 1] else if nr ''setresuid'' = Some n then [0, 1, 2] else [0])"

definition seccomp_decision :: "syscalls \<Rightarrow> string list \<Rightarrow> seccomp_data \<Rightarrow> u32" where
  "seccomp_decision nr allowList d =
     (if sd_arch d \<noteq> AUDIT_ARCH_AARCH64 then SECCOMP_RET_KILL
      else if \<exists>name \<in> set allowList. \<exists>n \<ge> 0. SYSCALL_MAP nr name = Some n \<and> sd_nr d = of_int n then SECCOMP_RET_ALLOW
      else if \<exists>n \<in> set (uidRangeSyscalls nr). sd_nr d = of_int n \<and> (\<exists>i \<in> set (uid_args nr n). sd_args d i < UID_MIN_LIMIT)
      then SECCOMP_RET_KILL
      else if allowList \<noteq> [] then SECCOMP_RET_KILL else SECCOMP_RET_ALLOW)"

section \<open>Chunks\<close>

text \<open>\<open>f\<close> writes the instructions \<open>c\<close> when there is room for them.\<close>

definition writes :: "(filter_buf \<Rightarrow> filter_buf) \<Rightarrow> sock_filter list \<Rightarrow> bool" where
  "writes f c \<longleftrightarrow> (\<forall>flt idx. idx + length c \<le> length flt \<longrightarrow>
     f (flt, idx) = (take idx flt @ c @ drop (idx + length c) flt, idx + length c))"

lemma writes_put: "writes (put i) [i]"
  by (auto simp: writes_def put_def upd_conv_take_nth_drop)

lemma writes_id: "writes (\<lambda>s. s) []"
  by (simp add: writes_def)

lemma writes_comp:
  assumes "writes f c" "writes g e"
  shows "writes (\<lambda>s. g (f s)) (c @ e)"
  unfolding writes_def
proof (intro allI impI)
  fix flt :: "sock_filter list" and idx
  assume room: "idx + length (c @ e) \<le> length flt"
  then have "f (flt, idx) = (take idx flt @ c @ drop (idx + length c) flt, idx + length c)"
    using assms(1) by (simp add: writes_def)
  moreover have "g (take idx flt @ c @ drop (idx + length c) flt, idx + length c)
      = (take idx flt @ (c @ e) @ drop (idx + length (c @ e)) flt, idx + length (c @ e))"
    using assms(2) room by (simp add: writes_def ac_simps)
  ultimately show "g (f (flt, idx)) = (take idx flt @ (c @ e) @ drop (idx + length (c @ e)) flt, idx + length (c @ e))"
    by simp
qed

lemma writes_puts: "writes f c \<Longrightarrow> writes (\<lambda>s. put i (f s)) (c @ [i])"
  by (rule writes_comp [OF _ writes_put])

definition allow_chunk :: "int \<Rightarrow> sock_filter list" where
  "allow_chunk n = [BPF_JUMP BPF_JMP_JEQ_K (of_int n) 0 1, BPF_STMT BPF_RET_K SECCOMP_RET_ALLOW]"

definition arch_chunk :: "sock_filter list" where
  "arch_chunk = [BPF_STMT BPF_LD_W_ABS offset_arch, BPF_JUMP BPF_JMP_JEQ_K AUDIT_ARCH_AARCH64 1 0,
     BPF_STMT BPF_RET_K SECCOMP_RET_KILL, BPF_STMT BPF_LD_W_ABS offset_nr]"

definition arg_check :: "nat \<Rightarrow> sock_filter list" where
  "arg_check i = [BPF_STMT BPF_LD_W_ABS (offset_arg i), BPF_JUMP BPF_JMP_JGE_K UID_MIN_LIMIT 1 0,
     BPF_STMT BPF_RET_K SECCOMP_RET_KILL]"

definition uid_chunk :: "syscalls \<Rightarrow> int \<Rightarrow> sock_filter list" where
  "uid_chunk nr n = BPF_JUMP BPF_JMP_JEQ_K (of_int n) 0 (of_nat (3 * length (uid_args nr n))) # concat (map arg_check (uid_args nr n))"

lemma writes_allow: "writes (AppendAllowFilter n) (allow_chunk n)"
proof -
  have "writes (\<lambda>s. put (BPF_STMT BPF_RET_K SECCOMP_RET_ALLOW) (put (BPF_JUMP BPF_JMP_JEQ_K (of_int n) 0 1) s)) ([BPF_JUMP BPF_JMP_JEQ_K (of_int n) 0 1] @ [BPF_STMT BPF_RET_K SECCOMP_RET_ALLOW])"
    by (intro writes_puts writes_put)
  then show ?thesis by (simp add: AppendAllowFilter_def [abs_def] allow_chunk_def)
qed

text \<open>Instructions put one after the other are one chunk.\<close>

fun puts :: "sock_filter list \<Rightarrow> filter_buf \<Rightarrow> filter_buf" where
  "puts [] s = s"
| "puts (i # is) s = puts is (put i s)"

lemma writes_all: "writes (puts is) is"
proof (induction "is")
  case Nil
  have "puts [] = (\<lambda>s. s)" by (rule ext) simp
  then show ?case using writes_id by simp
next
  case (Cons i "is")
  have "puts (i # is) = (\<lambda>s. puts is (put i s))" by (rule ext) simp
  then show ?case using writes_comp [OF writes_put Cons.IH, of i] by simp
qed

lemma skips: "BPF_JEQ_SKIP_1ARG = 3" "BPF_JEQ_SKIP_2ARG = 6" "BPF_JEQ_SKIP_3ARG = 9"
  by (simp_all add: BPF_JEQ_SKIP_1ARG_def BPF_JEQ_SKIP_2ARG_def BPF_JEQ_SKIP_3ARG_def BPF_PER_UID_SYSCALL_1ARG_def
      BPF_PER_UID_SYSCALL_2ARG_def BPF_PER_UID_SYSCALL_3ARG_def)

lemma writes_arch: "writes AppendArchCheck arch_chunk"
proof -
  have eq: "AppendArchCheck = puts arch_chunk" by (rule ext) (simp add: AppendArchCheck_def arch_chunk_def Let_def)
  show ?thesis unfolding eq by (rule writes_all)
qed

lemma writes_uid:
  "writes (\<lambda>s. if nr ''setreuid'' = Some n then AppendSetreuidRangeFilter n s
     else if nr ''setresuid'' = Some n then AppendSetresuidRangeFilter n s else AppendUidRangeFilter n s) (uid_chunk nr n)"
proof -
  have "(\<lambda>s. if nr ''setreuid'' = Some n then AppendSetreuidRangeFilter n s
     else if nr ''setresuid'' = Some n then AppendSetresuidRangeFilter n s else AppendUidRangeFilter n s) = puts (uid_chunk nr n)"
    by (rule ext) (simp add: uid_chunk_def uid_args_def arg_check_def AppendSetreuidRangeFilter_def
        AppendSetresuidRangeFilter_def AppendUidRangeFilter_def skips Let_def)
  then show ?thesis by (simp only: writes_all)
qed

definition allow_numbers :: "syscalls \<Rightarrow> string list \<Rightarrow> int list" where
  "allow_numbers nr allowList = filter (\<lambda>n. n \<ge> 0) (map (ResolveSyscallName nr) allowList)"

lemma writes_allow_list: "writes (AppendAllowList nr allowList) (concat (map allow_chunk (allow_numbers nr allowList)))"
proof (induction allowList)
  case Nil
  have "AppendAllowList nr [] = (\<lambda>s. s)" by (rule ext) simp
  then show ?case using writes_id by (simp add: allow_numbers_def)
next
  case (Cons name allowList)
  show ?case
  proof (cases "ResolveSyscallName nr name < 0")
    case True
    then have "AppendAllowList nr (name # allowList) = AppendAllowList nr allowList" by (intro ext) simp
    then show ?thesis using Cons True by (simp add: allow_numbers_def)
  next
    case False
    then have "AppendAllowList nr (name # allowList) = (\<lambda>s. AppendAllowList nr allowList (AppendAllowFilter (ResolveSyscallName nr name) s))"
      by (intro ext) simp
    then show ?thesis using writes_comp [OF writes_allow Cons, of "ResolveSyscallName nr name"] False
      by (simp add: allow_numbers_def)
  qed
qed

lemma writes_uid_range: "writes (append_uid_range nr ns) (concat (map (uid_chunk nr) ns))"
proof (induction ns)
  case Nil
  have "append_uid_range nr [] = (\<lambda>s. s)" by (rule ext) simp
  then show ?case using writes_id by simp
next
  case (Cons n ns)
  have "append_uid_range nr (n # ns) = (\<lambda>s. append_uid_range nr ns ((\<lambda>s. if nr ''setreuid'' = Some n then AppendSetreuidRangeFilter n s
     else if nr ''setresuid'' = Some n then AppendSetresuidRangeFilter n s else AppendUidRangeFilter n s) s))"
    by (intro ext) simp
  then show ?case using writes_comp [OF writes_uid [of nr n] Cons] by simp
qed

definition seccomp_program :: "syscalls \<Rightarrow> string list \<Rightarrow> sock_filter list" where
  "seccomp_program nr allowList = arch_chunk @ concat (map allow_chunk (allow_numbers nr allowList)) @
     concat (map (uid_chunk nr) (uidRangeSyscalls nr)) @
     [BPF_STMT BPF_RET_K (if allowList \<noteq> [] then SECCOMP_RET_KILL else SECCOMP_RET_ALLOW)]"

lemma fill_filter_program:
  assumes "length (seccomp_program nr allowList) \<le> seccomp_total allowList"
  shows "\<exists>rest. fill_filter nr allowList flt = (seccomp_program nr allowList @ rest, length (seccomp_program nr allowList))"
proof -
  have "fill_filter nr allowList flt = (\<lambda>s. put (BPF_STMT BPF_RET_K (if allowList \<noteq> [] then SECCOMP_RET_KILL else SECCOMP_RET_ALLOW))
      (AppendUidRangeSyscalls nr (AppendAllowList nr allowList (AppendArchCheck s)))) (resize_filter flt (seccomp_total allowList), 0)"
    by (simp add: fill_filter_def Let_def)
  moreover have "writes (\<lambda>s. put (BPF_STMT BPF_RET_K (if allowList \<noteq> [] then SECCOMP_RET_KILL else SECCOMP_RET_ALLOW))
      (AppendUidRangeSyscalls nr (AppendAllowList nr allowList (AppendArchCheck s)))) (seccomp_program nr allowList)"
    using writes_puts [OF writes_comp [OF writes_comp [OF writes_arch writes_allow_list [of nr allowList]]
        writes_uid_range [of nr "uidRangeSyscalls nr"]]]
    by (simp add: seccomp_program_def AppendUidRangeSyscalls_def [abs_def])
  moreover have "length (resize_filter flt (seccomp_total allowList)) = seccomp_total allowList"
    by (simp add: resize_filter_def)
  ultimately show ?thesis using assms by (auto simp: writes_def)
qed

section \<open>Running the chunks\<close>

lemma run_ret [simp]: "bpf_run d a (BPF_STMT BPF_RET_K k # is) = Some k"
  by (simp add: BPF_STMT_def)

lemma run_load [simp]: "bpf_run d a (BPF_STMT BPF_LD_W_ABS k # is) = bpf_run d (seccomp_load d k) is"
  by (simp add: BPF_STMT_def)

lemma run_jeq [simp]: "bpf_run d a (BPF_JUMP BPF_JMP_JEQ_K k jt jf # is) = bpf_run d a (drop (unat (if a = k then jt else jf)) is)"
  by (simp add: BPF_JUMP_def)

lemma run_jge [simp]: "bpf_run d a (BPF_JUMP BPF_JMP_JGE_K k jt jf # is) = bpf_run d a (drop (unat (if a \<ge> k then jt else jf)) is)"
  by (simp add: BPF_JUMP_def)

declare bpf_run.simps(2) [simp del]

lemma load_fields: "seccomp_load d offset_nr = sd_nr d" "seccomp_load d offset_arch = sd_arch d"
  "i \<in> {0, 1, 2} \<Longrightarrow> seccomp_load d (offset_arg i) = sd_args d i"
  by (auto simp: seccomp_load_def)

lemma run_arch: "bpf_run d a (arch_chunk @ is) = (if sd_arch d = AUDIT_ARCH_AARCH64 then bpf_run d (sd_nr d) is else Some SECCOMP_RET_KILL)"
  by (simp add: arch_chunk_def seccomp_load_def)

lemma run_allow: "bpf_run d a (concat (map allow_chunk ns) @ is) = (if \<exists>n \<in> set ns. a = of_int n then Some SECCOMP_RET_ALLOW else bpf_run d a is)"
  by (induction ns) (simp_all add: allow_chunk_def)

lemma run_args: "i \<in> {0, 1, 2} \<Longrightarrow> bpf_run d a (arg_check i @ is) =
    (if sd_args d i < UID_MIN_LIMIT then Some SECCOMP_RET_KILL else bpf_run d (sd_args d i) is)"
  by (elim insertE emptyE) (simp_all add: arg_check_def seccomp_load_def not_le [symmetric])

lemma uid_args_cases: "uid_args nr n = [0] \<or> uid_args nr n = [0, 1] \<or> uid_args nr n = [0, 1, 2]"
  by (simp add: uid_args_def)

lemma run_uid_chunk:
  "bpf_run d a (uid_chunk nr n @ is) = (if a \<noteq> of_int n then bpf_run d a is
     else if \<exists>i \<in> set (uid_args nr n). sd_args d i < UID_MIN_LIMIT then Some SECCOMP_RET_KILL
     else bpf_run d (sd_args d (last (uid_args nr n))) is)"
proof (cases "a = of_int n")
  case True
  then show ?thesis
    using uid_args_cases [of nr n] by (elim disjE) (simp_all add: uid_chunk_def run_args)
next
  case False
  then show ?thesis
    using uid_args_cases [of nr n] by (elim disjE) (simp_all add: uid_chunk_def arg_check_def)
qed

section \<open>The filter\<close>

text \<open>
  A passed check leaves an argument in the accumulator; it is not below the limit, so no number of a later check equals it.
\<close>

lemma of_int_limit:
  assumes "0 \<le> n" "n < 20000000"
  shows "uint (of_int n :: u32) = n" "(of_int n :: u32) < UID_MIN_LIMIT"
proof -
  show u: "uint (of_int n :: u32) = n" using assms by (simp add: take_bit_int_eq_self unsigned_of_int)
  show "(of_int n :: u32) < UID_MIN_LIMIT"
    using assms(2) unfolding word_less_alt u by (simp add: UID_MIN_LIMIT_def)
qed

lemma run_uid_list:
  assumes "\<forall>n \<in> set ns. 0 \<le> n \<and> n < 20000000"
  shows "bpf_run d a (concat (map (uid_chunk nr) ns) @ [BPF_STMT BPF_RET_K k]) =
    Some (if \<exists>n \<in> set ns. a = of_int n \<and> (\<exists>i \<in> set (uid_args nr n). sd_args d i < UID_MIN_LIMIT) then SECCOMP_RET_KILL else k)"
  using assms
proof (induction ns arbitrary: a)
  case (Cons n ns)
  let ?bad = "\<lambda>n. \<exists>i \<in> set (uid_args nr n). sd_args d i < UID_MIN_LIMIT"
  show ?case
  proof (cases "a = of_int n \<and> \<not> ?bad n")
    case True
    let ?b = "sd_args d (last (uid_args nr n))"
    have "last (uid_args nr n) \<in> set (uid_args nr n)" using uid_args_cases [of nr n] by auto
    then have big: "\<not> ?b < UID_MIN_LIMIT" using True by blast
    have "bpf_run d a (concat (map (uid_chunk nr) (n # ns)) @ [BPF_STMT BPF_RET_K k])
        = bpf_run d ?b (concat (map (uid_chunk nr) ns) @ [BPF_STMT BPF_RET_K k])"
      using True by (simp add: run_uid_chunk)
    also have "\<dots> = Some (if \<exists>m \<in> set ns. ?b = of_int m \<and> ?bad m then SECCOMP_RET_KILL else k)"
      using Cons.prems by (intro Cons.IH) simp
    finally have eq: "bpf_run d a (concat (map (uid_chunk nr) (n # ns)) @ [BPF_STMT BPF_RET_K k])
        = Some (if \<exists>m \<in> set ns. ?b = of_int m \<and> ?bad m then SECCOMP_RET_KILL else k)" .
    have "\<not> (\<exists>m \<in> set ns. ?b = of_int m \<and> ?bad m)"
      using big of_int_limit(2) Cons.prems by force
    then have run: "bpf_run d a (concat (map (uid_chunk nr) (n # ns)) @ [BPF_STMT BPF_RET_K k]) = Some k"
      unfolding eq by (simp only: if_False)
    have "m = n" if "m \<in> set ns" "a = of_int m" for m
      using that True of_int_limit(1) [of m] of_int_limit(1) [of n] Cons.prems by auto
    then have none: "\<not> (\<exists>m \<in> set (n # ns). a = of_int m \<and> ?bad m)" using True by auto
    show ?thesis unfolding run using none by (simp only: if_False)
  next
    case False
    then show ?thesis using Cons.IH [of a] Cons.prems by (auto simp: run_uid_chunk)
  qed
qed simp

lemma length_uid_chunk: "length (uid_chunk nr n) = Suc (3 * length (uid_args nr n))"
  using uid_args_cases [of nr n] by (elim disjE) (simp_all add: uid_chunk_def arg_check_def)

lemma length_allow_numbers: "length (concat (map allow_chunk (allow_numbers nr allowList))) \<le> 2 * length allowList"
  by (induction allowList) (auto simp: allow_numbers_def allow_chunk_def)

lemma length_uid_range:
  assumes "distinct (uidRangeSyscalls nr)"
  shows "length (concat (map (uid_chunk nr) (uidRangeSyscalls nr))) \<le> 25"
proof -
  have part: "length (concat (map (uid_chunk nr) (defined [x]))) \<le> 4" if "x \<noteq> None \<longrightarrow> nr ''setreuid'' \<noteq> x \<and> nr ''setresuid'' \<noteq> x" for x
    using that by (cases x) (auto simp: defined_def length_uid_chunk uid_args_def)
  have split: "uidRangeSyscalls nr = defined [nr ''setuid''] @ defined [nr ''setreuid''] @ defined [nr ''setresuid''] @ defined [nr ''setfsuid'']"
    by (simp add: uidRangeSyscalls_def defined_def)
  have "length (concat (map (uid_chunk nr) (defined [nr ''setreuid'']))) \<le> 7"
    by (cases "nr ''setreuid''") (auto simp: defined_def length_uid_chunk uid_args_def)
  moreover have "length (concat (map (uid_chunk nr) (defined [nr ''setresuid'']))) \<le> 10"
    by (cases "nr ''setresuid''") (auto simp: defined_def length_uid_chunk uid_args_def)
  moreover have "length (concat (map (uid_chunk nr) (defined [nr ''setuid'']))) \<le> 4"
    using assms unfolding split by (intro part) (auto simp: defined_def split: option.splits)
  moreover have "length (concat (map (uid_chunk nr) (defined [nr ''setfsuid'']))) \<le> 4"
    using assms unfolding split by (intro part) (auto simp: defined_def split: option.splits)
  ultimately show ?thesis unfolding split by simp
qed

lemma decide_if:
  "(if A then if B then Some x else Some (if C then y else if D then y else x) else Some y) =
   Some (if \<not> A then y else if B then x else if C then y else if D then y else x)"
  by simp

text \<open>C39: The filter the kernel gets decides every call as follows: another architecture is killed; a number that the
  allow list names is allowed; then a call that sets user identities is killed when one of its identities is below
  20000000; and everything else is killed when there is an allow list and allowed otherwise. No instruction is written
  beyond the computed length. (So an allow list that names \<open>setuid\<close> lets it set any identity, and with an allow list that
  does not name it, it is killed even with a permitted one.) Two comments of the source describe another filter: the one
  at \<open>UID_MIN_LIMIT\<close> says that a low identity makes the call return EACCES, where the filter kills; the one in \<open>SetSeccomp\<close>
  says that the filter explicitly allows \<open>prctl\<close>, where no rule does, and an allow list that does not name \<open>prctl\<close> kills
  it (\<open>unlisted_call_killed\<close>).\<close>

theorem BuildSeccompFilter_decides:
  assumes "length allowList \<le> 32752" and "distinct (uidRangeSyscalls nr)"
    and "\<forall>n \<in> set (uidRangeSyscalls nr). 0 \<le> n \<and> n < 20000000"
  shows "case BuildSeccompFilter nr allowList flt of (len, flt') \<Rightarrow>
    unat len = snd (fill_filter nr allowList flt) \<and> unat len \<le> length flt' \<and>
    bpf_run d a (take (unat len) flt') = Some (seccomp_decision nr allowList d)"
proof -
  let ?p = "seccomp_program nr allowList"
  have len: "length ?p \<le> seccomp_total allowList"
    using length_allow_numbers [of nr allowList] length_uid_range [OF assms(2)]
    by (simp add: seccomp_program_def seccomp_total_def arch_chunk_def ARCH_CHECK_BPF_CNT_def BPF_PER_SYSCALL_def
        BPF_PER_UID_SYSCALL_1ARG_def BPF_PER_UID_SYSCALL_2ARG_def BPF_PER_UID_SYSCALL_3ARG_def)
  obtain rest where f: "fill_filter nr allowList flt = (?p @ rest, length ?p)"
    using fill_filter_program [OF len] by blast
  have "length ?p < 2 ^ 16"
    using len assms(1) by (simp add: seccomp_total_def ARCH_CHECK_BPF_CNT_def BPF_PER_SYSCALL_def
        BPF_PER_UID_SYSCALL_1ARG_def BPF_PER_UID_SYSCALL_2ARG_def BPF_PER_UID_SYSCALL_3ARG_def)
  then have u: "unat (of_nat (length ?p) :: 16 word) = length ?p" by (simp add: unsigned_of_nat take_bit_nat_eq_self)
  have names: "(\<exists>n \<in> set (allow_numbers nr allowList). sd_nr d = of_int n) \<longleftrightarrow>
      (\<exists>name \<in> set allowList. \<exists>n \<ge> 0. SYSCALL_MAP nr name = Some n \<and> sd_nr d = of_int n)"
    by (force simp: allow_numbers_def ResolveSyscallName_def split: option.splits)
  have "bpf_run d a ?p = Some (seccomp_decision nr allowList d)"
    unfolding seccomp_program_def run_arch run_allow run_uid_list [OF assms(3)] names seccomp_decision_def
    by (rule decide_if)
  then show ?thesis by (simp add: BuildSeccompFilter_def f u)
qed

lemma unlisted_call_killed:
  "allowList \<noteq> [] \<Longrightarrow> \<forall>name \<in> set allowList. \<forall>n \<ge> 0. SYSCALL_MAP nr name = Some n \<longrightarrow> sd_nr d \<noteq> of_int n \<Longrightarrow>
   seccomp_decision nr allowList d = SECCOMP_RET_KILL"
  by (auto simp: seccomp_decision_def)

definition arm64_numbers :: syscalls where
  "arm64_numbers name = map_of [(''execve'', 221), (''setuid'', 146), (''setreuid'', 145), (''setresuid'', 147), (''setfsuid'', 151)] name"

text \<open>Without an allow list: \<open>setresuid\<close> with an effective identity of 0 is killed.\<close>

theorem BuildSeccompFilter_decides_witness:
  "case BuildSeccompFilter arm64_numbers [] [] of (len, flt) \<Rightarrow>
     bpf_run \<lparr>sd_nr = 147, sd_arch = AUDIT_ARCH_AARCH64, sd_args = (\<lambda>i. if i = 1 then 0 else 20020026)\<rparr> 0 (take (unat len) flt) = Some SECCOMP_RET_KILL"
proof -
  have u: "uidRangeSyscalls arm64_numbers = [146, 145, 147, 151]"
    by (simp add: uidRangeSyscalls_def defined_def arm64_numbers_def)
  have nr147: "arm64_numbers ''setreuid'' = Some 145" "arm64_numbers ''setresuid'' = Some 147"
    by (simp_all add: arm64_numbers_def)
  have "seccomp_decision arm64_numbers [] \<lparr>sd_nr = 147, sd_arch = AUDIT_ARCH_AARCH64, sd_args = (\<lambda>i. if i = 1 then 0 else 20020026)\<rparr> = SECCOMP_RET_KILL"
    by (simp add: seccomp_decision_def u uid_args_def nr147 UID_MIN_LIMIT_def)
  then show ?thesis
    using BuildSeccompFilter_decides [of "[]" arm64_numbers "[]" "\<lparr>sd_nr = 147, sd_arch = AUDIT_ARCH_AARCH64, sd_args = (\<lambda>i. if i = 1 then 0 else 20020026)\<rparr>" 0]
    by (auto simp: u split: prod.splits)
qed

end
