(* ===== verification/Ordered_Map.thy ===== *)
theory Ordered_Map
  imports Main "HOL-Library.Char_ord" "HOL-Library.List_Lexorder"
begin

text \<open>
  \<open>std::map\<close>: an association list whose keys ascend, so that a loop over it goes in the order of the keys. Strings are
  compared as lists of bytes.
\<close>

type_synonym ('k, 'v) omap = "('k \<times> 'v) list"

text \<open>\<open>m[k] = v\<close>.\<close>

fun omap_put :: "'k::linorder \<Rightarrow> 'v \<Rightarrow> ('k, 'v) omap \<Rightarrow> ('k, 'v) omap" where
  "omap_put k v [] = [(k, v)]"
| "omap_put k v ((k', v') # m) =
     (if k < k' then (k, v) # (k', v') # m else if k = k' then (k, v) # m else (k', v') # omap_put k v m)"

text \<open>\<open>m.erase(k)\<close>.\<close>

definition omap_erase :: "'k \<Rightarrow> ('k, 'v) omap \<Rightarrow> ('k, 'v) omap" where
  "omap_erase k m = filter (\<lambda>e. fst e \<noteq> k) m"

definition omap_ok :: "('k::linorder, 'v) omap \<Rightarrow> bool" where
  "omap_ok m \<longleftrightarrow> sorted_wrt (<) (map fst m)"

lemma omap_ok_Nil [simp]: "omap_ok []"
  by (simp add: omap_ok_def)

lemma keys_put: "fst ` set (omap_put k v m) = insert k (fst ` set m)"
  by (induction k v m rule: omap_put.induct) auto

lemma omap_ok_put [simp]: "omap_ok m \<Longrightarrow> omap_ok (omap_put k v m)"
proof (induction k v m rule: omap_put.induct)
  case (2 k v k' v' m)
  have "\<forall>x \<in> fst ` set (omap_put k v m). x = k \<or> x \<in> fst ` set m" by (simp add: keys_put)
  then have "\<forall>e \<in> set (omap_put k v m). fst e = k \<or> (\<exists>f \<in> set m. fst e = fst f)" by fastforce
  then show ?case using 2 by (fastforce simp: omap_ok_def)
qed (simp add: omap_ok_def)

lemma omap_ok_erase [simp]: "omap_ok m \<Longrightarrow> omap_ok (omap_erase k m)"
  by (auto simp: omap_ok_def omap_erase_def sorted_wrt_map intro: sorted_wrt_filter)

lemma map_of_put [simp]: "omap_ok m \<Longrightarrow> map_of (omap_put k v m) = (map_of m)(k \<mapsto> v)"
proof (induction k v m rule: omap_put.induct)
  case (2 k v k' v' m)
  then show ?case by (auto simp: omap_ok_def fun_eq_iff)
qed simp

lemma map_of_erase [simp]: "map_of (omap_erase k m) = (map_of m)(k := None)"
  by (induction m) (auto simp: omap_erase_def fun_eq_iff)

lemma omap_distinct: "omap_ok m \<Longrightarrow> distinct (map fst m)"
  by (simp add: omap_ok_def strict_sorted_iff)

text \<open>The contents of a map whose keys are finitely many.\<close>

definition omap_of :: "('k::linorder \<rightharpoonup> 'v) \<Rightarrow> ('k, 'v) omap" where
  "omap_of f = map (\<lambda>k. (k, the (f k))) (sorted_list_of_set (dom f))"

lemma omap_of_ok: "omap_ok (omap_of f)"
  by (simp add: omap_ok_def omap_of_def comp_def)

lemma map_of_omap_of: "finite (dom f) \<Longrightarrow> map_of (omap_of f) = f"
  by (auto simp: omap_of_def fun_eq_iff map_of_map_restrict restrict_map_def dom_def)

end
