(* ===== verification/Claw_Template.thy ===== *)
theory Claw_Template
  imports Claw_Cmd Ordered_Map
begin

text \<open>
  \<open>claw_sandbox/src/sandbox_config_parser.cpp\<close>: the template of a sandbox. A parser of a section changes the template
  it gets and answers a code; the sections that are collected locally change it only at the end. The JSON library is
  the record \<open>cjson_tpl\<close>, more functions than the configuration needs; its strings end before their first null byte. Messages are left out.
\<close>

record 'j cjson_tpl = "'j cjson_doc" +
  j_isBool :: "'j \<Rightarrow> bool"
  j_isTrue :: "'j \<Rightarrow> bool"
  j_valueint :: "'j \<Rightarrow> int"

abbreviation (input) SANDBOX_ERR_TEMPLATE_INVALID :: int where "SANDBOX_ERR_TEMPLATE_INVALID \<equiv> - 5"

section \<open>The template\<close>

record MountEntry =
  me_source :: string
  me_target :: string
  me_mountFlags :: "string list"
  me_checkExists :: bool

record SymLinkEntry =
  sl_source :: string
  sl_target :: string

record PermissionConfig =
  pc_sandboxSwitch :: bool
  pc_gids :: "int list"
  pc_decPaths :: "string list"

record ConditionalRule =
  cr_source :: string
  cr_target :: string
  cr_mountFlags :: "string list"
  cr_checkExists :: bool
  cr_permissions :: "string list"

record EnvPolicy =
  ep_blockedEverywhereKeys :: "string list"
  ep_blockedOverrideOnlyKeys :: "string list"
  ep_allowedInheritedOverrideOnlyKeys :: "string list"
  ep_blockedPrefixes :: "string list"
  ep_blockedOverridePrefixes :: "string list"

record TemplateConfig =
  tc_execSelinuxTypes :: "string list"
  tc_systemMounts :: "MountEntry list"
  tc_symLinks :: "SymLinkEntry list"
  tc_appMounts :: "MountEntry list"
  tc_seccompAllowList :: "string list"
  tc_envPolicy :: EnvPolicy
  tc_permissions :: "(string, PermissionConfig) omap"
  tc_conditionalRules :: "ConditionalRule list"

definition new_MountEntry :: MountEntry where
  "new_MountEntry = \<lparr>me_source = [], me_target = [], me_mountFlags = [], me_checkExists = False\<rparr>"

definition new_EnvPolicy :: EnvPolicy where
  "new_EnvPolicy = \<lparr>ep_blockedEverywhereKeys = [], ep_blockedOverrideOnlyKeys = [], ep_allowedInheritedOverrideOnlyKeys = [],
     ep_blockedPrefixes = [], ep_blockedOverridePrefixes = []\<rparr>"

definition new_ConditionalRule :: ConditionalRule where
  "new_ConditionalRule = \<lparr>cr_source = [], cr_target = [], cr_mountFlags = [], cr_checkExists = True, cr_permissions = []\<rparr>"

definition new_TemplateConfig :: TemplateConfig where
  "new_TemplateConfig = \<lparr>tc_execSelinuxTypes = [], tc_systemMounts = [], tc_symLinks = [], tc_appMounts = [],
     tc_seccompAllowList = [], tc_envPolicy = new_EnvPolicy, tc_permissions = [], tc_conditionalRules = []\<rparr>"

section \<open>Names of variables\<close>

text \<open>\<open>std::isspace\<close>, \<open>std::toupper\<close>, \<open>std::isalpha\<close> and \<open>std::isalnum\<close> in the C locale.\<close>

definition isspace :: "char \<Rightarrow> bool" where
  "isspace c \<longleftrightarrow> c \<in> {CHR '' '', CHR 0x09, CHR 0x0A, CHR 0x0B, CHR 0x0C, CHR 0x0D}"

definition toupper :: "char \<Rightarrow> char" where
  "toupper c = (let n = (of_char c :: nat) in if 97 \<le> n \<and> n \<le> 122 then char_of (n - 32) else c)"

definition isalpha :: "char \<Rightarrow> bool" where
  "isalpha c \<longleftrightarrow> (let n = (of_char c :: nat) in 65 \<le> n \<and> n \<le> 90 \<or> 97 \<le> n \<and> n \<le> 122)"

definition isalnum :: "char \<Rightarrow> bool" where
  "isalnum c \<longleftrightarrow> isalpha c \<or> (let n = (of_char c :: nat) in 48 \<le> n \<and> n \<le> 57)"

definition TrimEnvKey :: "string \<Rightarrow> string" where
  "TrimEnvKey rawKey = rev (dropWhile isspace (rev (dropWhile isspace rawKey)))"

definition ToUpperAscii :: "string \<Rightarrow> string" where
  "ToUpperAscii value = map toupper value"

section \<open>Arrays\<close>

text \<open>A loop over an array that stops at the first element \<open>f\<close> refuses, and one that skips such elements.\<close>

fun array_all :: "'j cjson_tpl \<Rightarrow> 'j \<Rightarrow> ('j option \<Rightarrow> 'a option) \<Rightarrow> nat \<Rightarrow> int \<Rightarrow> 'a list option" where
  "array_all D array f 0 i = Some []"
| "array_all D array f (Suc n) i = (case f (j_arrayItem D array i) of
       None \<Rightarrow> None
     | Some a \<Rightarrow> map_option ((#) a) (array_all D array f n (i + 1)))"

definition array_items :: "'j cjson_tpl \<Rightarrow> 'j \<Rightarrow> 'j option list" where
  "array_items D array = map (\<lambda>i. j_arrayItem D array (int i)) [0..<nat (j_arraySize D array)]"

definition text_of :: "'j cjson_tpl \<Rightarrow> 'j option \<Rightarrow> string option" where
  "text_of D item = (case item of None \<Rightarrow> None | Some j \<Rightarrow> if j_isString D j then j_string D j else None)"

definition strings_in :: "'j cjson_tpl \<Rightarrow> 'j option \<Rightarrow> string list" where
  "strings_in D item = (case item of
       None \<Rightarrow> []
     | Some array \<Rightarrow> if j_isArray D array then List.map_filter (text_of D) (array_items D array) else [])"

definition ParseTemplateStringArray :: "'j cjson_tpl \<Rightarrow> 'j \<Rightarrow> string list res" where
  "ParseTemplateStringArray D arr =
     (if \<not> j_isArray D arr then Inl SANDBOX_ERR_TEMPLATE_INVALID
      else case array_all D arr (text_of D) (nat (j_arraySize D arr)) 0 of
          None \<Rightarrow> Inl SANDBOX_ERR_TEMPLATE_INVALID | Some values \<Rightarrow> Inr values)"

section \<open>Mounts and links\<close>

text \<open>A field of a mount: the second name when the first is absent; the text \<open>none\<close> counts as absent.\<close>

definition mount_path :: "'j cjson_tpl \<Rightarrow> 'j \<Rightarrow> string \<Rightarrow> string \<Rightarrow> string" where
  "mount_path D entry key other =
     (case text_of D (case j_item D entry key of None \<Rightarrow> j_item D entry other | Some j \<Rightarrow> Some j) of
        Some s \<Rightarrow> if s \<noteq> ''none'' then s else []
      | None \<Rightarrow> [])"

definition ParseMountEntry :: "'j cjson_tpl \<Rightarrow> 'j \<Rightarrow> MountEntry" where
  "ParseMountEntry D entry =
     (if \<not> j_isObject D entry then new_MountEntry
      else new_MountEntry
        \<lparr>me_source := mount_path D entry ''source'' ''src-path'',
         me_target := mount_path D entry ''target'' ''sandbox-path'',
         me_mountFlags := strings_in D (j_item D entry ''mount-flags''),
         me_checkExists := (case j_item D entry ''check-exists'' of
             Some ce \<Rightarrow> if j_isBool D ce then j_isTrue D ce else False | None \<Rightarrow> False)\<rparr>)"

text \<open>The mounts of a section: the objects with a source and a target.\<close>

definition mounts_of :: "'j cjson_tpl \<Rightarrow> 'j \<Rightarrow> string \<Rightarrow> MountEntry list" where
  "mounts_of D rt section =
     (if \<not> j_isObject D rt then []
      else case j_item D rt section of
          None \<Rightarrow> []
        | Some array \<Rightarrow>
            if \<not> j_isArray D array then []
            else List.map_filter (\<lambda>item. case item of
                 None \<Rightarrow> None
               | Some entry \<Rightarrow>
                   if \<not> j_isObject D entry then None
                   else let me = ParseMountEntry D entry in if me_source me \<noteq> [] \<and> me_target me \<noteq> [] then Some me else None)
              (array_items D array))"

definition ParseSystemMountsJson :: "'j cjson_tpl \<Rightarrow> 'j \<Rightarrow> TemplateConfig \<Rightarrow> int \<times> TemplateConfig" where
  "ParseSystemMountsJson D rt t = (SANDBOX_SUCCESS, t\<lparr>tc_systemMounts := tc_systemMounts t @ mounts_of D rt ''system-mounts''\<rparr>)"

definition ParseAppMountsJson :: "'j cjson_tpl \<Rightarrow> 'j \<Rightarrow> TemplateConfig \<Rightarrow> int \<times> TemplateConfig" where
  "ParseAppMountsJson D rt t = (SANDBOX_SUCCESS, t\<lparr>tc_appMounts := tc_appMounts t @ mounts_of D rt ''app-mounts''\<rparr>)"

definition ParseSymLinkEntry :: "'j cjson_tpl \<Rightarrow> 'j \<Rightarrow> SymLinkEntry" where
  "ParseSymLinkEntry D entry =
     (if \<not> j_isObject D entry then \<lparr>sl_source = [], sl_target = []\<rparr>
      else \<lparr>sl_source = (case text_of D (j_item D entry ''source'') of Some s \<Rightarrow> s | None \<Rightarrow> []),
            sl_target = (case text_of D (j_item D entry ''target'') of Some s \<Rightarrow> s | None \<Rightarrow> [])\<rparr>)"

definition ParseSymLinkJson :: "'j cjson_tpl \<Rightarrow> 'j \<Rightarrow> TemplateConfig \<Rightarrow> int \<times> TemplateConfig" where
  "ParseSymLinkJson D rt t =
     (if \<not> j_isObject D rt then (SANDBOX_SUCCESS, t)
      else case j_item D rt ''symbol-links'' of
          None \<Rightarrow> (SANDBOX_SUCCESS, t)
        | Some array \<Rightarrow>
            if \<not> j_isArray D array then (SANDBOX_SUCCESS, t)
            else (SANDBOX_SUCCESS, t\<lparr>tc_symLinks := tc_symLinks t @ List.map_filter (\<lambda>item. case item of
                 None \<Rightarrow> None
               | Some entry \<Rightarrow>
                   if \<not> j_isObject D entry then None
                   else let me = ParseSymLinkEntry D entry in if sl_source me \<noteq> [] \<and> sl_target me \<noteq> [] then Some me else None)
              (array_items D array)\<rparr>))"

section \<open>Permissions\<close>

definition ParsePermissionSwitch :: "'j cjson_tpl \<Rightarrow> 'j \<Rightarrow> PermissionConfig \<Rightarrow> bool \<Rightarrow> PermissionConfig" where
  "ParsePermissionSwitch D object pc defaultSwitch =
     (if \<not> j_isObject D object then pc\<lparr>pc_sandboxSwitch := defaultSwitch\<rparr>
      else case j_item D object ''sandbox-switch'' of
          None \<Rightarrow> pc\<lparr>pc_sandboxSwitch := defaultSwitch\<rparr>
        | Some sw \<Rightarrow> pc\<lparr>pc_sandboxSwitch := (case text_of D (Some sw) of Some s \<Rightarrow> s = ''ON'' | None \<Rightarrow> False)\<rparr>)"

definition ParsePermissionGids :: "'j cjson_tpl \<Rightarrow> 'j \<Rightarrow> PermissionConfig \<Rightarrow> PermissionConfig" where
  "ParsePermissionGids D object pc =
     (if \<not> j_isObject D object then pc
      else case j_item D object ''gids'' of
          None \<Rightarrow> pc
        | Some gids \<Rightarrow>
            if \<not> j_isArray D gids then pc
            else pc\<lparr>pc_gids := pc_gids pc @ List.map_filter (\<lambda>item. case item of
                 None \<Rightarrow> None | Some gidItem \<Rightarrow> if j_isNumber D gidItem then Some (j_valueint D gidItem) else None)
              (array_items D gids)\<rparr>)"

definition ParsePermissionDecPaths :: "'j cjson_tpl \<Rightarrow> 'j \<Rightarrow> PermissionConfig \<Rightarrow> PermissionConfig" where
  "ParsePermissionDecPaths D object pc =
     (if \<not> j_isObject D object then pc
      else pc\<lparr>pc_decPaths := pc_decPaths pc @ strings_in D (j_item D object ''dec-paths'')\<rparr>)"

definition ParseSinglePermissionConfig :: "'j cjson_tpl \<Rightarrow> 'j \<Rightarrow> string \<Rightarrow> bool \<Rightarrow> TemplateConfig \<Rightarrow> int \<times> TemplateConfig" where
  "ParseSinglePermissionConfig D object permName defaultSwitch t =
     (if \<not> j_isObject D object \<or> permName = [] then (SANDBOX_SUCCESS, t)
      else
        let pc = ParsePermissionSwitch D object \<lparr>pc_sandboxSwitch = False, pc_gids = [], pc_decPaths = []\<rparr> defaultSwitch;
            pc = ParsePermissionGids D object pc;
            pc = ParsePermissionDecPaths D object pc
        in (SANDBOX_SUCCESS, t\<lparr>tc_permissions := omap_put permName pc (tc_permissions t)\<rparr>))"

text \<open>A loop of steps that answer a code stops at the first error.\<close>

fun each_ok :: "('a \<Rightarrow> 's \<Rightarrow> int \<times> 's) \<Rightarrow> 'a list \<Rightarrow> 's \<Rightarrow> int \<times> 's" where
  "each_ok f [] s = (SANDBOX_SUCCESS, s)"
| "each_ok f (x # xs) s = (case f x s of (ret, s) \<Rightarrow> if ret \<noteq> SANDBOX_SUCCESS then (ret, s) else each_ok f xs s)"

definition ParseSinglePermissionItem :: "'j cjson_tpl \<Rightarrow> string option \<times> 'j \<Rightarrow> TemplateConfig \<Rightarrow> int \<times> TemplateConfig" where
  "ParseSinglePermissionItem D item t = (case item of (name, permItem) \<Rightarrow>
     if \<not> j_isArray D permItem then (SANDBOX_SUCCESS, t)
     else case name of
         None \<Rightarrow> (SANDBOX_SUCCESS, t)
       | Some permName \<Rightarrow>
           if permName = [] then (SANDBOX_SUCCESS, t)
           else each_ok (\<lambda>obj t. case obj of
                None \<Rightarrow> (SANDBOX_SUCCESS, t)
              | Some obj \<Rightarrow> if \<not> j_isObject D obj then (SANDBOX_SUCCESS, t) else ParseSinglePermissionConfig D obj permName False t)
             (array_items D permItem) t)"

definition ParsePermissionObjectJson :: "'j cjson_tpl \<Rightarrow> 'j \<Rightarrow> TemplateConfig \<Rightarrow> int \<times> TemplateConfig" where
  "ParsePermissionObjectJson D perm t =
     (if \<not> j_isObject D perm then (SANDBOX_SUCCESS, t) else each_ok (ParseSinglePermissionItem D) (j_children D perm) t)"

definition ParseSinglePermissionArrayItem :: "'j cjson_tpl \<Rightarrow> 'j option \<Rightarrow> TemplateConfig \<Rightarrow> int \<times> TemplateConfig" where
  "ParseSinglePermissionArrayItem D item t = (case item of
       None \<Rightarrow> (SANDBOX_SUCCESS, t)
     | Some permItem \<Rightarrow>
         if \<not> j_isObject D permItem then (SANDBOX_SUCCESS, t)
         else case text_of D (j_item D permItem ''name'') of
             None \<Rightarrow> (SANDBOX_SUCCESS, t)
           | Some name \<Rightarrow> if name = [] then (SANDBOX_SUCCESS, t) else ParseSinglePermissionConfig D permItem name True t)"

definition ParsePermissionArrayJson :: "'j cjson_tpl \<Rightarrow> 'j \<Rightarrow> TemplateConfig \<Rightarrow> int \<times> TemplateConfig" where
  "ParsePermissionArrayJson D perm t =
     (if \<not> j_isArray D perm then (SANDBOX_SUCCESS, t) else each_ok (ParseSinglePermissionArrayItem D) (array_items D perm) t)"

definition ParsePermissionSectionJson :: "'j cjson_tpl \<Rightarrow> 'j option \<Rightarrow> TemplateConfig \<Rightarrow> int \<times> TemplateConfig" where
  "ParsePermissionSectionJson D section t = (case section of
       None \<Rightarrow> (SANDBOX_SUCCESS, t)
     | Some perm \<Rightarrow>
         if j_isObject D perm then ParsePermissionObjectJson D perm t
         else if j_isArray D perm then ParsePermissionArrayJson D perm t
         else (SANDBOX_SUCCESS, t))"

definition ParsePermissionJson :: "'j cjson_tpl \<Rightarrow> 'j \<Rightarrow> TemplateConfig \<Rightarrow> int \<times> TemplateConfig" where
  "ParsePermissionJson D rt t =
     (if \<not> j_isObject D rt then (SANDBOX_SUCCESS, t)
      else case ParsePermissionSectionJson D (j_item D rt ''permission'') t of (ret, t) \<Rightarrow>
        if ret \<noteq> SANDBOX_SUCCESS then (ret, t)
        else case j_item D rt ''conditional'' of
            None \<Rightarrow> (ret, t)
          | Some conditional \<Rightarrow>
              if j_isObject D conditional then ParsePermissionSectionJson D (j_item D conditional ''permission'') t
              else (ret, t))"

section \<open>Conditional rules\<close>

text \<open>The optional fields of a rule: absent leaves what was there, a wrong type is an error.\<close>

definition ParseOptionalTemplateString :: "'j cjson_tpl \<Rightarrow> 'j \<Rightarrow> string \<Rightarrow> string \<Rightarrow> string res" where
  "ParseOptionalTemplateString D item field value = (case j_item D item field of
       None \<Rightarrow> Inr value
     | Some nd \<Rightarrow> (case text_of D (Some nd) of None \<Rightarrow> Inl SANDBOX_ERR_TEMPLATE_INVALID | Some s \<Rightarrow> Inr s))"

definition ParseOptionalTemplateArray :: "'j cjson_tpl \<Rightarrow> 'j \<Rightarrow> string \<Rightarrow> string list \<Rightarrow> string list res" where
  "ParseOptionalTemplateArray D item field values = (case j_item D item field of
       None \<Rightarrow> Inr values
     | Some nd \<Rightarrow> res_bind (ParseTemplateStringArray D nd) (\<lambda>ss. Inr (values @ ss)))"

definition ParseOptionalTemplateBool :: "'j cjson_tpl \<Rightarrow> 'j \<Rightarrow> string \<Rightarrow> bool \<Rightarrow> bool res" where
  "ParseOptionalTemplateBool D item field value = (case j_item D item field of
       None \<Rightarrow> Inr value
     | Some nd \<Rightarrow> if \<not> j_isBool D nd then Inl SANDBOX_ERR_TEMPLATE_INVALID else Inr (j_isTrue D nd))"

definition ParseConditionalRule :: "'j cjson_tpl \<Rightarrow> 'j \<Rightarrow> ConditionalRule \<Rightarrow> ConditionalRule res" where
  "ParseConditionalRule D item rule =
     res_bind (ParseOptionalTemplateString D item ''target'' (cr_target rule)) (\<lambda>target.
     res_bind (ParseOptionalTemplateString D item ''source'' (cr_source rule)) (\<lambda>source.
     res_bind (ParseOptionalTemplateArray D item ''mount-flags'' (cr_mountFlags rule)) (\<lambda>mountFlags.
     res_bind (ParseOptionalTemplateArray D item ''permissions'' (cr_permissions rule)) (\<lambda>permissions.
     res_bind (ParseOptionalTemplateBool D item ''check-exists'' (cr_checkExists rule)) (\<lambda>checkExists.
       Inr \<lparr>cr_source = source, cr_target = target, cr_mountFlags = mountFlags, cr_checkExists = checkExists,
         cr_permissions = permissions\<rparr>)))))"

fun conditional_loop :: "'j cjson_tpl \<Rightarrow> 'j option list \<Rightarrow> ConditionalRule list res" where
  "conditional_loop D [] = Inr []"
| "conditional_loop D (item # items) = (case item of
       None \<Rightarrow> Inl SANDBOX_ERR_TEMPLATE_INVALID
     | Some item \<Rightarrow>
         if \<not> j_isObject D item then Inl SANDBOX_ERR_TEMPLATE_INVALID
         else res_bind (ParseConditionalRule D item new_ConditionalRule) (\<lambda>rule.
           res_bind (conditional_loop D items) (\<lambda>rules. Inr (rule # rules))))"

definition ParseConditionalJson :: "'j cjson_tpl \<Rightarrow> 'j \<Rightarrow> TemplateConfig \<Rightarrow> int \<times> TemplateConfig" where
  "ParseConditionalJson D rt t =
     (if \<not> j_isObject D rt then (SANDBOX_ERR_TEMPLATE_INVALID, t)
      else case j_item D rt ''conditional'' of
          None \<Rightarrow> (SANDBOX_SUCCESS, t)
        | Some cond \<Rightarrow>
            if \<not> j_isArray D cond then (SANDBOX_ERR_TEMPLATE_INVALID, t)
            else case conditional_loop D (array_items D cond) of
                Inl ret \<Rightarrow> (ret, t)
              | Inr rules \<Rightarrow> (SANDBOX_SUCCESS, t\<lparr>tc_conditionalRules := rules\<rparr>))"

section \<open>The environment policy, the types that may be executed, and seccomp\<close>

definition ParseEnvPolicyStringArray :: "'j cjson_tpl \<Rightarrow> 'j \<Rightarrow> string \<Rightarrow> string list res" where
  "ParseEnvPolicyStringArray D envPolicy fieldName =
     (if \<not> j_isObject D envPolicy then Inl SANDBOX_ERR_TEMPLATE_INVALID
      else case j_item D envPolicy fieldName of
          None \<Rightarrow> Inr []
        | Some array \<Rightarrow> res_bind (ParseTemplateStringArray D array) (\<lambda>ss.
            Inr (filter (\<lambda>value. value \<noteq> []) (map (\<lambda>s. ToUpperAscii (TrimEnvKey s)) ss))))"

definition ParseEnvPolicyJson :: "'j cjson_tpl \<Rightarrow> 'j \<Rightarrow> TemplateConfig \<Rightarrow> int \<times> TemplateConfig" where
  "ParseEnvPolicyJson D rt t =
     (if \<not> j_isObject D rt then (SANDBOX_ERR_TEMPLATE_INVALID, t)
      else case j_item D rt ''env-policy'' of
          None \<Rightarrow> (SANDBOX_SUCCESS, t)
        | Some envPolicyObj \<Rightarrow>
            if \<not> j_isObject D envPolicyObj then (SANDBOX_ERR_TEMPLATE_INVALID, t)
            else case
              res_bind (ParseEnvPolicyStringArray D envPolicyObj ''blocked-everywhere-keys'') (\<lambda>everywhere.
              res_bind (ParseEnvPolicyStringArray D envPolicyObj ''blocked-override-only-keys'') (\<lambda>overrideOnly.
              res_bind (ParseEnvPolicyStringArray D envPolicyObj ''allowed-inherited-override-only-keys'') (\<lambda>inherited.
              res_bind (ParseEnvPolicyStringArray D envPolicyObj ''blocked-prefixes'') (\<lambda>prefixes.
              res_bind (ParseEnvPolicyStringArray D envPolicyObj ''blocked-override-prefixes'') (\<lambda>overridePrefixes.
                Inr \<lparr>ep_blockedEverywhereKeys = everywhere, ep_blockedOverrideOnlyKeys = overrideOnly,
                  ep_allowedInheritedOverrideOnlyKeys = inherited, ep_blockedPrefixes = prefixes,
                  ep_blockedOverridePrefixes = overridePrefixes\<rparr>))))) of
                Inl ret \<Rightarrow> (ret, t)
              | Inr envPolicy \<Rightarrow> (SANDBOX_SUCCESS, t\<lparr>tc_envPolicy := envPolicy\<rparr>))"

definition ParseExecSelinuxTypesJson :: "'j cjson_tpl \<Rightarrow> 'j \<Rightarrow> TemplateConfig \<Rightarrow> int \<times> TemplateConfig" where
  "ParseExecSelinuxTypesJson D rt t =
     (if \<not> j_isObject D rt then (SANDBOX_ERR_TEMPLATE_INVALID, t)
      else case j_item D rt ''exec-selinux-types'' of
          None \<Rightarrow> (SANDBOX_SUCCESS, t)
        | Some types \<Rightarrow>
            if \<not> j_isArray D types then (SANDBOX_ERR_TEMPLATE_INVALID, t)
            else case array_all D types (\<lambda>item. case text_of D item of
                  None \<Rightarrow> None | Some s \<Rightarrow> if s = [] then None else Some s) (nat (j_arraySize D types)) 0 of
                None \<Rightarrow> (SANDBOX_ERR_TEMPLATE_INVALID, t)
              | Some parsed \<Rightarrow> (SANDBOX_SUCCESS, t\<lparr>tc_execSelinuxTypes := parsed\<rparr>))"

definition ParseSeccompJson :: "'j cjson_tpl \<Rightarrow> 'j \<Rightarrow> TemplateConfig \<Rightarrow> int \<times> TemplateConfig" where
  "ParseSeccompJson D rt t =
     (if \<not> j_isObject D rt then (SANDBOX_ERR_TEMPLATE_INVALID, t)
      else case j_item D rt ''seccomp'' of
          None \<Rightarrow> (SANDBOX_SUCCESS, t)
        | Some seccomp \<Rightarrow>
            if \<not> j_isObject D seccomp then (SANDBOX_ERR_TEMPLATE_INVALID, t)
            else case j_item D seccomp ''allow-list'' of
                None \<Rightarrow> (SANDBOX_SUCCESS, t)
              | Some allowList \<Rightarrow> (case ParseTemplateStringArray D allowList of
                    Inl ret \<Rightarrow> (ret, t)
                  | Inr allowed \<Rightarrow> (SANDBOX_SUCCESS, t\<lparr>tc_seccompAllowList := allowed\<rparr>)))"

section \<open>The file\<close>

definition bind_mount :: "string \<Rightarrow> string \<Rightarrow> bool \<Rightarrow> MountEntry" where
  "bind_mount source target checkExists =
     \<lparr>me_source = source, me_target = target, me_mountFlags = [''bind'', ''rec''], me_checkExists = checkExists\<rparr>"

definition LoadDefaultConfig :: "string \<Rightarrow> TemplateConfig \<Rightarrow> int \<times> TemplateConfig" where
  "LoadDefaultConfig currentUserId t =
     (SANDBOX_SUCCESS, t
        \<lparr>tc_systemMounts := map (\<lambda>p. bind_mount p p False)
           [''/proc'', ''/sys'', ''/dev'', ''/tmp'', ''/usr'', ''/etc'', ''/lib'', ''/bin'', ''/sbin'', ''/sys_prod'',
            ''/system/fonts'', ''/system/lib'', ''/system/usr'', ''/system/profile'', ''/system/bin'', ''/system/lib64'',
            ''/system/etc'', ''/system/framework'', ''/system/resource'', ''/system/app/skills'', ''/vendor/lib'',
            ''/vendor/lib64'', ''/config''],
         tc_appMounts :=
           [bind_mount (''/storage/media/'' @ currentUserId @ ''/local/files/Docs'') (''/storage/Users/'' @ currentUserId) True,
            bind_mount ''/data/storage/el1/skills'' ''/data/storage/el1/skills'' True,
            bind_mount ''/data/storage/el1/bundle'' ''/data/storage/el1/bundle'' True]\<rparr>)"

text \<open>\<open>content\<close> is the file's content, \<open>None\<close> when it cannot be opened.\<close>

definition LoadJsonConfig :: "'j cjson_tpl \<Rightarrow> string option \<Rightarrow> string \<Rightarrow> TemplateConfig \<Rightarrow> int \<times> TemplateConfig" where
  "LoadJsonConfig D content currentUserId t = (case content of
       None \<Rightarrow> LoadDefaultConfig currentUserId t
     | Some content \<Rightarrow> (case j_parse D (c_str content) of
           None \<Rightarrow> (SANDBOX_ERR_TEMPLATE_INVALID, t)
         | Some rt \<Rightarrow>
             if \<not> j_isObject D rt then (SANDBOX_ERR_TEMPLATE_INVALID, t)
             else each_ok (\<lambda>step. step rt)
               [ParseSystemMountsJson D, ParseSymLinkJson D, ParseAppMountsJson D, ParsePermissionJson D,
                ParseSeccompJson D, ParseEnvPolicyJson D, ParseConditionalJson D, ParseExecSelinuxTypesJson D] t))"

end
