(* ===== verification/Claw_Env.thy ===== *)
theory Claw_Env
  imports Claw_Template
begin

text \<open>
  The environment of the sandboxed program: \<open>ApplyEnvironment\<close> of \<open>claw_sandbox/src/sandbox_manager.cpp\<close> and the tool
  credentials of \<open>sandbox_credential.cpp\<close>, for the build with the shell sandbox. An environment is the list of its
  entries \<open>name=value\<close>. The counters of the loops are only logged and are left out.
\<close>

section \<open>Names\<close>

definition IsPortableEnvVarKey :: "string \<Rightarrow> bool" where
  "IsPortableEnvVarKey key \<longleftrightarrow>
     \<not> (key = [] \<or> \<not> (isalpha (hd key) \<or> hd key = CHR ''_'')) \<and> list_all (\<lambda>ch. isalnum ch \<or> ch = CHR ''_'') key"

definition IsWindowsCompatOverrideEnvVarKey :: "string \<Rightarrow> bool" where
  "IsWindowsCompatOverrideEnvVarKey key \<longleftrightarrow>
     \<not> (key = [] \<or> \<not> (isalpha (hd key) \<or> hd key = CHR ''_'')) \<and>
     list_all (\<lambda>ch. isalnum ch \<or> ch = CHR ''_'' \<or> ch = CHR ''('' \<or> ch = CHR '')'') key"

definition ContainsEnvKey :: "string list \<Rightarrow> string \<Rightarrow> bool" where
  "ContainsEnvKey keys upperKey \<longleftrightarrow> upperKey \<in> set keys"

definition HasEnvPrefix :: "string list \<Rightarrow> string \<Rightarrow> bool" where
  "HasEnvPrefix ps upperKey \<longleftrightarrow> list_ex (starts_with upperKey) ps"

text \<open>The normalized name, \<open>None\<close> when it is refused.\<close>

definition NormalizeHostOverrideEnvVarKey :: "string \<Rightarrow> string option" where
  "NormalizeHostOverrideEnvVarKey rawKey =
     (let normalizedKey = TrimEnvKey rawKey
      in if normalizedKey = [] then None
         else if IsPortableEnvVarKey normalizedKey \<or> IsWindowsCompatOverrideEnvVarKey normalizedKey then Some normalizedKey
         else None)"

definition AppendEnvPathValue :: "string \<Rightarrow> string \<Rightarrow> string" where
  "AppendEnvPathValue baseValue appendValue =
     (if baseValue = [] then appendValue else if appendValue = [] then baseValue else baseValue @ '':'' @ appendValue)"

definition IsAllowedInheritedOverrideOnlyEnvKey :: "EnvPolicy \<Rightarrow> string \<Rightarrow> bool" where
  "IsAllowedInheritedOverrideOnlyEnvKey p upperKey = ContainsEnvKey (ep_allowedInheritedOverrideOnlyKeys p) upperKey"

definition IsDangerousHostEnvVarName :: "EnvPolicy \<Rightarrow> string \<Rightarrow> bool" where
  "IsDangerousHostEnvVarName p key =
     (let upperKey = ToUpperAscii (TrimEnvKey key)
      in if upperKey = [] then False
         else if ContainsEnvKey (ep_blockedEverywhereKeys p) upperKey then True
         else HasEnvPrefix (ep_blockedPrefixes p) upperKey)"

definition IsDangerousHostInheritedEnvVarName :: "EnvPolicy \<Rightarrow> string \<Rightarrow> bool" where
  "IsDangerousHostInheritedEnvVarName p key =
     (let upperKey = ToUpperAscii (TrimEnvKey key)
      in if upperKey = [] then False
         else if IsDangerousHostEnvVarName p upperKey then True
         else if IsAllowedInheritedOverrideOnlyEnvKey p upperKey then False
         else ContainsEnvKey (ep_blockedOverrideOnlyKeys p) upperKey)"

definition IsDangerousHostEnvOverrideVarName :: "EnvPolicy \<Rightarrow> string \<Rightarrow> bool" where
  "IsDangerousHostEnvOverrideVarName p key =
     (let upperKey = ToUpperAscii (TrimEnvKey key)
      in if upperKey = [] then False
         else if ContainsEnvKey (ep_blockedOverrideOnlyKeys p) upperKey then True
         else HasEnvPrefix (ep_blockedOverridePrefixes p) upperKey)"

section \<open>Inherited variables\<close>

text \<open>One entry of \<open>environ\<close>: its name and value, or nothing when it is passed over.\<close>

definition inherited_entry :: "EnvPolicy \<Rightarrow> string \<Rightarrow> (string \<times> string) option" where
  "inherited_entry p entry = (case str_find_char entry (CHR ''='') 0 of
       None \<Rightarrow> None
     | Some sep \<Rightarrow>
         let key = TrimEnvKey (take sep entry)
         in if key = [] then None
            else if IsDangerousHostInheritedEnvVarName p key then None
            else Some (key, drop (sep + 1) entry))"

fun SanitizeInheritedEnv :: "EnvPolicy \<Rightarrow> string list \<Rightarrow> (string, string) omap \<Rightarrow> (string, string) omap" where
  "SanitizeInheritedEnv p [] sanitizedEnv = sanitizedEnv"
| "SanitizeInheritedEnv p (entry # environ) sanitizedEnv = (case inherited_entry p entry of
       None \<Rightarrow> SanitizeInheritedEnv p environ sanitizedEnv
     | Some (key, value) \<Rightarrow> SanitizeInheritedEnv p environ (omap_put key value sanitizedEnv))"

section \<open>Presets and overrides\<close>

definition DELETE_ENV_VARS :: "string list" where
  "DELETE_ENV_VARS = [''PATH'', ''OHOS_SOCKET_hdcd'', ''TMP'', ''SANDBOX_SOCKET_PATH'']"

definition PRESET_ENV_VARS :: "(string \<times> string) list" where
  "PRESET_ENV_VARS =
     [(''HOME'', ''/storage/Users/currentUser''), (''SHELL'', ''/bin/sh''), (''TMPDIR'', ''/storage/Users/currentUser''),
      (''HAP_DEBUGGABLE'', ''false''), (''HNP_PRIVATE_HOME'', ''/data/app''), (''HNP_PUBLIC_HOME'', ''/data/service/hnp''),
      (''PATH'', ''/usr/local/bin:/data/app/bin:/data/service/hnp/bin:/usr/bin:/bin:/system/bin:/system/bin/cli_tool/executable:/vendor/bin'')]"

definition current_path :: "(string, string) omap \<Rightarrow> string" where
  "current_path sanitizedEnv = (case map_of sanitizedEnv ''PATH'' of Some v \<Rightarrow> v | None \<Rightarrow> [])"

definition put_preset :: "string \<times> string \<Rightarrow> (string, string) omap \<Rightarrow> (string, string) omap" where
  "put_preset e sanitizedEnv = (case e of (key, value) \<Rightarrow>
     if key = ''PATH'' then omap_put ''PATH'' (AppendEnvPathValue (current_path sanitizedEnv) value) sanitizedEnv
     else omap_put key value sanitizedEnv)"

definition put_override :: "EnvPolicy \<Rightarrow> string \<times> string \<Rightarrow> (string, string) omap \<Rightarrow> (string, string) omap" where
  "put_override p item sanitizedEnv = (case item of (rawKey, value) \<Rightarrow> (case NormalizeHostOverrideEnvVarKey rawKey of
       None \<Rightarrow> sanitizedEnv
     | Some normalizedKey \<Rightarrow>
         let upperKey = ToUpperAscii normalizedKey
         in if upperKey = ''PATH'' then omap_put ''PATH'' (AppendEnvPathValue value (current_path sanitizedEnv)) sanitizedEnv
            else if IsDangerousHostEnvVarName p upperKey \<or> IsDangerousHostEnvOverrideVarName p upperKey then sanitizedEnv
            else omap_put normalizedKey value sanitizedEnv))"

definition SanitizeOverrideEnv ::
    "EnvPolicy \<Rightarrow> string \<Rightarrow> (string, string) omap \<Rightarrow> (string, string) omap \<Rightarrow> (string, string) omap" where
  "SanitizeOverrideEnv p currentUserId env sanitizedEnv =
     (let sanitizedEnv = fold omap_erase DELETE_ENV_VARS sanitizedEnv;
          sanitizedEnv = fold put_preset PRESET_ENV_VARS sanitizedEnv;
          sanitizedEnv = omap_put ''USER'' currentUserId sanitizedEnv
      in fold (put_override p) env sanitizedEnv)"

section \<open>The process environment\<close>

text \<open>\<open>setenv(name, value, 1)\<close>; the parameter \<open>ok\<close> says whether it succeeds.\<close>

definition put_entry :: "string \<Rightarrow> string \<Rightarrow> string list \<Rightarrow> string list" where
  "put_entry name value environ = filter (\<lambda>e. \<not> starts_with e (name @ ''='')) environ @ [name @ ''='' @ value]"

fun setenv_loop :: "(string \<Rightarrow> string \<Rightarrow> bool) \<Rightarrow> (string, string) omap \<Rightarrow> string list \<Rightarrow> int \<times> string list" where
  "setenv_loop ok [] environ = (SANDBOX_SUCCESS, environ)"
| "setenv_loop ok ((name, value) # items) environ =
     (if \<not> ok (c_str name) (c_str value) then (SANDBOX_ERR_GENERIC, environ)
      else setenv_loop ok items (put_entry (c_str name) (c_str value) environ))"

definition ApplySanitizedEnv :: "bool \<Rightarrow> (string \<Rightarrow> string \<Rightarrow> bool) \<Rightarrow> (string, string) omap \<Rightarrow> string list \<Rightarrow> int \<times> string list" where
  "ApplySanitizedEnv cleared ok sanitizedEnv environ =
     (if \<not> cleared then (SANDBOX_ERR_GENERIC, environ) else setenv_loop ok sanitizedEnv [])"

definition sanitized_env :: "EnvPolicy \<Rightarrow> string \<Rightarrow> (string, string) omap \<Rightarrow> string list \<Rightarrow> (string, string) omap" where
  "sanitized_env p currentUserId env environ =
     (let sanitizedEnv = SanitizeInheritedEnv p environ [];
          sanitizedEnv = SanitizeOverrideEnv p currentUserId env sanitizedEnv
      in omap_put ''CLAW_SANDBOX'' ''1'' sanitizedEnv)"

definition ApplyEnvironment ::
    "bool \<Rightarrow> (string \<Rightarrow> string \<Rightarrow> bool) \<Rightarrow> EnvPolicy \<Rightarrow> string \<Rightarrow> (string, string) omap \<Rightarrow> string list \<Rightarrow> int \<times> string list" where
  "ApplyEnvironment cleared ok p currentUserId env environ =
     ApplySanitizedEnv cleared ok (sanitized_env p currentUserId env environ) environ"

section \<open>Tool credentials\<close>

definition IsValidCredentialEnvName :: "string \<Rightarrow> bool" where
  "IsValidCredentialEnvName envName \<longleftrightarrow> envName \<noteq> [] \<and> CHR ''='' \<notin> set envName"

text \<open>\<open>fetched\<close> is the answer of the credential service, \<open>None\<close> for an error.\<close>

definition FetchToolCredentials ::
    "string \<Rightarrow> string \<Rightarrow> (string \<times> string) list option \<Rightarrow> (string \<times> string) list \<Rightarrow> (string \<times> string) list" where
  "FetchToolCredentials type subjectId fetched toolCredentials =
     (if type \<noteq> ''shell'' then toolCredentials
      else if subjectId = [] then []
      else case fetched of
          None \<Rightarrow> []
        | Some credentialInfos \<Rightarrow> filter (\<lambda>info. IsValidCredentialEnvName (fst info)) credentialInfos)"

fun credential_loop :: "(string \<Rightarrow> string \<Rightarrow> bool) \<Rightarrow> (string \<times> string) list \<Rightarrow> string list \<Rightarrow> string list" where
  "credential_loop ok [] environ = environ"
| "credential_loop ok ((name, value) # items) environ =
     (if \<not> IsValidCredentialEnvName name then credential_loop ok items environ
      else if \<not> ok (c_str name) (c_str value) then credential_loop ok items environ
      else credential_loop ok items (put_entry (c_str name) (c_str value) environ))"

definition SetToolCredentials :: "(string \<Rightarrow> string \<Rightarrow> bool) \<Rightarrow> string \<Rightarrow> (string \<times> string) list \<Rightarrow> string list \<Rightarrow> string list" where
  "SetToolCredentials ok type toolCredentials environ =
     (if type \<noteq> ''shell'' then environ else credential_loop ok toolCredentials environ)"

end
