(* ===== verification/Env_Spec.thy ===== *)
theory Env_Spec
  imports Claw_Env
begin

text \<open>
  The environment of the sandboxed program, variable by variable: a reference that says for every name what the
  program gets, written from the policy's lists and the text of the entries alone, and the proof that the passes
  over the environment compute it.
\<close>

section \<open>The reference\<close>

text \<open>Names are compared without surrounding blanks and in capitals; an empty name is never blocked.\<close>

definition trimmed :: "string \<Rightarrow> string" where
  "trimmed s = rev (dropWhile isspace (rev (dropWhile isspace s)))"

definition capitals :: "string \<Rightarrow> string" where
  "capitals s = map toupper s"

definition listed :: "string list \<Rightarrow> string list \<Rightarrow> string \<Rightarrow> bool" where
  "listed keys pres name \<longleftrightarrow>
     (let u = capitals (trimmed name)
      in u \<noteq> [] \<and> (u \<in> set keys \<or> (\<exists>pre \<in> set pres. take (length pre) u = pre)))"

definition blocked_name :: "EnvPolicy \<Rightarrow> string \<Rightarrow> bool" where
  "blocked_name p = listed (ep_blockedEverywhereKeys p) (ep_blockedPrefixes p)"

text \<open>
  What an entry of the caller's environment gives: the text before the first equality sign is the name, and the
  name is not blocked. A name that is blocked for overrides only is not inherited either, unless it is excepted.
\<close>

definition inheritable :: "EnvPolicy \<Rightarrow> string \<Rightarrow> bool" where
  "inheritable p name \<longleftrightarrow> name \<noteq> [] \<and> \<not> blocked_name p name \<and>
     (listed (ep_blockedOverrideOnlyKeys p) [] name \<longrightarrow> listed (ep_allowedInheritedOverrideOnlyKeys p) [] name)"

definition inherited_pair :: "EnvPolicy \<Rightarrow> string \<Rightarrow> (string \<times> string) option" where
  "inherited_pair p e =
     (let name = trimmed (takeWhile (\<lambda>c. c \<noteq> CHR ''='') e); val = tl (dropWhile (\<lambda>c. c \<noteq> CHR ''='') e)
      in if CHR ''='' \<in> set e \<and> inheritable p name then Some (name, val) else None)"

definition inherited_value :: "EnvPolicy \<Rightarrow> string list \<Rightarrow> string \<rightharpoonup> string" where
  "inherited_value p environ = map_of (rev (List.map_filter (inherited_pair p) environ))"

text \<open>An override that is taken as it is, and one that goes into the path.\<close>

definition well_formed_name :: "string \<Rightarrow> bool" where
  "well_formed_name n \<longleftrightarrow> n \<noteq> [] \<and> (isalpha (hd n) \<or> hd n = CHR ''_'') \<and>
     (\<forall>c \<in> set n. isalnum c \<or> c = CHR ''_'' \<or> c = CHR ''('' \<or> c = CHR '')'')"

definition is_path :: "string \<Rightarrow> bool" where
  "is_path rawKey \<longleftrightarrow> well_formed_name (trimmed rawKey) \<and> capitals (trimmed rawKey) = ''PATH''"

definition accepted_override :: "EnvPolicy \<Rightarrow> string \<times> string \<Rightarrow> (string \<times> string) option" where
  "accepted_override p item =
     (let name = trimmed (fst item)
      in if well_formed_name name \<and> capitals name \<noteq> ''PATH'' \<and> \<not> blocked_name p name \<and>
            \<not> listed (ep_blockedOverrideOnlyKeys p) (ep_blockedOverridePrefixes p) name
         then Some (name, snd item) else None)"

definition override_value :: "EnvPolicy \<Rightarrow> (string, string) omap \<Rightarrow> string \<rightharpoonup> string" where
  "override_value p env = map_of (rev (List.map_filter (accepted_override p) env))"

text \<open>The path: the caller's paths, the last one first, in front of the preset, joined by colons.\<close>

fun joined :: "string list \<Rightarrow> string" where
  "joined [] = []"
| "joined [s] = s"
| "joined (s # ss) = s @ '':'' @ joined ss"

definition default_path :: string where
  "default_path = ''/usr/local/bin:/data/app/bin:/data/service/hnp/bin:/usr/bin:/bin:/system/bin:/system/bin/cli_tool/executable:/vendor/bin''"

definition path_value :: "(string, string) omap \<Rightarrow> string" where
  "path_value env =
     joined (filter (\<lambda>s. s \<noteq> []) (rev (map snd (filter (\<lambda>item. is_path (fst item)) env)) @ [default_path]))"

definition preset_value :: "string \<rightharpoonup> string" where
  "preset_value = map_of
     [(''HOME'', ''/storage/Users/currentUser''), (''SHELL'', ''/bin/sh''), (''TMPDIR'', ''/storage/Users/currentUser''),
      (''HAP_DEBUGGABLE'', ''false''), (''HNP_PRIVATE_HOME'', ''/data/app''), (''HNP_PUBLIC_HOME'', ''/data/service/hnp'')]"

definition env_value :: "EnvPolicy \<Rightarrow> string \<Rightarrow> (string, string) omap \<Rightarrow> string list \<Rightarrow> string \<rightharpoonup> string" where
  "env_value p currentUserId env environ k =
     (if k = ''CLAW_SANDBOX'' then Some ''1''
      else if k = ''PATH'' then Some (path_value env)
      else case override_value p env k of
          Some v \<Rightarrow> Some v
        | None \<Rightarrow>
            if k = ''USER'' then Some currentUserId
            else case preset_value k of
                Some v \<Rightarrow> Some v
              | None \<Rightarrow> if k \<in> {''OHOS_SOCKET_hdcd'', ''TMP'', ''SANDBOX_SOCKET_PATH''} then None
                        else inherited_value p environ k)"

section \<open>Names\<close>

text \<open>A letter that is raised keeps to the capitals.\<close>

lemma toupper_cases:
  obtains "toupper c = c" "\<not> (97 \<le> (of_char c :: nat) \<and> (of_char c :: nat) \<le> 122)"
  | "(of_char (toupper c) :: nat) = of_char c - 32" "97 \<le> (of_char c :: nat)" "(of_char c :: nat) \<le> 122"
proof (cases "97 \<le> (of_char c :: nat) \<and> (of_char c :: nat) \<le> 122")
  case True
  then have "(of_char (char_of ((of_char c :: nat) - 32)) :: nat) = of_char c - 32"
    by (subst of_char_of) (rule mod_less, linarith)
  then have "(of_char (toupper c) :: nat) = of_char c - 32" using True by (simp only: toupper_def Let_def if_True simp_thms)
  with True that show thesis by blast
next
  case False
  then have "toupper c = c" by (simp only: toupper_def Let_def if_False)
  with False that show thesis by blast
qed

lemma toupper_idem [simp]: "toupper (toupper c) = toupper c"
proof (cases rule: toupper_cases [of c])
  case 2
  then have "\<not> (97 \<le> (of_char (toupper c) :: nat) \<and> (of_char (toupper c) :: nat) \<le> 122)" by linarith
  then show ?thesis by (simp only: toupper_def [of "toupper c"] Let_def if_False)
qed simp

lemma isspace_toupper [simp]: "isspace (toupper c) = isspace c"
proof (cases rule: toupper_cases [of c])
  case 2
  have no: "\<not> isspace d" if "65 \<le> (of_char d :: nat)" for d using that by (auto simp: isspace_def)
  have "\<not> isspace c" by (rule no) (use 2 in linarith)
  moreover have "\<not> isspace (toupper c)" by (rule no) (use 2 in linarith)
  ultimately show ?thesis by simp
qed simp

lemma ToUpperAscii_idem [simp]: "ToUpperAscii (ToUpperAscii s) = ToUpperAscii s"
  by (simp add: ToUpperAscii_def comp_def)

lemma TrimEnvKey_upper [simp]: "TrimEnvKey (ToUpperAscii s) = ToUpperAscii (TrimEnvKey s)"
  by (simp add: TrimEnvKey_def ToUpperAscii_def dropWhile_map rev_map comp_def)

lemma dropWhile_idem: "xs = [] \<or> \<not> P (hd xs) \<Longrightarrow> dropWhile P xs = xs"
  by (cases xs) auto

lemma last_dropWhile: "dropWhile P xs \<noteq> [] \<Longrightarrow> last (dropWhile P xs) = last xs"
  by (induction xs) (auto split: if_splits)

lemma TrimEnvKey_ends: "TrimEnvKey s \<noteq> [] \<Longrightarrow> \<not> isspace (hd (TrimEnvKey s)) \<and> \<not> isspace (last (TrimEnvKey s))"
proof -
  let ?t = "dropWhile isspace s"
  assume "TrimEnvKey s \<noteq> []"
  then have ne: "dropWhile isspace (rev ?t) \<noteq> []" unfolding TrimEnvKey_def rev_is_Nil_conv .
  then have t: "?t \<noteq> []" by (metis dropWhile.simps(1) rev.simps(1))
  have "hd (TrimEnvKey s) = last (dropWhile isspace (rev ?t))" using ne by (simp add: TrimEnvKey_def hd_rev)
  also have "\<dots> = hd ?t" using last_dropWhile [OF ne] t by (simp add: last_rev)
  finally have "\<not> isspace (hd (TrimEnvKey s))" using hd_dropWhile [OF t] by simp
  moreover have "last (TrimEnvKey s) = hd (dropWhile isspace (rev ?t))" using ne by (simp add: TrimEnvKey_def last_rev)
  ultimately show ?thesis using hd_dropWhile [OF ne] by simp
qed

lemma TrimEnvKey_idem [simp]: "TrimEnvKey (TrimEnvKey s) = TrimEnvKey s"
proof (cases "TrimEnvKey s = []")
  case True
  then show ?thesis by (simp only: True) (simp add: TrimEnvKey_def)
next
  case False
  then show ?thesis
    using TrimEnvKey_ends [OF False] dropWhile_idem [of "TrimEnvKey s" isspace] dropWhile_idem [of "rev (TrimEnvKey s)" isspace]
    by (simp add: TrimEnvKey_def [of "TrimEnvKey s"] hd_rev)
qed

lemma set_TrimEnvKey: "set (TrimEnvKey s) \<subseteq> set s"
  by (auto simp: TrimEnvKey_def dest!: set_dropWhileD)

lemma Normalize_Some: "NormalizeHostOverrideEnvVarKey raw = Some key \<Longrightarrow> key = TrimEnvKey raw \<and> key \<noteq> []"
  by (auto simp: NormalizeHostOverrideEnvVarKey_def Let_def split: if_splits)

text \<open>The checks do not depend on the case of a trimmed name.\<close>

lemma dangerous_upper:
  "IsDangerousHostEnvVarName p (ToUpperAscii key) = IsDangerousHostEnvVarName p key"
  "IsDangerousHostEnvOverrideVarName p (ToUpperAscii key) = IsDangerousHostEnvOverrideVarName p key"
  by (simp_all add: IsDangerousHostEnvVarName_def IsDangerousHostEnvOverrideVarName_def Let_def)

text \<open>The tests of the program are the reference's.\<close>

lemma trim_capitals: "TrimEnvKey = trimmed" "ToUpperAscii = capitals"
  by (rule ext, simp add: TrimEnvKey_def trimmed_def, rule ext, simp add: ToUpperAscii_def capitals_def)

lemma HasEnvPrefix_ex: "HasEnvPrefix pres u \<longleftrightarrow> (\<exists>pre \<in> set pres. take (length pre) u = pre)"
  by (simp add: HasEnvPrefix_def list_ex_iff starts_with_def)

lemma IsDangerous_listed:
  "IsDangerousHostEnvVarName p key = blocked_name p key"
  "IsDangerousHostEnvOverrideVarName p key = listed (ep_blockedOverrideOnlyKeys p) (ep_blockedOverridePrefixes p) key"
  by (auto simp: IsDangerousHostEnvVarName_def IsDangerousHostEnvOverrideVarName_def blocked_name_def listed_def Let_def
      ContainsEnvKey_def HasEnvPrefix_ex trim_capitals)

lemmas blocked_capitals = dangerous_upper [unfolded trim_capitals IsDangerous_listed]

lemma IsDangerousInherited_listed:
  "IsDangerousHostInheritedEnvVarName p key \<longleftrightarrow> blocked_name p key \<or>
     listed (ep_blockedOverrideOnlyKeys p) [] key \<and> \<not> listed (ep_allowedInheritedOverrideOnlyKeys p) [] key"
proof -
  have "IsDangerousHostEnvVarName p (ToUpperAscii (TrimEnvKey key)) = blocked_name p key"
    by (simp add: IsDangerous_listed(1) [symmetric]) (simp add: IsDangerousHostEnvVarName_def Let_def)
  moreover have "blocked_name p key \<Longrightarrow> capitals (trimmed key) \<noteq> []" by (auto simp: blocked_name_def listed_def Let_def)
  ultimately show ?thesis
    unfolding IsDangerousHostInheritedEnvVarName_def IsAllowedInheritedOverrideOnlyEnvKey_def ContainsEnvKey_def Let_def
    by (auto simp: listed_def Let_def trim_capitals)
qed

lemma Normalize_well_formed:
  "NormalizeHostOverrideEnvVarKey raw = (if well_formed_name (trimmed raw) then Some (trimmed raw) else None)"
  by (auto simp: NormalizeHostOverrideEnvVarKey_def IsPortableEnvVarKey_def IsWindowsCompatOverrideEnvVarKey_def
      well_formed_name_def list_all_iff Let_def trim_capitals)

lemma inherited_entry_pair: "inherited_entry p e = inherited_pair p e"
proof (cases "str_find_char e (CHR ''='') 0")
  case None
  then have "CHR ''='' \<notin> set e" by (simp add: str_find_char_def find_char_from_None)
  with None show ?thesis by (simp add: inherited_entry_def inherited_pair_def)
next
  case (Some sep)
  then have "find_char_from (CHR ''='') 0 e = Some sep" by (simp add: str_find_char_def)
  with find_char_from_Some [OF this] find_char_from_None [of "CHR ''=''" 0 e]
  have "CHR ''='' \<in> set e" "take sep e = takeWhile (\<lambda>c. c \<noteq> CHR ''='') e"
      "drop (sep + 1) e = tl (dropWhile (\<lambda>c. c \<noteq> CHR ''='') e)" by auto
  with Some show ?thesis
    by (simp add: inherited_entry_def inherited_pair_def Let_def trim_capitals IsDangerousInherited_listed inheritable_def)
qed

section \<open>Inherited variables\<close>

lemma SanitizeInheritedEnv_value:
  "omap_ok m \<Longrightarrow> omap_ok (SanitizeInheritedEnv p environ m) \<and>
    map_of (SanitizeInheritedEnv p environ m) = map_of m ++ inherited_value p environ"
proof (induction p environ m rule: SanitizeInheritedEnv.induct)
  case (2 p entry environ m)
  then show ?case
    by (cases "inherited_pair p entry") (auto simp: inherited_entry_pair inherited_value_def List.map_filter_simps map_add_def fun_eq_iff split: option.splits)
qed (simp add: inherited_value_def List.map_filter_simps)

section \<open>Overrides\<close>

lemma put_override_cases:
  "put_override p item m = (if is_path (fst item) then omap_put ''PATH'' (AppendEnvPathValue (snd item) (current_path m)) m
     else case accepted_override p item of None \<Rightarrow> m | Some (key, value) \<Rightarrow> omap_put key value m)"
  by (cases item)
    (auto simp: put_override_def is_path_def accepted_override_def blocked_capitals Normalize_well_formed
      IsDangerous_listed trim_capitals Let_def)

lemma capitals_PATH: "capitals ''PATH'' = ''PATH''"
  by code_simp

lemma accepted_not_path: "accepted_override p item = Some (key, value) \<Longrightarrow> key \<noteq> ''PATH'' \<and> \<not> is_path (fst item)"
  using capitals_PATH by (auto simp: accepted_override_def is_path_def Let_def split: if_splits)

lemma is_path_not_accepted: "is_path (fst item) \<Longrightarrow> accepted_override p item = None"
  by (auto simp: accepted_override_def is_path_def Let_def)

text \<open>Folding the paths in is joining them.\<close>

lemma joined_Cons: "ss \<noteq> [] \<Longrightarrow> joined (s # ss) = s @ '':'' @ joined ss"
  by (cases ss) simp_all

lemma joined_Nil: "\<forall>s \<in> set ss. s \<noteq> [] \<Longrightarrow> joined ss = [] \<longleftrightarrow> ss = []"
  by (cases ss rule: joined.cases) auto

lemma append_path_joined:
  "\<forall>s \<in> set ss. s \<noteq> [] \<Longrightarrow> AppendEnvPathValue v (joined ss) = joined (filter (\<lambda>s. s \<noteq> []) [v] @ ss)"
  by (cases "ss = []") (simp_all add: AppendEnvPathValue_def joined_Cons joined_Nil)

lemma fold_paths_joined:
  "\<forall>s \<in> set ss. s \<noteq> [] \<Longrightarrow>
   fold (\<lambda>item path. if is_path (fst item) then AppendEnvPathValue (snd item) path else path) env (joined ss) =
     joined (filter (\<lambda>s. s \<noteq> []) (rev (map snd (filter (\<lambda>item. is_path (fst item)) env))) @ ss)"
proof (induction env arbitrary: ss)
  case (Cons item env)
  show ?case
  proof (cases "is_path (fst item)")
    case True
    have "\<forall>s \<in> set (filter (\<lambda>s. s \<noteq> []) [snd item] @ ss). s \<noteq> []" using Cons.prems by auto
    from Cons.IH [OF this] True show ?thesis by (simp add: append_path_joined [OF Cons.prems])
  qed (use Cons in simp)
qed simp

lemma overrides_value:
  "omap_ok m \<Longrightarrow> map_of m ''PATH'' = Some path \<Longrightarrow> omap_ok (fold (put_override p) env m) \<and>
    map_of (fold (put_override p) env m) = (map_of m ++ override_value p env)
      (''PATH'' \<mapsto> fold (\<lambda>item path. if is_path (fst item) then AppendEnvPathValue (snd item) path else path) env path)"
proof (induction env arbitrary: m path)
  case Nil
  then show ?case by (auto simp: override_value_def List.map_filter_simps)
next
  case (Cons item env)
  show ?case
  proof (cases "is_path (fst item)")
    case True
    then have "map_of (put_override p item m) ''PATH'' = Some (AppendEnvPathValue (snd item) path)" "omap_ok (put_override p item m)"
      "map_of (put_override p item m) = (map_of m)(''PATH'' \<mapsto> AppendEnvPathValue (snd item) path)"
      using Cons.prems by (simp_all add: put_override_cases current_path_def)
    then show ?thesis using Cons.IH [of "put_override p item m"] True is_path_not_accepted [OF True]
      by (auto simp: override_value_def List.map_filter_simps map_add_def fun_eq_iff split: option.splits)
  next
    case False
    show ?thesis
    proof (cases "accepted_override p item")
      case None
      then show ?thesis using Cons False by (simp add: put_override_cases override_value_def List.map_filter_simps)
    next
      case (Some kv)
      obtain key v where kv: "kv = (key, v)" by fastforce
      have "put_override p item m = omap_put key v m" "key \<noteq> ''PATH''"
        using Some False accepted_not_path [of p item key v] by (auto simp: put_override_cases kv)
      then show ?thesis using Cons.IH [of "put_override p item m" path] Cons.prems Some False
        by (auto simp: kv override_value_def List.map_filter_simps map_add_def fun_eq_iff split: option.splits)
    qed
  qed
qed

section \<open>All variables\<close>

lemma erased_value: "omap_ok m \<Longrightarrow> omap_ok (fold omap_erase ks m) \<and> map_of (fold omap_erase ks m) = (\<lambda>k. if k \<in> set ks then None else map_of m k)"
  by (induction ks arbitrary: m) (auto simp: fun_eq_iff)

lemma presets_value:
  assumes "omap_ok m" "map_of m ''PATH'' = None"
  shows "omap_ok (fold put_preset PRESET_ENV_VARS m) \<and> map_of (fold put_preset PRESET_ENV_VARS m) = map_of m ++ map_of PRESET_ENV_VARS"
  using assms by (simp add: PRESET_ENV_VARS_def put_preset_def current_path_def AppendEnvPathValue_def) (auto simp: fun_eq_iff map_add_def)

lemma override_not_path: "override_value p env ''PATH'' = None"
  using accepted_not_path [of p _ "''PATH''"]
  by (auto simp: override_value_def map_of_eq_None_iff List.map_filter_def image_iff)

lemma sanitized_env_value:
  "omap_ok (sanitized_env p currentUserId env environ) \<and>
   map_of (sanitized_env p currentUserId env environ) = env_value p currentUserId env environ"
proof -
  define m1 where "m1 = SanitizeInheritedEnv p environ []"
  have m1: "omap_ok m1" "map_of m1 = inherited_value p environ"
    using SanitizeInheritedEnv_value [of "[]" p environ] by (simp_all add: m1_def)
  define m2 where "m2 = fold omap_erase DELETE_ENV_VARS m1"
  have m2: "omap_ok m2" "map_of m2 = (\<lambda>k. if k \<in> set DELETE_ENV_VARS then None else inherited_value p environ k)"
    using erased_value [OF m1(1), of DELETE_ENV_VARS] unfolding m1(2) m2_def by blast+
  have "map_of m2 ''PATH'' = None" by (simp add: m2(2) DELETE_ENV_VARS_def)
  define m3 where "m3 = fold put_preset PRESET_ENV_VARS m2"
  have m3: "omap_ok m3" "map_of m3 = map_of m2 ++ map_of PRESET_ENV_VARS"
    using presets_value [OF m2(1) \<open>map_of m2 ''PATH'' = None\<close>] by (simp_all add: m3_def)
  define m4 where "m4 = omap_put ''USER'' currentUserId m3"
  have m4: "omap_ok m4" "map_of m4 = (map_of m2 ++ map_of PRESET_ENV_VARS)(''USER'' \<mapsto> currentUserId)"
    using m3 by (simp_all add: m4_def)
  have path: "map_of m4 ''PATH'' = Some (the (map_of PRESET_ENV_VARS ''PATH''))"
    by (simp add: m4(2) PRESET_ENV_VARS_def)
  have preset: "map_of PRESET_ENV_VARS k = (if k = ''PATH'' then Some default_path else preset_value k)" for k
    by (simp add: PRESET_ENV_VARS_def preset_value_def default_path_def)
  have paths: "fold (\<lambda>item path. if is_path (fst item) then AppendEnvPathValue (snd item) path else path) env default_path = path_value env"
    using fold_paths_joined [of "[default_path]" env] by (simp add: path_value_def default_path_def)
  have s: "sanitized_env p currentUserId env environ = omap_put ''CLAW_SANDBOX'' ''1'' (fold (put_override p) env m4)"
    by (simp add: sanitized_env_def SanitizeOverrideEnv_def m1_def m2_def m3_def m4_def Let_def)
  note o = overrides_value [OF m4(1) path, of p env]
  have user: "map_of PRESET_ENV_VARS ''USER'' = None" by (simp add: PRESET_ENV_VARS_def)
  show ?thesis
  proof
    show "omap_ok (sanitized_env p currentUserId env environ)" using o by (simp add: s)
    have "map_of (sanitized_env p currentUserId env environ) =
        ((map_of m4 ++ override_value p env)(''PATH'' \<mapsto> path_value env))(''CLAW_SANDBOX'' \<mapsto> ''1'')"
      unfolding s using o by (simp add: preset paths)
    also have "\<dots> = env_value p currentUserId env environ"
    proof
      fix k
      show "(((map_of m4 ++ override_value p env)(''PATH'' \<mapsto> path_value env))(''CLAW_SANDBOX'' \<mapsto> ''1'')) k
          = env_value p currentUserId env environ k"
        unfolding env_value_def m4(2) m2(2)
        by (cases "k = ''CLAW_SANDBOX''"; cases "k = ''PATH''"; cases "override_value p env k"; cases "k = ''USER''";
            cases "preset_value k"; simp add: map_add_def preset DELETE_ENV_VARS_def)
    qed
    finally show "map_of (sanitized_env p currentUserId env environ) = env_value p currentUserId env environ" .
  qed
qed

section \<open>The entries of the process\<close>

definition good_name :: "string \<Rightarrow> bool" where
  "good_name k \<longleftrightarrow> CHR ''='' \<notin> set k \<and> CHR 0x00 \<notin> set k"

lemma name_prefix: "good_name n \<Longrightarrow> good_name n' \<Longrightarrow> starts_with (n' @ ''='' @ v) (n @ ''='') \<Longrightarrow> n = n'"
proof (induction n arbitrary: n')
  case Nil
  then show ?case by (cases n') (auto simp: starts_with_def good_name_def)
next
  case (Cons c n)
  then obtain m where "n' = c # m" by (cases n') (auto simp: starts_with_def good_name_def)
  then show ?case using Cons.IH [of m] Cons.prems by (simp add: starts_with_def good_name_def)
qed

lemma c_str_good: "good_name k \<Longrightarrow> c_str k = k"
  by (simp add: c_str_id_iff good_name_def)

definition entry_apart :: "(string, string) omap \<Rightarrow> string \<Rightarrow> bool" where
  "entry_apart items e \<longleftrightarrow> (\<exists>n v. e = n @ ''='' @ v \<and> good_name n \<and> n \<notin> fst ` set items)"

lemma entry_apart_Cons: "entry_apart ((name, v) # items) e \<Longrightarrow> good_name name \<Longrightarrow> \<not> starts_with e (name @ ''='') \<and> entry_apart items e"
  unfolding entry_apart_def using name_prefix [of name] by (metis fst_conv image_insert insert_iff list.simps(15))

lemma setenv_loop_entries:
  assumes "setenv_loop ok items environ = (0, environ')" and "distinct (map fst items)" and "\<forall>e \<in> set items. good_name (fst e)"
    and "\<forall>e \<in> set environ. entry_apart items e"
  shows "environ' = environ @ map (\<lambda>(n, v). n @ ''='' @ c_str v) items"
  using assms
proof (induction ok items environ rule: setenv_loop.induct)
  case (2 ok name v items environ)
  have g: "good_name name" "c_str name = name" using 2(4) c_str_good by auto
  let ?env = "put_entry name (c_str v) environ"
  have apart: "\<not> starts_with e (name @ ''='') \<and> entry_apart items e" if "e \<in> set environ" for e
    using 2(5) that by (intro entry_apart_Cons [OF _ g(1)]) blast
  then have env: "?env = environ @ [name @ ''='' @ c_str v]" by (simp add: put_entry_def)
  have ok: "\<not> (\<not> ok (c_str name) (c_str v))" using 2(2) by (auto split: if_splits)
  then have run: "setenv_loop ok items (put_entry (c_str name) (c_str v) environ) = (0, environ')" using 2(2) by simp
  have names: "distinct (map fst items)" "\<forall>e \<in> set items. good_name (fst e)" using 2(3,4) by auto
  have "entry_apart items (name @ ''='' @ c_str v)" using g(1) 2(3) by (auto simp: entry_apart_def)
  then have entries: "\<forall>e \<in> set (put_entry (c_str name) (c_str v) environ). entry_apart items e"
    unfolding g(2) env using apart by simp
  have "environ' = ?env @ map (\<lambda>(n, v). n @ ''='' @ c_str v) items"
    using 2(1) [OF ok run names entries] unfolding g(2) .
  then show ?case unfolding env by auto
qed simp

lemma alnum_good: "isalnum c \<or> c \<in> {CHR ''_'', CHR ''('', CHR '')''} \<Longrightarrow> c \<noteq> CHR ''='' \<and> c \<noteq> CHR 0x00"
  by (auto simp: isalnum_def isalpha_def Let_def)

lemma override_name: "override_value p env k = Some v \<Longrightarrow> good_name k"
proof -
  assume "override_value p env k = Some v"
  then obtain item where "accepted_override p item = Some (k, v)"
    by (auto simp: override_value_def List.map_filter_def dest!: map_of_SomeD)
  then have "well_formed_name k" by (auto simp: accepted_override_def Let_def split: if_splits)
  then show "good_name k"
    using alnum_good by (fastforce simp: good_name_def well_formed_name_def)
qed

lemma inherited_name:
  assumes "inherited_value p environ k = Some v" "\<forall>e \<in> set environ. CHR 0x00 \<notin> set e"
  shows "good_name k"
proof -
  obtain entry where e: "entry \<in> set environ" "inherited_pair p entry = Some (k, v)"
    using assms(1) by (auto simp: inherited_value_def List.map_filter_def dest!: map_of_SomeD)
  then have "k = trimmed (takeWhile (\<lambda>c. c \<noteq> CHR ''='') entry)"
    by (auto simp: inherited_pair_def Let_def split: if_splits)
  then have "set k \<subseteq> set (takeWhile (\<lambda>c. c \<noteq> CHR ''='') entry)" using set_TrimEnvKey by (simp add: trim_capitals)
  then show ?thesis using assms(2) e(1) by (auto simp: good_name_def dest: set_takeWhileD)
qed

lemma env_value_name:
  assumes "env_value p currentUserId env environ k = Some v" "\<forall>e \<in> set environ. CHR 0x00 \<notin> set e"
  shows "good_name k"
proof -
  have preset: "good_name k" if "preset_value k = Some w" for w
    using that by (auto simp: preset_value_def good_name_def split: if_splits)
  show ?thesis
  proof (cases "k \<in> {''CLAW_SANDBOX'', ''PATH'', ''USER''}")
    case True
    then show ?thesis by (auto simp: good_name_def)
  next
    case False
    then show ?thesis
      using assms preset override_name [of p env k] inherited_name [of p environ k]
      by (auto simp: env_value_def split: option.splits if_splits)
  qed
qed

text \<open>C40: When the environment has been applied, the sandboxed program gets exactly the variables of the reference, each
  once: the marker; a path of the presets with the caller's paths in front; then, for any other name, the caller's last
  override whose name is well formed and not blocked, else the user, else the preset, and else the last entry of the
  caller's environment with that name, when the name is not blocked and not one of those that are always deleted.
  Blocking ignores case and surrounding blanks.\<close>

theorem ApplyEnvironment_exact:
  assumes "ApplyEnvironment cleared ok p currentUserId env environ = (0, environ')"
    and "\<forall>e \<in> set environ. CHR 0x00 \<notin> set e"
  shows "\<exists>vars. environ' = map (\<lambda>(k, v). k @ ''='' @ c_str v) vars \<and> distinct (map fst vars) \<and>
    (\<forall>(k, v) \<in> set vars. CHR ''='' \<notin> set k) \<and> map_of vars = env_value p currentUserId env environ"
proof -
  let ?m = "sanitized_env p currentUserId env environ"
  note vals = sanitized_env_value [of p currentUserId env environ]
  then have names: "\<forall>e \<in> set ?m. good_name (fst e)"
    using env_value_name [OF _ assms(2)] omap_distinct map_of_eq_Some_iff by (metis prod.collapse)
  have "setenv_loop ok ?m [] = (0, environ')"
    using assms(1) by (simp add: ApplyEnvironment_def ApplySanitizedEnv_def split: if_splits)
  moreover have d: "distinct (map fst ?m)" using vals omap_distinct by blast
  ultimately have "environ' = map (\<lambda>(k, v). k @ ''='' @ c_str v) ?m"
    using setenv_loop_entries [of ok ?m "[]" environ'] names by simp
  moreover have "\<forall>(k, v) \<in> set ?m. CHR ''='' \<notin> set k" using names by (auto simp: good_name_def)
  ultimately show ?thesis using vals d by blast
qed

text \<open>Nothing that the policy blocks everywhere is left, unless the launcher itself has set it.\<close>

lemma blocked_everywhere_gone:
  assumes "env_value p currentUserId env environ k = Some v" "blocked_name p k"
  shows "k \<in> {''CLAW_SANDBOX'', ''PATH'', ''USER''} \<union> dom preset_value"
proof -
  have "override_value p env k = None"
    using assms(2) by (auto simp: override_value_def accepted_override_def Let_def List.map_filter_def map_of_eq_None_iff split: if_splits)
  moreover have "inherited_value p environ k = None"
    using assms(2) by (auto simp: inherited_value_def inherited_pair_def inheritable_def Let_def List.map_filter_def
        map_of_eq_None_iff split: if_splits)
  ultimately have "k \<notin> {''CLAW_SANDBOX'', ''PATH'', ''USER''} \<Longrightarrow> preset_value k = None \<Longrightarrow> False"
    using assms(1) by (simp add: env_value_def split: if_splits)
  then show ?thesis by (cases "preset_value k") blast+
qed

text \<open>A caller that sets a library path in another spelling, and a path.\<close>

definition demo_policy :: EnvPolicy where
  "demo_policy = new_EnvPolicy\<lparr>ep_blockedPrefixes := [''LD_'']\<rparr>"

definition demo_overrides :: "(string, string) omap" where
  "demo_overrides = [('' ld_Preload'', ''x.so''), (''LANG'', ''zh''), (''Path'', ''/data/bin'')]"

definition demo_environ :: "string list" where
  "demo_environ = [''LANG=en'', ''TMP=/tmp'', ''TERM=vt'', ''Ld_Debug=all'']"

lemma demo_values:
  "env_value demo_policy ''100'' demo_overrides demo_environ ''LANG'' = Some ''zh''"
  "env_value demo_policy ''100'' demo_overrides demo_environ ''ld_Preload'' = None"
  "env_value demo_policy ''100'' demo_overrides demo_environ ''TMP'' = None"
  "env_value demo_policy ''100'' demo_overrides demo_environ ''Ld_Debug'' = None"
  "env_value demo_policy ''100'' demo_overrides demo_environ ''TERM'' = Some ''vt''"
  by code_simp+

theorem ApplyEnvironment_exact_witness:
  "''LANG=zh'' \<in> set (snd (ApplyEnvironment True (\<lambda>_ _. True) demo_policy ''100'' demo_overrides demo_environ))"
proof -
  have ok: "setenv_loop (\<lambda>_ _. True) items environ = (0, snd (setenv_loop (\<lambda>_ _. True) items environ))" for items environ
    by (induction items arbitrary: environ) auto
  have run: "ApplyEnvironment True (\<lambda>_ _. True) p u env environ = (0, snd (ApplyEnvironment True (\<lambda>_ _. True) p u env environ))" for p u env environ
    using ok by (simp add: ApplyEnvironment_def ApplySanitizedEnv_def)
  have "\<forall>e \<in> set demo_environ. CHR 0x00 \<notin> set e" by (simp add: demo_environ_def)
  from ApplyEnvironment_exact [OF run this, of demo_policy "''100''" demo_overrides] obtain vars where
    vars: "snd (ApplyEnvironment True (\<lambda>_ _. True) demo_policy ''100'' demo_overrides demo_environ) =
        map (\<lambda>(k, v). k @ ''='' @ c_str v) vars"
      "map_of vars = env_value demo_policy ''100'' demo_overrides demo_environ" by blast
  have "(''LANG'', ''zh'') \<in> set vars" using demo_values(1) unfolding vars(2) [symmetric] by (rule map_of_SomeD)
  then have "(\<lambda>(k, v). k @ ''='' @ c_str v) (''LANG'', ''zh'') \<in> (\<lambda>(k, v). k @ ''='' @ c_str v) ` set vars"
    by (rule imageI)
  then have "''LANG'' @ ''='' @ c_str ''zh'' \<in> set (snd (ApplyEnvironment True (\<lambda>_ _. True) demo_policy ''100'' demo_overrides demo_environ))"
    by (simp only: vars(1) set_map prod.case)
  then show ?thesis by (simp add: c_str_def)
qed

end
