(* ===== verification/Spec2Isabelle.thy ===== *)
theory Spec2Isabelle
  imports Monitor_Spec Trie_Spec Checks_Spec Raw_Spec Rdb_Spec Rdb_Schema Mac_Spec Share_Spec Policy_User
    Batch_Spec Match_Spec User_Spec Glob_Spec Tlv_Spec Convert_Spec Deliver_Spec Socket_Spec Cmd_Spec
    Event_Spec Seccomp_Spec Env_Spec
begin

text \<open>
  OpenHarmony sandbox manager (\<open>accesscontrol_sandbox_manager\<close>).

  The repository has two programs. The sandbox manager is a system service: applications ask it to give them, or other
  applications, access to paths. It checks each path, keeps grants that outlive a restart in a database, hands the
  current ones to the kernel's access control device, and answers queries from a trie of paths. The claw sandbox is a
  launcher for an agent: it reads a configuration, turns its file and process rules into the kernel's wire format, and
  leaves a monitor that relays the kernel's questions to the application over a socket and its answers back.

  \<^bold>\<open>The service\<close>, sources under \<open>services/sandbox_manager/main/cpp\<close> unless another directory is named.
  \<^item> \<open>Policy_Trie\<close>, \<open>Trie_Spec\<close>: \<open>policy_trie.cpp\<close>. A node is a record with its children as an association list in the
    order of insertion; every walk is one recursive function. \<open>Trie_Spec\<close> reads a trie as a map from paths to modes and
    marks, and proves insertion, both checks and the search for stored spellings against that map.
  \<^item> \<open>Policy_Types\<close>: the data of \<open>interfaces/inner_api\<close>. \<open>Raw_Data\<close>, \<open>Raw_Vectors\<close>, \<open>Raw_Spec\<close>: the vectors that cross
    IPC as raw buffers (\<open>frameworks/sandbox_manager/include\<close>); the locale \<open>codec\<close> is what one element promises, and round
    trips, bounds on unmarshalling and the batch reader rest on its interpretations.
  \<^item> \<open>Path_Rules\<close>, \<open>Path_Checks\<close>, \<open>Path_Guard\<close>, \<open>Checks_Spec\<close>: \<open>sandbox_param_validator.cpp\<close>, the path and mode rules of
    \<open>policy_info_manager.cpp\<close> and the masking of paths in logs (\<open>sandbox_manager_log.cpp\<close>).
  \<^item> \<open>Generic_Values\<close>, \<open>Rdb\<close>, \<open>Rdb_Schema\<close>, \<open>Rdb_Spec\<close>: the row type (\<open>services/common/database\<close>) and the database layer over
    an external transactional store, whose documented laws are the locale of \<open>Rdb_Spec\<close>.
  \<^item> \<open>Mac_Adapter\<close>, \<open>Mac_Spec\<close>: \<open>mac_adapter.cpp\<close>, over an external kernel. \<open>Share_Files\<close>, \<open>Share_Spec\<close>: the paths a bundle
    shares. \<open>Media\<close>: policies on media paths.
  \<^item> \<open>Sandbox_State\<close> is the state of the service, one record with the members of the singletons and the functions that
    stand for everything outside; the operations run in the state monad. \<open>Policy_Manager\<close>, \<open>Policy_Persist\<close>,
    \<open>Policy_Access\<close>, \<open>Policy_User\<close> are \<open>policy_info_manager.cpp\<close>: temporary policies, the rows and tries of persisted
    ones, the operations on them, and grants by the user. \<open>World_Invariant\<close>, \<open>Manager_Spec\<close>, \<open>Set_Spec\<close>, \<open>Match_Spec\<close>,
    \<open>Batch_Spec\<close>, \<open>User_Spec\<close> prove what the composed operations guarantee: setting reaches the kernel only with policies
    that pass every check, the share map included, and a raw request is the request on its chunks.

  \<^bold>\<open>The claw sandbox\<close>, sources under \<open>modules/claw_sandbox\<close>.
  \<^item> \<open>Claw_Glob\<close>, \<open>Glob_Spec\<close>: the pattern grammar and the containment of paths. \<open>Claw_Config\<close>, \<open>Claw_Convert\<close>, \<open>Claw_Tlv\<close>: an
    operation control policy from JSON to rule groups, to the rule model and to the bytes for the kernel;
    \<open>Convert_Spec\<close> says which policies are accepted and what they become, \<open>Tlv_Spec\<close> reads the bytes back.
  \<^item> \<open>Claw_Deliver\<close>, \<open>Deliver_Spec\<close>: delivery to the device at start-up and at run time, with the descriptors of path rules.
  \<^item> \<open>Claw_Cmd\<close>, \<open>Cmd_Spec\<close>: the configuration of a launch and its bounds.
  \<^item> \<open>Claw_Socket\<close>, \<open>Socket_Spec\<close>: the framed protocol in both directions, against a kernel that cuts the stream anywhere.
  \<^item> \<open>Claw_Event\<close>, \<open>Event_Spec\<close>: the device's event records and the documents made of them.
  \<^item> \<open>Claw_Monitor\<close>, \<open>Claw_Loop\<close>, \<open>Monitor_Spec\<close>: the monitor. Its state holds what the kernel will answer, so that a run is a
    function of these scripts and of the list of wake-ups; the locales of \<open>Monitor_Spec\<close> treat the event loop once, and
    the invariant, the safety and the liveness property are three interpretations on the model.
  \<^item> \<open>Claw_Template\<close>: the sandbox template, default or from JSON (\<open>sandbox_config_parser.cpp\<close>).
  \<^item> \<open>Claw_Seccomp\<close>, \<open>Seccomp_Spec\<close>: the filter of system calls the launcher builds, and an interpreter of filters that
    says what it decides. \<open>Ordered_Map\<close>, \<open>Claw_Env\<close>, \<open>Env_Spec\<close>: the environment of the sandboxed program and the tool
    credentials (\<open>sandbox_manager.cpp\<close>, \<open>sandbox_credential.cpp\<close>); an ordered map is its list sorted by key.
  \<^bold>\<open>Conventions.\<close> Machine integers are words; strings are lists of characters, cut at a null byte where C reads them; a
  hash map is an association list in its order of iteration; what is outside the repository (kernel, store, bundle
  manager, JSON library, regular expressions, file system) is a parameter, arbitrary unless a theorem names a law it
  needs, and then a witness runs it on a concrete instance. No definition needs fuel: loops recurse over their data or
  have a measure (\<open>FlushSocketTxQueue\<close>: the queue gets shorter or a body empty; the loops over calls that may be
  interrupted: the script of answers). The loop over the batches of a raw request ends only because its batch size is
  positive, so it is a partial function, and \<open>Batch_Spec\<close> proves that it returns.

  \<^bold>\<open>Not modelled.\<close> Locks and threads, logging, statistics and audit limits, failed memory allocation.
  Of the service: the system ability's entry points (\<open>sandbox_manager_service.cpp\<close>), the preservation of grants of
  uninstalled bundles (\<open>preserve\<close>), the event subscriber, the memory manager and the IPC client library; they pass
  requests on to the operations modelled here. Of the claw sandbox: namespaces, mounts, identities and the sequence of
  the launch (the rest of \<open>sandbox_manager.cpp\<close>, \<open>sandbox_mount.cpp\<close>).
\<close>

end
